(* ===== verification/Prelude.thy ===== *)
theory Prelude
  imports Main "HOL-Library.Char_ord" "HOL-Library.Sublist"
begin

text \<open>
  Shared vocabulary of the development: the parts of the JavaScript language and of its
  standard library that the portal's TypeScript uses on strings and plain objects.

  A JavaScript string is a sequence of code units. It is modelled by \<^typ>\<open>string\<close>, a list of
  \<^typ>\<open>char\<close>, that is, of code units below 256; \<open>length\<close> counts what \<open>String.length\<close> counts.
  A plain object used as a lookup table is an association list of its own properties;
  \<open>js_get\<close> is the bracket access \<open>obj[k]\<close>, which also finds the properties every object
  inherits from \<open>Object.prototype\<close>.
\<close>

named_theorems js_simps \<open>evaluation of string and object operations\<close>
named_theorems route_defs \<open>unfolding of route handlers down to the cookie jar\<close>

section \<open>Options\<close>

text \<open>The operator \<open>a ?? b\<close> on a value that may be null or undefined.\<close>

definition nullish :: "'a option \<Rightarrow> 'a \<Rightarrow> 'a" where
  "nullish a b = (case a of None \<Rightarrow> b | Some x \<Rightarrow> x)"

text \<open>A string that may be null or undefined is falsy when it is absent or empty.\<close>

definition truthy_str :: "string option \<Rightarrow> bool" where
  "truthy_str s = (case s of None \<Rightarrow> False | Some x \<Rightarrow> x \<noteq> [])"

lemma nullish_simps [simp]: "nullish None b = b" "nullish (Some x) b = x"
  by (simp_all add: nullish_def)

lemma truthy_str_simps [simp]: "\<not> truthy_str None" "truthy_str (Some s) \<longleftrightarrow> s \<noteq> []"
  by (simp_all add: truthy_str_def)

lemma truthy_strE:
  assumes "truthy_str s"
  obtains x where "s = Some x" "x \<noteq> []"
  using assms by (cases s) auto

section \<open>Strings\<close>

text \<open>White space and line terminators, as \<open>String.prototype.trim\<close> and the class \<open>\s\<close> see them.\<close>

definition js_ws :: "char \<Rightarrow> bool" where
  "js_ws c \<longleftrightarrow> (of_char c :: nat) \<in> {9, 10, 11, 12, 13, 32, 160}"

definition js_trimStart :: "string \<Rightarrow> string" where
  "js_trimStart s = dropWhile js_ws s"

definition js_trim :: "string \<Rightarrow> string" where
  "js_trim s = rev (dropWhile js_ws (rev (dropWhile js_ws s)))"

definition is_digit :: "char \<Rightarrow> bool" where
  "is_digit c \<longleftrightarrow> CHR ''0'' \<le> c \<and> c \<le> CHR ''9''"

definition is_lower :: "char \<Rightarrow> bool" where
  "is_lower c \<longleftrightarrow> CHR ''a'' \<le> c \<and> c \<le> CHR ''z''"

definition is_upper :: "char \<Rightarrow> bool" where
  "is_upper c \<longleftrightarrow> CHR ''A'' \<le> c \<and> c \<le> CHR ''Z''"

definition lower_char :: "char \<Rightarrow> char" where
  "lower_char c = (let n = of_char c :: nat in
     if (65 \<le> n \<and> n \<le> 90) \<or> (192 \<le> n \<and> n \<le> 222 \<and> n \<noteq> 215) then char_of (n + 32) else c)"

text \<open>
  Upper case is exact on the code units whose upper-case form is again below 256; the sharp s
  becomes two letters, and the micro sign and the y with diaeresis (whose upper-case forms lie
  outside the modelled range) are left alone.
\<close>

definition upper_char :: "char \<Rightarrow> string" where
  "upper_char c = (let n = of_char c :: nat in
     if (97 \<le> n \<and> n \<le> 122) \<or> (224 \<le> n \<and> n \<le> 254 \<and> n \<noteq> 247) then [char_of (n - 32)]
     else if n = 223 then ''SS'' else [c])"

definition js_toLowerCase :: "string \<Rightarrow> string" where
  "js_toLowerCase s = map lower_char s"

definition js_toUpperCase :: "string \<Rightarrow> string" where
  "js_toUpperCase s = concat (map upper_char s)"

definition js_startsWith :: "string \<Rightarrow> string \<Rightarrow> bool" where
  "js_startsWith s p \<longleftrightarrow> prefix p s"

definition js_endsWith :: "string \<Rightarrow> string \<Rightarrow> bool" where
  "js_endsWith s p \<longleftrightarrow> suffix p s"

text \<open>\<open>s.split(c)\<close> for a separator of one code unit: never empty.\<close>

fun js_split :: "char \<Rightarrow> string \<Rightarrow> string list" where
  "js_split c [] = [[]]"
| "js_split c (x # xs) =
     (if x = c then [] # js_split c xs
      else case js_split c xs of p # ps \<Rightarrow> (x # p) # ps | [] \<Rightarrow> [[x]])"

fun js_join :: "char \<Rightarrow> string list \<Rightarrow> string" where
  "js_join c [] = []"
| "js_join c [s] = s"
| "js_join c (s # t # ts) = s @ c # js_join c (t # ts)"

section \<open>Plain objects as lookup tables\<close>

datatype 'v jsprop = Own 'v | Inherited | Missing

definition object_prototype_keys :: "string list" where
  "object_prototype_keys =
     [''constructor'', ''__defineGetter__'', ''__defineSetter__'', ''hasOwnProperty'',
      ''__lookupGetter__'', ''__lookupSetter__'', ''isPrototypeOf'', ''propertyIsEnumerable'',
      ''toString'', ''valueOf'', ''__proto__'', ''toLocaleString'']"

definition js_get :: "(string \<times> 'v) list \<Rightarrow> string \<Rightarrow> 'v jsprop" where
  "js_get tbl k = (case map_of tbl k of Some v \<Rightarrow> Own v
     | None \<Rightarrow> if k \<in> set object_prototype_keys then Inherited else Missing)"

section \<open>Lemmas\<close>

lemma js_split_nonempty [simp]: "js_split c s \<noteq> []"
  by (induction s) (auto split: list.splits)

lemma js_split_Cons:
  "js_split c (x # xs) = (if x = c then [] # js_split c xs else (x # hd (js_split c xs)) # tl (js_split c xs))"
  using js_split_nonempty [of c xs] by (cases "js_split c xs") auto

lemma js_join_Cons: "ts \<noteq> [] \<Longrightarrow> js_join c (s # ts) = s @ c # js_join c ts"
  by (cases ts) auto

lemma js_join_hd: "ts \<noteq> [] \<Longrightarrow> js_join c ((x # hd ts) # tl ts) = x # js_join c ts"
  by (cases ts; cases "tl ts") auto

lemma js_join_split [simp]: "js_join c (js_split c s) = s"
  by (induction s) (auto simp: js_split_Cons js_join_Cons js_join_hd simp del: js_split.simps(2))

lemma js_split_parts: "p \<in> set (js_split c s) \<Longrightarrow> c \<notin> set p"
proof (induction s arbitrary: p)
  case (Cons x xs)
  have "hd (js_split c xs) \<in> set (js_split c xs)" by simp
  with Cons show ?case unfolding js_split_Cons
    by (auto split: if_splits dest: list.set_sel(2) [OF js_split_nonempty])
qed simp

lemma js_split_no_sep: "c \<notin> set s \<Longrightarrow> js_split c s = [s]"
  by (induction s) auto

lemma dropWhile_id_iff: "dropWhile P xs = xs \<longleftrightarrow> xs = [] \<or> \<not> P (hd xs)"
  by (cases xs) (auto dest: arg_cong [of _ _ length] simp: dropWhile_eq_Cons_conv)

lemma js_trim_idem [simp]: "js_trim (js_trim s) = js_trim s"
proof (cases "js_trim s = []")
  case False
  have l: "last (js_trim s) = hd (dropWhile js_ws (rev (dropWhile js_ws s)))"
    using False by (simp add: js_trim_def last_rev)
  have h: "hd (js_trim s) = hd (dropWhile js_ws s)"
  proof -
    obtain w where "rev (dropWhile js_ws s) = w @ dropWhile js_ws (rev (dropWhile js_ws s))"
      by (metis takeWhile_dropWhile_id)
    then have "dropWhile js_ws s = js_trim s @ rev w"
      by (metis js_trim_def rev_append rev_rev_ident)
    then show ?thesis using False by (simp add: hd_append)
  qed
  have nh: "\<not> js_ws (hd (js_trim s))"
    using False h by (metis dropWhile.simps(1) hd_dropWhile js_trim_def rev.simps(1))
  have nl: "\<not> js_ws (last (js_trim s))"
    using False l by (metis hd_dropWhile js_trim_def rev.simps(1))
  have "dropWhile js_ws (js_trim s) = js_trim s" using nh by (simp add: dropWhile_id_iff)
  moreover have "dropWhile js_ws (rev (js_trim s)) = rev (js_trim s)"
    using nl False by (simp add: dropWhile_id_iff hd_rev)
  ultimately show ?thesis by (simp add: js_trim_def [of "js_trim s"])
qed (simp add: js_trim_def [of "[]"])

lemma js_trim_length: "length (js_trim s) \<le> length s"
  by (metis js_trim_def length_dropWhile_le length_rev order_trans)

lemma js_get_Own: "js_get tbl k = Own v \<longleftrightarrow> map_of tbl k = Some v"
  by (auto simp: js_get_def split: option.splits if_splits)

lemma js_get_Own_in: "js_get tbl k = Own v \<Longrightarrow> (k, v) \<in> set tbl"
  by (simp add: js_get_Own map_of_SomeD)

lemma is_digit_code: "is_digit c \<longleftrightarrow> 48 \<le> (of_char c :: nat) \<and> (of_char c :: nat) \<le> 57"
  by (simp add: is_digit_def less_eq_char_def)

lemmas string_ops [js_simps] =
  js_ws_def js_trimStart_def js_trim_def is_digit_def is_lower_def is_upper_def
  js_toLowerCase_def js_toUpperCase_def js_startsWith_def js_endsWith_def

end
