(* ===== verification/Permissions.thy ===== *)
theory Permissions
  imports Prelude
begin

text \<open>
  The permission registry of the portal (\<open>apps/portal/src/auth/permissions.ts\<close>): a rank per
  platform role, the least role each permission needs, the check \<open>userHasPermission\<close> and the
  guard \<open>requirePermission\<close>, which throws. The gate of the server components,
  \<open>requirePlatformPermission\<close>, stands in the theory of the page contexts.

  A role arrives from the backend as a string; the code guards against a missing one
  (\<open>?? "support"\<close>) and against one without a rank (\<open>?? 0\<close>), and so does the model. Looking a
  key up in a table also finds what every object inherits; a comparison with such a value, or
  with \<open>undefined\<close>, is a comparison with NaN and false.
\<close>

section \<open>Roles, users and the registry\<close>

record current_user =
  user_id :: string
  user_email :: string
  user_full_name :: string
  user_is_active :: bool
  user_is_superuser :: bool
  user_role :: "string option"

datatype auth_error = PermissionDeniedError string

definition ROLE_RANK :: "(string \<times> nat) list" where
  "ROLE_RANK = [(''superuser'', 4), (''admin'', 3), (''finance'', 2), (''support'', 1)]"

definition PERMISSION_MIN_ROLE :: "(string \<times> string) list" where
  "PERMISSION_MIN_ROLE =
     [(''platform.users.read'', ''support''),
      (''platform.users.write'', ''superuser''),
      (''platform.tenants.read'', ''support''),
      (''platform.tenants.write'', ''admin''),
      (''platform.tenants.create'', ''superuser''),
      (''platform.tenants.suspend'', ''admin''),
      (''platform.tenants.offboard'', ''superuser''),
      (''platform.tenants.users.read'', ''admin''),
      (''platform.tenants.users.write'', ''admin''),
      (''billing.read'', ''finance''),
      (''billing.write'', ''admin''),
      (''approvals.read'', ''support''),
      (''approvals.approve'', ''admin''),
      (''audit.read'', ''admin''),
      (''operations.read'', ''admin''),
      (''settings.read'', ''admin''),
      (''impersonation.start'', ''support''),
      (''impersonation.revoke_other'', ''admin''),
      (''platform.security.jwt_keys.read'', ''superuser'')]"

section \<open>The check and the guard\<close>

text \<open>\<open>a >= b\<close> where an operand may be an inherited object or \<open>undefined\<close>.\<close>

fun js_ge :: "nat jsprop \<Rightarrow> nat jsprop \<Rightarrow> bool" where
  "js_ge (Own a) (Own b) = (b \<le> a)"
| "js_ge _ _ = False"

text \<open>\<open>x ?? 0\<close> on a table lookup.\<close>

fun or_zero :: "nat jsprop \<Rightarrow> nat jsprop" where
  "or_zero Missing = Own 0"
| "or_zero p = p"

definition userHasPermission :: "current_user option \<Rightarrow> string \<Rightarrow> bool" where
  "userHasPermission u permission = (case u of None \<Rightarrow> False
     | Some user \<Rightarrow>
         if user_is_superuser user then True
         else (case js_get PERMISSION_MIN_ROLE permission of
             Missing \<Rightarrow> False
           | Inherited \<Rightarrow> js_ge (or_zero (js_get ROLE_RANK (nullish (user_role user) ''support''))) Missing
           | Own required \<Rightarrow>
               js_ge (or_zero (js_get ROLE_RANK (nullish (user_role user) ''support'')))
                     (js_get ROLE_RANK required)))"

definition requirePermission :: "current_user option \<Rightarrow> string \<Rightarrow> auth_error + unit" where
  "requirePermission u permission =
     (if \<not> userHasPermission u permission then Inl (PermissionDeniedError permission) else Inr ())"

section \<open>The registry as an order of roles\<close>

definition role_rank :: "string \<Rightarrow> nat" where
  "role_rank r = (case map_of ROLE_RANK r of Some n \<Rightarrow> n | None \<Rightarrow> 0)"

definition effective_role :: "current_user \<Rightarrow> string" where
  "effective_role u = nullish (user_role u) ''support''"

lemma min_roles_ranked:
  "(p, r) \<in> set PERMISSION_MIN_ROLE \<Longrightarrow> \<exists>n. map_of ROLE_RANK r = Some n \<and> 0 < n"
  by (auto simp: PERMISSION_MIN_ROLE_def ROLE_RANK_def)

lemma min_role_lookup:
  assumes "map_of PERMISSION_MIN_ROLE p = Some r"
  shows "js_get ROLE_RANK r = Own (role_rank r)" "0 < role_rank r"
  using min_roles_ranked [OF map_of_SomeD [OF assms]]
  by (auto simp: js_get_Own role_rank_def)

lemma js_ge_rank:
  "0 < n \<Longrightarrow> js_ge (or_zero (js_get ROLE_RANK r)) (Own n) \<longleftrightarrow> n \<le> role_rank r"
  by (cases "js_get ROLE_RANK r") (auto simp: role_rank_def js_get_def split: option.splits if_splits)

lemma ordinary_user_permission:
  "\<not> user_is_superuser u \<Longrightarrow>
     userHasPermission (Some u) p \<longleftrightarrow>
       (\<exists>r. map_of PERMISSION_MIN_ROLE p = Some r \<and> role_rank r \<le> role_rank (effective_role u))"
  by (auto simp: userHasPermission_def effective_role_def js_get_def [of PERMISSION_MIN_ROLE]
      min_role_lookup js_ge_rank split: option.splits if_splits)

lemma superuser_permission: "user_is_superuser u \<Longrightarrow> userHasPermission (Some u) p"
  by (simp add: userHasPermission_def)

text \<open>
  C1. The permission decision, exactly: nobody without a session has a permission, a superuser
  has every one (also unregistered ones), and any other user has precisely the registered
  permissions whose least role ranks no higher than the user's own role, where a missing role
  counts as support and an unranked one as none.
\<close>

theorem permission_decision:
  "userHasPermission u p \<longleftrightarrow>
     (\<exists>user. u = Some user \<and>
        (user_is_superuser user \<or>
         (\<exists>r. map_of PERMISSION_MIN_ROLE p = Some r \<and>
              role_rank r \<le> role_rank (effective_role user))))"
proof (cases u)
  case (Some user)
  then show ?thesis
    using ordinary_user_permission [of user p]
    by (cases "user_is_superuser user") (auto simp: userHasPermission_def)
qed (simp add: userHasPermission_def)

text \<open>
  Raising a role never takes a permission away: what the guard \<open>requirePermission\<close> lets one
  user do, it lets every user do whose role ranks at least as high (and who is a superuser if the
  first one is).
\<close>

theorem permission_monotone:
  assumes "requirePermission (Some u) p = Inr ()"
    and "role_rank (effective_role u) \<le> role_rank (effective_role v)"
    and "user_is_superuser u \<longrightarrow> user_is_superuser v"
  shows "requirePermission (Some v) p = Inr ()"
proof -
  have "userHasPermission (Some u) p"
    using assms(1) by (simp add: requirePermission_def split: if_splits)
  then have "userHasPermission (Some v) p"
    using assms(2,3) by (cases "user_is_superuser v")
      (auto simp: superuser_permission ordinary_user_permission dest: le_trans)
  then show ?thesis by (simp add: requirePermission_def)
qed

definition finance_user :: current_user where
  "finance_user = \<lparr>user_id = ''u1'', user_email = ''f@sacco.ug'', user_full_name = ''Fin'',
     user_is_active = True, user_is_superuser = False, user_role = Some ''finance''\<rparr>"

theorem permission_monotone_witness:
  "requirePermission (Some (finance_user\<lparr>user_role := Some ''admin''\<rparr>)) ''billing.read'' = Inr ()"
proof (rule permission_monotone [of finance_user])
  show "requirePermission (Some finance_user) ''billing.read'' = Inr ()"
    by (simp add: requirePermission_def userHasPermission_def finance_user_def js_get_def
        PERMISSION_MIN_ROLE_def ROLE_RANK_def)
qed (simp_all add: role_rank_def effective_role_def finance_user_def ROLE_RANK_def)

end
