(* ===== verification/JS_Number.thy ===== *)
theory JS_Number
  imports Prelude Complex_Main "HOL-Library.Log_Nat"
begin

text \<open>
  The Number type of JavaScript: IEEE 754 binary64. A number is \<open>NaN\<close>, an infinity or the exact
  rational value of a finite double (the two zeros are one value: no code of the portal can tell
  them apart). \<open>rnd\<close> rounds a rational to the nearest double, ties to even, subnormals included;
  \<open>to_num\<close> adds the overflow to infinity. On top of it stand the operations the sources use:
  \<open>Number.parseFloat\<close>, \<open>Number.parseInt(s, 10)\<close>, \<open>Number(s)\<close>, addition, subtraction,
  \<open>Math.abs\<close>, the comparisons and \<open>toFixed\<close>.
\<close>

datatype num = NaN | PosInf | NegInf | Fin rat

section \<open>Rounding to binary64\<close>

definition round_even :: "rat \<Rightarrow> int" where
  "round_even x = (let f = \<lfloor>x\<rfloor>; d = x - of_int f in
     if d < 1/2 then f else if 1/2 < d then f + 1 else if even f then f else f + 1)"

text \<open>The binary logarithm, rounded down, of a positive rational.\<close>

definition ilog2 :: "rat \<Rightarrow> int" where
  "ilog2 x = (let (a, b) = quotient_of x; k = bitlen a - bitlen b in
     if 2 powi k \<le> x then k else k - 1)"

definition ulp_exp :: "rat \<Rightarrow> int" where
  "ulp_exp x = max (ilog2 \<bar>x\<bar> - 52) (- 1074)"

definition rnd :: "rat \<Rightarrow> rat" where
  "rnd x = (if x = 0 then 0
     else of_int (round_even (x / 2 powi ulp_exp x)) * 2 powi ulp_exp x)"

definition to_num :: "rat \<Rightarrow> num" where
  "to_num x = (let y = rnd x in
     if 2 ^ 1024 \<le> y then PosInf else if y \<le> - (2 ^ 1024) then NegInf else Fin y)"

section \<open>Arithmetic and comparison\<close>

fun js_add :: "num \<Rightarrow> num \<Rightarrow> num" where
  "js_add (Fin x) (Fin y) = to_num (x + y)"
| "js_add NaN _ = NaN"
| "js_add _ NaN = NaN"
| "js_add PosInf NegInf = NaN"
| "js_add NegInf PosInf = NaN"
| "js_add PosInf _ = PosInf"
| "js_add _ PosInf = PosInf"
| "js_add NegInf _ = NegInf"
| "js_add _ NegInf = NegInf"

fun js_neg :: "num \<Rightarrow> num" where
  "js_neg NaN = NaN"
| "js_neg PosInf = NegInf"
| "js_neg NegInf = PosInf"
| "js_neg (Fin x) = Fin (- x)"

definition js_sub :: "num \<Rightarrow> num \<Rightarrow> num" where
  "js_sub a b = js_add a (js_neg b)"

fun js_abs :: "num \<Rightarrow> num" where
  "js_abs NaN = NaN"
| "js_abs PosInf = PosInf"
| "js_abs NegInf = PosInf"
| "js_abs (Fin x) = Fin \<bar>x\<bar>"

fun js_less :: "num \<Rightarrow> num \<Rightarrow> bool" where
  "js_less (Fin x) (Fin y) = (x < y)"
| "js_less NegInf (Fin _) = True"
| "js_less NegInf PosInf = True"
| "js_less (Fin _) PosInf = True"
| "js_less _ _ = False"

definition js_le :: "num \<Rightarrow> num \<Rightarrow> bool" where
  "js_le a b \<longleftrightarrow> js_less a b \<or> (a = b \<and> a \<noteq> NaN)"

fun js_isFinite :: "num \<Rightarrow> bool" where
  "js_isFinite (Fin _) = True"
| "js_isFinite _ = False"

section \<open>Decimal text\<close>

definition digit_val :: "char \<Rightarrow> nat" where
  "digit_val c = of_char c - 48"

definition digits_val :: "string \<Rightarrow> nat" where
  "digits_val ds = foldl (\<lambda>n c. 10 * n + digit_val c) 0 ds"

definition digit_char :: "nat \<Rightarrow> char" where
  "digit_char n = char_of (n + 48)"

fun show_nat :: "nat \<Rightarrow> string" where
  "show_nat n = (if n < 10 then [digit_char n] else show_nat (n div 10) @ [digit_char (n mod 10)])"

declare show_nat.simps [simp del]

text \<open>The sign, then the exponent part, of a decimal literal; what is not one stays unread.\<close>

fun take_sign :: "string \<Rightarrow> int \<times> string" where
  "take_sign (c # s) =
     (if c = CHR ''-'' then (-1, s) else if c = CHR ''+'' then (1, s) else (1, c # s))"
| "take_sign [] = (1, [])"

definition take_exp :: "string \<Rightarrow> int \<times> string" where
  "take_exp s = (case s of [] \<Rightarrow> (0, s)
     | c # t \<Rightarrow>
         if c = CHR ''e'' \<or> c = CHR ''E'' then
           (let (sg, u) = take_sign t; ds = takeWhile is_digit u in
              if ds = [] then (0, s) else (sg * int (digits_val ds), dropWhile is_digit u))
         else (0, s))"

text \<open>
  The longest prefix that is a decimal literal: its value and the rest, \<open>None\<close> when no prefix is.
\<close>

definition decimal_prefix :: "string \<Rightarrow> (num \<times> string) option" where
  "decimal_prefix s =
     (let (sg, u) = take_sign s in
      if prefix ''Infinity'' u then Some (if sg < 0 then NegInf else PosInf, drop 8 u)
      else
        (let ds = takeWhile is_digit u; r = dropWhile is_digit u;
             dot = (r \<noteq> [] \<and> hd r = CHR ''.'');
             fs = (if dot then takeWhile is_digit (tl r) else []);
             r' = (if dot then dropWhile is_digit (tl r) else r) in
         if ds = [] \<and> fs = [] then None
         else
           (let (e, r'') = take_exp r' in
            Some (to_num (of_int sg * of_nat (digits_val (ds @ fs)) * 10 powi (e - int (length fs))), r''))))"

definition parseFloat :: "string \<Rightarrow> num" where
  "parseFloat s = (case decimal_prefix (js_trimStart s) of None \<Rightarrow> NaN | Some (v, _) \<Rightarrow> v)"

definition parseInt10 :: "string \<Rightarrow> num" where
  "parseInt10 s =
     (let (sg, u) = take_sign (js_trimStart s); ds = takeWhile is_digit u in
      if ds = [] then NaN else to_num (of_int sg * of_nat (digits_val ds)))"

text \<open>
  \<open>Number(s)\<close> on decimal text: the empty string is 0 and trailing junk gives NaN. (The radix
  prefixes \<open>0x\<close>, \<open>0o\<close>, \<open>0b\<close> are no decimal text; the backend sends decimals only.)
\<close>

definition toNumber :: "string \<Rightarrow> num" where
  "toNumber s = (let t = js_trim s in
     if t = [] then Fin 0
     else case decimal_prefix t of Some (v, []) \<Rightarrow> v | _ \<Rightarrow> NaN)"

text \<open>
  \<open>x.toFixed(f)\<close>: the integer nearest to \<open>x * 10^f\<close> (the larger one on a tie, for the absolute
  value), with a decimal point before the last \<open>f\<close> digits. From \<open>10^21\<close> on the result is
  \<open>Number::toString\<close>, the parameter \<open>big\<close>.
\<close>

definition fixed_digits :: "nat \<Rightarrow> nat \<Rightarrow> string" where
  "fixed_digits f n =
     (let m = show_nat n; p = replicate (Suc f - length m) CHR ''0'' @ m; k = length p - f in
      if f = 0 then m else take k p @ CHR ''.'' # drop k p)"

definition fixed_int :: "nat \<Rightarrow> rat \<Rightarrow> nat" where
  "fixed_int f x = nat \<lfloor>\<bar>x\<bar> * 10 ^ f + 1/2\<rfloor>"

definition toFixed :: "(num \<Rightarrow> string) \<Rightarrow> num \<Rightarrow> nat \<Rightarrow> string" where
  "toFixed big v f = (case v of
       Fin x \<Rightarrow> if 10 ^ 21 \<le> \<bar>x\<bar> then big v
               else (if x < 0 then ''-'' else '''') @ fixed_digits f (fixed_int f x)
     | NaN \<Rightarrow> ''NaN''
     | _ \<Rightarrow> big v)"

end
