(* ===== verification/JS_Value.thy ===== *)
theory JS_Value
  imports JS_Number
begin

text \<open>
  JavaScript values as the portal exchanges them: what \<open>JSON.parse\<close> can return, plus
  \<open>undefined\<close> for a property that is not there. An object lists its own properties in order.
\<close>

datatype jv =
    JUndef
  | JNull
  | JBool bool
  | JNum num
  | JStr string
  | JArr "jv list"
  | JObj "(string \<times> jv) list"

text \<open>Property access on a value that came from JSON.\<close>

fun js_prop :: "jv \<Rightarrow> string \<Rightarrow> jv" where
  "js_prop (JObj fs) k = (case map_of fs k of Some v \<Rightarrow> v | None \<Rightarrow> JUndef)"
| "js_prop _ k = JUndef"

fun js_keys :: "jv \<Rightarrow> string list" where
  "js_keys (JObj fs) = map fst fs"
| "js_keys _ = []"

fun js_truthy :: "jv \<Rightarrow> bool" where
  "js_truthy JUndef = False"
| "js_truthy JNull = False"
| "js_truthy (JBool b) = b"
| "js_truthy (JNum n) = (n \<noteq> NaN \<and> n \<noteq> Fin 0)"
| "js_truthy (JStr s) = (s \<noteq> [])"
| "js_truthy (JArr _) = True"
| "js_truthy (JObj _) = True"

text \<open>\<open>a ?? b\<close>.\<close>

fun js_nullish :: "jv \<Rightarrow> jv \<Rightarrow> jv" where
  "js_nullish JUndef b = b"
| "js_nullish JNull b = b"
| "js_nullish a b = a"

fun is_JStr :: "jv \<Rightarrow> bool" where
  "is_JStr (JStr _) = True"
| "is_JStr _ = False"

text \<open>The string a value is used as where the source casts it to a string.\<close>

fun js_str :: "jv \<Rightarrow> string" where
  "js_str (JStr s) = s"
| "js_str _ = []"

text \<open>
  \<open>JSON.stringify\<close> leaves out properties that are \<open>undefined\<close>; the value the other side reads.
\<close>

fun json_wire :: "jv \<Rightarrow> jv" where
  "json_wire (JObj fs) = JObj (filter (\<lambda>(k, v). v \<noteq> JUndef) fs)"
| "json_wire v = v"

lemma js_prop_Cons: "js_prop (JObj ((k, v) # fs)) j = (if j = k then v else js_prop (JObj fs) j)"
  by simp

lemma js_prop_absent: "k \<notin> set (js_keys v) \<Longrightarrow> js_prop v k = JUndef"
  by (cases v) (auto simp: map_of_eq_None_iff [THEN iffD2])

lemma js_prop_in_keys: "js_prop v k \<noteq> JUndef \<Longrightarrow> k \<in> set (js_keys v)"
  using js_prop_absent by blast

end
