(* ===== verification/JS_Regex.thy ===== *)
theory JS_Regex
  imports Prelude
begin

text \<open>
  The regular expressions of the portal. Every pattern in the sources is anchored at both ends,
  is tested against a whole string, and uses only character classes, sequence, alternation,
  optional parts and bounded or unbounded repetition, so a pattern denotes a regular language.
  \<open>lang\<close> is that language and \<open>matches\<close> the executable test by derivatives; \<open>matches_lang\<close>
  says that they agree.
\<close>

datatype rexp =
    Eps
  | Cls "char \<Rightarrow> bool"
  | Seq rexp rexp
  | Alt rexp rexp
  | Star rexp
  | Fail

primrec nullable :: "rexp \<Rightarrow> bool" where
  "nullable Eps = True"
| "nullable (Cls p) = False"
| "nullable (Seq r s) = (nullable r \<and> nullable s)"
| "nullable (Alt r s) = (nullable r \<or> nullable s)"
| "nullable (Star r) = True"
| "nullable Fail = False"

primrec deriv :: "char \<Rightarrow> rexp \<Rightarrow> rexp" where
  "deriv c Eps = Fail"
| "deriv c (Cls p) = (if p c then Eps else Fail)"
| "deriv c (Seq r s) =
     (if nullable r then Alt (Seq (deriv c r) s) (deriv c s) else Seq (deriv c r) s)"
| "deriv c (Alt r s) = Alt (deriv c r) (deriv c s)"
| "deriv c (Star r) = Seq (deriv c r) (Star r)"
| "deriv c Fail = Fail"

fun matches :: "rexp \<Rightarrow> string \<Rightarrow> bool" where
  "matches r [] = nullable r"
| "matches r (c # cs) = matches (deriv c r) cs"

text \<open>The quantifiers of the sources: \<open>r?\<close>, \<open>r+\<close>, \<open>r{n}\<close> and \<open>r{m,n}\<close>.\<close>

definition Opt :: "rexp \<Rightarrow> rexp" where
  "Opt r = Alt r Eps"

definition Plus :: "rexp \<Rightarrow> rexp" where
  "Plus r = Seq r (Star r)"

definition Chr :: "char \<Rightarrow> rexp" where
  "Chr c = Cls (\<lambda>x. x = c)"

primrec Exactly :: "nat \<Rightarrow> rexp \<Rightarrow> rexp" where
  "Exactly 0 r = Eps"
| "Exactly (Suc n) r = Seq r (Exactly n r)"

primrec UpTo :: "nat \<Rightarrow> rexp \<Rightarrow> rexp" where
  "UpTo 0 r = Eps"
| "UpTo (Suc n) r = Opt (Seq r (UpTo n r))"

definition Between :: "nat \<Rightarrow> nat \<Rightarrow> rexp \<Rightarrow> rexp" where
  "Between m n r = Seq (Exactly m r) (UpTo (n - m) r)"

section \<open>The denoted language\<close>

inductive_set star :: "string set \<Rightarrow> string set" for L where
  star_Nil [intro, simp]: "[] \<in> star L"
| star_app [intro]: "u \<in> L \<Longrightarrow> v \<in> star L \<Longrightarrow> u @ v \<in> star L"

primrec lang :: "rexp \<Rightarrow> string set" where
  "lang Eps = {[]}"
| "lang (Cls p) = {[c] | c. p c}"
| "lang (Seq r s) = {u @ v | u v. u \<in> lang r \<and> v \<in> lang s}"
| "lang (Alt r s) = lang r \<union> lang s"
| "lang (Star r) = star (lang r)"
| "lang Fail = {}"

lemma nullable_lang: "nullable r \<longleftrightarrow> [] \<in> lang r"
  by (induction r) auto

lemma star_Cons: "c # w \<in> star L \<longleftrightarrow> (\<exists>u v. w = u @ v \<and> c # u \<in> L \<and> v \<in> star L)"
proof
  assume "c # w \<in> star L"
  then show "\<exists>u v. w = u @ v \<and> c # u \<in> L \<and> v \<in> star L"
  proof (induction "c # w" arbitrary: w rule: star.induct)
    case (star_app u v)
    then show ?case by (cases u) auto
  qed
next
  assume "\<exists>u v. w = u @ v \<and> c # u \<in> L \<and> v \<in> star L"
  then obtain u v where "w = u @ v" "c # u \<in> L" "v \<in> star L" by blast
  then show "c # w \<in> star L" using star_app [of "c # u" L v] by simp
qed

lemma seq_Cons:
  "c # w \<in> {u @ v | u v. u \<in> A \<and> v \<in> B} \<longleftrightarrow>
     (\<exists>u v. w = u @ v \<and> c # u \<in> A \<and> v \<in> B) \<or> ([] \<in> A \<and> c # w \<in> B)"
  by (auto simp: Cons_eq_append_conv)

lemma deriv_lang: "w \<in> lang (deriv c r) \<longleftrightarrow> c # w \<in> lang r"
proof (induction r arbitrary: w)
  case (Seq r s)
  have "c # w \<in> lang (Seq r s) \<longleftrightarrow>
      (\<exists>u v. w = u @ v \<and> c # u \<in> lang r \<and> v \<in> lang s) \<or> ([] \<in> lang r \<and> c # w \<in> lang s)"
    by (simp only: lang.simps seq_Cons)
  with Seq show ?case by (auto simp: nullable_lang)
qed (auto simp: star_Cons)

lemma matches_lang: "matches r s \<longleftrightarrow> s \<in> lang r"
  by (induction r s rule: matches.induct) (auto simp: nullable_lang deriv_lang)

section \<open>Languages of the derived operators\<close>

lemma lang_Opt [simp]: "lang (Opt r) = insert [] (lang r)"
  by (simp add: Opt_def)

lemma lang_Chr [simp]: "lang (Chr c) = {[c]}"
  by (simp add: Chr_def)

lemma lang_Star_Cls [simp]: "lang (Star (Cls p)) = {s. list_all p s}"
proof (intro set_eqI iffI)
  fix s assume "s \<in> lang (Star (Cls p))"
  then have "s \<in> star {[c] | c. p c}" by simp
  then show "s \<in> {s. list_all p s}" by (induction rule: star.induct) auto
next
  fix s assume "s \<in> {s. list_all p s}"
  then show "s \<in> lang (Star (Cls p))"
  proof (induction s)
    case (Cons a s)
    then show ?case using star_app [of "[a]" "{[c] | c. p c}" s] by simp
  qed simp
qed

lemma lang_Seq_Cls: "lang (Seq (Cls p) r) = {c # v | c v. p c \<and> v \<in> lang r}"
proof -
  have "{u @ v | u v. u \<in> {[c] | c. p c} \<and> v \<in> B} = {c # v | c v. p c \<and> v \<in> B}" for B
    by (rule set_eqI, simp, metis append_Cons append_Nil)
  then show ?thesis by simp
qed

lemma lang_Plus_Cls [simp]: "lang (Plus (Cls p)) = {s. s \<noteq> [] \<and> list_all p s}"
  unfolding Plus_def lang_Seq_Cls lang_Star_Cls by (auto simp: neq_Nil_conv)

lemma lang_Exactly_Cls [simp]: "lang (Exactly n (Cls p)) = {s. length s = n \<and> list_all p s}"
proof (induction n)
  case (Suc n)
  show ?case
    unfolding Exactly.simps lang_Seq_Cls Suc
    by (auto simp: length_Suc_conv)
qed auto

lemma lang_UpTo_Cls [simp]: "lang (UpTo n (Cls p)) = {s. length s \<le> n \<and> list_all p s}"
proof (induction n)
  case (Suc n)
  have "s = [] \<or> (\<exists>c v. s = c # v \<and> p c \<and> length v \<le> n \<and> list_all p v) \<longleftrightarrow>
      length s \<le> Suc n \<and> list_all p s" for s
    by (cases s) auto
  then show ?case
    unfolding UpTo.simps lang_Opt lang_Seq_Cls Suc by auto
qed auto

lemma lang_Between_Cls [simp]:
  assumes "m \<le> n"
  shows "lang (Between m n (Cls p)) = {s. m \<le> length s \<and> length s \<le> n \<and> list_all p s}"
proof (intro set_eqI iffI)
  fix s assume s: "s \<in> {s. m \<le> length s \<and> length s \<le> n \<and> list_all p s}"
  have "take m s \<in> lang (Exactly m (Cls p))"
    using s by (simp add: list_all_iff) (metis in_set_takeD)
  moreover have "drop m s \<in> lang (UpTo (n - m) (Cls p))"
    using s by (simp add: list_all_iff diff_le_mono) (metis in_set_dropD)
  ultimately have "take m s @ drop m s \<in> lang (Between m n (Cls p))"
    unfolding Between_def lang.simps by blast
  then show "s \<in> lang (Between m n (Cls p))" by simp
qed (use assms in \<open>auto simp: Between_def\<close>)

lemmas lang_simps = lang_Opt lang_Chr lang_Star_Cls lang_Plus_Cls lang_Exactly_Cls
  lang_UpTo_Cls lang_Between_Cls

end
