(* ===== verification/Zod.thy ===== *)
theory Zod
  imports JS_Value JS_Regex
begin

text \<open>
  The validation library zod is not part of the repository: the portal builds schema objects by
  calling it and hands them values. The schema objects are data, the datatype \<open>zschema\<close> with one
  constructor per zod call the sources make. What zod does with them is a parameter,
  \<open>parse\<close>, of everything that validates; the locale \<open>zod\<close> states the documented behaviour
  of each call (success with the output value, or failure), with the formats of \<open>email()\<close>,
  \<open>uuid()\<close> and \<open>datetime()\<close> left open. Messages are presentation and not modelled.

  \<open>zref\<close> is an executable function with that behaviour, so the laws can hold together; the
  locale fixes \<open>parse\<close> to it on every schema the portal builds.
\<close>

datatype scheck =
    Trim | ToLower | MinLen nat | MaxLen nat | Pattern rexp | Email | Uuid | Datetime

datatype ncheck = NInt | NMin rat | NMax rat

datatype zschema =
    ZString "scheck list"
  | ZNumber "ncheck list"
  | ZCoerceNumber "ncheck list"
  | ZBoolean
  | ZUnknown
  | ZLiteral jv
  | ZEnum "string list"
  | ZOptional zschema
  | ZOr zschema zschema
  | ZDefault zschema jv
  | ZCatch zschema jv
  | ZArray nat zschema
  | ZRecord zschema
  | ZObject bool "(string \<times> zschema) list"
  | ZRefine zschema "jv \<Rightarrow> bool"

record zformats =
  email_ok :: "string \<Rightarrow> bool"
  uuid_ok :: "string \<Rightarrow> bool"
  datetime_ok :: "string \<Rightarrow> bool"

text \<open>The checks of a string schema, in the order they were chained; trimming and lowering
  change what the later ones see and what comes out.\<close>

fun run_checks :: "zformats \<Rightarrow> scheck list \<Rightarrow> string \<Rightarrow> string option" where
  "run_checks fmt [] s = Some s"
| "run_checks fmt (Trim # cs) s = run_checks fmt cs (js_trim s)"
| "run_checks fmt (ToLower # cs) s = run_checks fmt cs (js_toLowerCase s)"
| "run_checks fmt (MinLen n # cs) s = (if n \<le> length s then run_checks fmt cs s else None)"
| "run_checks fmt (MaxLen n # cs) s = (if length s \<le> n then run_checks fmt cs s else None)"
| "run_checks fmt (Pattern r # cs) s = (if matches r s then run_checks fmt cs s else None)"
| "run_checks fmt (Email # cs) s = (if email_ok fmt s then run_checks fmt cs s else None)"
| "run_checks fmt (Uuid # cs) s = (if uuid_ok fmt s then run_checks fmt cs s else None)"
| "run_checks fmt (Datetime # cs) s = (if datetime_ok fmt s then run_checks fmt cs s else None)"

fun num_check :: "num \<Rightarrow> ncheck \<Rightarrow> bool" where
  "num_check (Fin x) NInt = (x \<in> \<int>)"
| "num_check n NInt = False"
| "num_check n (NMin a) = js_le (Fin a) n"
| "num_check n (NMax a) = js_le n (Fin a)"

definition parse_num :: "ncheck list \<Rightarrow> num \<Rightarrow> jv option" where
  "parse_num cs n = (if n \<noteq> NaN \<and> list_all (num_check n) cs then Some (JNum n) else None)"

text \<open>A parsed field enters the output unless it is undefined and was not in the input.\<close>

definition out_field :: "jv \<Rightarrow> string \<Rightarrow> jv \<Rightarrow> (string \<times> jv) list" where
  "out_field v k w = (if w = JUndef \<and> k \<notin> set (js_keys v) then [] else [(k, w)])"

fun sequence :: "'a option list \<Rightarrow> 'a list option" where
  "sequence [] = Some []"
| "sequence (None # xs) = None"
| "sequence (Some x # xs) = map_option (Cons x) (sequence xs)"

text \<open>\<open>Number(v)\<close>, for the values a coercion meets that are not containers.\<close>

fun coerce_number :: "jv \<Rightarrow> num" where
  "coerce_number JUndef = NaN"
| "coerce_number JNull = Fin 0"
| "coerce_number (JBool b) = Fin (if b then 1 else 0)"
| "coerce_number (JNum n) = n"
| "coerce_number (JStr s) = toNumber s"
| "coerce_number _ = NaN"

fun is_container :: "jv \<Rightarrow> bool" where
  "is_container (JArr _) = True"
| "is_container (JObj _) = True"
| "is_container _ = False"

section \<open>What zod promises\<close>

locale zod =
  fixes fmt :: zformats
    and parse :: "zschema \<Rightarrow> jv \<Rightarrow> jv option"
  assumes parse_String:
      "parse (ZString cs) v = (case v of JStr s \<Rightarrow> map_option JStr (run_checks fmt cs s) | _ \<Rightarrow> None)"
    and parse_Number:
      "parse (ZNumber ns) v = (case v of JNum n \<Rightarrow> parse_num ns n | _ \<Rightarrow> None)"
    and parse_CoerceNumber:
      "\<not> is_container v \<Longrightarrow> parse (ZCoerceNumber ns) v = parse_num ns (coerce_number v)"
    and parse_Boolean:
      "parse ZBoolean v = (case v of JBool b \<Rightarrow> Some v | _ \<Rightarrow> None)"
    and parse_Unknown: "parse ZUnknown v = Some v"
    and parse_Literal: "parse (ZLiteral l) v = (if v = l then Some v else None)"
    and parse_Enum:
      "parse (ZEnum xs) v = (case v of JStr s \<Rightarrow> if s \<in> set xs then Some v else None | _ \<Rightarrow> None)"
    and parse_Optional:
      "parse (ZOptional s) v = (if v = JUndef then Some JUndef else parse s v)"
    and parse_Or:
      "parse (ZOr a b) v = (case parse a v of Some w \<Rightarrow> Some w | None \<Rightarrow> parse b v)"
    and parse_Default: "parse (ZDefault s d) v = parse s (if v = JUndef then d else v)"
    and parse_Catch:
      "parse (ZCatch s d) v = Some (case parse s v of Some w \<Rightarrow> w | None \<Rightarrow> d)"
    and parse_Array:
      "parse (ZArray n s) v = (case v of
         JArr vs \<Rightarrow> if length vs < n then None else map_option JArr (sequence (map (parse s) vs))
       | _ \<Rightarrow> None)"
    and parse_Record:
      "parse (ZRecord s) v = (case v of
         JObj kvs \<Rightarrow> map_option JObj
           (sequence (map (\<lambda>kv. map_option (Pair (fst kv)) (parse s (snd kv))) kvs))
       | _ \<Rightarrow> None)"
    and parse_Object:
      "parse (ZObject strict fs) v = (case v of
         JObj kvs \<Rightarrow>
           if strict \<and> \<not> set (map fst kvs) \<subseteq> set (map fst fs) then None
           else map_option (\<lambda>ps. JObj (concat ps))
             (sequence (map (\<lambda>f. map_option (out_field v (fst f)) (parse (snd f) (js_prop v (fst f)))) fs))
       | _ \<Rightarrow> None)"
    and parse_Refine:
      "parse (ZRefine s p) v = (case parse s v of
         Some w \<Rightarrow> if p w then Some w else None | None \<Rightarrow> None)"

section \<open>A function that keeps the promises\<close>

text \<open>A field's schema is smaller than the object schema it stands in.\<close>

lemma size_field: "f \<in> set fs \<Longrightarrow> size (snd f) \<le> size_list (size_prod (\<lambda>_. 0) size) fs"
  by (induction fs) auto

function zref :: "zformats \<Rightarrow> zschema \<Rightarrow> jv \<Rightarrow> jv option" where
  "zref fmt (ZString cs) v =
     (case v of JStr s \<Rightarrow> map_option JStr (run_checks fmt cs s) | _ \<Rightarrow> None)"
| "zref fmt (ZNumber ns) v = (case v of JNum n \<Rightarrow> parse_num ns n | _ \<Rightarrow> None)"
| "zref fmt (ZCoerceNumber ns) v = parse_num ns (coerce_number v)"
| "zref fmt ZBoolean v = (case v of JBool b \<Rightarrow> Some v | _ \<Rightarrow> None)"
| "zref fmt ZUnknown v = Some v"
| "zref fmt (ZLiteral l) v = (if v = l then Some v else None)"
| "zref fmt (ZEnum xs) v =
     (case v of JStr s \<Rightarrow> if s \<in> set xs then Some v else None | _ \<Rightarrow> None)"
| "zref fmt (ZOptional s) v = (if v = JUndef then Some JUndef else zref fmt s v)"
| "zref fmt (ZOr a b) v = (case zref fmt a v of Some w \<Rightarrow> Some w | None \<Rightarrow> zref fmt b v)"
| "zref fmt (ZDefault s d) v = zref fmt s (if v = JUndef then d else v)"
| "zref fmt (ZCatch s d) v = Some (case zref fmt s v of Some w \<Rightarrow> w | None \<Rightarrow> d)"
| "zref fmt (ZArray n s) v = (case v of
     JArr vs \<Rightarrow> if length vs < n then None else map_option JArr (sequence (map (zref fmt s) vs))
   | _ \<Rightarrow> None)"
| "zref fmt (ZRecord s) v = (case v of
     JObj kvs \<Rightarrow> map_option JObj
       (sequence (map (\<lambda>kv. map_option (Pair (fst kv)) (zref fmt s (snd kv))) kvs))
   | _ \<Rightarrow> None)"
| "zref fmt (ZObject strict fs) v = (case v of
     JObj kvs \<Rightarrow>
       if strict \<and> \<not> set (map fst kvs) \<subseteq> set (map fst fs) then None
       else map_option (\<lambda>ps. JObj (concat ps))
         (sequence (map (\<lambda>f. map_option (out_field v (fst f)) (zref fmt (snd f) (js_prop v (fst f)))) fs))
   | _ \<Rightarrow> None)"
| "zref fmt (ZRefine s p) v = (case zref fmt s v of
     Some w \<Rightarrow> if p w then Some w else None | None \<Rightarrow> None)"
  by pat_completeness auto
termination
  by (relation "measure (\<lambda>(fmt, s, v). size s)")
    (auto simp: less_Suc_eq_le intro: le_SucI dest!: size_field)

primrec coerce_free :: "zschema \<Rightarrow> bool"
  and coerce_free_fields :: "(string \<times> zschema) list \<Rightarrow> bool"
  and coerce_free_field :: "string \<times> zschema \<Rightarrow> bool"
where
  "coerce_free (ZString cs) = True"
| "coerce_free (ZNumber ns) = True"
| "coerce_free (ZCoerceNumber ns) = False"
| "coerce_free ZBoolean = True"
| "coerce_free ZUnknown = True"
| "coerce_free (ZLiteral l) = True"
| "coerce_free (ZEnum xs) = True"
| "coerce_free (ZOptional s) = coerce_free s"
| "coerce_free (ZOr a b) = (coerce_free a \<and> coerce_free b)"
| "coerce_free (ZDefault s d) = coerce_free s"
| "coerce_free (ZCatch s d) = coerce_free s"
| "coerce_free (ZArray n s) = coerce_free s"
| "coerce_free (ZRecord s) = coerce_free s"
| "coerce_free (ZObject strict fs) = coerce_free_fields fs"
| "coerce_free (ZRefine s p) = coerce_free s"
| "coerce_free_fields [] = True"
| "coerce_free_fields (f # fs) = (coerce_free_field f \<and> coerce_free_fields fs)"
| "coerce_free_field (Pair k s) = coerce_free s"

lemma coerce_free_fields_iff: "coerce_free_fields fs \<longleftrightarrow> (\<forall>f \<in> set fs. coerce_free (snd f))"
  by (induction fs) auto

interpretation zref: zod fmt "zref fmt" for fmt
  by unfold_locales simp_all

context zod
begin

lemmas parse_laws = parse_String parse_Number parse_Boolean parse_Unknown parse_Literal parse_Enum
  parse_Optional parse_Or parse_Default parse_Catch parse_Array parse_Record parse_Object parse_Refine

text \<open>The laws leave no freedom: outside coercions, \<open>parse\<close> is \<open>zref\<close>.\<close>

lemma parse_zref: "coerce_free s \<Longrightarrow> parse s v = zref fmt s v"
proof (induction s arbitrary: v)
  case (ZObject strict fs)
  have "parse (snd f) w = zref fmt (snd f) w" if "f \<in> set fs" for f w
    using ZObject that by (cases f) (auto simp: coerce_free_fields_iff)
  then have "map (\<lambda>f. map_option (out_field v (fst f)) (parse (snd f) (js_prop v (fst f)))) fs =
      map (\<lambda>f. map_option (out_field v (fst f)) (zref fmt (snd f) (js_prop v (fst f)))) fs"
    by simp
  then show ?case by (simp only: parse_Object zref.simps)
next
  case (ZArray n s)
  then have "parse s = zref fmt s" by auto
  then show ?case unfolding parse_Array zref.simps by (rule ssubst) (rule refl)
qed (simp_all add: parse_laws split: option.split jv.split)

end

section \<open>Accepted values are fixed points\<close>

text \<open>
  A string schema is settled when it transforms first (trims, then lowers) and only tests
  afterwards; a schema is settled when its strings are and its defaults and fall-backs are values
  it accepts as they are. For such a schema the output of a successful parse parses to itself, so
  what the portal sends is itself a valid value of the schema.
\<close>

fun is_test :: "scheck \<Rightarrow> bool" where
  "is_test Trim = False"
| "is_test ToLower = False"
| "is_test _ = True"

definition settled_checks :: "scheck list \<Rightarrow> bool" where
  "settled_checks cs = (case cs of
       Trim # ToLower # ds \<Rightarrow> list_all is_test ds
     | Trim # ds \<Rightarrow> list_all is_test ds
     | ds \<Rightarrow> list_all is_test ds)"

primrec always_defined :: "zschema \<Rightarrow> bool" where
  "always_defined (ZString cs) = True"
| "always_defined (ZNumber ns) = True"
| "always_defined (ZCoerceNumber ns) = True"
| "always_defined ZBoolean = True"
| "always_defined ZUnknown = False"
| "always_defined (ZLiteral l) = (l \<noteq> JUndef)"
| "always_defined (ZEnum xs) = True"
| "always_defined (ZOptional s) = False"
| "always_defined (ZOr a b) = (always_defined a \<and> always_defined b)"
| "always_defined (ZDefault s d) = always_defined s"
| "always_defined (ZCatch s d) = False"
| "always_defined (ZArray n s) = True"
| "always_defined (ZRecord s) = True"
| "always_defined (ZObject strict fs) = True"
| "always_defined (ZRefine s p) = always_defined s"

fun is_exact :: "zschema \<Rightarrow> bool" where
  "is_exact (ZLiteral l) = True"
| "is_exact (ZEnum xs) = True"
| "is_exact _ = False"

primrec settled :: "zformats \<Rightarrow> zschema \<Rightarrow> bool"
  and settled_fields :: "zformats \<Rightarrow> (string \<times> zschema) list \<Rightarrow> bool"
  and settled_field :: "zformats \<Rightarrow> string \<times> zschema \<Rightarrow> bool"
where
  "settled fmt (ZString cs) = settled_checks cs"
| "settled fmt (ZNumber ns) = True"
| "settled fmt (ZCoerceNumber ns) = True"
| "settled fmt ZBoolean = True"
| "settled fmt ZUnknown = True"
| "settled fmt (ZLiteral l) = True"
| "settled fmt (ZEnum xs) = True"
| "settled fmt (ZOptional s) = settled fmt s"
| "settled fmt (ZOr a b) = (settled fmt a \<and> is_exact b)"
| "settled fmt (ZDefault s d) = (settled fmt s \<and> always_defined s)"
| "settled fmt (ZCatch s d) = (settled fmt s \<and> zref fmt s d = Some d)"
| "settled fmt (ZArray n s) = settled fmt s"
| "settled fmt (ZRecord s) = settled fmt s"
| "settled fmt (ZObject strict fs) = (distinct (map fst fs) \<and> settled_fields fmt fs)"
| "settled fmt (ZRefine s p) = settled fmt s"
| "settled_fields fmt [] = True"
| "settled_fields fmt (f # fs) = (settled_field fmt f \<and> settled_fields fmt fs)"
| "settled_field fmt (Pair k s) = settled fmt s"

lemma settled_fields_iff: "settled_fields fmt fs \<longleftrightarrow> (\<forall>f \<in> set fs. settled fmt (snd f))"
  by (induction fs) auto

lemma sequence_Some: "sequence xs = Some ys \<longleftrightarrow> xs = map Some ys"
  by (induction xs arbitrary: ys rule: sequence.induct) (auto simp: Cons_eq_map_conv)

lemma lower_char_idem [simp]: "lower_char (lower_char c) = lower_char c"
  by (cases "65 \<le> (of_char c :: nat) \<and> (of_char c :: nat) \<le> 90 \<or>
      192 \<le> (of_char c :: nat) \<and> (of_char c :: nat) \<le> 222 \<and> (of_char c :: nat) \<noteq> 215")
    (auto simp: lower_char_def Let_def)

lemma js_ws_lower [simp]: "js_ws (lower_char c) = js_ws c"
  by (auto simp: js_ws_def lower_char_def Let_def)

lemma trim_lower: "js_trim (js_toLowerCase s) = js_toLowerCase (js_trim s)"
  by (simp add: js_trim_def js_toLowerCase_def dropWhile_map rev_map comp_def)

lemma run_tests: "list_all is_test cs \<Longrightarrow> run_checks fmt cs s = Some t \<Longrightarrow> t = s"
proof (induction cs)
  case (Cons c cs)
  then show ?case by (cases c) (auto split: if_splits)
qed simp

lemma run_settled:
  "settled_checks cs \<Longrightarrow> run_checks fmt cs s = Some t \<Longrightarrow> run_checks fmt cs t = Some t"
proof (cases "\<exists>ds. cs = Trim # ToLower # ds \<and> list_all is_test ds")
  case True
  assume "run_checks fmt cs s = Some t"
  with True obtain ds where cs: "cs = Trim # ToLower # ds" "list_all is_test ds"
    and run: "run_checks fmt ds (js_toLowerCase (js_trim s)) = Some t" by auto
  then have "t = js_toLowerCase (js_trim s)" by (auto dest: run_tests)
  then have "js_toLowerCase (js_trim t) = t"
    by (simp add: trim_lower) (simp add: js_toLowerCase_def comp_def)
  with cs run \<open>t = _\<close> show ?thesis by simp
next
  case False
  assume set: "settled_checks cs" and run: "run_checks fmt cs s = Some t"
  then consider ds where "cs = Trim # ds" "list_all is_test ds" | "list_all is_test cs"
    using False by (auto simp: settled_checks_def split: list.splits scheck.splits)
  then show ?thesis using run by cases (auto dest: run_tests)
qed

lemma zref_defined: "always_defined s \<Longrightarrow> zref fmt s v = Some w \<Longrightarrow> w \<noteq> JUndef"
  by (induction s arbitrary: v)
    (auto simp: parse_num_def split: jv.splits if_splits option.splits)

text \<open>The output object of a parse, as a function of the parsed fields.\<close>

definition outs :: "jv \<Rightarrow> (string \<times> jv) list \<Rightarrow> jv" where
  "outs v kws = JObj (concat (map (\<lambda>(k, w). out_field v k w) kws))"

lemma outs_keys:
  "k \<in> set (js_keys (outs v kws)) \<longleftrightarrow>
     (\<exists>w. (k, w) \<in> set kws \<and> (w = JUndef \<longrightarrow> k \<in> set (js_keys v)))"
  by (auto simp: outs_def out_field_def split: if_splits) force+

lemma map_of_outs:
  "distinct (map fst kws) \<Longrightarrow>
     map_of (concat (map (\<lambda>(k, w). out_field v k w) kws)) k =
       (case map_of kws k of Some w \<Rightarrow> if w = JUndef \<and> k \<notin> set (js_keys v) then None else Some w
        | None \<Rightarrow> None)"
proof (induction kws)
  case (Cons a kws)
  obtain k' w' where "a = (k', w')" by fastforce
  moreover have "map_of kws k' = None" using Cons.prems \<open>a = _\<close> by (simp add: map_of_eq_None_iff)
  ultimately show ?case using Cons
    by (cases "k = k'") (auto simp: out_field_def map_add_def split: option.splits)
qed simp

lemma outs_prop:
  assumes "distinct (map fst kws)" "(k, w) \<in> set kws"
  shows "js_prop (outs v kws) k = w"
  using assms by (simp add: outs_def map_of_outs)

lemma zref_Object_Some:
  assumes "zref fmt (ZObject strict fs) v = Some w"
  obtains kvs ws where "v = JObj kvs" "strict \<longrightarrow> set (map fst kvs) \<subseteq> set (map fst fs)"
    "length ws = length fs" "w = outs v (zip (map fst fs) ws)"
    "\<And>i. i < length fs \<Longrightarrow> zref fmt (snd (fs ! i)) (js_prop v (fst (fs ! i))) = Some (ws ! i)"
proof -
  from assms obtain kvs ps where v: "v = JObj kvs"
    and st: "strict \<longrightarrow> set (map fst kvs) \<subseteq> set (map fst fs)"
    and w: "w = JObj (concat ps)"
    and seq: "map (\<lambda>f. map_option (out_field v (fst f)) (zref fmt (snd f) (js_prop v (fst f)))) fs
        = map Some ps"
    by (auto simp: sequence_Some split: jv.splits if_splits)
  define ws where "ws = map (\<lambda>f. the (zref fmt (snd f) (js_prop v (fst f)))) fs"
  have each: "map_option (out_field v (fst (fs ! i))) (zref fmt (snd (fs ! i)) (js_prop v (fst (fs ! i))))
      = Some (ps ! i)" "length ps = length fs" if "i < length fs" for i
    using arg_cong [OF seq, of "\<lambda>xs. xs ! i"] arg_cong [OF seq, of length] that by auto
  have parsed: "zref fmt (snd (fs ! i)) (js_prop v (fst (fs ! i))) = Some (ws ! i)"
    and outp: "out_field v (fst (fs ! i)) (ws ! i) = ps ! i" if "i < length fs" for i
    using each [OF that] that by (auto simp: ws_def)
  have "ps = map (\<lambda>(k, w). out_field v k w) (zip (map fst fs) ws)"
  proof (rule nth_equalityI)
    have l: "length ps = length fs" using arg_cong [OF seq, of length] by simp
    then show "length ps = length (map (\<lambda>(k, w). out_field v k w) (zip (map fst fs) ws))"
      by (simp add: ws_def)
    fix i assume "i < length ps"
    then have i: "i < length fs" using l by simp
    then have "map (\<lambda>(k, w). out_field v k w) (zip (map fst fs) ws) ! i = out_field v (fst (fs ! i)) (ws ! i)"
      by (simp add: ws_def)
    then show "ps ! i = map (\<lambda>(k, w). out_field v k w) (zip (map fst fs) ws) ! i"
      using outp [OF i] by simp
  qed
  then have "w = outs v (zip (map fst fs) ws)" by (simp add: w outs_def)
  then show thesis using that [OF v st _ _ parsed] by (simp add: ws_def)
qed

text \<open>Each field of the output is what its own schema made of the input's field.\<close>

lemma zref_field:
  assumes "zref fmt (ZObject strict fs) v = Some w" "distinct (map fst fs)" "(k, s) \<in> set fs"
  shows "zref fmt s (js_prop v k) = Some (js_prop w k)"
proof -
  from assms(1) obtain ws where len: "length ws = length fs" and w: "w = outs v (zip (map fst fs) ws)"
    and ws: "\<And>i. i < length fs \<Longrightarrow> zref fmt (snd (fs ! i)) (js_prop v (fst (fs ! i))) = Some (ws ! i)"
    by (blast elim: zref_Object_Some)
  obtain i where i: "i < length fs" "fs ! i = (k, s)" using assms(3) by (metis in_set_conv_nth)
  then have "(k, ws ! i) \<in> set (zip (map fst fs) ws)"
    using len by (auto simp: set_zip intro!: exI [of _ i])
  then have "js_prop w k = ws ! i" using assms(2) len unfolding w by (intro outs_prop) simp_all
  with ws [OF i(1)] i(2) show ?thesis by simp
qed

lemma zref_ObjectI:
  assumes "strict \<longrightarrow> set (js_keys w) \<subseteq> set (map fst fs)" "length ws = length fs"
    and "w = outs v (zip (map fst fs) ws)"
    and "\<And>i. i < length fs \<Longrightarrow> zref fmt (snd (fs ! i)) (js_prop w (fst (fs ! i))) = Some (ws ! i)"
  shows "zref fmt (ZObject strict fs) w = Some (outs w (zip (map fst fs) ws))"
proof -
  obtain kvs where kvs: "w = JObj kvs" using assms(3) by (simp add: outs_def)
  have "map (\<lambda>f. map_option (out_field w (fst f)) (zref fmt (snd f) (js_prop w (fst f)))) fs
      = map Some (map (\<lambda>(k, x). out_field w k x) (zip (map fst fs) ws))"
    using assms(2,4) by (intro nth_equalityI) auto
  then have "sequence (map (\<lambda>f. map_option (out_field w (fst f)) (zref fmt (snd f) (js_prop w (fst f)))) fs)
      = Some (map (\<lambda>(k, x). out_field w k x) (zip (map fst fs) ws))"
    by (simp only: sequence_Some)
  with assms(1) show ?thesis unfolding kvs by (auto simp: outs_def)
qed

lemma zref_settled_Object:
  assumes IH: "\<And>f v w. f \<in> set fs \<Longrightarrow> zref fmt (snd f) v = Some w \<Longrightarrow> zref fmt (snd f) w = Some w"
    and dist: "distinct (map fst fs)" and ok: "zref fmt (ZObject strict fs) v = Some w"
  shows "zref fmt (ZObject strict fs) w = Some w"
proof -
  from ok obtain ws where len: "length ws = length fs"
    and w: "w = outs v (zip (map fst fs) ws)"
    and ws: "\<And>i. i < length fs \<Longrightarrow> zref fmt (snd (fs ! i)) (js_prop v (fst (fs ! i))) = Some (ws ! i)"
    by (blast elim: zref_Object_Some)
  have d: "distinct (map fst (zip (map fst fs) ws))" using dist len by simp
  have get: "js_prop w (fst (fs ! i)) = ws ! i" if "i < length fs" for i
  proof -
    have "zip (map fst fs) ws ! i = (fst (fs ! i), ws ! i)" using that len by simp
    then have "(fst (fs ! i), ws ! i) \<in> set (zip (map fst fs) ws)"
      using that len by (metis length_map length_zip min.idem nth_mem)
    then show ?thesis using outs_prop [OF d] by (simp add: w)
  qed
  have keys: "set (js_keys w) \<subseteq> set (map fst fs)"
    by (auto simp: w outs_keys simp del: set_map dest: set_zip_leftD)
  have "out_field w k x = out_field v k x" if "(k, x) \<in> set (zip (map fst fs) ws)" for k x
  proof -
    have "y = x" if "(k, y) \<in> set (zip (map fst fs) ws)" for y
      using eq_key_imp_eq_value [OF d \<open>(k, x) \<in> _\<close> that] by simp
    then have "k \<in> set (js_keys w) \<longleftrightarrow> (x = JUndef \<longrightarrow> k \<in> set (js_keys v))"
      using that unfolding w outs_keys by blast
    then show ?thesis by (auto simp: out_field_def)
  qed
  then have "map (\<lambda>(k, x). out_field w k x) (zip (map fst fs) ws)
      = map (\<lambda>(k, x). out_field v k x) (zip (map fst fs) ws)"
    by (intro map_cong) (auto simp only: prod.case split: prod.split)
  then have "outs w (zip (map fst fs) ws) = outs v (zip (map fst fs) ws)"
    by (simp only: outs_def)
  then have same: "outs w (zip (map fst fs) ws) = w" by (simp only: w [symmetric])
  have "zref fmt (ZObject strict fs) w = Some (outs w (zip (map fst fs) ws))"
  proof (rule zref_ObjectI [OF _ len w])
    show "strict \<longrightarrow> set (js_keys w) \<subseteq> set (map fst fs)" using keys by blast
    show "zref fmt (snd (fs ! i)) (js_prop w (fst (fs ! i))) = Some (ws ! i)" if "i < length fs" for i
      unfolding get [OF that] using IH [OF nth_mem ws] that by blast
  qed
  then show ?thesis by (simp add: same)
qed

lemma sequence_fixed:
  assumes "\<And>x y. x \<in> set xs \<Longrightarrow> f x = Some y \<Longrightarrow> f y = Some y" "sequence (map f xs) = Some ys"
  shows "sequence (map f ys) = Some ys"
proof -
  have "map f xs = map Some ys" using assms(2) by (simp add: sequence_Some)
  then have "\<forall>y \<in> set ys. \<exists>x \<in> set xs. f x = Some y"
    by (metis (no_types, lifting) imageE image_eqI list.set_map option.inject)
  then have "map f ys = map Some ys" using assms(1) by auto
  then show ?thesis by (simp add: sequence_Some)
qed

lemma zref_settled: "settled fmt s \<Longrightarrow> zref fmt s v = Some w \<Longrightarrow> zref fmt s w = Some w"
proof (induction s arbitrary: v w)
  case (ZString cs)
  then show ?case by (auto dest: run_settled split: jv.splits)
next
  case (ZOr a b)
  then show ?case by (cases b) (auto split: option.splits jv.splits if_splits)
next
  case (ZDefault s d)
  then show ?case using zref_defined [of s fmt _ w] by (auto split: if_splits)
next
  case (ZArray n s)
  from ZArray.prems obtain vs ws where "v = JArr vs" "w = JArr ws" "n \<le> length vs"
    and seq: "sequence (map (zref fmt s) vs) = Some ws"
    by (auto split: jv.splits if_splits)
  moreover have "sequence (map (zref fmt s) ws) = Some ws"
    using sequence_fixed [OF _ seq] ZArray by simp
  moreover have "length ws = length vs" using seq by (simp add: sequence_Some) (metis length_map)
  ultimately show ?case by simp
next
  case (ZRecord s)
  let ?f = "\<lambda>kv. map_option (Pair (fst kv)) (zref fmt s (snd kv))"
  from ZRecord.prems obtain vs ws where "v = JObj vs" "w = JObj ws"
    and seq: "sequence (map ?f vs) = Some ws"
    by (auto split: jv.splits if_splits)
  moreover have "sequence (map ?f ws) = Some ws"
    using ZRecord by (intro sequence_fixed [OF _ seq]) auto
  ultimately show ?case by simp
next
  case (ZObject strict fs)
  have "zref fmt (snd f) w = Some w" if "f \<in> set fs" "zref fmt (snd f) v = Some w" for f v w
    using ZObject that by (cases f) (auto simp: settled_fields_iff)
  then show ?case using ZObject.prems by (intro zref_settled_Object) auto
qed (auto simp: parse_num_def split: jv.splits option.splits if_splits)

context zod
begin

lemma parse_settled:
  "coerce_free s \<Longrightarrow> settled fmt s \<Longrightarrow> parse s v = Some w \<Longrightarrow> parse s w = Some w"
  by (simp add: parse_zref zref_settled)

end

end
