(* ===== verification/Rounding.thy ===== *)
theory Rounding
  imports JS_Number
begin

text \<open>
  Facts on the binary64 rounding of \<open>JS_Number\<close>: it is monotone, odd, exact on every value with
  a 53-bit significand, and its error is at most half a unit in the last place. From these the
  money validators get that comparing two doubles read from decimal text is comparing the
  decimals, as long as the doubles can tell them apart.
\<close>

section \<open>Rounding to an integer\<close>

lemma round_even_of_int [simp]: "round_even (of_int n) = n"
  by (simp add: round_even_def)

lemma round_even_bounds: "\<lfloor>x\<rfloor> \<le> round_even x" "round_even x \<le> \<lfloor>x\<rfloor> + 1"
  by (auto simp: round_even_def Let_def)

lemma round_even_error: "\<bar>of_int (round_even x) - x\<bar> \<le> 1/2"
proof -
  have "0 \<le> x - of_int \<lfloor>x\<rfloor>" "x - of_int \<lfloor>x\<rfloor> < 1"
    using of_int_floor_le [of x] floor_correct [of x] by linarith+
  then show ?thesis by (auto simp: round_even_def Let_def abs_le_iff)
qed

lemma round_even_mono: "x \<le> y \<Longrightarrow> round_even x \<le> round_even y"
proof -
  assume le: "x \<le> y"
  show ?thesis
  proof (cases "\<lfloor>x\<rfloor> = \<lfloor>y\<rfloor>")
    case True
    with le show ?thesis by (auto simp: round_even_def Let_def)
  next
    case False
    with floor_mono [OF le] have "\<lfloor>x\<rfloor> + 1 \<le> \<lfloor>y\<rfloor>" by simp
    then show ?thesis
      using round_even_bounds(2) [of x] round_even_bounds(1) [of y] by linarith
  qed
qed

lemma round_even_minus: "round_even (- x) = - round_even x"
proof (cases "x = of_int \<lfloor>x\<rfloor>")
  case True
  then obtain n where "x = of_int n" by blast
  then show ?thesis using round_even_of_int [of "- n"] by simp
next
  case False
  have fr: "\<lfloor>- x\<rfloor> = - \<lfloor>x\<rfloor> - 1"
    using False floor_correct [of x] by (intro floor_unique) (auto simp: less_le)
  define f where "f = \<lfloor>x\<rfloor>"
  define d where "d = x - of_int f"
  have d: "- x - of_int (- f - 1) = 1 - d" by (simp add: d_def)
  show ?thesis
    unfolding round_even_def fr Let_def f_def [symmetric] d d_def [symmetric]
    by auto
qed

lemma round_even_ge_int: "of_int n \<le> x \<Longrightarrow> n \<le> round_even x"
  using round_even_mono [of "of_int n" x] by simp

lemma round_even_le_int: "x \<le> of_int n \<Longrightarrow> round_even x \<le> n"
  using round_even_mono [of x "of_int n"] by simp

section \<open>The binary logarithm\<close>

lemma powi_less_iff: "(2::rat) powi a < 2 powi b \<longleftrightarrow> a < b"
proof
  show "a < b" if "(2::rat) powi a < 2 powi b"
    using that power_int_increasing [of b a "2::rat"] by (cases "a < b") auto
qed (simp add: power_int_strict_increasing)

lemma powi_le_iff: "(2::rat) powi a \<le> 2 powi b \<longleftrightarrow> a \<le> b"
  using powi_less_iff [of b a] by (simp add: not_less [symmetric])

lemma bitlen_powi:
  assumes "0 < a"
  shows "(2::rat) powi (bitlen a - 1) \<le> of_int a" "of_int a < (2::rat) powi bitlen a"
proof -
  have b: "1 \<le> bitlen a" using assms bitlen_eq_zero_iff [of a] bitlen_nonneg [of a] by linarith
  have "(2::rat) powi (bitlen a - 1) = of_int (2 ^ nat (bitlen a - 1))"
    using b by (simp add: power_int_def)
  moreover have "(2::rat) powi bitlen a = of_int (2 ^ nat (bitlen a))"
    using b by (simp add: power_int_def)
  ultimately show "(2::rat) powi (bitlen a - 1) \<le> of_int a" "of_int a < (2::rat) powi bitlen a"
    using bitlen_bounds [OF assms] by (metis of_int_le_iff, metis of_int_less_iff)
qed

lemma ilog2_bounds:
  assumes "0 < x"
  shows "2 powi ilog2 x \<le> x" "x < 2 powi (ilog2 x + 1)"
proof -
  obtain a b where q: "quotient_of x = (a, b)" by (cases "quotient_of x")
  have b: "0 < b" using quotient_of_denom_pos [OF q] .
  have x: "x = of_int a / of_int b" using quotient_of_div [OF q] .
  have a: "0 < a" using assms b by (simp add: x zero_less_divide_iff)
  define k where "k = bitlen a - bitlen b"
  have "x < 2 powi bitlen a / 2 powi (bitlen b - 1)"
    unfolding x using bitlen_powi [OF a] bitlen_powi [OF b] a b
    by (intro frac_less) auto
  then have up: "x < 2 powi (k + 1)"
    by (simp add: k_def power_int_diff [symmetric] algebra_simps)
  have "2 powi (bitlen a - 1) / 2 powi bitlen b < x"
    unfolding x using bitlen_powi [OF a] bitlen_powi [OF b] a b
    by (intro frac_less2) auto
  then have lo: "2 powi (k - 1) < x"
    by (simp add: k_def power_int_diff [symmetric] algebra_simps)
  show "2 powi ilog2 x \<le> x" "x < 2 powi (ilog2 x + 1)"
    using up lo by (auto simp: ilog2_def q k_def [symmetric])
qed

lemma ilog2_mono:
  assumes "0 < x" "x \<le> y"
  shows "ilog2 x \<le> ilog2 y"
proof -
  have "2 powi ilog2 x < (2::rat) powi (ilog2 y + 1)"
    using ilog2_bounds [of x] ilog2_bounds [of y] assms by linarith
  then show ?thesis by (simp add: powi_less_iff)
qed

section \<open>Rounding to a double\<close>

lemma ulp_exp_minus [simp]: "ulp_exp (- x) = ulp_exp x"
  by (simp add: ulp_exp_def)

lemma rnd_minus: "rnd (- x) = - rnd x"
  by (simp add: rnd_def round_even_minus)

lemma rnd_0 [simp]: "rnd 0 = 0"
  by (simp add: rnd_def)

lemma ulp_exp_mono: "0 < x \<Longrightarrow> x \<le> y \<Longrightarrow> ulp_exp x \<le> ulp_exp y"
  using ilog2_mono [of x y] by (simp add: ulp_exp_def)

lemma rnd_error: "\<bar>rnd x - x\<bar> \<le> 2 powi ulp_exp x / 2"
proof (cases "x = 0")
  case False
  define u :: rat where "u = 2 powi ulp_exp x"
  have u: "0 < u" by (simp add: u_def)
  have "rnd x - x = (of_int (round_even (x / u)) - x / u) * u"
    using False u by (simp add: rnd_def u_def [symmetric] algebra_simps)
  then have "\<bar>rnd x - x\<bar> = \<bar>of_int (round_even (x / u)) - x / u\<bar> * u"
    using u by (simp add: abs_mult)
  also have "\<dots> \<le> 1/2 * u" using round_even_error u by (intro mult_right_mono) auto
  finally show ?thesis by (simp add: u_def)
qed simp

lemma rnd_below:
  assumes "0 < x" "x \<le> 2 powi (ulp_exp x + int k)"
  shows "rnd x \<le> 2 powi (ulp_exp x + int k)"
proof -
  define u :: rat where "u = 2 powi ulp_exp x"
  have u: "0 < u" by (simp add: u_def)
  have s: "(2::rat) powi (ulp_exp x + int k) = of_int (2 ^ k) * u"
    by (simp add: u_def power_int_add)
  have "x / u \<le> of_int (2 ^ k)" using assms(2) u unfolding s by (simp add: pos_divide_le_eq)
  then have "round_even (x / u) \<le> 2 ^ k" by (rule round_even_le_int)
  then have "of_int (round_even (x / u)) * u \<le> of_int (2 ^ k) * u"
    using u by (intro mult_right_mono) (auto simp only: of_int_le_iff)
  then show ?thesis using assms(1) unfolding s by (simp add: rnd_def u_def [symmetric])
qed

lemma rnd_above:
  assumes "0 < x" "2 powi (ulp_exp x + int k) \<le> x"
  shows "2 powi (ulp_exp x + int k) \<le> rnd x"
proof -
  define u :: rat where "u = 2 powi ulp_exp x"
  have u: "0 < u" by (simp add: u_def)
  have s: "(2::rat) powi (ulp_exp x + int k) = of_int (2 ^ k) * u"
    by (simp add: u_def power_int_add)
  have "of_int (2 ^ k) \<le> x / u" using assms(2) u unfolding s by (simp add: pos_le_divide_eq)
  then have "2 ^ k \<le> round_even (x / u)" by (rule round_even_ge_int)
  then have "of_int (2 ^ k) * u \<le> of_int (round_even (x / u)) * u"
    using u by (intro mult_right_mono) (auto simp only: of_int_le_iff)
  then show ?thesis using assms(1) unfolding s by (simp add: rnd_def u_def [symmetric])
qed

lemma rnd_mono_pos:
  assumes "0 < x" "x \<le> y"
  shows "rnd x \<le> rnd y"
proof (cases "ulp_exp x = ulp_exp y")
  case True
  define u :: rat where "u = 2 powi ulp_exp y"
  have u: "0 < u" by (simp add: u_def)
  have "round_even (x / u) \<le> round_even (y / u)"
    using assms u by (intro round_even_mono divide_right_mono) auto
  then show ?thesis
    using assms u by (simp add: rnd_def True u_def [symmetric] mult_right_mono)
next
  case False
  with ulp_exp_mono [OF assms] have e: "ulp_exp x < ulp_exp y" by simp
  then have y: "ulp_exp y = ilog2 y - 52" using assms by (auto simp: ulp_exp_def)
  have "x < 2 powi (ilog2 x + 1)" using ilog2_bounds(2) assms(1) by blast
  also have "\<dots> \<le> 2 powi (ulp_exp x + int 53)"
    unfolding powi_le_iff using assms by (simp add: ulp_exp_def)
  finally have "rnd x \<le> 2 powi (ulp_exp x + int 53)" using assms by (intro rnd_below) auto
  also have "\<dots> \<le> 2 powi (ulp_exp y + int 52)" unfolding powi_le_iff using e by simp
  also have "\<dots> \<le> rnd y"
    using assms ilog2_bounds(1) [of y] by (intro rnd_above) (auto simp: y)
  finally show ?thesis .
qed

lemma rnd_nonneg: "0 \<le> x \<Longrightarrow> 0 \<le> rnd x"
proof (cases "x = 0")
  case False
  assume "0 \<le> x"
  then have "of_int 0 \<le> x / 2 powi ulp_exp x" by simp
  then have "0 \<le> round_even (x / 2 powi ulp_exp x)" by (rule round_even_ge_int)
  then show ?thesis by (simp add: rnd_def)
qed simp

theorem rnd_mono: "x \<le> y \<Longrightarrow> rnd x \<le> rnd y"
proof -
  assume le: "x \<le> y"
  consider "0 < x" | "x \<le> 0" "0 \<le> y" | "y < 0" by linarith
  then show ?thesis
  proof cases
    case 1
    then show ?thesis using le by (rule rnd_mono_pos)
  next
    case 2
    then show ?thesis using rnd_nonneg [of y] rnd_nonneg [of "- x"] by (simp add: rnd_minus)
  next
    case 3
    then show ?thesis using rnd_mono_pos [of "- y" "- x"] le by (simp add: rnd_minus)
  qed
qed

text \<open>Values a double can hold are left alone.\<close>

lemma rnd_exact:
  assumes "\<bar>m\<bar> \<le> 2 ^ 53" "- 1074 \<le> e"
  shows "rnd (of_int m * 2 powi e) = of_int m * 2 powi e"
proof (cases "m = 0")
  case False
  define x :: rat where "x = of_int m * 2 powi e"
  define u where "u = ulp_exp x"
  have x0: "0 < \<bar>x\<bar>" using False by (simp add: x_def)
  have ax: "\<bar>x\<bar> \<le> 2 powi (53 + e)"
  proof -
    have "\<bar>x\<bar> = of_int \<bar>m\<bar> * 2 powi e" by (simp add: x_def abs_mult power_int_abs)
    also have "\<dots> \<le> of_int (2 ^ 53) * 2 powi e"
      using assms(1) by (intro mult_right_mono) (subst of_int_le_iff, simp_all)
    also have "\<dots> = 2 powi (53 + e)" by (simp add: power_int_add)
    finally show ?thesis .
  qed
  show ?thesis
  proof (cases "u \<le> e")
    case True
    have "x / 2 powi u = of_int m * 2 powi (e - u)"
      by (simp add: x_def power_int_diff)
    also have "\<dots> = of_int (m * 2 ^ nat (e - u))"
      using True by (simp add: power_int_def)
    finally have "round_even (x / 2 powi u) = m * 2 ^ nat (e - u)"
      by (simp only: round_even_of_int)
    then have "rnd x = of_int (m * 2 ^ nat (e - u)) * 2 powi u"
      using x0 by (simp add: rnd_def u_def)
    also have "\<dots> = of_int m * (2 powi (e - u) * 2 powi u)"
      using True by (simp add: power_int_def)
    also have "\<dots> = x" by (simp add: x_def power_int_add [symmetric])
    finally show ?thesis by (simp add: x_def)
  next
    case False
    then have u: "u = ilog2 \<bar>x\<bar> - 52" using assms(2) by (auto simp: u_def ulp_exp_def)
    have "2 powi ilog2 \<bar>x\<bar> \<le> (2::rat) powi (53 + e)"
      using ilog2_bounds(1) [OF x0] ax by linarith
    then have "u \<le> e + 1" by (simp add: u powi_le_iff)
    with False have ue: "u = e + 1" by simp
    then have "2 powi (53 + e) \<le> \<bar>x\<bar>"
      using ilog2_bounds(1) [OF x0] u by (simp add: algebra_simps)
    with ax have ex: "\<bar>x\<bar> = 2 powi (53 + e)" by simp
    then have "\<bar>x\<bar> / 2 powi u = of_int (2 ^ 52)"
      by (simp add: ue power_int_diff [symmetric])
    then have "round_even (\<bar>x\<bar> / 2 powi u) = 2 ^ 52" by (simp only: round_even_of_int)
    then have "rnd \<bar>x\<bar> = of_int (2 ^ 52) * 2 powi u"
      using x0 by (simp add: rnd_def ulp_exp_def u_def)
    also have "\<dots> = \<bar>x\<bar>" unfolding ex ue by (simp add: power_int_add)
    finally have "rnd x = x" using rnd_minus [of x] by (cases "0 \<le> x") auto
    then show ?thesis by (simp add: x_def)
  qed
qed simp

lemma rnd_of_int: "\<bar>m\<bar> \<le> 2 ^ 53 \<Longrightarrow> rnd (of_int m) = of_int m"
  using rnd_exact [of m 0] by simp

text \<open>Two values further apart than a unit in the last place stay apart.\<close>

lemma rnd_strict:
  assumes "0 \<le> x" "x + 2 powi ulp_exp y < y"
  shows "rnd x < rnd y"
proof (cases "x = 0")
  case True
  have "y - 2 powi ulp_exp y / 2 \<le> rnd y" using rnd_error [of y] by linarith
  moreover have "(0::rat) < 2 powi ulp_exp y" by simp
  ultimately have "0 < rnd y" using assms True by linarith
  then show ?thesis using True by simp
next
  case False
  with assms have x: "0 < x" "x \<le> y" by (auto intro: order_trans [of _ "x + 2 powi ulp_exp y"])
  have "2 powi ulp_exp x \<le> (2::rat) powi ulp_exp y"
    using ulp_exp_mono [OF x] by (simp add: powi_le_iff)
  then show ?thesis
    using rnd_error [of x] rnd_error [of y] assms(2) by linarith
qed

lemma ulp_exp_le: "0 < x \<Longrightarrow> x < 2 powi (e + 53) \<Longrightarrow> - 1074 \<le> e \<Longrightarrow> ulp_exp x \<le> e"
proof -
  assume "0 < x" and less: "x < 2 powi (e + 53)" and e: "- 1074 \<le> e"
  then have "2 powi ilog2 x < (2::rat) powi (e + 53)" using ilog2_bounds(1) [of x] by simp
  then have "ilog2 x < e + 53" by (simp add: powi_less_iff)
  then show ?thesis using e \<open>0 < x\<close> by (simp add: ulp_exp_def)
qed

section \<open>Numbers\<close>

lemma rnd_bound_pow: "\<bar>x\<bar> \<le> 2 ^ k \<Longrightarrow> \<bar>rnd x\<bar> \<le> 2 ^ k"
proof -
  assume a: "\<bar>x\<bar> \<le> 2 ^ k"
  have e: "rnd (2 ^ k) = 2 ^ k" using rnd_exact [of 1 "int k"] by simp
  have "rnd x \<le> 2 ^ k" using rnd_mono [of x "2 ^ k"] a e by (simp add: abs_le_iff)
  moreover have "- (2 ^ k) \<le> rnd x"
    using rnd_mono [of "- (2 ^ k)" x] a e by (simp add: abs_le_iff rnd_minus)
  ultimately show ?thesis by (simp add: abs_le_iff)
qed

lemma to_num_Fin: "\<bar>x\<bar> \<le> 2 ^ 1023 \<Longrightarrow> to_num x = Fin (rnd x)"
proof -
  assume "\<bar>x\<bar> \<le> 2 ^ 1023"
  then have "\<bar>rnd x\<bar> \<le> 2 ^ 1023" by (rule rnd_bound_pow)
  moreover have "(2::rat) ^ 1023 < 2 ^ 1024" by (rule power_strict_increasing) auto
  ultimately show ?thesis by (simp add: to_num_def Let_def abs_le_iff not_le)
qed

lemma to_num_mono: "x \<le> y \<Longrightarrow> js_le (to_num x) (to_num y)"
  using rnd_mono [of x y]
  by (auto simp: to_num_def js_le_def Let_def)

text \<open>The double nearest to a given value, from its binade.\<close>

lemma round_even_eqI:
  assumes "\<bar>x - of_int n\<bar> < 1/2"
  shows "round_even x = n"
proof -
  have "\<bar>of_int (round_even x) - of_int n\<bar> < (1::rat)" using assms round_even_error [of x] by linarith
  then have "\<bar>of_int (round_even x - n) :: rat\<bar> < of_int 1" by simp
  then have "\<bar>round_even x - n\<bar> < 1" unfolding of_int_abs [symmetric] of_int_less_iff .
  then show ?thesis by simp
qed

lemma rnd_eqI:
  assumes "2 powi (e + 52) \<le> x" "x < 2 powi (e + 53)" "- 1074 \<le> e" "\<bar>x / 2 powi e - of_int n\<bar> < 1/2"
  shows "rnd x = of_int n * 2 powi e"
proof -
  have x: "0 < x" using assms(1) by (rule order_less_le_trans [rotated]) simp
  have "(2::rat) powi ilog2 x < 2 powi (e + 53)" "(2::rat) powi (e + 52) < 2 powi (ilog2 x + 1)"
    using ilog2_bounds [OF x] assms(1,2) by linarith+
  then have "ilog2 x = e + 52" by (simp add: powi_less_iff)
  then have "ulp_exp x = e" using x assms(3) by (simp add: ulp_exp_def)
  then show ?thesis using x round_even_eqI [OF assms(4)] by (simp add: rnd_def)
qed

end
