(* ===== verification/Schemas_Common.thy ===== *)
theory Schemas_Common
  imports Zod Rounding
begin

text \<open>
  The shared field schemas of \<open>packages/schemas/src/common.ts\<close>: money and percentages as decimal
  text, whole numbers, currency codes, identifiers, dates, the pagination shape and the
  idempotency key. The refinements compare doubles read by \<open>Number.parseFloat\<close>; the lemmas show
  when that is comparing the decimals themselves.
\<close>

section \<open>The schemas\<close>

definition Digit :: rexp where
  "Digit = Cls is_digit"

definition decimal_re :: "nat \<Rightarrow> rexp" where
  "decimal_re k = Seq (Plus Digit) (Opt (Seq (Chr CHR ''.'') (Between 1 k Digit)))"

definition money_pattern :: "bool \<Rightarrow> rexp" where
  "money_pattern allowNegative =
     (if allowNegative then Seq (Opt (Chr CHR ''-'')) (decimal_re 4) else decimal_re 4)"

record money_opts =
  min_opt :: "string option"
  max_opt :: "string option"
  allowNegative :: bool

definition no_opts :: money_opts where
  "no_opts = \<lparr>min_opt = None, max_opt = None, allowNegative = False\<rparr>"

definition at_least :: "string \<Rightarrow> jv \<Rightarrow> bool" where
  "at_least minVal v = js_le (parseFloat minVal) (parseFloat (js_str v))"

definition at_most :: "string \<Rightarrow> jv \<Rightarrow> bool" where
  "at_most maxVal v = js_le (parseFloat (js_str v)) (parseFloat maxVal)"

definition moneyString :: "money_opts \<Rightarrow> zschema" where
  "moneyString opts =
     (let schema = ZString [Trim, Pattern (money_pattern (allowNegative opts))];
          schema = (case min_opt opts of None \<Rightarrow> schema
                    | Some minVal \<Rightarrow> ZRefine schema (at_least minVal))
      in (case max_opt opts of None \<Rightarrow> schema
          | Some maxVal \<Rightarrow> ZRefine schema (at_most maxVal)))"

abbreviation moneyMin :: "string \<Rightarrow> zschema" where
  "moneyMin m \<equiv> moneyString (no_opts\<lparr>min_opt := Some m\<rparr>)"

definition percentageString :: "rat option \<Rightarrow> rat option \<Rightarrow> zschema" where
  "percentageString min_o max_o =
     (let mn = nullish min_o 0; mx = nullish max_o 100 in
      ZRefine
        (ZRefine (ZString [Trim, Pattern (decimal_re 2)])
          (\<lambda>v. js_le (to_num mn) (parseFloat (js_str v))))
        (\<lambda>v. js_le (parseFloat (js_str v)) (to_num mx)))"

definition intString :: "rat option \<Rightarrow> zschema" where
  "intString min_o =
     (let schema = ZString [Trim, Pattern (Plus Digit)] in
      case min_o of None \<Rightarrow> schema
      | Some m \<Rightarrow> ZRefine schema (\<lambda>v. js_le (to_num m) (parseInt10 (js_str v))))"

definition currencyCode :: zschema where
  "currencyCode = ZString [Trim, Pattern (Exactly 3 (Cls is_upper))]"

definition uuid :: zschema where
  "uuid = ZString [Uuid]"

definition iso_date_re :: rexp where
  "iso_date_re = Seq (Exactly 4 Digit) (Seq (Chr CHR ''-'') (Seq (Exactly 2 Digit)
     (Seq (Chr CHR ''-'') (Exactly 2 Digit))))"

definition isoDate :: zschema where
  "isoDate = ZString [Pattern iso_date_re]"

definition isoDateTime :: zschema where
  "isoDateTime = ZString [Datetime]"

definition cursorPagination :: zschema where
  "cursorPagination = ZObject False
     [(''cursor'', ZOptional (ZString [])),
      (''limit'', ZOptional (ZCoerceNumber [NInt, NMin 1, NMax 100]))]"

definition idempotencyKey :: zschema where
  "idempotencyKey = ZString [MinLen 8]"

text \<open>Shapes the domain schemas repeat.\<close>

abbreviation textField :: "nat \<Rightarrow> nat \<Rightarrow> zschema" where
  "textField mn mx \<equiv> ZString [Trim, MinLen mn, MaxLen mx]"

abbreviation optionalText :: "nat \<Rightarrow> zschema" where
  "optionalText mx \<equiv> ZOr (ZOptional (ZString [Trim, MaxLen mx])) (ZLiteral (JStr ''''))"

abbreviation emailField :: zschema where
  "emailField \<equiv> ZString [Trim, ToLower, Email]"

section \<open>Decimal text and its value\<close>

definition is_decimal :: "nat \<Rightarrow> string \<Rightarrow> bool" where
  "is_decimal k s \<longleftrightarrow>
     (\<exists>ds fs. ds \<noteq> [] \<and> list_all is_digit ds \<and> list_all is_digit fs \<and>
        (s = ds \<and> fs = [] \<or> s = ds @ CHR ''.'' # fs \<and> 1 \<le> length fs \<and> length fs \<le> k))"

definition dec_val :: "string \<Rightarrow> rat" where
  "dec_val s =
     (let ds = takeWhile is_digit s; fs = tl (dropWhile is_digit s) in
      of_nat (digits_val (ds @ fs)) / 10 ^ length fs)"

lemma dot_no_digit [simp]: "\<not> is_digit CHR ''.''"
  by (simp add: is_digit_def)

lemma decimal_re_iff: "1 \<le> k \<Longrightarrow> matches (decimal_re k) s \<longleftrightarrow> is_decimal k s"
proof -
  assume k: "1 \<le> k"
  have frac: "v \<in> lang (Opt (Seq (Chr CHR ''.'') (Between 1 k Digit))) \<longleftrightarrow>
      v = [] \<or> (\<exists>fs. v = CHR ''.'' # fs \<and> 1 \<le> length fs \<and> length fs \<le> k \<and> list_all is_digit fs)" for v
    using k by (simp add: Digit_def)
  have "matches (decimal_re k) s \<longleftrightarrow> (\<exists>ds v. s = ds @ v \<and> (ds \<noteq> [] \<and> list_all is_digit ds) \<and>
      v \<in> lang (Opt (Seq (Chr CHR ''.'') (Between 1 k Digit))))"
    unfolding matches_lang decimal_re_def lang.simps(3) by (simp add: Digit_def)
  then show ?thesis unfolding frac is_decimal_def by force
qed

lemma decimal_parts:
  assumes "list_all is_digit ds"
  shows "takeWhile is_digit ds = ds" "dropWhile is_digit ds = []"
    "takeWhile is_digit (ds @ CHR ''.'' # fs) = ds"
    "dropWhile is_digit (ds @ CHR ''.'' # fs) = CHR ''.'' # fs"
  using assms by (auto simp: list_all_iff takeWhile_eq_all_conv)

lemma digit_starts:
  assumes "is_digit c"
  shows "\<not> js_ws c" "take_sign (c # s) = (1, c # s)" "\<not> prefix ''Infinity'' (c # s)"
  using assms by (auto simp: is_digit_code js_ws_def)

lemma parseFloat_decimal:
  assumes "is_decimal k s"
  shows "parseFloat s = to_num (dec_val s)"
proof -
  from assms obtain ds fs where ds: "ds \<noteq> []" "list_all is_digit ds" "list_all is_digit fs"
    and s: "s = ds \<and> fs = [] \<or> s = ds @ CHR ''.'' # fs"
    unfolding is_decimal_def by blast
  then obtain c cs where c: "s = c # cs" "is_digit c" by (cases ds) auto
  have trim: "js_trimStart s = s" using digit_starts(1) [OF c(2)] by (simp add: c js_trimStart_def)
  have sign: "take_sign s = (1, s)" and inf: "\<not> prefix ''Infinity'' s"
    using digit_starts(2,3) [OF c(2)] by (simp_all add: c(1))
  have val: "of_nat (digits_val (ds @ fs)) * 10 powi (0 - int (length fs)) = dec_val s"
    using s ds by (auto simp: dec_val_def decimal_parts power_int_minus field_simps)
  have "decimal_prefix s = Some (to_num (dec_val s), [])"
    unfolding val [symmetric] using s
  proof
    assume "s = ds \<and> fs = []"
    then show "decimal_prefix s = Some (to_num (of_nat (digits_val (ds @ fs)) * 10 powi (0 - int (length fs))), [])"
      using ds inf sign by (simp add: decimal_prefix_def decimal_parts take_exp_def)
  next
    assume "s = ds @ CHR ''.'' # fs"
    then show "decimal_prefix s = Some (to_num (of_nat (digits_val (ds @ fs)) * 10 powi (0 - int (length fs))), [])"
      using ds inf sign by (simp add: decimal_prefix_def decimal_parts take_exp_def Let_def)
  qed
  then show ?thesis by (simp add: parseFloat_def trim)
qed

lemma dec_val_units:
  assumes "is_decimal k s"
  shows "\<exists>n::nat. dec_val s = of_nat n / 10 ^ k"
proof -
  from assms obtain ds fs where ds: "list_all is_digit ds" "list_all is_digit fs"
    and s: "s = ds \<and> fs = [] \<or> s = ds @ CHR ''.'' # fs" and le: "length fs \<le> k"
    unfolding is_decimal_def by (metis le0 list.size(3))
  have "dec_val s = of_nat (digits_val (ds @ fs)) / 10 ^ length fs"
    using s ds by (auto simp: dec_val_def decimal_parts)
  also have "\<dots> = of_nat (digits_val (ds @ fs) * 10 ^ (k - length fs)) / 10 ^ k"
    using le by (simp add: field_simps power_add [symmetric])
  finally show ?thesis by blast
qed

lemma dec_val_nonneg [simp]: "0 \<le> dec_val s"
  by (simp add: dec_val_def Let_def)

section \<open>Comparing doubles is comparing decimals\<close>

lemma to_num_cases: "to_num x = PosInf \<and> 2 ^ 1024 \<le> rnd x \<or> to_num x = Fin (rnd x)" if "0 \<le> x"
proof -
  have "\<not> rnd x \<le> - (2 ^ 1024)" using rnd_nonneg [OF that] by (simp add: not_le order_less_le_trans [of _ 0])
  then show ?thesis by (auto simp: to_num_def Let_def)
qed

lemma js_le_to_num:
  assumes "0 \<le> x" "0 \<le> y" "y \<le> 2 ^ 1023"
  shows "js_le (to_num y) (to_num x) \<longleftrightarrow> rnd y \<le> rnd x" "js_le (to_num x) (to_num y) \<longleftrightarrow> rnd x \<le> rnd y"
proof -
  have y: "to_num y = Fin (rnd y)" using assms by (intro to_num_Fin) simp
  have "rnd y \<le> 2 ^ 1023" using rnd_bound_pow [of y 1023] assms by (simp add: abs_le_iff)
  then have less: "rnd y < 2 ^ 1024"
    by (rule order_le_less_trans) (rule power_strict_increasing, auto)
  show "js_le (to_num y) (to_num x) \<longleftrightarrow> rnd y \<le> rnd x" "js_le (to_num x) (to_num y) \<longleftrightarrow> rnd x \<le> rnd y"
    using to_num_cases [OF assms(1)] less by (auto simp: y js_le_def)
qed

text \<open>Two decimals with at most four places, the larger below \<open>2^39\<close>, keep their order.\<close>

lemma rnd_decimals:
  assumes a: "a = of_nat m / 10 ^ 4" and b: "b = of_nat n / 10 ^ 4" and "a < 2 ^ 39"
  shows "rnd a \<le> rnd b \<longleftrightarrow> a \<le> b"
proof
  assume le: "rnd a \<le> rnd b"
  show "a \<le> b"
  proof (rule ccontr)
    assume "\<not> a \<le> b"
    then have less: "b < a" and mn: "n < m" by (auto simp: a b divide_less_cancel)
    have "b + 1 / 10 ^ 4 = of_nat (n + 1) / 10 ^ 4" by (simp add: b add_divide_distrib)
    also have "\<dots> \<le> a" unfolding a using mn by (intro divide_right_mono) (simp_all only: of_nat_le_iff, auto)
    finally have gap: "b + 1 / 10 ^ 4 \<le> a" .
    have "0 < a" using less b by (simp add: order_le_less_trans [of 0 b])
    moreover have "a < 2 powi (- 14 + 53)" using assms(3) by simp
    ultimately have "ulp_exp a \<le> - 14" by (intro ulp_exp_le) auto
    then have "(2::rat) powi ulp_exp a \<le> 2 powi (- 14)" by (simp only: powi_le_iff)
    also have "\<dots> < 1 / 10 ^ 4" by (simp add: power_int_minus)
    finally have "rnd b < rnd a" using gap by (intro rnd_strict) (simp_all add: b)
    with le show False by simp
  qed
qed (rule rnd_mono)

section \<open>What the field schemas accept\<close>

lemma moneyString_coerce_free [simp]: "coerce_free (moneyString opts)"
  by (simp add: moneyString_def Let_def split: option.split)

lemma moneyString_settled [simp]: "settled fmt (moneyString opts)"
  by (simp add: moneyString_def Let_def settled_checks_def split: option.split)

lemma moneyString_defined [simp]: "always_defined (moneyString opts)"
  by (simp add: moneyString_def Let_def split: option.split)

lemmas field_schema_defs = percentageString_def intString_def currencyCode_def uuid_def isoDate_def
  isoDateTime_def idempotencyKey_def

lemma zref_moneyMin:
  assumes "is_decimal k m" "dec_val m \<le> 2 ^ 1023"
  shows "zref fmt (moneyMin m) v = Some w \<longleftrightarrow>
    (\<exists>s. v = JStr s \<and> w = JStr (js_trim s) \<and> is_decimal 4 (js_trim s) \<and>
         rnd (dec_val m) \<le> rnd (dec_val (js_trim s)))"
  using js_le_to_num(1) [OF dec_val_nonneg dec_val_nonneg assms(2)]
  by (auto simp: moneyString_def no_opts_def money_pattern_def decimal_re_iff at_least_def
      parseFloat_decimal [OF assms(1)] parseFloat_decimal [where k = 4] split: jv.splits if_splits)

lemma decimal_cent [simp]: "is_decimal 4 ''0.01''"
  by (subst decimal_re_iff [symmetric]) (simp, code_simp)

lemma decimal_zero [simp]: "is_decimal 4 ''0''"
  by (subst decimal_re_iff [symmetric]) (simp, code_simp)

lemma dec_val_cent [simp]: "dec_val ''0.01'' = 1 / 100"
  by code_simp

lemma dec_val_zero [simp]: "dec_val ''0'' = 0"
  by code_simp

lemma rnd_cent: "is_decimal 4 s \<Longrightarrow> rnd (1 / 100) \<le> rnd (dec_val s) \<longleftrightarrow> 1 / 100 \<le> dec_val s"
proof -
  assume "is_decimal 4 s"
  then obtain n where n: "dec_val s = of_nat n / 10 ^ 4" using dec_val_units by blast
  have c: "(1 / 100 :: rat) = of_nat 100 / 10 ^ 4" by simp
  show ?thesis using rnd_decimals [OF c n] by simp
qed

lemma big_enough [simp]: "(1 / 100 :: rat) \<le> 2 ^ 1023"
proof -
  have "(1 / 100 :: rat) \<le> 1" by simp
  also have "\<dots> \<le> 2 ^ 1023" by (rule one_le_power) simp
  finally show ?thesis .
qed

lemma zref_amount:
  "zref fmt (moneyMin ''0.01'') v = Some w \<longleftrightarrow>
    (\<exists>s. v = JStr s \<and> w = JStr (js_trim s) \<and> is_decimal 4 (js_trim s) \<and> 1 / 100 \<le> dec_val (js_trim s))"
  by (subst zref_moneyMin [where k = 4]) (auto simp: rnd_cent)

lemma zref_price:
  "zref fmt (moneyMin ''0'') v = Some w \<longleftrightarrow>
    (\<exists>s. v = JStr s \<and> w = JStr (js_trim s) \<and> is_decimal 4 (js_trim s))"
  by (subst zref_moneyMin [where k = 4]) (auto simp: rnd_nonneg)

lemma rnd_le_small:
  assumes x: "x = of_nat m / 10 ^ 4" and h: "h = of_nat n / 10 ^ 4" and "h < 2 ^ 38"
  shows "rnd x \<le> rnd h \<longleftrightarrow> x \<le> h"
proof (cases "x < 2 ^ 39")
  case True
  with x h show ?thesis by (rule rnd_decimals)
next
  case False
  have t: "(2 ^ 38 :: rat) = of_nat (2 ^ 38 * 10 ^ 4) / 10 ^ 4" by simp
  have "\<not> rnd (2 ^ 38) \<le> rnd h" using rnd_decimals [OF t h] assms(3) by simp
  moreover have "rnd (2 ^ 38) \<le> rnd x" using False by (intro rnd_mono) simp
  ultimately show ?thesis using False assms(3) by auto
qed

lemma zref_money_range:
  assumes lo: "is_decimal 4 lo" "dec_val lo < 2 ^ 38" and hi: "is_decimal 4 hi" "dec_val hi < 2 ^ 38"
  shows "zref fmt (moneyString (no_opts\<lparr>min_opt := Some lo, max_opt := Some hi\<rparr>)) v = Some w \<longleftrightarrow>
    (\<exists>s. v = JStr s \<and> w = JStr (js_trim s) \<and> is_decimal 4 (js_trim s) \<and>
         dec_val lo \<le> dec_val (js_trim s) \<and> dec_val (js_trim s) \<le> dec_val hi)"
proof -
  have cap: "(2 :: rat) ^ 38 \<le> 2 ^ 1023" by (rule power_increasing) auto
  have small: "dec_val lo \<le> 2 ^ 1023" "dec_val hi \<le> 2 ^ 1023"
    using lo(2) hi(2) cap by linarith+
  obtain l h where l: "dec_val lo = of_nat l / 10 ^ 4" and h: "dec_val hi = of_nat h / 10 ^ 4"
    using dec_val_units [OF lo(1)] dec_val_units [OF hi(1)] by blast
  have cmp: "js_le (to_num (dec_val lo)) (to_num (dec_val s)) \<longleftrightarrow> dec_val lo \<le> dec_val s"
    "js_le (to_num (dec_val s)) (to_num (dec_val hi)) \<longleftrightarrow> dec_val s \<le> dec_val hi"
    if d: "is_decimal 4 s" for s
  proof -
    obtain n where n: "dec_val s = of_nat n / 10 ^ 4" using dec_val_units [OF d] by blast
    have "dec_val lo < 2 ^ 39" using lo(2) by simp
    then show "js_le (to_num (dec_val lo)) (to_num (dec_val s)) \<longleftrightarrow> dec_val lo \<le> dec_val s"
      using js_le_to_num(1) [OF dec_val_nonneg dec_val_nonneg small(1)] rnd_decimals [OF l n] by simp
    show "js_le (to_num (dec_val s)) (to_num (dec_val hi)) \<longleftrightarrow> dec_val s \<le> dec_val hi"
      using js_le_to_num(2) [OF dec_val_nonneg dec_val_nonneg small(2)] rnd_le_small [OF n h hi(2)] by simp
  qed
  show ?thesis
    by (auto simp: moneyString_def no_opts_def money_pattern_def decimal_re_iff at_least_def at_most_def
        parseFloat_decimal [OF lo(1)] parseFloat_decimal [OF hi(1)] parseFloat_decimal [where k = 4] cmp
        split: jv.splits if_splits option.splits)
qed

lemma zref_percentage:
  "zref fmt (percentageString None None) v = Some w \<longleftrightarrow>
    (\<exists>s. v = JStr s \<and> w = JStr (js_trim s) \<and> is_decimal 2 (js_trim s) \<and> dec_val (js_trim s) \<le> 100)"
proof -
  have cap: "(100 :: rat) \<le> 2 ^ 1023"
    by (rule order_trans [of _ "2 ^ 7"]) (simp, rule power_increasing, auto)
  have cmp: "js_le (to_num 0) (to_num (dec_val s))"
    "js_le (to_num (dec_val s)) (to_num 100) \<longleftrightarrow> dec_val s \<le> 100" if d: "is_decimal 2 s" for s
  proof -
    obtain n where "dec_val s = of_nat n / 10 ^ 2" using dec_val_units [OF d] by blast
    then have n: "dec_val s = of_nat (n * 100) / 10 ^ 4" by simp
    have h: "(100 :: rat) = of_nat 1000000 / 10 ^ 4" by simp
    show "js_le (to_num 0) (to_num (dec_val s))" by (rule to_num_mono) simp
    show "js_le (to_num (dec_val s)) (to_num 100) \<longleftrightarrow> dec_val s \<le> 100"
      using js_le_to_num(2) [OF dec_val_nonneg _ cap, of s] rnd_le_small [OF n h] by simp
  qed
  show ?thesis
    by (auto simp: percentageString_def decimal_re_iff parseFloat_decimal [where k = 2] cmp
        split: jv.splits if_splits option.splits)
qed

lemma parseInt_digits:
  assumes "ds \<noteq> []" "list_all is_digit ds"
  shows "parseInt10 ds = to_num (of_nat (digits_val ds))"
proof -
  obtain c cs where c: "ds = c # cs" "is_digit c" using assms by (cases ds) auto
  have "js_trimStart ds = ds" "take_sign ds = (1, ds)"
    using digit_starts(1,2) [OF c(2)] by (simp_all add: c(1) js_trimStart_def)
  then show ?thesis using assms by (simp add: parseInt10_def decimal_parts)
qed

lemma zref_count:
  assumes "m \<le> 2 ^ 53"
  shows "zref fmt (intString (Some (of_nat m))) v = Some w \<longleftrightarrow>
    (\<exists>s. v = JStr s \<and> w = JStr (js_trim s) \<and> js_trim s \<noteq> [] \<and> list_all is_digit (js_trim s) \<and>
         m \<le> digits_val (js_trim s))"
proof -
  have cap: "(2 :: rat) ^ 53 \<le> 2 ^ 1023" by (rule power_increasing) auto
  have mm: "(of_nat m :: rat) \<le> 2 ^ 53"
    using assms by (metis of_nat_le_iff of_nat_numeral of_nat_power)
  have rm: "rnd (of_nat m) = of_nat m"
    using rnd_of_int [of "int m"] assms by (simp add: nat_le_iff flip: of_nat_le_iff)
  have "js_le (to_num (of_nat m)) (to_num (of_nat n)) \<longleftrightarrow> m \<le> n" for n :: nat
  proof -
    have "js_le (to_num (of_nat m)) (to_num (of_nat n)) \<longleftrightarrow> of_nat m \<le> rnd (of_nat n)"
      using js_le_to_num(1) [of "of_nat n" "of_nat m"] mm cap rm by simp
    also have "\<dots> \<longleftrightarrow> m \<le> n"
    proof (cases "m \<le> n")
      case True
      then show ?thesis using rnd_mono [of "of_nat m" "of_nat n"] rm by simp
    next
      case False
      then have "rnd (of_nat n) = of_nat n"
        using rnd_of_int [of "int n"] assms by (simp add: nat_le_iff flip: of_nat_le_iff)
      then show ?thesis by simp
    qed
    finally show ?thesis .
  qed
  then show ?thesis
    by (auto simp: intString_def matches_lang Digit_def parseInt_digits split: jv.splits if_splits option.splits)
qed

section \<open>Properties\<close>

definition demo_formats :: zformats where
  "demo_formats = \<lparr>email_ok = (\<lambda>s. CHR ''@'' \<in> set s), uuid_ok = (\<lambda>s. length s = 36),
     datetime_ok = (\<lambda>s. CHR ''T'' \<in> set s)\<rparr>"

text \<open>
  A positive amount field (\<open>moneyString({ min: "0.01" })\<close>) accepts exactly the texts that,
  trimmed, are plain decimals with at most four places and value at least one hundredth, however
  large: comparing the doubles read by \<open>parseFloat\<close> never misjudges the bound. What it hands on
  is the trimmed text.
\<close>

theorem money_amount_exact:
  assumes "zod fmt parse"
  shows "parse (moneyMin ''0.01'') v = Some w \<longleftrightarrow>
    (\<exists>s. v = JStr s \<and> w = JStr (js_trim s) \<and> is_decimal 4 (js_trim s) \<and> 1 / 100 \<le> dec_val (js_trim s))"
  by (simp add: zod.parse_zref [OF assms] zref_amount)

theorem money_amount_exact_witness:
  "zref demo_formats (moneyMin ''0.01'') (JStr '' 0.0100 '') = Some (JStr ''0.0100'') \<longleftrightarrow>
    (\<exists>s. JStr '' 0.0100 '' = JStr s \<and> JStr ''0.0100'' = JStr (js_trim s) \<and>
         is_decimal 4 (js_trim s) \<and> 1 / 100 \<le> dec_val (js_trim s))"
  by (rule money_amount_exact [OF zref.zod_axioms])

text \<open>
  An amount field with both bounds, each a decimal below \<open>2^38\<close> (more than 270 billion),
  accepts exactly the decimals with at most four places between the bounds: the comparison on
  doubles agrees with the comparison of the exact values on both sides.
\<close>

theorem money_range_exact:
  assumes "zod fmt parse"
    and "is_decimal 4 lo" "dec_val lo < 2 ^ 38" "is_decimal 4 hi" "dec_val hi < 2 ^ 38"
  shows "parse (moneyString (no_opts\<lparr>min_opt := Some lo, max_opt := Some hi\<rparr>)) v = Some w \<longleftrightarrow>
    (\<exists>s. v = JStr s \<and> w = JStr (js_trim s) \<and> is_decimal 4 (js_trim s) \<and>
         dec_val lo \<le> dec_val (js_trim s) \<and> dec_val (js_trim s) \<le> dec_val hi)"
  by (simp add: zod.parse_zref [OF assms(1)] zref_money_range [OF assms(2-5)])

theorem money_range_exact_witness:
  "zref demo_formats (moneyString (no_opts\<lparr>min_opt := Some ''0'', max_opt := Some ''0.01''\<rparr>))
      (JStr ''0.0101'') \<noteq> Some (JStr ''0.0101'')"
proof -
  have "dec_val ''0.0101'' = 101 / 10000" by code_simp
  moreover have "js_trim ''0.0101'' = ''0.0101''" by code_simp
  ultimately show ?thesis
    using money_range_exact [OF zref.zod_axioms, of "''0''" "''0.01''" demo_formats "JStr ''0.0101''" "JStr ''0.0101''"]
    by auto
qed

text \<open>
  A percentage field with the default range accepts exactly the decimals with at most two
  places from 0 to 100.
\<close>

theorem percentage_exact:
  assumes "zod fmt parse"
  shows "parse (percentageString None None) v = Some w \<longleftrightarrow>
    (\<exists>s. v = JStr s \<and> w = JStr (js_trim s) \<and> is_decimal 2 (js_trim s) \<and> dec_val (js_trim s) \<le> 100)"
proof -
  have "coerce_free (percentageString None None)" by (simp add: percentageString_def)
  then show ?thesis by (simp add: zod.parse_zref [OF assms] zref_percentage)
qed

theorem percentage_exact_witness:
  "zref demo_formats (percentageString None None) (JStr ''100.00'') = Some (JStr ''100.00'') \<longleftrightarrow>
    (\<exists>s. JStr ''100.00'' = JStr s \<and> JStr ''100.00'' = JStr (js_trim s) \<and> is_decimal 2 (js_trim s) \<and>
         dec_val (js_trim s) \<le> 100)"
  by (rule percentage_exact [OF zref.zod_axioms])

text \<open>
  A whole-number field with a minimum up to \<open>2^53\<close> accepts exactly the non-empty digit
  strings whose value is at least the minimum.
\<close>

theorem intString_exact:
  assumes "zod fmt parse" "m \<le> 2 ^ 53"
  shows "parse (intString (Some (of_nat m))) v = Some w \<longleftrightarrow>
    (\<exists>s. v = JStr s \<and> w = JStr (js_trim s) \<and> js_trim s \<noteq> [] \<and> list_all is_digit (js_trim s) \<and>
         m \<le> digits_val (js_trim s))"
proof -
  have "coerce_free (intString (Some (of_nat m)))" by (simp add: intString_def)
  then show ?thesis by (simp add: zod.parse_zref [OF assms(1)] zref_count [OF assms(2)])
qed

theorem intString_exact_witness:
  "zref demo_formats (intString (Some (of_nat 1))) (JStr ''0'') = None"
proof -
  have "digits_val (js_trim ''0'') = 0" by code_simp
  then have "zref demo_formats (intString (Some (of_nat 1))) (JStr ''0'') \<noteq> Some w" for w
    using intString_exact [OF zref.zod_axioms, of 1 demo_formats "JStr ''0''" w] by auto
  then show ?thesis by auto
qed

end
