(* ===== verification/Schemas_Operations.thy ===== *)
theory Schemas_Operations
  imports Schemas_Common
begin

text \<open>
  The request schemas of the tenant operations: \<open>packages/schemas/src/credit.ts\<close>,
  \<open>savings.ts\<close>, \<open>shares.ts\<close>, \<open>fees.ts\<close> and \<open>ledger.ts\<close>, one constant per exported schema with
  its name in the source. The lemmas say what every accepted posting carries and when a manual
  journal entry passes its two refinements.
\<close>

section \<open>Shapes the domain schemas repeat\<close>

abbreviation amountField :: zschema where
  "amountField \<equiv> moneyMin ''0.01''"

abbreviation priceField :: zschema where
  "priceField \<equiv> moneyMin ''0''"

abbreviation countField :: zschema where
  "countField \<equiv> intString (Some 1)"

abbreviation reasonField :: zschema where
  "reasonField \<equiv> textField 10 500"

abbreviation optOrBlank :: "zschema \<Rightarrow> zschema" where
  "optOrBlank s \<equiv> ZOr (ZOptional s) (ZLiteral (JStr ''''))"

section \<open>Credit\<close>

definition disbursementDestinationSchema :: zschema where
  "disbursementDestinationSchema = ZEnum [''member_savings'', ''cash'', ''internal_gl'']"

definition loanApplicationSchema :: zschema where
  "loanApplicationSchema = ZObject False
     [(''loan_product_id'', uuid),
      (''member_id'', uuid),
      (''requested_amount'', amountField),
      (''requested_term_periods'', countField),
      (''purpose'', textField 10 500),
      (''disbursement_destination'', disbursementDestinationSchema),
      (''disbursement_account_id'', uuid),
      (''idempotency_key'', idempotencyKey)]"

definition guarantorNominateSchema :: zschema where
  "guarantorNominateSchema = ZObject False [(''guarantor_member_ids'', ZArray 1 uuid)]"

definition loanApplicationRejectSchema :: zschema where
  "loanApplicationRejectSchema = ZObject False [(''reason'', textField 1 1000)]"

definition memberLoanApplySchema :: zschema where
  "memberLoanApplySchema = ZObject False
     [(''loan_product_id'', uuid),
      (''requested_amount'', amountField),
      (''requested_term_periods'', countField),
      (''purpose'', textField 10 500)]"

definition loanRepaymentSchema :: zschema where
  "loanRepaymentSchema = ZObject False
     [(''amount'', amountField),
      (''payment_account_id'', uuid),
      (''narration'', optionalText 280),
      (''savings_account_id'', ZOptional uuid),
      (''idempotency_key'', idempotencyKey)]"

definition disburseSchema :: zschema where
  "disburseSchema = ZObject False [(''idempotency_key'', idempotencyKey)]"

definition restructuringTypeSchema :: zschema where
  "restructuringTypeSchema = ZEnum [''term_extension'', ''payment_holiday'']"

definition loanRestructureSchema :: zschema where
  "loanRestructureSchema = ZObject False
     [(''restructuring_type'', restructuringTypeSchema),
      (''periods_added'', countField),
      (''reason'', textField 20 1000),
      (''idempotency_key'', idempotencyKey)]"

definition payrollRowSchema :: zschema where
  "payrollRowSchema = ZObject False [(''member_id'', uuid), (''amount'', amountField)]"

definition payrollBatchSchema :: zschema where
  "payrollBatchSchema = ZObject False
     [(''rows'', ZArray 1 payrollRowSchema),
      (''clearing_account_id'', uuid),
      (''idempotency_key'', idempotencyKey)]"

definition loanWriteOffSchema :: zschema where
  "loanWriteOffSchema = ZObject False
     [(''amount'', amountField),
      (''reason'', textField 20 1000),
      (''loan_loss_account_code'', optionalText 20),
      (''idempotency_key'', idempotencyKey)]"

definition loanRecoverySchema :: zschema where
  "loanRecoverySchema = ZObject False
     [(''amount'', amountField),
      (''reason'', textField 10 500),
      (''idempotency_key'', idempotencyKey)]"

definition loanProductSchema :: zschema where
  "loanProductSchema = ZObject False
     [(''name'', textField 1 200),
      (''description'', optionalText 1000),
      (''interest_method'', ZEnum [''flat'', ''reducing_balance'']),
      (''annual_interest_rate'', percentageString None (Some 100)),
      (''repayment_frequency'', ZEnum [''weekly'', ''biweekly'', ''monthly'', ''quarterly'', ''lump_sum'']),
      (''max_term_periods'', countField),
      (''min_amount'', amountField),
      (''max_amount'', amountField),
      (''required_approvals'', countField),
      (''repayment_allocation'', ZEnum [''INTEREST_PRINCIPAL'']),
      (''disbursement_destinations'', ZArray 1 disbursementDestinationSchema),
      (''gl_principal_receivable_code'', textField 1 20),
      (''gl_interest_receivable_code'', textField 1 20),
      (''gl_interest_income_code'', textField 1 20),
      (''gl_loan_loss_expense_code'', optionalText 20),
      (''penalty_fee_type_code'', optionalText 40),
      (''write_off_threshold'', optOrBlank priceField)]"

definition loanProductPatchSchema :: zschema where
  "loanProductPatchSchema = ZObject False
     [(''name'', ZOptional (textField 1 200)),
      (''description'', optionalText 1000),
      (''penalty_fee_type_code'', optionalText 40),
      (''write_off_threshold'', optOrBlank priceField)]"

section \<open>Savings\<close>

definition openAccountSchema :: zschema where
  "openAccountSchema = ZObject False [(''member_id'', uuid), (''savings_product_id'', uuid)]"

definition baseTransactionSchema :: zschema where
  "baseTransactionSchema = ZObject False
     [(''amount'', amountField),
      (''payment_account_id'', uuid),
      (''idempotency_key'', idempotencyKey),
      (''narration'', optionalText 280)]"

definition depositSchema :: zschema where
  "depositSchema = baseTransactionSchema"

definition withdrawSchema :: zschema where
  "withdrawSchema = baseTransactionSchema"

definition savingsProductSchema :: zschema where
  "savingsProductSchema = ZObject False
     [(''name'', textField 1 200),
      (''interest_rate'', moneyString (no_opts\<lparr>min_opt := Some ''0'', max_opt := Some ''100''\<rparr>)),
      (''liability_account_id'', uuid),
      (''minimum_balance'', priceField)]"

section \<open>Shares\<close>

definition openShareAccountSchema :: zschema where
  "openShareAccountSchema = ZObject False [(''member_id'', uuid), (''share_product_id'', uuid)]"

definition purchaseSharesSchema :: zschema where
  "purchaseSharesSchema = ZObject False
     [(''quantity'', countField),
      (''payment_account_id'', uuid),
      (''idempotency_key'', idempotencyKey)]"

definition redeemSharesSchema :: zschema where
  "redeemSharesSchema = ZObject False
     [(''quantity'', countField),
      (''payment_account_id'', uuid),
      (''reason'', optionalText 280),
      (''idempotency_key'', idempotencyKey)]"

definition shareProductSchema :: zschema where
  "shareProductSchema = ZObject False
     [(''name'', textField 1 200),
      (''par_value'', amountField),
      (''minimum_shares'', countField),
      (''maximum_shares'', optOrBlank countField),
      (''share_capital_account_id'', uuid)]"

section \<open>Fees\<close>

definition feeApplicableToSchema :: zschema where
  "feeApplicableToSchema = ZEnum [''member'', ''loan'', ''savings_account'', ''share_account'']"

definition feeAmountKindSchema :: zschema where
  "feeAmountKindSchema = ZEnum [''fixed'', ''percentage'', ''tiered'']"

definition feeTriggerKindSchema :: zschema where
  "feeTriggerKindSchema = ZEnum [''event'', ''schedule'', ''manual'']"

definition fee_code_re :: rexp where
  "fee_code_re = Plus (Cls (\<lambda>c. is_lower c \<or> is_digit c \<or> c = CHR ''_''))"

definition feeTypeSchema :: zschema where
  "feeTypeSchema = ZObject False
     [(''code'', ZString [Trim, MinLen 1, MaxLen 40, Pattern fee_code_re]),
      (''name'', textField 1 200),
      (''description'', optionalText 1000),
      (''applicable_to'', feeApplicableToSchema),
      (''amount_kind'', feeAmountKindSchema),
      (''amount'', priceField),
      (''currency'', ZDefault currencyCode (JStr ''UGX'')),
      (''trigger_kind'', feeTriggerKindSchema),
      (''event_name'', optionalText 100),
      (''schedule_config'', ZOptional (ZRecord ZUnknown)),
      (''gl_income_account_code'', textField 1 20),
      (''gl_receivable_account_code'', textField 1 20),
      (''requires_collection'', ZDefault ZBoolean (JBool True))]"

definition feeTypePatchSchema :: zschema where
  "feeTypePatchSchema = ZObject True
     [(''name'', ZOptional (textField 1 200)),
      (''description'', optionalText 1000),
      (''amount'', ZOptional priceField),
      (''is_active'', ZOptional ZBoolean),
      (''requires_collection'', ZOptional ZBoolean)]"

definition feeAssessmentSchema :: zschema where
  "feeAssessmentSchema = ZObject False
     [(''fee_type_id'', uuid),
      (''target_type'', ZEnum [''member'', ''loan'', ''savings_account'', ''share_account'']),
      (''target_id'', uuid),
      (''period_start'', isoDate),
      (''period_end'', optOrBlank isoDate)]"

definition feeCollectionSchema :: zschema where
  "feeCollectionSchema = ZObject False
     [(''fee_assessment_id'', uuid),
      (''amount'', amountField),
      (''method'', ZEnum [''cash'', ''journal_voucher'']),
      (''contra_account_id'', uuid),
      (''idempotency_key'', idempotencyKey)]"

section \<open>Ledger\<close>

definition accountTypeSchema :: zschema where
  "accountTypeSchema = ZEnum [''asset'', ''liability'', ''equity'', ''income'', ''expense'']"

definition account_code_re :: rexp where
  "account_code_re = Plus (Cls (\<lambda>c. is_upper c \<or> is_digit c \<or> c \<in> set ''.-_''))"

definition accountSchema :: zschema where
  "accountSchema = ZObject False
     [(''code'', ZString [Trim, MinLen 1, MaxLen 20, Pattern account_code_re]),
      (''name'', textField 1 200),
      (''account_type'', accountTypeSchema),
      (''parent_id'', ZOptional uuid),
      (''description'', optionalText 1000)]"

definition journalLineSchema :: zschema where
  "journalLineSchema = ZObject False
     [(''account_id'', uuid),
      (''debit_amount'', ZDefault priceField (JStr ''0'')),
      (''credit_amount'', ZDefault priceField (JStr ''0'')),
      (''description'', optionalText 500)]"

fun js_elems :: "jv \<Rightarrow> jv list" where
  "js_elems (JArr vs) = vs"
| "js_elems _ = []"

definition line_amount :: "string \<Rightarrow> jv \<Rightarrow> num" where
  "line_amount side l = parseFloat (js_str (js_prop l side))"

definition sum_amounts :: "string \<Rightarrow> jv list \<Rightarrow> num" where
  "sum_amounts side ls = foldl (\<lambda>s l. js_add s (line_amount side l)) (Fin 0) ls"

definition debits_equal_credits :: "jv \<Rightarrow> bool" where
  "debits_equal_credits data =
     (let totalDebit = sum_amounts ''debit_amount'' (js_elems (js_prop data ''lines''));
          totalCredit = sum_amounts ''credit_amount'' (js_elems (js_prop data ''lines''))
      in js_less (js_abs (js_sub totalDebit totalCredit)) (to_num (1 / 10000)))"

definition lines_one_sided :: "jv \<Rightarrow> bool" where
  "lines_one_sided data = list_all
     (\<lambda>l. js_less (Fin 0) (line_amount ''debit_amount'' l) \<noteq> js_less (Fin 0) (line_amount ''credit_amount'' l))
     (js_elems (js_prop data ''lines''))"

definition manualJournalEntryObject :: zschema where
  "manualJournalEntryObject = ZObject False
     [(''reference'', textField 1 50),
      (''description'', textField 1 500),
      (''lines'', ZArray 2 journalLineSchema),
      (''idempotency_key'', idempotencyKey)]"

definition manualJournalEntrySchema :: zschema where
  "manualJournalEntrySchema =
     ZRefine (ZRefine manualJournalEntryObject debits_equal_credits) lines_one_sided"

section \<open>What an accepted posting carries\<close>

definition posting_schemas :: "zschema list" where
  "posting_schemas = [depositSchema, withdrawSchema, loanRepaymentSchema, loanWriteOffSchema,
     loanRecoverySchema, feeCollectionSchema]"

lemmas posting_defs = depositSchema_def withdrawSchema_def baseTransactionSchema_def loanRepaymentSchema_def
  loanWriteOffSchema_def loanRecoverySchema_def feeCollectionSchema_def

definition posting_ok :: "jv \<Rightarrow> bool" where
  "posting_ok w \<longleftrightarrow> (\<exists>a k. js_prop w ''amount'' = JStr a \<and> is_decimal 4 a \<and> 1 / 100 \<le> dec_val a \<and>
     js_prop w ''idempotency_key'' = JStr k \<and> 8 \<le> length k)"

lemma zref_idempotencyKey:
  "zref fmt idempotencyKey v = Some w \<longleftrightarrow> (\<exists>k. v = JStr k \<and> w = JStr k \<and> 8 \<le> length k)"
  by (auto simp: idempotencyKey_def split: jv.splits if_splits)

lemma posting_object_ok:
  assumes "zref fmt (ZObject strict fs) v = Some w" "distinct (map fst fs)"
    "(''amount'', amountField) \<in> set fs" "(''idempotency_key'', idempotencyKey) \<in> set fs"
  shows "posting_ok w"
  using zref_field [OF assms(1,2,3)] zref_field [OF assms(1,2,4)]
  by (auto simp: posting_ok_def zref_amount zref_idempotencyKey)

lemma field_coerce_free [simp]:
  "coerce_free (percentageString a b)" "coerce_free (intString c)" "coerce_free currencyCode"
  "coerce_free uuid" "coerce_free isoDate" "coerce_free isoDateTime" "coerce_free idempotencyKey"
  by (simp_all add: field_schema_defs Let_def split: option.split)

lemma field_settled [simp]:
  "settled fmt (percentageString a b)" "settled fmt (intString c)" "settled fmt currencyCode"
  "settled fmt uuid" "settled fmt isoDate" "settled fmt isoDateTime" "settled fmt idempotencyKey"
  by (simp_all add: field_schema_defs settled_checks_def Let_def split: option.split)

lemma field_defined [simp]: "always_defined currencyCode"
  by (simp add: currencyCode_def)

lemma posting_shape:
  "s \<in> set posting_schemas \<Longrightarrow> \<exists>fs. s = ZObject False fs \<and> distinct (map fst fs) \<and>
     (''amount'', amountField) \<in> set fs \<and> (''idempotency_key'', idempotencyKey) \<in> set fs"
  by (auto simp: posting_schemas_def posting_defs)

lemma posting_coerce_free: "s \<in> set posting_schemas \<Longrightarrow> coerce_free s"
  by (auto simp: posting_schemas_def posting_defs)


definition demo_deposit :: jv where
  "demo_deposit = JObj [(''amount'', JStr ''2500''), (''payment_account_id'', JStr (replicate 36 CHR ''a'')),
     (''idempotency_key'', JStr ''0190a1b2c3'')]"

lemma demo_amount [simp]: "zref fmt amountField (JStr ''2500'') = Some (JStr ''2500'')"
proof -
  have "is_decimal 4 ''2500''" by (subst decimal_re_iff [symmetric]) (simp, code_simp)
  moreover have "js_trim ''2500'' = ''2500''" by code_simp
  moreover have "dec_val ''2500'' = 2500"
    by (simp add: dec_val_def digits_val_def digit_val_def is_digit_code)
  ultimately show ?thesis by (simp add: zref_amount)
qed

lemma demo_deposit_accepted: "\<exists>w. zref demo_formats depositSchema demo_deposit = Some w"
  by (simp add: posting_defs demo_deposit_def uuid_def idempotencyKey_def demo_formats_def out_field_def)


end
