(* ===== verification/Ledger_Balance.thy ===== *)
theory Ledger_Balance
  imports Schemas_Operations
begin

text \<open>
  The two refinements of the manual journal entry (\<open>packages/schemas/src/ledger.ts\<close>) against the
  exact decimals the lines carry: how far a sum of doubles can be from the sum of the decimals,
  what that leaves of the balance test, and an unbalanced entry the test lets through.
\<close>

section \<open>Sums of doubles\<close>

lemma rnd_err:
  assumes "\<bar>x\<bar> < 2 ^ 33"
  shows "\<bar>rnd x - x\<bar> \<le> 1 / 2097152"
proof (cases "x = 0")
  case False
  have "ulp_exp \<bar>x\<bar> \<le> - 20" using False assms by (intro ulp_exp_le) simp_all
  then have "ulp_exp x \<le> - 20" by (simp add: ulp_exp_def)
  then have "(2::rat) powi ulp_exp x \<le> 2 powi (- 20)" by (simp only: powi_le_iff)
  then show ?thesis using rnd_error [of x] by (simp add: power_int_minus)
qed simp

lemma to_num_small: "\<bar>x\<bar> < 2 ^ 33 \<Longrightarrow> to_num x = Fin (rnd x)"
proof (rule to_num_Fin)
  assume "\<bar>x\<bar> < 2 ^ 33"
  moreover have "(2 :: rat) ^ 33 \<le> 2 ^ 1023" by (rule power_increasing) auto
  ultimately show "\<bar>x\<bar> \<le> 2 ^ 1023" by linarith
qed

lemma add_err:
  assumes "0 \<le> x" "0 \<le> a" "a + x \<le> 2 ^ 32" "\<bar>s - a\<bar> \<le> 1"
  shows "\<exists>t. js_add (Fin s) (to_num x) = Fin t \<and> \<bar>t - (a + x)\<bar> \<le> \<bar>s - a\<bar> + 1 / 1048576"
proof -
  have x: "\<bar>x\<bar> < 2 ^ 33" and rx: "\<bar>rnd x - x\<bar> \<le> 1 / 2097152"
    using assms rnd_err [of x] by auto
  have "\<bar>rnd x - x\<bar> \<le> 1" using rx by (rule order_trans) simp
  then have y: "\<bar>s + rnd x\<bar> < 2 ^ 33" using assms by (simp add: abs_le_iff abs_less_iff)
  have "js_add (Fin s) (to_num x) = Fin (rnd (s + rnd x))"
    using to_num_small [OF x] to_num_small [OF y] by simp
  moreover have "\<bar>rnd (s + rnd x) - (a + x)\<bar> \<le> \<bar>s - a\<bar> + 1 / 1048576"
    using rnd_err [OF y] rx by linarith
  ultimately show ?thesis by blast
qed

lemma fold_err:
  assumes "list_all (\<lambda>x. 0 \<le> x) xs" "0 \<le> a" "a + sum_list xs \<le> 2 ^ 32"
    and "\<bar>s - a\<bar> \<le> of_nat m / 1048576" "m + length xs \<le> 100"
  shows "\<exists>t. foldl (\<lambda>s x. js_add s (to_num x)) (Fin s) xs = Fin t \<and>
    \<bar>t - (a + sum_list xs)\<bar> \<le> of_nat (m + length xs) / 1048576"
  using assms
proof (induction xs arbitrary: s a m)
  case (Cons x xs)
  have nn: "0 \<le> sum_list xs" using Cons.prems(1) by (intro sum_list_nonneg) (auto simp: list_all_iff)
  have "(of_nat m :: rat) \<le> of_nat 100" using Cons.prems(5) by (simp only: of_nat_le_iff)
  then have one: "\<bar>s - a\<bar> \<le> 1" using Cons.prems(4) by simp
  have "0 \<le> x" using Cons.prems(1) by simp
  then obtain t where t: "js_add (Fin s) (to_num x) = Fin t" "\<bar>t - (a + x)\<bar> \<le> \<bar>s - a\<bar> + 1 / 1048576"
    using add_err [of x a s] Cons.prems nn one by auto
  have "\<bar>t - (a + x)\<bar> \<le> of_nat (Suc m) / 1048576"
    using t(2) Cons.prems(4) by (simp add: add_divide_distrib)
  then show ?case
    using Cons.IH [of "a + x" t "Suc m"] Cons.prems t(1) \<open>0 \<le> x\<close> by (simp add: add.assoc)
qed simp

section \<open>The lines of an accepted entry\<close>

definition entry_lines :: "jv \<Rightarrow> jv list" where
  "entry_lines w = js_elems (js_prop w ''lines'')"

definition side_amount :: "string \<Rightarrow> jv \<Rightarrow> rat" where
  "side_amount side l = dec_val (js_str (js_prop l side))"

definition side_total :: "string \<Rightarrow> jv \<Rightarrow> rat" where
  "side_total side w = sum_list (map (side_amount side) (entry_lines w))"

definition priced :: "string \<Rightarrow> jv \<Rightarrow> bool" where
  "priced side l \<longleftrightarrow> (\<exists>s. js_prop l side = JStr s \<and> is_decimal 4 s)"

lemma line_amount_dec: "priced side l \<Longrightarrow> line_amount side l = to_num (side_amount side l)"
  by (auto simp: priced_def line_amount_def side_amount_def parseFloat_decimal)

lemma side_amount_nonneg [simp]: "0 \<le> side_amount side l"
  by (simp add: side_amount_def)

lemma sum_amounts_err:
  assumes "list_all (priced side) ls" "length ls \<le> 50" "sum_list (map (side_amount side) ls) \<le> 2 ^ 32"
  shows "\<exists>t. sum_amounts side ls = Fin t \<and>
    \<bar>t - sum_list (map (side_amount side) ls)\<bar> \<le> of_nat (length ls) / 1048576"
proof -
  have "sum_amounts side ls = foldl (\<lambda>s x. js_add s (to_num x)) (Fin 0) (map (side_amount side) ls)"
    using assms(1) unfolding sum_amounts_def foldl_map
    by (intro foldl_cong) (auto simp: list_all_iff line_amount_dec)
  then show ?thesis
    using fold_err [of "map (side_amount side) ls" 0 0 0] assms by (simp add: list_all_iff)
qed

text \<open>The number the balance test compares is within \<open>201 / 2^21\<close>, about 0.000096, of the exact gap.\<close>

lemma gap_err:
  assumes "list_all (priced ''debit_amount'') ls" "list_all (priced ''credit_amount'') ls" "length ls \<le> 50"
    "sum_list (map (side_amount ''debit_amount'') ls) \<le> 2 ^ 32"
    "sum_list (map (side_amount ''credit_amount'') ls) \<le> 2 ^ 32"
  shows "\<exists>g. js_sub (sum_amounts ''debit_amount'' ls) (sum_amounts ''credit_amount'' ls) = Fin g \<and>
    \<bar>g - (sum_list (map (side_amount ''debit_amount'') ls) - sum_list (map (side_amount ''credit_amount'') ls))\<bar>
      \<le> 201 / 2097152"
proof -
  define D C where "D = sum_list (map (side_amount ''debit_amount'') ls)"
    and "C = sum_list (map (side_amount ''credit_amount'') ls)"
  have nn: "0 \<le> D" "0 \<le> C" by (auto simp: D_def C_def intro!: sum_list_nonneg)
  have n: "of_nat (length ls) / 1048576 \<le> (50 / 1048576 :: rat)"
    using of_nat_mono [OF assms(3), where 'a = rat] by simp
  obtain d where d: "sum_amounts ''debit_amount'' ls = Fin d" "\<bar>d - D\<bar> \<le> of_nat (length ls) / 1048576"
    using sum_amounts_err [OF assms(1,3,4)] unfolding D_def by blast
  obtain c where c: "sum_amounts ''credit_amount'' ls = Fin c" "\<bar>c - C\<bar> \<le> of_nat (length ls) / 1048576"
    using sum_amounts_err [OF assms(2,3,5)] unfolding C_def by blast
  have dc: "\<bar>d - D\<bar> \<le> 50 / 1048576" "\<bar>c - C\<bar> \<le> 50 / 1048576" using d(2) c(2) n by linarith+
  have "D \<le> 4294967296" "C \<le> 4294967296" using assms(4,5) by (simp_all add: D_def C_def)
  then have "\<bar>d - c\<bar> < 8589934592" using dc nn by linarith
  then have small: "\<bar>d - c\<bar> < 2 ^ 33" by simp
  have "js_sub (Fin d) (Fin c) = Fin (rnd (d - c))"
    using to_num_small [OF small] by (simp add: js_sub_def)
  moreover have "\<bar>rnd (d - c) - (D - C)\<bar> \<le> 201 / 2097152"
    using rnd_err [OF small] dc by linarith
  ultimately show ?thesis by (simp add: d(1) c(1) D_def C_def)
qed

lemma balance_test:
  assumes "list_all (priced ''debit_amount'') (entry_lines w)"
    "list_all (priced ''credit_amount'') (entry_lines w)" "length (entry_lines w) \<le> 50"
    "side_total ''debit_amount'' w \<le> 2 ^ 32" "side_total ''credit_amount'' w \<le> 2 ^ 32"
  shows "side_total ''debit_amount'' w = side_total ''credit_amount'' w \<Longrightarrow> debits_equal_credits w"
    and "debits_equal_credits w \<Longrightarrow> \<bar>side_total ''debit_amount'' w - side_total ''credit_amount'' w\<bar> < 2 / 10000"
proof -
  obtain g where g: "js_sub (sum_amounts ''debit_amount'' (entry_lines w))
      (sum_amounts ''credit_amount'' (entry_lines w)) = Fin g"
    and err: "\<bar>g - (side_total ''debit_amount'' w - side_total ''credit_amount'' w)\<bar> \<le> 201 / 2097152"
    using gap_err [of "entry_lines w"] assms by (auto simp: side_total_def)
  have lim: "to_num (1 / 10000) = Fin (rnd (1 / 10000))" "\<bar>rnd (1 / 10000) - 1 / 10000\<bar> \<le> 1 / 2097152"
    using rnd_err [of "1 / 10000"] by (simp_all add: to_num_small)
  have test: "debits_equal_credits w \<longleftrightarrow> \<bar>g\<bar> < rnd (1 / 10000)"
    using g lim(1) by (simp add: debits_equal_credits_def entry_lines_def Let_def)
  show "debits_equal_credits w" if "side_total ''debit_amount'' w = side_total ''credit_amount'' w"
    unfolding test using that err lim(2) by linarith
  show "\<bar>side_total ''debit_amount'' w - side_total ''credit_amount'' w\<bar> < 2 / 10000"
    if "debits_equal_credits w"
    using that [unfolded test] err lim(2) by linarith
qed

lemma zref_line_price:
  "zref fmt (ZDefault priceField (JStr ''0'')) v = Some w \<Longrightarrow> \<exists>s. w = JStr s \<and> is_decimal 4 s"
  by (auto simp: zref_price split: if_splits)

lemma line_priced:
  assumes "zref fmt journalLineSchema v = Some l"
  shows "priced ''debit_amount'' l" "priced ''credit_amount'' l"
proof -
  have d: "distinct (map fst [(''account_id'', uuid), (''debit_amount'', ZDefault priceField (JStr ''0'')),
      (''credit_amount'', ZDefault priceField (JStr ''0'')), (''description'', optionalText 500)])" by simp
  note f = zref_field [OF assms [unfolded journalLineSchema_def] d]
  show "priced ''debit_amount'' l" "priced ''credit_amount'' l"
    unfolding priced_def by (rule zref_line_price, rule f, simp)+
qed

lemma object_lines:
  assumes "zref fmt manualJournalEntryObject v = Some w"
  shows "list_all (\<lambda>l. priced ''debit_amount'' l \<and> priced ''credit_amount'' l) (entry_lines w)"
proof -
  have "zref fmt (ZArray 2 journalLineSchema) (js_prop v ''lines'') = Some (js_prop w ''lines'')"
    using zref_field [OF assms [unfolded manualJournalEntryObject_def], of "''lines''"] by simp
  then obtain vs ws where "js_prop w ''lines'' = JArr ws" "map (zref fmt journalLineSchema) vs = map Some ws"
    by (auto simp: sequence_Some eq_commute [of "JArr _"] split: jv.splits if_splits)
  moreover from this(2) have "\<forall>l \<in> set ws. \<exists>x. zref fmt journalLineSchema x = Some l"
    by (metis (no_types, lifting) image_iff list.set_map)
  ultimately show ?thesis
    by (auto simp: entry_lines_def list_all_iff dest: line_priced)
qed

lemma side_total_units:
  assumes "list_all (priced side) ls"
  shows "\<exists>n::nat. sum_list (map (side_amount side) ls) = of_nat n / 10000"
  using assms
proof (induction ls)
  case (Cons l ls)
  then obtain s where "js_prop l side = JStr s" "is_decimal 4 s" by (auto simp: priced_def)
  then obtain k :: nat where k: "side_amount side l = of_nat k / 10000"
    using dec_val_units [of 4 s] by (auto simp: side_amount_def)
  from Cons obtain n :: nat where "sum_list (map (side_amount side) ls) = of_nat n / 10000" by auto
  with k have "sum_list (map (side_amount side) (l # ls)) = of_nat (k + n) / 10000"
    by (simp add: add_divide_distrib)
  then show ?case by blast
qed (auto intro: exI [of _ 0])

lemma units_close:
  assumes "a = of_nat m / 10000" "b = of_nat n / 10000" "\<bar>a - b\<bar> < 2 / (10000 :: rat)"
  shows "\<bar>a - b\<bar> \<le> 1 / 10000"
proof -
  have e: "a - b = of_int (int m - int n) / 10000" using assms(1,2) by (simp add: diff_divide_distrib)
  have "\<bar>of_int (int m - int n) :: rat\<bar> < of_int 2" using assms(3) unfolding e by simp
  then have "\<bar>int m - int n\<bar> \<le> 1" unfolding of_int_abs [symmetric] of_int_less_iff by simp
  then have "(of_int \<bar>int m - int n\<bar> :: rat) \<le> of_int 1" by (simp only: of_int_le_iff)
  then show ?thesis by (simp add: e)
qed

lemma pos_amount:
  assumes "priced side l"
  shows "js_less (Fin 0) (line_amount side l) \<longleftrightarrow> 0 < side_amount side l"
proof -
  from assms obtain s where s: "js_prop l side = JStr s" "is_decimal 4 s" by (auto simp: priced_def)
  then obtain n :: nat where n: "side_amount side l = of_nat n / 10 ^ 4"
    using dec_val_units [OF s(2)] by (auto simp: side_amount_def simp del: power_numeral)
  have "\<bar>1 / 10000 :: rat\<bar> < 2 ^ 33" by simp
  then have p: "0 < rnd (1 / 10000)" using rnd_err [of "1 / 10000"] by linarith
  have "0 < rnd (side_amount side l) \<longleftrightarrow> 0 < side_amount side l"
  proof (cases "n = 0")
    case False
    then have "1 / 10000 \<le> side_amount side l" by (simp add: n)
    then show ?thesis using rnd_mono p by (meson order_less_le_trans less_le_trans zero_less_divide_1_iff zero_less_numeral)
  qed (simp add: n)
  then show ?thesis
    using to_num_cases [of "side_amount side l"]
    by (auto simp: line_amount_dec [OF assms] order_less_le_trans [of 0 "2 ^ 1024"])
qed

section \<open>Properties\<close>

lemma journal_coerce_free [simp]: "coerce_free manualJournalEntryObject"
  by (simp add: manualJournalEntryObject_def journalLineSchema_def)

lemma zref_journal:
  "zref fmt manualJournalEntrySchema v = Some w \<longleftrightarrow>
     zref fmt manualJournalEntryObject v = Some w \<and> debits_equal_credits w \<and> lines_one_sided w"
  by (auto simp: manualJournalEntrySchema_def split: option.splits if_splits)

lemma lines_one_sided_exact:
  assumes "zref fmt manualJournalEntryObject v = Some w"
  shows "lines_one_sided w \<longleftrightarrow>
    (\<forall>l \<in> set (entry_lines w). (0 < side_amount ''debit_amount'' l) \<noteq> (0 < side_amount ''credit_amount'' l))"
  using object_lines [OF assms]
  by (auto simp: lines_one_sided_def entry_lines_def list_all_iff pos_amount)

definition modest :: "jv \<Rightarrow> bool" where
  "modest w \<longleftrightarrow> length (entry_lines w) \<le> 50 \<and>
     side_total ''debit_amount'' w \<le> 2 ^ 32 \<and> side_total ''credit_amount'' w \<le> 2 ^ 32"

lemma journal_balance:
  assumes "zref fmt manualJournalEntryObject v = Some w" "modest w"
  shows "side_total ''debit_amount'' w = side_total ''credit_amount'' w \<Longrightarrow> debits_equal_credits w"
    and "debits_equal_credits w \<Longrightarrow> \<bar>side_total ''debit_amount'' w - side_total ''credit_amount'' w\<bar> \<le> 1 / 10000"
proof -
  have l: "list_all (priced ''debit_amount'') (entry_lines w)" "list_all (priced ''credit_amount'') (entry_lines w)"
    using object_lines [OF assms(1)] by (auto simp: list_all_iff)
  have m: "length (entry_lines w) \<le> 50" "side_total ''debit_amount'' w \<le> 2 ^ 32"
    "side_total ''credit_amount'' w \<le> 2 ^ 32" using assms(2) by (simp_all add: modest_def)
  note t = balance_test [OF l m]
  show "side_total ''debit_amount'' w = side_total ''credit_amount'' w \<Longrightarrow> debits_equal_credits w"
    by (rule t(1))
  obtain i j :: nat where "side_total ''debit_amount'' w = of_nat i / 10000"
    "side_total ''credit_amount'' w = of_nat j / 10000"
    using side_total_units [OF l(1)] side_total_units [OF l(2)] by (auto simp: side_total_def)
  then show "debits_equal_credits w \<Longrightarrow> \<bar>side_total ''debit_amount'' w - side_total ''credit_amount'' w\<bar> \<le> 1 / 10000"
    using units_close t(2) by blast
qed

text \<open>
  C2. A manual journal entry that passes validation, of at most 50 lines and with totals of at
  most \<open>2^32\<close>, has debit and credit totals that differ by at most one unit of the fourth decimal
  place, and each of its lines is a debit or a credit and not both, in exact decimals.
\<close>

theorem manual_journal_sound:
  assumes "zod fmt parse" "parse manualJournalEntrySchema v = Some w" "modest w"
  shows "\<bar>side_total ''debit_amount'' w - side_total ''credit_amount'' w\<bar> \<le> 1 / 10000 \<and>
    (\<forall>l \<in> set (entry_lines w). (0 < side_amount ''debit_amount'' l) \<noteq> (0 < side_amount ''credit_amount'' l))"
proof -
  have "coerce_free manualJournalEntrySchema" by (simp add: manualJournalEntrySchema_def)
  then have "zref fmt manualJournalEntrySchema v = Some w" using assms zod.parse_zref by metis
  then have o: "zref fmt manualJournalEntryObject v = Some w"
    and b: "debits_equal_credits w" and l: "lines_one_sided w" by (simp_all add: zref_journal)
  show ?thesis using journal_balance(2) [OF o assms(3) b] l lines_one_sided_exact [OF o] by blast
qed

text \<open>
  C3. The validation never turns away a balanced entry of that size: well-formed fields, one side
  per line and equal totals in exact decimals are enough, whatever rounding the sums of doubles
  went through.
\<close>

theorem manual_journal_complete:
  assumes "zod fmt parse" "parse manualJournalEntryObject v = Some w" "modest w"
    and "side_total ''debit_amount'' w = side_total ''credit_amount'' w"
    and "\<forall>l \<in> set (entry_lines w). (0 < side_amount ''debit_amount'' l) \<noteq> (0 < side_amount ''credit_amount'' l)"
  shows "parse manualJournalEntrySchema v = Some w"
proof -
  have c: "coerce_free manualJournalEntrySchema" by (simp add: manualJournalEntrySchema_def)
  have o: "zref fmt manualJournalEntryObject v = Some w"
    using assms(2) zod.parse_zref [OF assms(1), of manualJournalEntryObject] by simp
  have "debits_equal_credits w" using journal_balance(1) [OF o assms(3)] assms(4) by blast
  moreover have "lines_one_sided w" using lines_one_sided_exact [OF o] assms(5) by blast
  ultimately show ?thesis using o zod.parse_zref [OF assms(1) c] by (simp add: zref_journal)
qed

definition demo_line :: "string \<Rightarrow> string \<Rightarrow> jv" where
  "demo_line dr cr = JObj [(''account_id'', JStr (replicate 36 CHR ''a'')),
     (''debit_amount'', JStr dr), (''credit_amount'', JStr cr)]"

definition demo_entry :: "string \<Rightarrow> string \<Rightarrow> jv" where
  "demo_entry dr cr = JObj [(''reference'', JStr ''JV-1''), (''description'', JStr ''Transfer''),
     (''lines'', JArr [demo_line dr ''0'', demo_line ''0'' cr]), (''idempotency_key'', JStr ''0190a1b2c3'')]"

lemma demo_texts [simp]:
  "js_trim ''JV-1'' = ''JV-1''" "js_trim ''Transfer'' = ''Transfer''" "js_trim ''0'' = ''0''"
  "js_trim ''0.3'' = ''0.3''" "js_trim ''0.3001'' = ''0.3001''"
  by code_simp+

lemma demo_decimals [simp]: "is_decimal 4 ''0.3''" "is_decimal 4 ''0.3001''"
  "dec_val ''0.3'' = 3 / 10" "dec_val ''0.3001'' = 3001 / 10000"
proof -
  show "is_decimal 4 ''0.3''" by (subst decimal_re_iff [symmetric]) (simp, code_simp)
  show "is_decimal 4 ''0.3001''" by (subst decimal_re_iff [symmetric]) (simp, code_simp)
qed (simp_all add: dec_val_def digits_val_def digit_val_def is_digit_code)

lemma demo_price: "is_decimal 4 s \<Longrightarrow> js_trim s = s \<Longrightarrow> zref fmt priceField (JStr s) = Some (JStr s)"
  by (simp add: zref_price)

lemma demo_entry_object:
  assumes "is_decimal 4 dr" "js_trim dr = dr" "is_decimal 4 cr" "js_trim cr = cr"
    "uuid_ok fmt (replicate 36 CHR ''a'')"
  shows "zref fmt manualJournalEntryObject (demo_entry dr cr) = Some (demo_entry dr cr)"
proof -
  have "zref fmt journalLineSchema (demo_line d c) = Some (demo_line d c)"
    if "is_decimal 4 d" "js_trim d = d" "is_decimal 4 c" "js_trim c = c" for d c
    using assms(5) demo_price [OF that(1,2)] demo_price [OF that(3,4)]
    by (simp add: journalLineSchema_def demo_line_def uuid_def out_field_def)
  then show ?thesis
    using assms
    by (simp add: manualJournalEntryObject_def demo_entry_def idempotencyKey_def out_field_def)
qed

lemma demo_entry_lines:
  "entry_lines (demo_entry dr cr) = [demo_line dr ''0'', demo_line ''0'' cr]"
  by (simp add: entry_lines_def demo_entry_def)

lemma demo_side [simp]:
  "side_amount ''debit_amount'' (demo_line dr cr) = dec_val dr"
  "side_amount ''credit_amount'' (demo_line dr cr) = dec_val cr"
  by (simp_all add: side_amount_def demo_line_def)

lemma demo_modest: "dec_val dr \<le> 1 \<Longrightarrow> dec_val cr \<le> 1 \<Longrightarrow> modest (demo_entry dr cr)"
  by (simp add: modest_def side_total_def demo_entry_lines)

theorem manual_journal_complete_witness:
  "zref demo_formats manualJournalEntrySchema (demo_entry ''0.3'' ''0.3'') = Some (demo_entry ''0.3'' ''0.3'')"
  by (rule manual_journal_complete [OF zref.zod_axioms])
    (simp_all add: demo_entry_object demo_modest demo_formats_def side_total_def demo_entry_lines)

lemma demo_doubles:
  "rnd (3 / 10) = 5404319552844595 / 2 ^ 54" "rnd (3001 / 10000) = 5406120992695543 / 2 ^ 54"
  "rnd (1 / 10000) = 7378697629483821 / 2 ^ 66"
  "rnd (5404319552844595 / 18014398509481984) = 5404319552844595 / 18014398509481984"
  "rnd (5406120992695543 / 18014398509481984) = 5406120992695543 / 18014398509481984"
  "rnd (450359962737 / 4503599627370496) = 450359962737 / 4503599627370496"
  using rnd_eqI [of "- 54" "3 / 10" 5404319552844595] rnd_eqI [of "- 54" "3001 / 10000" 5406120992695543]
    rnd_eqI [of "- 66" "1 / 10000" 7378697629483821] rnd_exact [of 5404319552844595 "- 54"]
    rnd_exact [of 5406120992695543 "- 54"] rnd_exact [of 450359962737 "- 52"]
  by (simp_all add: power_int_minus)

lemma demo_unbalanced:
  "debits_equal_credits (demo_entry ''0.3001'' ''0.3'')" "lines_one_sided (demo_entry ''0.3001'' ''0.3'')"
proof -
  have pf: "parseFloat s = to_num (dec_val s)" if "is_decimal 4 s" for s
    using that by (rule parseFloat_decimal)
  show "debits_equal_credits (demo_entry ''0.3001'' ''0.3'')"
    by (simp add: debits_equal_credits_def demo_entry_def demo_line_def sum_amounts_def line_amount_def
        pf to_num_small demo_doubles js_sub_def)
  show "lines_one_sided (demo_entry ''0.3001'' ''0.3'')"
    by (simp add: lines_one_sided_def demo_entry_def demo_line_def line_amount_def pf to_num_small demo_doubles)
qed

theorem manual_journal_sound_witness:
  "\<bar>side_total ''debit_amount'' (demo_entry ''0.3001'' ''0.3'')
      - side_total ''credit_amount'' (demo_entry ''0.3001'' ''0.3'')\<bar> \<le> 1 / 10000"
proof -
  have "zref demo_formats manualJournalEntrySchema (demo_entry ''0.3001'' ''0.3'')
      = Some (demo_entry ''0.3001'' ''0.3'')"
    by (simp add: zref_journal demo_entry_object demo_unbalanced demo_formats_def)
  then show ?thesis
    using manual_journal_sound [OF zref.zod_axioms] demo_modest [of "''0.3001''" "''0.3''"] by simp
qed



end
