(* ===== verification/Schemas_Admin.thy ===== *)
theory Schemas_Admin
  imports Schemas_Operations
begin

text \<open>
  The remaining request schemas of \<open>packages/schemas/src\<close>: authentication, members, billing,
  tenants, platform users, tenant users, notifications, approvals and the two KYC forms. The
  list \<open>portal_schemas\<close> collects every schema the portal validates a request body or a form with;
  the theory closes with the property they share.
\<close>

section \<open>Authentication\<close>

definition passwordMinLength :: nat where
  "passwordMinLength = 12"

definition loginSchema :: zschema where
  "loginSchema = ZObject False [(''email'', emailField), (''password'', ZString [MinLen 1])]"

definition refreshSchema :: zschema where
  "refreshSchema = ZObject False [(''refresh_token'', ZString [MinLen 10])]"

definition passwordResetRequestSchema :: zschema where
  "passwordResetRequestSchema = ZObject False [(''email'', emailField)]"

definition passwords_match :: "jv \<Rightarrow> bool" where
  "passwords_match data = (js_prop data ''new_password'' = js_prop data ''confirm_password'')"

definition passwordResetConfirmSchema :: zschema where
  "passwordResetConfirmSchema = ZRefine
     (ZObject False
       [(''token'', ZString [MinLen 10]),
        (''new_password'', ZString [MinLen passwordMinLength]),
        (''confirm_password'', ZString [])])
     passwords_match"

section \<open>Members\<close>

definition memberGenderSchema :: zschema where
  "memberGenderSchema = ZEnum [''M'', ''F'', ''X'']"

definition idDocumentTypeSchema :: zschema where
  "idDocumentTypeSchema = ZEnum [''national_id'', ''passport'', ''driving_license'', ''voters_card'']"

definition phone_re :: rexp where
  "phone_re = Seq (Opt (Chr CHR ''+'')) (Between 7 20 (Cls (\<lambda>c. is_digit c \<or> js_ws c \<or> c = CHR ''-'')))"

definition memberRegistrationSchema :: zschema where
  "memberRegistrationSchema = ZObject False
     [(''full_name'', textField 1 200),
      (''date_of_birth'', isoDate),
      (''gender'', memberGenderSchema),
      (''phone'', optOrBlank (ZString [Trim, Pattern phone_re])),
      (''email'', optOrBlank emailField),
      (''physical_address'', optionalText 500),
      (''national_id_number'', optionalText 50),
      (''id_document_type'', ZOptional idDocumentTypeSchema),
      (''id_document_number'', optionalText 50),
      (''id_issued_date'', ZOptional isoDate),
      (''id_expiry_date'', ZOptional isoDate)]"

definition memberStatusSchema :: zschema where
  "memberStatusSchema = ZEnum [''prospect'', ''active'', ''dormant'', ''suspended'', ''exited'', ''deceased'']"

definition memberStatusChangeSchema :: zschema where
  "memberStatusChangeSchema = ZObject False
     [(''new_status'', memberStatusSchema),
      (''reason'', textField 10 500),
      (''idempotency_key'', ZString [MinLen 8])]"

definition memberIdSchema :: zschema where
  "memberIdSchema = uuid"

definition optionalStatementDate :: zschema where
  "optionalStatementDate = ZOr (ZString [Pattern iso_date_re]) (ZLiteral (JStr ''''))"

text \<open>The relational operator \<open><=\<close> on strings compares code units.\<close>

fun js_string_le :: "string \<Rightarrow> string \<Rightarrow> bool" where
  "js_string_le [] t = True"
| "js_string_le (a # s) [] = False"
| "js_string_le (a # s) (b # t) =
     ((of_char a :: nat) < of_char b \<or> a = b \<and> js_string_le s t)"

definition range_in_order :: "jv \<Rightarrow> bool" where
  "range_in_order v = (js_str (js_prop v ''from_date'') = [] \<or> js_str (js_prop v ''to_date'') = [] \<or>
     js_string_le (js_str (js_prop v ''from_date'')) (js_str (js_prop v ''to_date'')))"

definition memberStatementRangeSchema :: zschema where
  "memberStatementRangeSchema = ZRefine
     (ZObject False [(''from_date'', optionalStatementDate), (''to_date'', optionalStatementDate)])
     range_in_order"

section \<open>Billing\<close>

definition paymentMethodSchema :: zschema where
  "paymentMethodSchema = ZEnum [''bank_transfer'', ''mobile_money'', ''cash'', ''cheque'']"

definition recordPaymentSchema :: zschema where
  "recordPaymentSchema = ZObject False
     [(''amount'', amountField),
      (''currency'', ZDefault currencyCode (JStr ''UGX'')),
      (''payment_method'', paymentMethodSchema),
      (''external_reference'', optionalText 200),
      (''notes'', optionalText 1000),
      (''idempotency_key'', idempotencyKey)]"

definition billingPeriodSchema :: zschema where
  "billingPeriodSchema = ZEnum [''monthly'', ''quarterly'', ''annual'']"

definition plan_code_re :: rexp where
  "plan_code_re = Plus (Cls (\<lambda>c. is_lower c \<or> is_digit c \<or> c = CHR ''_'' \<or> c = CHR ''-''))"

abbreviation limitField :: zschema where
  "limitField \<equiv> ZOptional (ZNumber [NInt, NMin 0])"

abbreviation daysField :: zschema where
  "daysField \<equiv> ZNumber [NInt, NMin 0, NMax 365]"

definition subscriptionPlanSchema :: zschema where
  "subscriptionPlanSchema = ZObject False
     [(''code'', ZString [Trim, MinLen 1, MaxLen 40, Pattern plan_code_re]),
      (''name'', textField 1 200),
      (''description'', optionalText 1000),
      (''currency'', ZDefault currencyCode (JStr ''UGX'')),
      (''base_price'', priceField),
      (''per_user_price'', ZDefault priceField (JStr ''0'')),
      (''per_member_price'', ZDefault priceField (JStr ''0'')),
      (''billing_period'', billingPeriodSchema),
      (''member_limit'', limitField),
      (''user_limit'', limitField),
      (''features'', ZDefault (ZRecord ZUnknown) (JObj [])),
      (''trial_period_days'', ZDefault daysField (JNum (Fin 0))),
      (''grace_period_days'', ZDefault daysField (JNum (Fin 30)))]"

definition subscriptionPlanPatchSchema :: zschema where
  "subscriptionPlanPatchSchema = ZObject True
     [(''name'', ZOptional (textField 1 200)),
      (''description'', optionalText 1000),
      (''base_price'', ZOptional priceField),
      (''per_user_price'', ZOptional priceField),
      (''per_member_price'', ZOptional priceField),
      (''member_limit'', limitField),
      (''user_limit'', limitField),
      (''features'', ZOptional (ZRecord ZUnknown)),
      (''trial_period_days'', ZOptional daysField),
      (''grace_period_days'', ZOptional daysField),
      (''is_active'', ZOptional ZBoolean)]"

definition subscriptionCreateSchema :: zschema where
  "subscriptionCreateSchema = ZObject False
     [(''tenant_id'', uuid), (''plan_id'', uuid), (''start_date'', ZOptional isoDate)]"

definition subscriptionCancelSchema :: zschema where
  "subscriptionCancelSchema = ZObject False [(''reason'', reasonField)]"

definition invoiceVoidSchema :: zschema where
  "invoiceVoidSchema = ZObject False [(''reason'', reasonField)]"

definition paymentRejectSchema :: zschema where
  "paymentRejectSchema = ZObject False [(''reason'', reasonField)]"

definition assignPlanSchema :: zschema where
  "assignPlanSchema = ZObject False [(''plan_id'', ZString [Uuid]), (''start_date'', ZOptional isoDate)]"

definition PAYMENT_METHOD_OPTIONS :: "(string \<times> string) list" where
  "PAYMENT_METHOD_OPTIONS = [(''bank_transfer'', ''Bank transfer''), (''mobile_money'', ''Mobile money''),
     (''cash'', ''Cash''), (''cheque'', ''Cheque'')]"

section \<open>Tenants\<close>

definition TENANT_SLUG_RE :: rexp where
  "TENANT_SLUG_RE = Between 1 40 (Cls (\<lambda>c. is_lower c \<or> is_digit c \<or> c = CHR ''-''))"

definition createTenantSchema :: zschema where
  "createTenantSchema = ZObject False
     [(''slug'', ZString [Pattern TENANT_SLUG_RE]),
      (''name'', textField 1 200),
      (''admin_email'', ZOr emailField (ZLiteral (JStr '''')))]"

definition tenantCancelSchema :: zschema where
  "tenantCancelSchema = ZObject False [(''reason'', reasonField)]"

definition extendRetentionSchema :: zschema where
  "extendRetentionSchema = ZObject False [(''hold_until'', ZString [MinLen 1])]"

definition tenantPatchSchema :: zschema where
  "tenantPatchSchema = ZObject False [(''name'', textField 1 200)]"

definition tenantSuspendSchema :: zschema where
  "tenantSuspendSchema = ZObject False [(''reason'', reasonField)]"

definition impersonationRequestSchema :: zschema where
  "impersonationRequestSchema = ZObject False [(''reason'', reasonField)]"

section \<open>Platform and tenant users\<close>

definition platformRoleSchema :: zschema where
  "platformRoleSchema = ZEnum [''superuser'', ''admin'', ''finance'', ''support'']"

definition PLATFORM_ROLE_LABELS :: "(string \<times> string) list" where
  "PLATFORM_ROLE_LABELS = [(''superuser'', ''Superuser''), (''admin'', ''Admin''), (''finance'', ''Finance''),
     (''support'', ''Support'')]"

definition PLATFORM_ROLE_OPTIONS :: "(string \<times> string) list" where
  "PLATFORM_ROLE_OPTIONS = map (\<lambda>r. (r, nullish (map_of PLATFORM_ROLE_LABELS r) ''''))
     [''support'', ''finance'', ''admin'', ''superuser'']"

definition createPlatformUserSchema :: zschema where
  "createPlatformUserSchema = ZObject False
     [(''email'', emailField), (''full_name'', textField 1 200),
      (''role'', ZDefault platformRoleSchema (JStr ''support''))]"

definition updatePlatformUserSchema :: zschema where
  "updatePlatformUserSchema = ZObject False
     [(''full_name'', textField 1 200), (''is_active'', ZBoolean), (''role'', platformRoleSchema)]"

definition tenantUserCreateSchema :: zschema where
  "tenantUserCreateSchema = ZObject False
     [(''email'', emailField), (''full_name'', textField 1 200),
      (''is_admin'', ZDefault ZBoolean (JBool False))]"

definition tenantUserPatchSchema :: zschema where
  "tenantUserPatchSchema = ZObject False
     [(''full_name'', ZOptional (textField 1 200)), (''is_active'', ZOptional ZBoolean),
      (''is_admin'', ZOptional ZBoolean)]"

definition tenantUserRoleLabel :: "bool \<Rightarrow> string" where
  "tenantUserRoleLabel isAdmin = (if isAdmin then ''Admin'' else ''Member'')"

section \<open>Notifications and approvals\<close>

definition notificationTemplatePatchSchema :: zschema where
  "notificationTemplatePatchSchema = ZObject False
     [(''subject_template'', ZOptional (ZString [])),
      (''body_text'', ZOptional (ZString [])),
      (''body_html'', ZOptional (ZString [])),
      (''sms_body'', ZOptional (ZString [])),
      (''is_active'', ZOptional ZBoolean)]"

definition approveActionSchema :: zschema where
  "approveActionSchema = ZObject False [(''comment'', ZOptional (ZString []))]"

definition rejectActionSchema :: zschema where
  "rejectActionSchema = ZObject False [(''reason'', ZString [MinLen 10])]"

section \<open>KYC forms\<close>

abbreviation trimmedField :: zschema where
  "trimmedField \<equiv> ZString [Trim]"

abbreviation emailOrBlank :: zschema where
  "emailOrBlank \<equiv> ZOr emailField (ZLiteral (JStr ''''))"

abbreviation dateOrBlank :: zschema where
  "dateOrBlank \<equiv> ZOr (ZString [Pattern iso_date_re]) (ZLiteral (JStr ''''))"

definition organizationKycFormSchema :: zschema where
  "organizationKycFormSchema = ZObject False
     [(''legal_name'', trimmedField),
      (''registration_number'', trimmedField),
      (''registered_address'', trimmedField),
      (''primary_contact_name'', trimmedField),
      (''primary_contact_email'', emailOrBlank),
      (''registration_date'', dateOrBlank),
      (''regulator_name'', trimmedField),
      (''license_number'', trimmedField),
      (''tax_id'', trimmedField),
      (''primary_contact_phone'', trimmedField),
      (''postal_address'', trimmedField),
      (''district_region'', trimmedField),
      (''country'', trimmedField)]"

definition ID_DOCUMENT_TYPES :: "string list" where
  "ID_DOCUMENT_TYPES = [''national_id'', ''passport'', ''driving_license'']"

definition memberKycFormSchema :: zschema where
  "memberKycFormSchema = ZObject False
     [(''phone'', trimmedField),
      (''email'', emailOrBlank),
      (''physical_address'', trimmedField),
      (''national_id_number'', trimmedField),
      (''id_document_type'', ZOr (ZEnum ID_DOCUMENT_TYPES) (ZLiteral (JStr ''''))),
      (''id_document_number'', trimmedField),
      (''id_issued_date'', dateOrBlank),
      (''id_expiry_date'', dateOrBlank),
      (''next_of_kin_name'', trimmedField),
      (''next_of_kin_phone'', trimmedField),
      (''occupation'', trimmedField)]"

section \<open>What the schemas share\<close>

definition operation_schemas :: "zschema list" where
  "operation_schemas =
     [disbursementDestinationSchema, loanApplicationSchema, guarantorNominateSchema,
      loanApplicationRejectSchema, memberLoanApplySchema, loanRepaymentSchema, disburseSchema,
      restructuringTypeSchema, loanRestructureSchema, payrollRowSchema, payrollBatchSchema,
      loanWriteOffSchema, loanRecoverySchema, loanProductSchema, loanProductPatchSchema,
      openAccountSchema, baseTransactionSchema, depositSchema, withdrawSchema, savingsProductSchema,
      openShareAccountSchema, purchaseSharesSchema, redeemSharesSchema, shareProductSchema,
      feeApplicableToSchema, feeAmountKindSchema, feeTriggerKindSchema, feeTypeSchema,
      feeTypePatchSchema, feeAssessmentSchema, feeCollectionSchema, accountTypeSchema, accountSchema,
      journalLineSchema, manualJournalEntrySchema]"

definition admin_schemas :: "zschema list" where
  "admin_schemas =
     [loginSchema, refreshSchema, passwordResetRequestSchema, passwordResetConfirmSchema,
      memberGenderSchema, idDocumentTypeSchema, memberRegistrationSchema, memberStatusSchema,
      memberStatusChangeSchema, memberIdSchema, memberStatementRangeSchema, paymentMethodSchema,
      recordPaymentSchema, billingPeriodSchema, subscriptionPlanSchema, subscriptionPlanPatchSchema,
      subscriptionCreateSchema, subscriptionCancelSchema, invoiceVoidSchema, paymentRejectSchema,
      assignPlanSchema, createTenantSchema, tenantCancelSchema, extendRetentionSchema,
      tenantPatchSchema, tenantSuspendSchema, impersonationRequestSchema, platformRoleSchema,
      createPlatformUserSchema, updatePlatformUserSchema, tenantUserCreateSchema, tenantUserPatchSchema,
      notificationTemplatePatchSchema, approveActionSchema, rejectActionSchema,
      organizationKycFormSchema, memberKycFormSchema]"

definition portal_schemas :: "zschema list" where
  "portal_schemas = operation_schemas @ admin_schemas"

lemmas operation_schema_defs =
  disbursementDestinationSchema_def loanApplicationSchema_def guarantorNominateSchema_def
  loanApplicationRejectSchema_def memberLoanApplySchema_def loanRepaymentSchema_def
  disburseSchema_def restructuringTypeSchema_def loanRestructureSchema_def payrollRowSchema_def
  payrollBatchSchema_def loanWriteOffSchema_def loanRecoverySchema_def loanProductSchema_def
  loanProductPatchSchema_def openAccountSchema_def baseTransactionSchema_def depositSchema_def
  withdrawSchema_def savingsProductSchema_def openShareAccountSchema_def purchaseSharesSchema_def
  redeemSharesSchema_def shareProductSchema_def feeApplicableToSchema_def feeAmountKindSchema_def
  feeTriggerKindSchema_def feeTypeSchema_def feeTypePatchSchema_def feeAssessmentSchema_def
  feeCollectionSchema_def accountTypeSchema_def accountSchema_def journalLineSchema_def
  manualJournalEntrySchema_def manualJournalEntryObject_def baseTransactionSchema_def

lemmas admin_schema_defs =
  loginSchema_def refreshSchema_def passwordResetRequestSchema_def passwordResetConfirmSchema_def
  memberGenderSchema_def idDocumentTypeSchema_def memberRegistrationSchema_def
  memberStatusSchema_def memberStatusChangeSchema_def memberIdSchema_def
  memberStatementRangeSchema_def paymentMethodSchema_def recordPaymentSchema_def
  billingPeriodSchema_def subscriptionPlanSchema_def subscriptionPlanPatchSchema_def
  subscriptionCreateSchema_def subscriptionCancelSchema_def invoiceVoidSchema_def
  paymentRejectSchema_def assignPlanSchema_def createTenantSchema_def tenantCancelSchema_def
  extendRetentionSchema_def tenantPatchSchema_def tenantSuspendSchema_def
  impersonationRequestSchema_def platformRoleSchema_def createPlatformUserSchema_def
  updatePlatformUserSchema_def tenantUserCreateSchema_def tenantUserPatchSchema_def
  notificationTemplatePatchSchema_def approveActionSchema_def rejectActionSchema_def
  organizationKycFormSchema_def memberKycFormSchema_def

lemma operation_schemas_settled: "list_all (\<lambda>s. coerce_free s \<and> settled fmt s) operation_schemas"
  by (simp add: operation_schemas_def operation_schema_defs settled_checks_def)

lemma admin_schemas_settled: "list_all (\<lambda>s. coerce_free s \<and> settled fmt s) admin_schemas"
  by (simp add: admin_schemas_def admin_schema_defs optionalStatementDate_def settled_checks_def)

text \<open>
  C25. What any of the portal's schemas hands on is itself a valid value that the same schema
  leaves unchanged: validating twice, in the form and again at the route, is validating once, and
  no normalisation (trimming, lower-casing, defaults) leads out of the accepted values.
\<close>

theorem portal_schemas_fixed:
  assumes "zod fmt parse" "s \<in> set portal_schemas" "parse s v = Some w"
  shows "parse s w = Some w"
  using zod.parse_settled [OF assms(1) _ _ assms(3)] assms(2)
    operation_schemas_settled [of fmt] admin_schemas_settled [of fmt]
  by (auto simp: portal_schemas_def list_all_iff)

theorem portal_schemas_fixed_witness:
  "\<exists>w. zref demo_formats depositSchema demo_deposit = Some w \<and> zref demo_formats depositSchema w = Some w"
proof -
  have "depositSchema \<in> set portal_schemas" by (simp add: portal_schemas_def operation_schemas_def)
  then show ?thesis using portal_schemas_fixed [OF zref.zod_axioms] demo_deposit_accepted by blast
qed

section \<open>Password reset\<close>

text \<open>
  A password reset is submitted exactly when the token has at least ten characters, the new
  password at least twelve, and the confirmation repeats the new password; passwords are passed on
  untouched (no trimming).
\<close>

theorem password_reset_exact:
  assumes "zod fmt parse"
  shows "parse passwordResetConfirmSchema v = Some w \<longleftrightarrow>
    (\<exists>t p. js_prop v ''token'' = JStr t \<and> js_prop v ''new_password'' = JStr p \<and>
       js_prop v ''confirm_password'' = JStr p \<and> 10 \<le> length t \<and> 12 \<le> length p \<and>
       w = JObj [(''token'', JStr t), (''new_password'', JStr p), (''confirm_password'', JStr p)])"
    (is "_ \<longleftrightarrow> ?R")
proof -
  have c: "coerce_free passwordResetConfirmSchema" by (simp add: passwordResetConfirmSchema_def)
  have "zref fmt passwordResetConfirmSchema v = Some w \<longleftrightarrow> ?R"
  proof (cases v)
    case (JObj kvs)
    show ?thesis unfolding JObj
      by (cases "js_prop (JObj kvs) ''token''"; cases "js_prop (JObj kvs) ''new_password''";
          cases "js_prop (JObj kvs) ''confirm_password''")
        (auto simp: passwordResetConfirmSchema_def passwordMinLength_def passwords_match_def out_field_def
          js_prop_Cons simp del: js_prop.simps(1) split: if_splits)
  qed (simp_all add: passwordResetConfirmSchema_def)
  then show ?thesis by (simp add: zod.parse_zref [OF assms c])
qed

theorem password_reset_exact_witness:
  "zref demo_formats passwordResetConfirmSchema
     (JObj [(''token'', JStr ''0123456789''), (''new_password'', JStr ''correct horse''),
            (''confirm_password'', JStr ''correct house'')]) = None"
  using password_reset_exact [OF zref.zod_axioms, of demo_formats
     "JObj [(''token'', JStr ''0123456789''), (''new_password'', JStr ''correct horse''),
            (''confirm_password'', JStr ''correct house'')]"]
  by (cases "zref demo_formats passwordResetConfirmSchema
     (JObj [(''token'', JStr ''0123456789''), (''new_password'', JStr ''correct horse''),
            (''confirm_password'', JStr ''correct house'')])") auto

end
