(* ===== verification/Form_Logic.thy ===== *)
theory Form_Logic
  imports Schemas_Admin
begin

text \<open>
  The functions of \<open>packages/schemas/src\<close> that compute with form values: the date order of
  a member statement, slug suggestions, the KYC form defaults and payloads, operation labels, the
  notification catalogue, rate-limit overrides and the staleness test of the backup widget.
\<close>

section \<open>Statement ranges\<close>

definition date_number :: "string \<Rightarrow> nat" where
  "date_number s = digits_val (filter is_digit s)"

lemma digits_val_acc: "foldl (\<lambda>n c. 10 * n + digit_val c) a s = a * 10 ^ length s + digits_val s"
proof (induction s arbitrary: a)
  case (Cons c s)
  show ?case unfolding digits_val_def
    using Cons.IH [of "10 * a + digit_val c"] Cons.IH [of "digit_val c"]
    by (simp add: algebra_simps)
qed (simp add: digits_val_def)

lemma digits_val_Cons: "digits_val (c # s) = digit_val c * 10 ^ length s + digits_val s"
  using digits_val_acc [of "digit_val c" s] by (simp add: digits_val_def)

lemma digit_val_less: "is_digit c \<Longrightarrow> digit_val c < 10"
  by (auto simp: is_digit_code digit_val_def)

lemma digits_val_less: "list_all is_digit s \<Longrightarrow> digits_val s < 10 ^ length s"
proof (induction s)
  case (Cons c s)
  then have "digits_val s < 10 ^ length s" and c: "Suc (digit_val c) \<le> 10"
    using digit_val_less [of c] by simp_all
  then have "digits_val (c # s) < Suc (digit_val c) * 10 ^ length s" by (simp add: digits_val_Cons)
  also have "\<dots> \<le> 10 * 10 ^ length s" using c by (rule mult_le_mono1)
  finally show ?case by simp
qed (simp add: digits_val_def)

lemma digit_val_mono:
  assumes "is_digit a" "is_digit b"
  shows "(of_char a :: nat) < of_char b \<longleftrightarrow> digit_val a < digit_val b" "a = b \<longleftrightarrow> digit_val a = digit_val b"
proof -
  show "(of_char a :: nat) < of_char b \<longleftrightarrow> digit_val a < digit_val b"
    using assms by (auto simp: is_digit_code digit_val_def)
  have "(of_char a :: nat) = of_char b" if "digit_val a = digit_val b"
    using assms that eq_diff_iff [of 48 "of_char a" "of_char b"] by (simp add: is_digit_code digit_val_def)
  then show "a = b \<longleftrightarrow> digit_val a = digit_val b" by auto
qed

lemma lex_num:
  fixes a b u v n :: nat
  assumes "u < n" "v < n"
  shows "a * n + u \<le> b * n + v \<longleftrightarrow> a < b \<or> a = b \<and> u \<le> v"
proof (cases a b rule: linorder_cases)
  case less
  then have "Suc a * n \<le> b * n" by (intro mult_le_mono1) simp
  with less assms show ?thesis by simp
next
  case greater
  then have "Suc b * n \<le> a * n" by (intro mult_le_mono1) simp
  with greater assms show ?thesis by simp
qed simp

text \<open>Texts of one shape, digits under digits and equal elsewhere, are ordered as their numbers.\<close>

lemma string_le_number:
  assumes "list_all2 (\<lambda>a b. is_digit a \<and> is_digit b \<or> a = b \<and> \<not> is_digit a) s t"
  shows "(js_string_le s t \<longleftrightarrow> date_number s \<le> date_number t)
    \<and> length (filter is_digit s) = length (filter is_digit t)"
  using assms
proof (induction rule: list_all2_induct)
  case (Cons a s b t)
  let ?S = "filter is_digit s" and ?T = "filter is_digit t"
  show ?case
  proof (cases "is_digit a")
    case True
    then have b: "is_digit b" using Cons.hyps by auto
    have lt: "digits_val ?S < 10 ^ length ?S" "digits_val ?T < 10 ^ length ?S"
      using digits_val_less [of ?S] digits_val_less [of ?T] Cons.IH by (auto simp: list_all_iff)
    show ?thesis
      using True b Cons.IH lex_num [OF lt] digit_val_mono [OF True b]
      by (simp add: date_number_def digits_val_Cons)
  next
    case False
    with Cons show ?thesis by (auto simp: date_number_def)
  qed
qed (simp add: date_number_def)

definition is_iso_date :: "string \<Rightarrow> bool" where
  "is_iso_date s \<longleftrightarrow> (\<exists>y m d. s = y @ CHR ''-'' # m @ CHR ''-'' # d \<and> length y = 4 \<and> length m = 2 \<and>
     length d = 2 \<and> list_all is_digit (y @ m @ d))"

lemma iso_date_re_iff: "matches iso_date_re s \<longleftrightarrow> is_iso_date s"
  by (simp add: matches_lang iso_date_re_def Digit_def is_iso_date_def) blast

lemma hyphen_no_digit [simp]: "\<not> is_digit CHR ''-''"
  by (simp add: is_digit_def)

lemma digits_all2:
  "length s = length t \<Longrightarrow> list_all is_digit s \<Longrightarrow> list_all is_digit t \<Longrightarrow>
     list_all2 (\<lambda>a b. is_digit a \<and> is_digit b \<or> a = b \<and> \<not> is_digit a) s t"
  by (simp add: list_all2_conv_all_nth list_all_length)

lemma iso_dates_ordered:
  assumes "is_iso_date s" "is_iso_date t"
  shows "js_string_le s t \<longleftrightarrow> date_number s \<le> date_number t"
proof -
  have "list_all2 (\<lambda>a b. is_digit a \<and> is_digit b \<or> a = b \<and> \<not> is_digit a) s t"
    using assms by (auto simp: is_iso_date_def intro!: list_all2_appendI digits_all2)
  then show ?thesis using string_le_number by blast
qed

text \<open>
  A member statement range is accepted exactly when each end is blank or a date
  \<open>YYYY-MM-DD\<close> and, if both are given, the start is not after the end as year, month and day
  numbers: comparing the texts is comparing the dates.
\<close>

theorem statement_range_exact:
  assumes "zod fmt parse"
  shows "parse memberStatementRangeSchema v = Some w \<longleftrightarrow>
    (\<exists>f t. js_prop v ''from_date'' = JStr f \<and> js_prop v ''to_date'' = JStr t \<and>
       (f = [] \<or> is_iso_date f) \<and> (t = [] \<or> is_iso_date t) \<and>
       (f = [] \<or> t = [] \<or> date_number f \<le> date_number t) \<and>
       w = JObj [(''from_date'', JStr f), (''to_date'', JStr t)])"
    (is "_ \<longleftrightarrow> ?R")
proof -
  have c: "coerce_free memberStatementRangeSchema"
    by (simp add: memberStatementRangeSchema_def optionalStatementDate_def)
  have field: "zref fmt optionalStatementDate (JStr s) = (if s = [] \<or> is_iso_date s then Some (JStr s) else None)" for s
    by (auto simp: optionalStatementDate_def iso_date_re_iff)
  have other: "zref fmt optionalStatementDate x = None" if "\<not> is_JStr x" for x
    using that by (cases x) (auto simp: optionalStatementDate_def)
  have "zref fmt memberStatementRangeSchema v = Some w \<longleftrightarrow> ?R"
  proof (cases v)
    case (JObj kvs)
    show ?thesis unfolding JObj
      by (cases "js_prop (JObj kvs) ''from_date''"; cases "js_prop (JObj kvs) ''to_date''")
        (auto simp: memberStatementRangeSchema_def field other range_in_order_def out_field_def js_prop_Cons
          iso_dates_ordered simp del: js_prop.simps(1) split: if_splits)
  qed (simp_all add: memberStatementRangeSchema_def)
  then show ?thesis by (simp add: zod.parse_zref [OF assms c])
qed

definition demo_range :: jv where
  "demo_range = JObj [(''from_date'', JStr ''2026-01-31''), (''to_date'', JStr ''2026-02-01'')]"

lemma demo_dates:
  "is_iso_date ''2026-01-31''" "is_iso_date ''2026-02-01''"
  "date_number ''2026-01-31'' \<le> date_number ''2026-02-01''"
proof -
  show "is_iso_date ''2026-01-31''" "is_iso_date ''2026-02-01''"
    unfolding iso_date_re_iff [symmetric] by code_simp+
  show "date_number ''2026-01-31'' \<le> date_number ''2026-02-01''"
    by (simp add: date_number_def digits_val_def digit_val_def is_digit_code)
qed

theorem statement_range_exact_witness:
  "zref demo_formats memberStatementRangeSchema demo_range = Some demo_range"
  using demo_dates
  by (simp add: statement_range_exact [OF zref.zod_axioms] demo_range_def)

section \<open>Slug suggestions\<close>

text \<open>\<open>s.replace(/[p]+/g, c)\<close>: every maximal run of characters in the class becomes one \<open>c\<close>.\<close>

function replace_runs :: "(char \<Rightarrow> bool) \<Rightarrow> char \<Rightarrow> string \<Rightarrow> string" where
  "replace_runs p c [] = []"
| "replace_runs p c (x # xs) =
     (if p x then c # replace_runs p c (dropWhile p xs) else x # replace_runs p c xs)"
  by pat_completeness auto
termination
  by (relation "measure (\<lambda>(p, c, s). length s)") (auto simp: length_dropWhile_le less_Suc_eq_le)

definition slug_char :: "char \<Rightarrow> bool" where
  "slug_char c \<longleftrightarrow> is_lower c \<or> is_digit c"

definition strip_end :: "char \<Rightarrow> string \<Rightarrow> string" where
  "strip_end c s = rev (dropWhile (\<lambda>x. x = c) (rev s))"

definition suggestSlug :: "string \<Rightarrow> string" where
  "suggestSlug name =
     (let s = js_toLowerCase name;
          s = replace_runs (\<lambda>c. \<not> slug_char c) CHR ''-'' s;
          s = strip_end CHR ''-'' (dropWhile (\<lambda>x. x = CHR ''-'') s);
          s = take 40 s
      in strip_end CHR ''-'' s)"

text \<open>Slug characters and single hyphens between them.\<close>

definition hyphenated :: "string \<Rightarrow> bool" where
  "hyphenated s \<longleftrightarrow> list_all (\<lambda>c. slug_char c \<or> c = CHR ''-'') s \<and>
     successively (\<lambda>a b. \<not> (a = CHR ''-'' \<and> b = CHR ''-'')) s"

lemma hyphen_not_slug [simp]: "\<not> slug_char CHR ''-''"
  by (simp add: slug_char_def is_lower_def is_digit_def)

lemma successively_appendD: "successively P (xs @ ys) \<Longrightarrow> successively P xs \<and> successively P ys"
  by (simp add: successively_append_iff)

lemma hyphenated_append: "hyphenated (s @ t) \<Longrightarrow> hyphenated s \<and> hyphenated t"
  by (auto simp: hyphenated_def dest: successively_appendD)

lemma strip_end_append: "\<exists>t. s = strip_end c s @ t"
  by (metis rev_append rev_rev_ident strip_end_def takeWhile_dropWhile_id)

lemma strip_end_last: "strip_end c s \<noteq> [] \<Longrightarrow> last (strip_end c s) \<noteq> c"
  unfolding strip_end_def by (metis (mono_tags, lifting) hd_dropWhile last_rev rev_is_Nil_conv)

lemma strip_end_hd: "strip_end c s \<noteq> [] \<Longrightarrow> hd (strip_end c s) = hd s"
  by (metis hd_append2 strip_end_append)

lemma replace_runs_hd: "xs \<noteq> [] \<Longrightarrow> \<not> p (hd xs) \<Longrightarrow> hd (replace_runs p c xs) = hd xs"
  by (cases xs) auto

lemma replace_runs_hyphenated: "hyphenated (replace_runs (\<lambda>c. \<not> slug_char c) CHR ''-'' s)"
proof (induction s rule: length_induct)
  case (1 s)
  show ?case
  proof (cases s)
    case (Cons x xs)
    let ?r = "replace_runs (\<lambda>c. \<not> slug_char c) CHR ''-''" and ?d = "dropWhile (\<lambda>c. \<not> slug_char c) xs"
    have "length ?d < length s" using Cons by (simp add: length_dropWhile_le less_Suc_eq_le)
    then have IH: "hyphenated (?r xs)" "hyphenated (?r ?d)" using 1 Cons by auto
    have "hd (?r ?d) \<noteq> CHR ''-''" if "?d \<noteq> []"
      using that hd_dropWhile [OF that] replace_runs_hd [of ?d "\<lambda>c. \<not> slug_char c"]
      by (metis hyphen_not_slug)
    moreover have "?r ?d = []" if "?d = []" by (simp only: that replace_runs.simps)
    ultimately show ?thesis using IH Cons by (auto simp: hyphenated_def successively_Cons)
  qed (simp add: hyphenated_def)
qed

lemma suggestSlug_hyphenated: "hyphenated (suggestSlug name)"
proof -
  define r where "r = replace_runs (\<lambda>c. \<not> slug_char c) CHR ''-'' (js_toLowerCase name)"
  define d where "d = dropWhile (\<lambda>x. x = CHR ''-'') r"
  define t where "t = take 40 (strip_end CHR ''-'' d)"
  have "hyphenated r" by (simp add: r_def replace_runs_hyphenated)
  then have "hyphenated d" unfolding d_def by (metis hyphenated_append takeWhile_dropWhile_id)
  then have "hyphenated (strip_end CHR ''-'' d)" by (metis hyphenated_append strip_end_append)
  then have "hyphenated t" unfolding t_def by (metis append_take_drop_id hyphenated_append)
  then have "hyphenated (strip_end CHR ''-'' t)" by (metis hyphenated_append strip_end_append)
  then show ?thesis by (simp add: suggestSlug_def Let_def r_def d_def t_def)
qed

lemma suggestSlug_ends:
  assumes "suggestSlug name \<noteq> []"
  shows "hd (suggestSlug name) \<noteq> CHR ''-''" "last (suggestSlug name) \<noteq> CHR ''-''"
proof -
  define d where "d = dropWhile (\<lambda>x. x = CHR ''-'')
    (replace_runs (\<lambda>c. \<not> slug_char c) CHR ''-'' (js_toLowerCase name))"
  define t where "t = take 40 (strip_end CHR ''-'' d)"
  have s: "suggestSlug name = strip_end CHR ''-'' t" by (simp add: suggestSlug_def Let_def d_def t_def)
  show "last (suggestSlug name) \<noteq> CHR ''-''" using assms by (simp add: s strip_end_last)
  have "t \<noteq> []" using assms by (auto simp: s strip_end_def)
  then have "hd (strip_end CHR ''-'' t) = hd d" "d \<noteq> []"
    using assms by (auto simp: s t_def strip_end_hd hd_take) (simp add: strip_end_def)
  then show "hd (suggestSlug name) \<noteq> CHR ''-''"
    unfolding s by (metis (mono_tags, lifting) d_def hd_dropWhile)
qed

lemma suggestSlug_length: "length (suggestSlug name) \<le> 40"
proof -
  have "length (strip_end c s) \<le> length s" for c s
    using strip_end_append [of s c] by (metis le_add1 length_append)
  then show ?thesis unfolding suggestSlug_def Let_def by (metis length_take min.cobounded2 order_trans)
qed

text \<open>A text of that form goes through unchanged.\<close>

lemma lower_slug_char: "slug_char c \<or> c = CHR ''-'' \<Longrightarrow> lower_char c = c"
proof -
  assume "slug_char c \<or> c = CHR ''-''"
  then have "(of_char c :: nat) = 45 \<or> 48 \<le> (of_char c :: nat) \<and> (of_char c :: nat) \<le> 57
      \<or> 97 \<le> (of_char c :: nat) \<and> (of_char c :: nat) \<le> 122"
    by (auto simp: slug_char_def is_digit_code is_lower_def less_eq_char_def)
  then show ?thesis by (auto simp: lower_char_def Let_def)
qed

lemma replace_runs_id:
  "hyphenated s \<Longrightarrow> replace_runs (\<lambda>c. \<not> slug_char c) CHR ''-'' s = s"
proof (induction s)
  case (Cons x xs)
  then have "hyphenated xs" using hyphenated_append [of "[x]" xs] by simp
  with Cons have IH: "replace_runs (\<lambda>c. \<not> slug_char c) CHR ''-'' xs = xs" by simp
  show ?case
  proof (cases "slug_char x")
    case False
    then have "x = CHR ''-''" "xs = [] \<or> slug_char (hd xs)"
      using Cons.prems by (cases xs, auto simp: hyphenated_def)+
    then have "dropWhile (\<lambda>c. \<not> slug_char c) xs = xs" by (cases xs) auto
    with False \<open>x = _\<close> IH show ?thesis by simp
  qed (simp add: IH)
qed simp

lemma suggestSlug_id:
  assumes "hyphenated s" "length s \<le> 40" "s \<noteq> [] \<Longrightarrow> hd s \<noteq> CHR ''-'' \<and> last s \<noteq> CHR ''-''"
  shows "suggestSlug s = s"
proof -
  have low: "js_toLowerCase s = s"
    using assms(1) by (auto simp: js_toLowerCase_def hyphenated_def list_all_iff lower_slug_char intro: map_idI)
  have strip: "strip_end CHR ''-'' s = s"
    using assms(3) by (cases "s = []") (auto simp: strip_end_def dropWhile_id_iff hd_rev rev_swap)
  have "dropWhile (\<lambda>x. x = CHR ''-'') s = s" using assms(3) by (auto simp: dropWhile_id_iff)
  then show ?thesis using assms(2) by (simp add: suggestSlug_def low replace_runs_id [OF assms(1)] strip)
qed

lemma slug_re_iff:
  "matches TENANT_SLUG_RE s \<longleftrightarrow> 1 \<le> length s \<and> length s \<le> 40 \<and> list_all (\<lambda>c. slug_char c \<or> c = CHR ''-'') s"
  by (auto simp: matches_lang TENANT_SLUG_RE_def slug_char_def list_all_iff)

text \<open>
  A suggested slug is empty or passes the slug validation of tenant creation, never begins or
  ends with a hyphen, never holds two hyphens in a row, and suggesting again from it changes
  nothing.
\<close>

theorem suggestSlug_valid:
  "(suggestSlug name = [] \<or> matches TENANT_SLUG_RE (suggestSlug name) \<and>
      hd (suggestSlug name) \<noteq> CHR ''-'' \<and> last (suggestSlug name) \<noteq> CHR ''-'') \<and>
   hyphenated (suggestSlug name) \<and> suggestSlug (suggestSlug name) = suggestSlug name"
proof -
  have "suggestSlug (suggestSlug name) = suggestSlug name"
    using suggestSlug_hyphenated suggestSlug_length suggestSlug_ends by (intro suggestSlug_id) auto
  then show ?thesis
    using suggestSlug_hyphenated [of name] suggestSlug_length [of name] suggestSlug_ends [of name]
    by (cases "suggestSlug name = []") (auto simp: slug_re_iff hyphenated_def Suc_le_eq)
qed

section \<open>KYC forms\<close>

datatype kyc_kind = KText | KEmail | KDate | KSelect

record organization_kyc_field =
  org_key :: string
  org_label :: string
  org_kind :: kyc_kind
  org_locked :: bool

record member_kyc_field =
  mem_key :: string
  mem_label :: string
  mem_kind :: kyc_kind

definition ORGANIZATION_KYC_FIELDS :: "organization_kyc_field list" where
  "ORGANIZATION_KYC_FIELDS =
     [\<lparr>org_key = ''legal_name'', org_label = ''Registered legal name'', org_kind = KText, org_locked = True\<rparr>,
      \<lparr>org_key = ''registration_number'', org_label = ''Registration number'', org_kind = KText, org_locked = True\<rparr>,
      \<lparr>org_key = ''registered_address'', org_label = ''Registered physical address'', org_kind = KText, org_locked = True\<rparr>,
      \<lparr>org_key = ''primary_contact_name'', org_label = ''Primary contact name'', org_kind = KText, org_locked = True\<rparr>,
      \<lparr>org_key = ''primary_contact_email'', org_label = ''Primary contact email'', org_kind = KEmail, org_locked = True\<rparr>,
      \<lparr>org_key = ''registration_date'', org_label = ''Date of registration'', org_kind = KDate, org_locked = False\<rparr>,
      \<lparr>org_key = ''regulator_name'', org_label = ''Regulator'', org_kind = KText, org_locked = False\<rparr>,
      \<lparr>org_key = ''license_number'', org_label = ''License number'', org_kind = KText, org_locked = False\<rparr>,
      \<lparr>org_key = ''tax_id'', org_label = ''Tax identification number'', org_kind = KText, org_locked = False\<rparr>,
      \<lparr>org_key = ''primary_contact_phone'', org_label = ''Primary contact phone'', org_kind = KText, org_locked = False\<rparr>,
      \<lparr>org_key = ''postal_address'', org_label = ''Postal address'', org_kind = KText, org_locked = False\<rparr>,
      \<lparr>org_key = ''district_region'', org_label = ''District / region'', org_kind = KText, org_locked = False\<rparr>,
      \<lparr>org_key = ''country'', org_label = ''Country'', org_kind = KText, org_locked = False\<rparr>]"

definition MEMBER_KYC_FIELDS :: "member_kyc_field list" where
  "MEMBER_KYC_FIELDS =
     [\<lparr>mem_key = ''phone'', mem_label = ''Phone'', mem_kind = KText\<rparr>,
      \<lparr>mem_key = ''email'', mem_label = ''Email'', mem_kind = KEmail\<rparr>,
      \<lparr>mem_key = ''physical_address'', mem_label = ''Physical address'', mem_kind = KText\<rparr>,
      \<lparr>mem_key = ''national_id_number'', mem_label = ''National ID number'', mem_kind = KText\<rparr>,
      \<lparr>mem_key = ''id_document_type'', mem_label = ''ID document type'', mem_kind = KSelect\<rparr>,
      \<lparr>mem_key = ''id_document_number'', mem_label = ''ID document number'', mem_kind = KText\<rparr>,
      \<lparr>mem_key = ''id_issued_date'', mem_label = ''ID issued date'', mem_kind = KDate\<rparr>,
      \<lparr>mem_key = ''id_expiry_date'', mem_label = ''ID expiry date'', mem_kind = KDate\<rparr>,
      \<lparr>mem_key = ''next_of_kin_name'', mem_label = ''Next of kin name'', mem_kind = KText\<rparr>,
      \<lparr>mem_key = ''next_of_kin_phone'', mem_label = ''Next of kin phone'', mem_kind = KText\<rparr>,
      \<lparr>mem_key = ''occupation'', mem_label = ''Occupation'', mem_kind = KText\<rparr>]"

text \<open>
  The loops assign \<open>out[field.key]\<close> for the fields in order, so the object lists them in that
  order. Calling \<open>trim\<close> on a value that is no string throws: \<open>None\<close>.
\<close>

definition organizationKycFormDefaults :: "jv \<Rightarrow> jv" where
  "organizationKycFormDefaults values = JObj (map (\<lambda>field.
     (org_key field, js_nullish (js_prop values (org_key field)) (JStr ''''))) ORGANIZATION_KYC_FIELDS)"

fun trimmed_or_null :: "jv \<Rightarrow> jv option" where
  "trimmed_or_null (JStr s) = (let raw = js_trim s in Some (if raw = [] then JNull else JStr raw))"
| "trimmed_or_null _ = None"

definition toOrganizationKycPayload :: "jv \<Rightarrow> jv option" where
  "toOrganizationKycPayload input = map_option JObj (sequence (map (\<lambda>field.
     map_option (Pair (org_key field)) (trimmed_or_null (js_prop input (org_key field)))) ORGANIZATION_KYC_FIELDS))"

definition memberKycFormDefaults :: "jv \<Rightarrow> jv" where
  "memberKycFormDefaults values = JObj (map (\<lambda>field.
     (mem_key field, js_nullish (js_prop values (mem_key field)) (JStr ''''))) MEMBER_KYC_FIELDS)"

definition toMemberKycPayload :: "jv \<Rightarrow> jv option" where
  "toMemberKycPayload input = map_option JObj (sequence (map (\<lambda>field.
     map_option (Pair (mem_key field)) (trimmed_or_null (js_prop input (mem_key field)))) MEMBER_KYC_FIELDS))"

text \<open>Both forms are instances of one pair of functions over a list of keys.\<close>

definition form_defaults :: "string list \<Rightarrow> jv \<Rightarrow> jv" where
  "form_defaults ks values = JObj (map (\<lambda>k. (k, js_nullish (js_prop values k) (JStr ''''))) ks)"

definition form_payload :: "string list \<Rightarrow> jv \<Rightarrow> jv option" where
  "form_payload ks input = map_option JObj
     (sequence (map (\<lambda>k. map_option (Pair k) (trimmed_or_null (js_prop input k))) ks))"

definition organization_keys :: "string list" where
  "organization_keys = map org_key ORGANIZATION_KYC_FIELDS"

definition member_keys :: "string list" where
  "member_keys = map mem_key MEMBER_KYC_FIELDS"

lemma kyc_as_form:
  "organizationKycFormDefaults = form_defaults organization_keys"
  "toOrganizationKycPayload = form_payload organization_keys"
  "memberKycFormDefaults = form_defaults member_keys"
  "toMemberKycPayload = form_payload member_keys"
  by (simp_all add: fun_eq_iff organizationKycFormDefaults_def toOrganizationKycPayload_def
      memberKycFormDefaults_def toMemberKycPayload_def form_defaults_def form_payload_def
      organization_keys_def member_keys_def comp_def)

lemma kyc_keys_distinct: "distinct organization_keys" "distinct member_keys"
  by (simp_all add: organization_keys_def member_keys_def ORGANIZATION_KYC_FIELDS_def MEMBER_KYC_FIELDS_def)

definition clean_value :: "jv \<Rightarrow> bool" where
  "clean_value x \<longleftrightarrow> x = JNull \<or> (\<exists>s. x = JStr s \<and> s \<noteq> [] \<and> js_trim s = s)"

lemma prop_of_map: "k \<in> set ks \<Longrightarrow> js_prop (JObj (map (\<lambda>k. (k, f k)) ks)) k = f k"
  by (simp add: map_of_map_restrict)

lemma pairs_Some:
  "map (\<lambda>k. map_option (Pair k) (h k)) ks = map Some ps \<longleftrightarrow>
     (\<exists>g. ps = map (\<lambda>k. (k, g k)) ks \<and> (\<forall>k \<in> set ks. h k = Some (g k)))"
  (is "?L \<longleftrightarrow> ?R")
proof
  assume L: ?L
  have all: "h k \<noteq> None" if "k \<in> set ks" for k
  proof
    assume "h k = None"
    with that have "None \<in> set (map (\<lambda>k. map_option (Pair k) (h k)) ks)" by (auto simp: image_iff)
    then show False unfolding L by simp
  qed
  then have "map Some ps = map Some (map (\<lambda>k. (k, the (h k))) ks)"
    unfolding L [symmetric] by auto
  then have "ps = map (\<lambda>k. (k, the (h k))) ks" by (simp only: inj_map_eq_map [OF inj_Some])
  with all show ?R by (intro exI [of _ "\<lambda>k. the (h k)"]) simp
qed auto

lemma form_payload_Some:
  "form_payload ks input = Some p \<longleftrightarrow>
     (\<exists>g. p = JObj (map (\<lambda>k. (k, g k)) ks) \<and> (\<forall>k \<in> set ks. trimmed_or_null (js_prop input k) = Some (g k)))"
  by (auto simp: form_payload_def sequence_Some pairs_Some)

lemma trimmed_clean: "trimmed_or_null x = Some y \<Longrightarrow> clean_value y"
  by (cases x) (auto simp: Let_def clean_value_def split: if_splits)

lemma form_round_trip:
  assumes "\<forall>k \<in> set ks. clean_value (js_prop values k)"
  shows "form_payload ks (form_defaults ks values) = Some (JObj (map (\<lambda>k. (k, js_prop values k)) ks))"
proof -
  have "js_prop (form_defaults ks values) k = js_nullish (js_prop values k) (JStr '''')" if "k \<in> set ks" for k
    using prop_of_map [OF that] unfolding form_defaults_def .
  moreover have "trimmed_or_null (js_nullish x (JStr '''')) = Some x" if "clean_value x" for x
    using that by (auto simp: clean_value_def js_trim_def)
  ultimately show ?thesis using assms unfolding form_payload_Some by (intro exI [of _ "js_prop values"]) simp
qed

fun string_schema :: "zschema \<Rightarrow> bool" where
  "string_schema (ZString cs) = True"
| "string_schema (ZEnum xs) = True"
| "string_schema (ZLiteral l) = is_JStr l"
| "string_schema (ZOr a b) = (string_schema a \<and> string_schema b)"
| "string_schema _ = False"

lemma zref_string: "string_schema s \<Longrightarrow> zref fmt s v = Some w \<Longrightarrow> \<exists>t. w = JStr t"
proof (induction s arbitrary: w rule: string_schema.induct)
  case (3 l)
  then show ?case by (cases l) (auto split: if_splits)
qed (auto split: jv.splits option.splits if_splits)

lemma form_sendable:
  assumes "zref fmt (ZObject strict fs) v = Some w" "distinct (map fst fs)"
    and "list_all (\<lambda>f. string_schema (snd f)) fs" "set ks \<subseteq> set (map fst fs)"
  shows "\<exists>p. form_payload ks w = Some p \<and> (\<forall>k \<in> set ks. clean_value (js_prop p k))"
proof -
  have str: "\<exists>t. js_prop w k = JStr t" if "k \<in> set ks" for k
  proof -
    obtain s where "(k, s) \<in> set fs" using \<open>k \<in> set ks\<close> assms(4) by auto
    then show ?thesis
      using zref_field [OF assms(1,2), of k s] zref_string [of s] assms(3) by (force simp: list_all_iff)
  qed
  define g where "g k = the (trimmed_or_null (js_prop w k))" for k
  have g: "trimmed_or_null (js_prop w k) = Some (g k)" if "k \<in> set ks" for k
    using str [OF that] by (auto simp: g_def Let_def)
  then have "form_payload ks w = Some (JObj (map (\<lambda>k. (k, g k)) ks))" by (auto simp: form_payload_Some)
  moreover have "clean_value (js_prop (JObj (map (\<lambda>k. (k, g k)) ks)) k)" if "k \<in> set ks" for k
    unfolding prop_of_map [OF that] using trimmed_clean [OF g [OF that]] .
  ultimately show ?thesis by blast
qed

lemma kyc_forms_string:
  "\<exists>fs. organizationKycFormSchema = ZObject False fs \<and> distinct (map fst fs) \<and>
     list_all (\<lambda>f. string_schema (snd f)) fs \<and> set organization_keys \<subseteq> set (map fst fs)"
  "\<exists>fs. memberKycFormSchema = ZObject False fs \<and> distinct (map fst fs) \<and>
     list_all (\<lambda>f. string_schema (snd f)) fs \<and> set member_keys \<subseteq> set (map fst fs)"
  by (simp_all add: organizationKycFormSchema_def memberKycFormSchema_def organization_keys_def
      member_keys_def ORGANIZATION_KYC_FIELDS_def MEMBER_KYC_FIELDS_def)


definition demo_kyc :: "string list \<Rightarrow> jv" where
  "demo_kyc ks = JObj (map (\<lambda>k. (k, if k = ''country'' \<or> k = ''occupation'' then JStr ''Uganda'' else JNull)) ks)"

lemma demo_kyc_clean: "\<forall>k \<in> set ks. clean_value (js_prop (demo_kyc ks) k)"
proof -
  have "js_trim ''Uganda'' = ''Uganda''" by code_simp
  then show ?thesis unfolding demo_kyc_def by (auto simp: prop_of_map clean_value_def simp del: js_prop.simps)
qed


text \<open>
  A KYC form that passes its validation can always be sent (no field makes \<open>trim\<close> throw), and
  every value of the payload is null or a trimmed text that is not blank.
\<close>

theorem kyc_payload_clean:
  assumes "zod fmt parse"
  shows "(parse organizationKycFormSchema v = Some w \<longrightarrow>
       (\<exists>p. toOrganizationKycPayload w = Some p \<and> (\<forall>k \<in> set organization_keys. clean_value (js_prop p k)))) \<and>
    (parse memberKycFormSchema v = Some w \<longrightarrow>
       (\<exists>p. toMemberKycPayload w = Some p \<and> (\<forall>k \<in> set member_keys. clean_value (js_prop p k))))"
proof -
  have c: "coerce_free organizationKycFormSchema" "coerce_free memberKycFormSchema"
    by (simp_all add: organizationKycFormSchema_def memberKycFormSchema_def)
  show ?thesis
    unfolding zod.parse_zref [OF assms c(1)] zod.parse_zref [OF assms c(2)] kyc_as_form
    using kyc_forms_string form_sendable by metis
qed

definition demo_member_form :: jv where
  "demo_member_form = JObj (map (\<lambda>k. (k, if k = ''occupation'' then JStr '' farmer '' else JStr '''')) member_keys)"

theorem kyc_payload_clean_witness:
  "\<exists>w p. zref demo_formats memberKycFormSchema demo_member_form = Some w \<and> toMemberKycPayload w = Some p \<and>
     (\<forall>k \<in> set member_keys. clean_value (js_prop p k))"
proof -
  have "js_trim [] = []" "js_toLowerCase [] = []" "js_trim '' farmer '' = ''farmer''"
    "\<not> matches iso_date_re []"
    by (code_simp)+
  then have "\<exists>w. zref demo_formats memberKycFormSchema demo_member_form = Some w"
    by (simp add: memberKycFormSchema_def demo_member_form_def member_keys_def MEMBER_KYC_FIELDS_def
        demo_formats_def ID_DOCUMENT_TYPES_def out_field_def)
  then show ?thesis using kyc_payload_clean [OF zref.zod_axioms] by blast
qed

section \<open>Operation labels\<close>

definition PLATFORM_OPERATION_LABELS :: "(string \<times> string) list" where
  "PLATFORM_OPERATION_LABELS =
     [(''platform_user.update_sensitive'', ''Update platform user''),
      (''billing.void_invoice'', ''Void invoice''),
      (''billing.cancel_subscription'', ''Cancel subscription''),
      (''billing.confirm_payment'', ''Confirm payment''),
      (''tenant.suspend'', ''Suspend tenant''),
      (''tenant.retry_provisioning'', ''Retry provisioning''),
      (''platform.start_impersonation'', ''Start impersonation'')]"

definition TENANT_OPERATION_LABELS :: "(string \<times> string) list" where
  "TENANT_OPERATION_LABELS =
     [(''members.change_status'', ''Change member status''),
      (''savings.withdraw'', ''Withdraw from savings''),
      (''shares.redeem_shares'', ''Redeem shares''),
      (''credit.approve_application'', ''Approve loan application''),
      (''credit.write_off'', ''Write off loan''),
      (''credit.restructure_schedule'', ''Restructure loan schedule''),
      (''credit.apply_payroll_batch'', ''Apply payroll batch''),
      (''ledger.post_journal_entry'', ''Post manual GL entry'')]"

text \<open>
  \<open>a ?? b\<close> on two table lookups. An inherited property is a function or an object: it is neither
  null nor falsy, so it is what the look-up returns.
\<close>

definition operationLabel :: "string \<Rightarrow> string jsprop" where
  "operationLabel operationType =
     (let known = (case js_get PLATFORM_OPERATION_LABELS operationType of
          Missing \<Rightarrow> js_get TENANT_OPERATION_LABELS operationType | v \<Rightarrow> v)
      in case known of
          Own l \<Rightarrow> if l \<noteq> [] then Own l else
            (let tail = last (js_split CHR ''.'' operationType);
                 words = js_trim (map (\<lambda>c. if c = CHR ''_'' then CHR '' '' else c) tail)
             in Own (js_toUpperCase (take 1 words) @ drop 1 words))
        | Inherited \<Rightarrow> Inherited
        | Missing \<Rightarrow>
            (let tail = last (js_split CHR ''.'' operationType);
                 words = js_trim (map (\<lambda>c. if c = CHR ''_'' then CHR '' '' else c) tail)
             in Own (js_toUpperCase (take 1 words) @ drop 1 words)))"

definition operation_labels :: "(string \<times> string) list" where
  "operation_labels = PLATFORM_OPERATION_LABELS @ TENANT_OPERATION_LABELS"

lemma operation_labels_facts:
  "distinct (map fst operation_labels)" "list_all (\<lambda>p. snd p \<noteq> [] \<and> CHR ''_'' \<notin> set (snd p)) operation_labels"
  by (simp_all add: operation_labels_def PLATFORM_OPERATION_LABELS_def TENANT_OPERATION_LABELS_def)

lemma known_label:
  assumes "(op, l) \<in> set operation_labels"
  shows "operationLabel op = Own l"
proof -
  have "map_of operation_labels op = Some l" using assms operation_labels_facts(1) by simp
  then have "map_of TENANT_OPERATION_LABELS op = Some l \<and> map_of PLATFORM_OPERATION_LABELS op = None
      \<or> map_of PLATFORM_OPERATION_LABELS op = Some l"
    by (auto simp: operation_labels_def map_add_Some_iff)
  moreover have "l \<noteq> []" using assms operation_labels_facts(2) by (auto simp: list_all_iff)
  moreover have "op \<notin> set object_prototype_keys"
    using assms by (auto simp: operation_labels_def PLATFORM_OPERATION_LABELS_def TENANT_OPERATION_LABELS_def
        object_prototype_keys_def)
  ultimately show ?thesis by (auto simp: operationLabel_def js_get_def)
qed

lemma trim_set: "set (js_trim s) \<subseteq> set s"
  unfolding js_trim_def using set_dropWhileD by (metis set_rev subsetI)

lemma upper_no_underscore: "c \<noteq> CHR ''_'' \<Longrightarrow> CHR ''_'' \<notin> set (upper_char c)"
proof
  assume c: "c \<noteq> CHR ''_''" and in_upper: "CHR ''_'' \<in> set (upper_char c)"
  show False
  proof (cases "97 \<le> (of_char c :: nat) \<and> (of_char c :: nat) \<le> 122
      \<or> 224 \<le> (of_char c :: nat) \<and> (of_char c :: nat) \<le> 254 \<and> (of_char c :: nat) \<noteq> 247")
    case True
    with in_upper have "CHR ''_'' = char_of ((of_char c :: nat) - 32)" by (auto simp: upper_char_def Let_def)
    then have "(of_char CHR ''_'' :: nat) = of_char (char_of ((of_char c :: nat) - 32) :: char)" by simp
    also have "\<dots> = of_char c - 32" using True by (auto simp: of_char_of)
    finally show False using True by (simp, linarith)
  next
    case False
    with c in_upper show False by (auto simp: upper_char_def Let_def split: if_splits)
  qed
qed

lemma unknown_label:
  assumes "op \<notin> fst ` set operation_labels" "op \<notin> set object_prototype_keys"
  shows "\<exists>l. operationLabel op = Own l \<and> CHR ''_'' \<notin> set l"
proof -
  define words where "words = js_trim (map (\<lambda>c. if c = CHR ''_'' then CHR '' '' else c) (last (js_split CHR ''.'' op)))"
  have "map_of PLATFORM_OPERATION_LABELS op = None" "map_of TENANT_OPERATION_LABELS op = None"
    using assms(1) by (auto simp: operation_labels_def map_of_eq_None_iff)
  then have l: "operationLabel op = Own (js_toUpperCase (take 1 words) @ drop 1 words)"
    using assms(2) by (simp add: operationLabel_def js_get_def words_def Let_def)
  have w: "CHR ''_'' \<notin> set words" using trim_set by (force simp: words_def)
  then have "CHR ''_'' \<notin> set (js_toUpperCase (take 1 words) @ drop 1 words)"
    by (auto simp: js_toUpperCase_def dest: in_set_takeD in_set_dropD intro: upper_no_underscore)
      (metis in_set_takeD upper_no_underscore)
  with l show ?thesis by blast
qed

text \<open>
  Every operation type has a readable label: a registered one its own label (the platform and
  tenant tables do not collide), and any other one that is not a name inherited from
  \<open>Object.prototype\<close> a text made from its last segment, without a raw underscore.
\<close>

theorem operation_labels_readable:
  "((op, l) \<in> set operation_labels \<longrightarrow> operationLabel op = Own l) \<and>
   (op \<notin> set object_prototype_keys \<longrightarrow> (\<exists>t. operationLabel op = Own t \<and> CHR ''_'' \<notin> set t))"
proof -
  have "\<exists>t. operationLabel op = Own t \<and> CHR ''_'' \<notin> set t"
    if "op \<in> fst ` set operation_labels"
    using that known_label operation_labels_facts(2) by (fastforce simp: list_all_iff)
  then show ?thesis using known_label unknown_label by blast
qed

theorem operation_labels_readable_witness:
  "operationLabel ''tenant.suspend'' = Own ''Suspend tenant'' \<and>
   (\<exists>t. operationLabel ''ledger.reverse_entry'' = Own t \<and> CHR ''_'' \<notin> set t)"
  using operation_labels_readable [of "''tenant.suspend''" "''Suspend tenant''"]
    operation_labels_readable [of "''ledger.reverse_entry''"]
  by (simp add: operation_labels_def PLATFORM_OPERATION_LABELS_def object_prototype_keys_def)

section \<open>The notification catalogue\<close>

datatype audience = Platform_Audience | Tenant_Audience | Member_Audience
datatype channel = Email_Channel | In_App_Channel

record notification_row =
  row_code :: string
  row_label :: string
  row_audiences :: "audience list"
  row_channels :: "channel list"

definition STAFF_AUDIENCES :: "audience list" where
  "STAFF_AUDIENCES = [Platform_Audience, Tenant_Audience]"

definition ALL_AUDIENCES :: "audience list" where
  "ALL_AUDIENCES = [Platform_Audience, Tenant_Audience, Member_Audience]"

definition MEMBER_AUDIENCES :: "audience list" where
  "MEMBER_AUDIENCES = [Member_Audience]"

definition TENANT_AUDIENCES :: "audience list" where
  "TENANT_AUDIENCES = [Tenant_Audience]"

definition BOTH_CHANNELS :: "channel list" where
  "BOTH_CHANNELS = [Email_Channel, In_App_Channel]"

definition PORTAL_NOTIFICATION_CATALOG :: "notification_row list" where
  "PORTAL_NOTIFICATION_CATALOG =
     [\<lparr>row_code = ''password_reset'', row_label = ''Password reset requested'', row_audiences = ALL_AUDIENCES, row_channels = BOTH_CHANNELS\<rparr>,
      \<lparr>row_code = ''maker_checker_pending'', row_label = ''Approval requests awaiting review'', row_audiences = STAFF_AUDIENCES, row_channels = BOTH_CHANNELS\<rparr>,
      \<lparr>row_code = ''maker_checker_approved'', row_label = ''Your requests approved'', row_audiences = STAFF_AUDIENCES, row_channels = BOTH_CHANNELS\<rparr>,
      \<lparr>row_code = ''maker_checker_rejected'', row_label = ''Your requests rejected'', row_audiences = STAFF_AUDIENCES, row_channels = BOTH_CHANNELS\<rparr>,
      \<lparr>row_code = ''invoice_issued'', row_label = ''Invoice issued'', row_audiences = TENANT_AUDIENCES, row_channels = BOTH_CHANNELS\<rparr>,
      \<lparr>row_code = ''invoice_overdue'', row_label = ''Invoice overdue'', row_audiences = TENANT_AUDIENCES, row_channels = BOTH_CHANNELS\<rparr>,
      \<lparr>row_code = ''subscription_suspended'', row_label = ''Subscription suspended'', row_audiences = TENANT_AUDIENCES, row_channels = BOTH_CHANNELS\<rparr>,
      \<lparr>row_code = ''system_announcement'', row_label = ''System announcements'', row_audiences = ALL_AUDIENCES, row_channels = BOTH_CHANNELS\<rparr>,
      \<lparr>row_code = ''member_activated'', row_label = ''Membership activated'', row_audiences = MEMBER_AUDIENCES, row_channels = BOTH_CHANNELS\<rparr>,
      \<lparr>row_code = ''kyc_submission_approved'', row_label = ''KYC approved'', row_audiences = MEMBER_AUDIENCES, row_channels = BOTH_CHANNELS\<rparr>,
      \<lparr>row_code = ''kyc_submission_rejected'', row_label = ''KYC needs changes'', row_audiences = MEMBER_AUDIENCES, row_channels = BOTH_CHANNELS\<rparr>,
      \<lparr>row_code = ''loan_application_approved'', row_label = ''Loan application approved'', row_audiences = MEMBER_AUDIENCES, row_channels = BOTH_CHANNELS\<rparr>,
      \<lparr>row_code = ''loan_application_rejected'', row_label = ''Loan application declined'', row_audiences = MEMBER_AUDIENCES, row_channels = BOTH_CHANNELS\<rparr>,
      \<lparr>row_code = ''tenant_offboarding_cancelled'', row_label = ''Account cancelled'', row_audiences = TENANT_AUDIENCES, row_channels = BOTH_CHANNELS\<rparr>,
      \<lparr>row_code = ''tenant_offboarding_read_only'', row_label = ''Account read-only'', row_audiences = TENANT_AUDIENCES, row_channels = BOTH_CHANNELS\<rparr>,
      \<lparr>row_code = ''tenant_offboarding_archived'', row_label = ''Account archived'', row_audiences = TENANT_AUDIENCES, row_channels = BOTH_CHANNELS\<rparr>,
      \<lparr>row_code = ''tenant_offboarding_restored'', row_label = ''Account restored'', row_audiences = TENANT_AUDIENCES, row_channels = BOTH_CHANNELS\<rparr>]"

definition catalogForAudience :: "audience \<Rightarrow> notification_row list" where
  "catalogForAudience a = filter (\<lambda>row. a \<in> set (row_audiences row)) PORTAL_NOTIFICATION_CATALOG"

section \<open>Rate-limit overrides\<close>

record limit_override =
  ovr_limit :: "num option"
  ovr_window :: "num option"

record override_row =
  ovr_id :: string
  ovr_plan :: string
  ovr_policy :: string
  row_limit :: "num option"
  row_window :: "num option"

type_synonym plan_overrides = "(string \<times> (string \<times> limit_override) list) list"

definition flattenRateLimitOverrides :: "plan_overrides \<Rightarrow> override_row list" where
  "flattenRateLimitOverrides overrides = concat (map (\<lambda>(plan, policies). map (\<lambda>(policy, ov).
     \<lparr>ovr_id = plan @ CHR '':'' # policy, ovr_plan = plan, ovr_policy = policy,
      row_limit = ovr_limit ov, row_window = ovr_window ov\<rparr>) policies) overrides)"

section \<open>Stale backups\<close>

text \<open>\<open>Date.parse\<close> is the first parameter.\<close>

definition isStale :: "(string \<Rightarrow> num) \<Rightarrow> string option \<Rightarrow> num \<Rightarrow> num \<Rightarrow> bool" where
  "isStale date_parse iso_time maxAgeMs now = (case iso_time of None \<Rightarrow> True
     | Some s \<Rightarrow> js_less maxAgeMs (js_sub now (date_parse s)))"

definition BACKUP_STALE_HOURS :: nat where
  "BACKUP_STALE_HOURS = 24"

definition VERIFY_STALE_DAYS :: nat where
  "VERIFY_STALE_DAYS = 7"

section \<open>The override table\<close>

lemma plan_code_no_colon: "matches plan_code_re p \<Longrightarrow> CHR '':'' \<notin> set p"
  by (auto simp: matches_lang plan_code_re_def list_all_iff is_lower_def is_digit_def)

lemma colon_split: "p @ CHR '':'' # q = p' @ CHR '':'' # q' \<Longrightarrow> CHR '':'' \<notin> set p \<Longrightarrow> CHR '':'' \<notin> set p' \<Longrightarrow> p = p' \<and> q = q'"
proof (induction p arbitrary: p')
  case Nil
  then show ?case by (cases p') auto
next
  case (Cons c p)
  then show ?case by (cases p') auto
qed

lemma flatten_ids_distinct:
  assumes "distinct (map fst ovs)" "\<forall>(p, ps) \<in> set ovs. distinct (map fst ps) \<and> CHR '':'' \<notin> set p"
  shows "distinct (map ovr_id (flattenRateLimitOverrides ovs))"
  using assms
proof (induction ovs)
  case (Cons o1 ovs)
  obtain p ps where o1: "o1 = (p, ps)" by fastforce
  let ?ids = "\<lambda>p ps. map (\<lambda>x. p @ CHR '':'' # fst x) ps"
  have ids: "map ovr_id (flattenRateLimitOverrides ((p, ps) # ovs)) =
      ?ids p ps @ map ovr_id (flattenRateLimitOverrides ovs)"
    by (simp add: flattenRateLimitOverrides_def case_prod_beta comp_def)
  have "distinct (?ids p ps)"
    using Cons.prems(2) o1 by (auto simp: distinct_map inj_on_def)
  moreover have "set (?ids p ps) \<inter> set (map ovr_id (flattenRateLimitOverrides ovs)) = {}"
    using Cons.prems o1
    by (force simp: flattenRateLimitOverrides_def case_prod_beta dest!: colon_split)
  ultimately show ?case using Cons o1 ids by simp
qed (simp add: flattenRateLimitOverrides_def)

text \<open>
  The flattened rate-limit table has one row per plan and policy with that policy's override
  and no other, and, with plan codes as plan creation admits them, no two rows share an id, so the
  table's row identity is sound.
\<close>

theorem flatten_overrides_rows:
  assumes "distinct (map fst ovs)"
    and "\<forall>(p, ps) \<in> set ovs. distinct (map fst ps) \<and> matches plan_code_re p"
  shows "distinct (map ovr_id (flattenRateLimitOverrides ovs)) \<and>
    (r \<in> set (flattenRateLimitOverrides ovs) \<longleftrightarrow>
      (\<exists>ps ov. (ovr_plan r, ps) \<in> set ovs \<and> (ovr_policy r, ov) \<in> set ps \<and>
         ovr_id r = ovr_plan r @ CHR '':'' # ovr_policy r \<and>
         row_limit r = ovr_limit ov \<and> row_window r = ovr_window ov))"
proof
  have "\<forall>(p, ps) \<in> set ovs. distinct (map fst ps) \<and> CHR '':'' \<notin> set p"
    using assms(2) plan_code_no_colon by blast
  then show "distinct (map ovr_id (flattenRateLimitOverrides ovs))"
    using flatten_ids_distinct assms(1) by blast
  show "r \<in> set (flattenRateLimitOverrides ovs) \<longleftrightarrow>
      (\<exists>ps ov. (ovr_plan r, ps) \<in> set ovs \<and> (ovr_policy r, ov) \<in> set ps \<and>
         ovr_id r = ovr_plan r @ CHR '':'' # ovr_policy r \<and>
         row_limit r = ovr_limit ov \<and> row_window r = ovr_window ov)"
    by (cases r) (force simp: flattenRateLimitOverrides_def)
qed

definition demo_overrides :: plan_overrides where
  "demo_overrides = [(''basic'', [(''auth'', \<lparr>ovr_limit = Some (Fin 5), ovr_window = None\<rparr>),
     (''read'', \<lparr>ovr_limit = None, ovr_window = Some (Fin 60)\<rparr>)]), (''pro'', [])]"

theorem flatten_overrides_rows_witness: "distinct (map ovr_id (flattenRateLimitOverrides demo_overrides))"
proof -
  have "matches plan_code_re ''basic''" "matches plan_code_re ''pro''" by code_simp+
  then have "\<forall>(p, ps) \<in> set demo_overrides. distinct (map fst ps) \<and> matches plan_code_re p"
    by (simp add: demo_overrides_def)
  moreover have "distinct (map fst demo_overrides)" by (simp add: demo_overrides_def)
  ultimately show ?thesis using flatten_overrides_rows by blast
qed

end
