(* ===== verification/JSON.thy ===== *)
theory JSON
  imports JS_Value
begin

text \<open>
  \<open>JSON.stringify\<close> and \<open>JSON.parse\<close>, which the portal uses for the impersonation marker, the theme
  cookie and stored drafts. The text of a number is the parameter \<open>num_text\<close> (the source never
  relies on it). The parser carries a fuel, the length of its input: every nested value consumes
  at least one character. A \<open>\u\<close> escape outside the modelled code units (below 256) is refused.
\<close>

section \<open>Printing\<close>

definition hex_digit :: "nat \<Rightarrow> char" where
  "hex_digit n = (if n < 10 then char_of (n + 48) else char_of (n + 87))"

definition json_escape :: "char \<Rightarrow> string" where
  "json_escape c = (let n = of_char c :: nat in
     if n = 34 then [CHR 0x5C, c] else if n = 92 then [c, c]
     else if n = 8 then [CHR 0x5C, CHR ''b''] else if n = 9 then [CHR 0x5C, CHR ''t'']
     else if n = 10 then [CHR 0x5C, CHR ''n''] else if n = 12 then [CHR 0x5C, CHR ''f'']
     else if n = 13 then [CHR 0x5C, CHR ''r'']
     else if n < 32 then [CHR 0x5C, CHR ''u'', CHR ''0'', CHR ''0'', hex_digit (n div 16), hex_digit (n mod 16)]
     else [c])"

definition dquote :: char where
  "dquote = CHR 0x22"

definition json_quote :: "string \<Rightarrow> string" where
  "json_quote s = dquote # concat (map json_escape s) @ [dquote]"

fun json_commas :: "string list \<Rightarrow> string" where
  "json_commas [] = []"
| "json_commas [s] = s"
| "json_commas (s # t # ts) = s @ CHR '','' # json_commas (t # ts)"

function stringify :: "(num \<Rightarrow> string) \<Rightarrow> jv \<Rightarrow> string" where
  "stringify nt JUndef = ''null''"
| "stringify nt JNull = ''null''"
| "stringify nt (JBool b) = (if b then ''true'' else ''false'')"
| "stringify nt (JNum n) = (if js_isFinite n then nt n else ''null'')"
| "stringify nt (JStr s) = json_quote s"
| "stringify nt (JArr vs) = CHR ''['' # json_commas (map (stringify nt) vs) @ '']''"
| "stringify nt (JObj kvs) = CHR ''{'' # json_commas (map (\<lambda>kv. json_quote (fst kv) @ CHR '':'' # stringify nt (snd kv))
     (filter (\<lambda>kv. snd kv \<noteq> JUndef) kvs)) @ ''}''"
  by pat_completeness auto

lemma size_member: "kv \<in> set kvs \<Longrightarrow> size (snd kv) \<le> size_list (size_prod (\<lambda>_. 0) size) kvs"
  by (induction kvs) auto

lemma size_elem: "v \<in> set vs \<Longrightarrow> size (v :: jv) \<le> size_list size vs"
  by (induction vs) auto

termination stringify
  by (relation "measure (\<lambda>(nt, v). size v)")
    (auto simp: less_Suc_eq_le intro: le_SucI dest!: size_member size_elem)

section \<open>Parsing\<close>

definition json_ws :: "char \<Rightarrow> bool" where
  "json_ws c \<longleftrightarrow> (of_char c :: nat) \<in> {9, 10, 13, 32}"

definition skip :: "string \<Rightarrow> string" where
  "skip s = dropWhile json_ws s"

definition hex_val :: "char \<Rightarrow> nat option" where
  "hex_val c = (let n = of_char c :: nat in
     if 48 \<le> n \<and> n \<le> 57 then Some (n - 48)
     else if 97 \<le> n \<and> n \<le> 102 then Some (n - 87)
     else if 65 \<le> n \<and> n \<le> 70 then Some (n - 55) else None)"

definition simple_escape :: "char \<Rightarrow> char option" where
  "simple_escape c = (let n = of_char c :: nat in
     if n = 34 \<or> n = 92 \<or> n = 47 then Some c
     else if c = CHR ''b'' then Some (CHR 0x08) else if c = CHR ''t'' then Some (CHR 0x09)
     else if c = CHR ''n'' then Some (CHR 0x0A) else if c = CHR ''f'' then Some (CHR 0x0C)
     else if c = CHR ''r'' then Some (CHR 0x0D) else None)"

definition unicode_escape :: "string \<Rightarrow> char option" where
  "unicode_escape hs = (case map hex_val hs of
       [Some a, Some b, Some c, Some d] \<Rightarrow>
         (let n = ((a * 16 + b) * 16 + c) * 16 + d in if n < 256 then Some (char_of n) else None)
     | _ \<Rightarrow> None)"

text \<open>The rest of a string literal after its opening quote.\<close>

function parse_chars :: "string \<Rightarrow> (string \<times> string) option" where
  "parse_chars [] = None"
| "parse_chars (c # s) =
     (let n = of_char c :: nat in
      if n = 34 then Some ([], s)
      else if n = 92 then
        (case s of [] \<Rightarrow> None
         | e # t \<Rightarrow>
             if e = CHR ''u'' then
               (case unicode_escape (take 4 t) of None \<Rightarrow> None
                | Some x \<Rightarrow> map_option (apfst (Cons x)) (parse_chars (drop 4 t)))
             else (case simple_escape e of None \<Rightarrow> None
                | Some x \<Rightarrow> map_option (apfst (Cons x)) (parse_chars t)))
      else if n < 32 then None
      else map_option (apfst (Cons c)) (parse_chars s))"
  by pat_completeness auto
termination
  by (relation "measure length") auto

definition parse_number :: "string \<Rightarrow> (jv \<times> string) option" where
  "parse_number s =
     (let (neg, u) = (case s of c # t \<Rightarrow> if c = CHR ''-'' then (True, t) else (False, s) | [] \<Rightarrow> (False, s));
          ds = takeWhile is_digit u; r = dropWhile is_digit u;
          fs = (if r \<noteq> [] \<and> hd r = CHR ''.'' then takeWhile is_digit (tl r) else []);
          r' = (if fs \<noteq> [] then dropWhile is_digit (tl r) else r);
          (e, r'') = take_exp r' in
      if ds = [] \<or> (1 < length ds \<and> hd ds = CHR ''0'') \<or> (r \<noteq> [] \<and> hd r = CHR ''.'' \<and> fs = []) then None
      else Some (JNum (to_num ((if neg then - 1 else 1) * of_nat (digits_val (ds @ fs)) * 10 powi (e - int (length fs)))), r''))"

text \<open>A later duplicate of a key replaces the value and keeps the position of the first.\<close>

fun put_prop :: "string \<Rightarrow> jv \<Rightarrow> (string \<times> jv) list \<Rightarrow> (string \<times> jv) list" where
  "put_prop k v [] = [(k, v)]"
| "put_prop k v ((k', v') # kvs) = (if k = k' then (k, v) # kvs else (k', v') # put_prop k v kvs)"

fun parse_value :: "nat \<Rightarrow> string \<Rightarrow> (jv \<times> string) option"
  and parse_elems :: "nat \<Rightarrow> jv list \<Rightarrow> string \<Rightarrow> (jv \<times> string) option"
  and parse_members :: "nat \<Rightarrow> (string \<times> jv) list \<Rightarrow> string \<Rightarrow> (jv \<times> string) option"
where
  "parse_value 0 s = None"
| "parse_value (Suc n) s = (case skip s of [] \<Rightarrow> None
     | c # t \<Rightarrow>
         if c = dquote then map_option (apfst JStr) (parse_chars t)
         else if c = CHR ''['' then
           (case skip t of [] \<Rightarrow> None | d # u \<Rightarrow> if d = CHR '']'' then Some (JArr [], u) else parse_elems n [] t)
         else if c = CHR ''{'' then
           (case skip t of [] \<Rightarrow> None | d # u \<Rightarrow> if d = CHR ''}'' then Some (JObj [], u) else parse_members n [] t)
         else if prefix ''null'' (c # t) then Some (JNull, drop 4 (c # t))
         else if prefix ''true'' (c # t) then Some (JBool True, drop 4 (c # t))
         else if prefix ''false'' (c # t) then Some (JBool False, drop 5 (c # t))
         else parse_number (c # t))"
| "parse_elems 0 acc s = None"
| "parse_elems (Suc n) acc s = (case parse_value n s of None \<Rightarrow> None
     | Some (v, t) \<Rightarrow> (case skip t of [] \<Rightarrow> None
         | d # u \<Rightarrow> if d = CHR '','' then parse_elems n (acc @ [v]) u
             else if d = CHR '']'' then Some (JArr (acc @ [v]), u) else None))"
| "parse_members 0 acc s = None"
| "parse_members (Suc n) acc s = (case skip s of [] \<Rightarrow> None
     | q # t \<Rightarrow> if q \<noteq> dquote then None else
       (case parse_chars t of None \<Rightarrow> None
        | Some (k, u) \<Rightarrow> (case skip u of [] \<Rightarrow> None
          | c # x \<Rightarrow> if c \<noteq> CHR '':'' then None else
            (case parse_value n x of None \<Rightarrow> None
             | Some (v, y) \<Rightarrow> (case skip y of [] \<Rightarrow> None
               | d # z \<Rightarrow> if d = CHR '','' then parse_members n (put_prop k v acc) z
                   else if d = CHR ''}'' then Some (JObj (put_prop k v acc), z) else None)))))"

definition json_parse :: "string \<Rightarrow> jv option" where
  "json_parse s = (case parse_value (Suc (2 * length s)) s of
       Some (v, t) \<Rightarrow> if skip t = [] then Some v else None
     | None \<Rightarrow> None)"

section \<open>Round trip\<close>

text \<open>Values without numbers and undefined parts whose objects have distinct keys.\<close>

fun plain :: "jv \<Rightarrow> bool" where
  "plain JUndef = False"
| "plain JNull = True"
| "plain (JBool b) = True"
| "plain (JNum n) = False"
| "plain (JStr s) = True"
| "plain (JArr vs) = list_all plain vs"
| "plain (JObj kvs) = (list_all (\<lambda>kv. plain (snd kv)) kvs \<and> distinct (map fst kvs))"

lemma hex_val_digit: "d < 16 \<Longrightarrow> hex_val (hex_digit d) = Some d"
  by (auto simp: hex_val_def hex_digit_def of_char_of)

lemma unicode_escape_hex:
  assumes "n < 32"
  shows "unicode_escape [CHR ''0'', CHR ''0'', hex_digit (n div 16), hex_digit (n mod 16)] = Some (char_of n)"
proof -
  have z: "hex_val CHR ''0'' = Some 0" by (simp add: hex_val_def)
  have "n div 16 < 16" using assms by (simp add: div_less_iff_less_mult)
  then show ?thesis
    using assms z hex_val_digit [of "n div 16"] hex_val_digit [of "n mod 16"]
    by (simp add: unicode_escape_def Let_def)
qed

lemma parse_escape:
  "parse_chars (json_escape c @ s) = map_option (apfst (Cons c)) (parse_chars s)"
proof (cases "c \<in> {CHR 0x22, CHR 0x5C, CHR 0x08, CHR 0x09, CHR 0x0A, CHR 0x0C, CHR 0x0D}")
  case True
  then show ?thesis by (auto simp: json_escape_def simple_escape_def)
next
  case False
  have code: "(of_char c :: nat) \<noteq> of_char d" if "c \<noteq> d" for d
    using that by (simp add: of_char_eq_iff)
  have "(of_char c :: nat) \<notin> {34, 92, 8, 9, 10, 12, 13}"
    using False code [of "CHR 0x22"] code [of "CHR 0x5C"] code [of "CHR 0x08"] code [of "CHR 0x09"]
      code [of "CHR 0x0A"] code [of "CHR 0x0C"] code [of "CHR 0x0D"] by simp
  then have low: "json_escape c = (if (of_char c :: nat) < 32
      then [CHR 0x5C, CHR ''u'', CHR ''0'', CHR ''0'', hex_digit (of_char c div 16), hex_digit (of_char c mod 16)]
      else [c])" and plain: "(of_char c :: nat) \<noteq> 34" "(of_char c :: nat) \<noteq> 92"
    by (simp_all add: json_escape_def Let_def)
  show ?thesis
  proof (cases "(of_char c :: nat) < 32")
    case True
    then show ?thesis using unicode_escape_hex [OF True] by (simp add: low)
  next
    case big: False
    with plain show ?thesis by (simp add: low Let_def)
  qed
qed

lemma parse_quoted: "parse_chars (concat (map json_escape s) @ dquote # rest) = Some (s, rest)"
  by (induction s) (simp_all add: dquote_def parse_escape)

lemma dquote_facts [simp]:
  "\<not> json_ws dquote" "dquote \<noteq> CHR ''['' " "dquote \<noteq> CHR ''{''" "dquote \<noteq> CHR '']''" "dquote \<noteq> CHR ''}''"
  "CHR ''['' \<noteq> dquote" "CHR ''{'' \<noteq> dquote"
  by (simp_all add: dquote_def json_ws_def)

lemma skip_simps [simp]: "skip [] = []" "\<not> json_ws c \<Longrightarrow> skip (c # s) = c # s"
  by (simp_all add: skip_def)

lemma json_ws_marks [simp]: "\<not> json_ws CHR '',''" "\<not> json_ws CHR '']''" "\<not> json_ws CHR ''}''"
  "\<not> json_ws CHR '':''" "\<not> json_ws CHR ''[''" "\<not> json_ws CHR ''{''"
  "\<not> json_ws CHR ''n''" "\<not> json_ws CHR ''t''" "\<not> json_ws CHR ''f''"
  by (simp_all add: json_ws_def)

lemma text_head:
  "plain v \<Longrightarrow> \<exists>c r. stringify nt v = c # r \<and> \<not> json_ws c \<and> c \<noteq> CHR '']'' \<and> c \<noteq> CHR ''}''"
  by (cases v) (auto simp: json_quote_def)

lemma put_prop_new: "k \<notin> fst ` set kvs \<Longrightarrow> put_prop k v kvs = kvs @ [(k, v)]"
  by (induction k v kvs rule: put_prop.induct) auto

lemma commas_Cons: "ts \<noteq> [] \<Longrightarrow> json_commas (t # ts) = t @ CHR '','' # json_commas ts"
  by (cases ts) auto

abbreviation parses :: "(num \<Rightarrow> string) \<Rightarrow> jv \<Rightarrow> bool" where
  "parses nt v \<equiv> \<forall>n rest. 2 * length (stringify nt v) \<le> n \<longrightarrow>
     parse_value n (stringify nt v @ rest) = Some (v, rest)"

lemma parse_elems_text:
  assumes "vs \<noteq> []" "\<forall>v \<in> set vs. parses nt v" "2 * length (json_commas (map (stringify nt) vs)) < n"
  shows "parse_elems n acc (json_commas (map (stringify nt) vs) @ CHR '']'' # rest) = Some (JArr (acc @ vs), rest)"
  using assms
proof (induction vs arbitrary: n acc)
  case (Cons v vs)
  then obtain m where n: "n = Suc m" by (cases n) auto
  show ?case
  proof (cases "vs = []")
    case False
    have t: "json_commas (map (stringify nt) (v # vs)) =
        stringify nt v @ CHR '','' # json_commas (map (stringify nt) vs)"
      using False by (simp add: commas_Cons)
    have "2 * length (stringify nt v) \<le> m" using Cons.prems(3) unfolding t n by simp
    then have "parse_value m (stringify nt v @ x) = Some (v, x)" for x using Cons.prems(2) by simp
    moreover have "2 * length (json_commas (map (stringify nt) vs)) < m" using Cons.prems(3) unfolding t n by simp
    ultimately show ?thesis using Cons.IH [OF False, of m] Cons.prems(2) unfolding t n by simp
  qed (use Cons n in simp)
qed simp

abbreviation member_text :: "(num \<Rightarrow> string) \<Rightarrow> string \<times> jv \<Rightarrow> string" where
  "member_text nt kv \<equiv> json_quote (fst kv) @ CHR '':'' # stringify nt (snd kv)"

lemma parse_member:
  assumes "parses nt v" "2 * length (stringify nt v) \<le> m" "\<not> json_ws d"
  shows "parse_members (Suc m) acc (member_text nt (k, v) @ d # rest) =
    (if d = CHR '','' then parse_members m (put_prop k v acc) rest
     else if d = CHR ''}'' then Some (JObj (put_prop k v acc), rest) else None)"
proof -
  have "parse_value m (stringify nt v @ d # rest) = Some (v, d # rest)" using assms by blast
  then show ?thesis using assms(3) by (simp add: json_quote_def parse_quoted)
qed

lemma parse_members_text:
  assumes "kvs \<noteq> []" "\<forall>kv \<in> set kvs. parses nt (snd kv)" "distinct (map fst (acc @ kvs))"
    "2 * length (json_commas (map (member_text nt) kvs)) < n"
  shows "parse_members n acc (json_commas (map (member_text nt) kvs) @ CHR ''}'' # rest) = Some (JObj (acc @ kvs), rest)"
  using assms
proof (induction kvs arbitrary: n acc)
  case (Cons kv kvs)
  obtain k v where kv: "kv = (k, v)" by fastforce
  obtain m where n: "n = Suc m" using Cons.prems(4) by (cases n) auto
  have put: "put_prop k v acc = acc @ [(k, v)]" using Cons.prems(3) kv by (intro put_prop_new) auto
  show ?case
  proof (cases "kvs = []")
    case True
    then have "2 * length (stringify nt v) \<le> m" using Cons.prems(4) n kv by simp
    then show ?thesis
      using Cons.prems(2) True kv put n parse_member [of nt v m "CHR ''}''" acc k rest] by simp
  next
    case False
    have t: "json_commas (map (member_text nt) (kv # kvs)) =
        member_text nt kv @ CHR '','' # json_commas (map (member_text nt) kvs)"
      using False by (simp add: commas_Cons)
    have "2 * length (stringify nt v) \<le> m" using Cons.prems(4) n t kv by simp
    then have "parse_members n acc (json_commas (map (member_text nt) (kv # kvs)) @ CHR ''}'' # rest) =
        parse_members m (acc @ [(k, v)]) (json_commas (map (member_text nt) kvs) @ CHR ''}'' # rest)"
      using Cons.prems(2) kv put n t
        parse_member [of nt v m "CHR '',''" acc k "json_commas (map (member_text nt) kvs) @ CHR ''}'' # rest"]
      by simp
    then show ?thesis using Cons.IH [of "acc @ [(k, v)]" m] Cons.prems False kv n t by simp
  qed
qed simp

lemma parse_text: "plain v \<Longrightarrow> parses nt v"
proof (induction v rule: plain.induct)
  case (6 vs)
  show ?case
  proof (intro allI impI)
    fix n rest assume n: "2 * length (stringify nt (JArr vs)) \<le> n"
    then obtain m where m: "n = Suc m" by (cases n) auto
    show "parse_value n (stringify nt (JArr vs) @ rest) = Some (JArr vs, rest)"
    proof (cases vs)
      case (Cons v ws)
      have "\<forall>v \<in> set vs. parses nt v" using 6 by (auto simp: list_all_iff)
      then have "parse_elems m [] (json_commas (map (stringify nt) vs) @ CHR '']'' # rest) = Some (JArr vs, rest)"
        using parse_elems_text [of vs nt m "[]" rest] n Cons unfolding m by simp
      moreover obtain c r where "json_commas (map (stringify nt) vs) @ CHR '']'' # rest = c # r"
        "\<not> json_ws c" "c \<noteq> CHR '']''"
        using text_head [of v nt] 6 Cons by (cases ws) auto
      ultimately show ?thesis by (simp add: m)
    qed (simp add: m)
  qed
next
  case (7 kvs)
  have f: "filter (\<lambda>kv. snd kv \<noteq> JUndef) kvs = kvs"
    using 7 by (intro filter_True) (auto simp: list_all_iff)
  show ?case
  proof (intro allI impI)
    fix n rest assume n: "2 * length (stringify nt (JObj kvs)) \<le> n"
    then obtain m where m: "n = Suc m" by (cases n) auto
    show "parse_value n (stringify nt (JObj kvs) @ rest) = Some (JObj kvs, rest)"
    proof (cases kvs)
      case (Cons kv kws)
      have "\<forall>kv \<in> set kvs. parses nt (snd kv)" using 7 by (auto simp: list_all_iff)
      then have "parse_members m [] (json_commas (map (member_text nt) kvs) @ CHR ''}'' # rest) = Some (JObj kvs, rest)"
        using parse_members_text [of kvs nt "[]" m rest] n Cons 7 f unfolding m by simp
      moreover obtain r where "json_commas (map (member_text nt) kvs) @ CHR ''}'' # rest = dquote # r"
        using Cons by (cases kws) (auto simp: json_quote_def)
      ultimately show ?thesis by (simp add: m f)
    qed (simp add: m)
  qed
next
  case (5 s)
  have "parse_value n (json_quote s @ rest) = Some (JStr s, rest)" if "0 < n" for n rest
    using that by (cases n) (simp_all add: json_quote_def parse_quoted)
  then show ?case by (simp add: json_quote_def)
next
  case (3 b)
  have "parse_value n (stringify nt (JBool b) @ rest) = Some (JBool b, rest)" if "0 < n" for n rest
    using that by (cases n; cases b) (simp_all add: dquote_def)
  then show ?case by (auto simp del: stringify.simps(3)) (simp split: if_splits)
next
  case 2
  have "parse_value n (''null'' @ rest) = Some (JNull, rest)" if "0 < n" for n rest
    using that by (cases n) (simp_all add: dquote_def)
  then show ?case by simp
qed simp_all

lemma json_round_trip:
  assumes "plain v"
  shows "json_parse (stringify nt v) = Some v"
proof -
  have "2 * length (stringify nt v) \<le> Suc (2 * length (stringify nt v))" by simp
  then have "parse_value (Suc (2 * length (stringify nt v))) (stringify nt v @ []) = Some (v, [])"
    using parse_text [OF assms, of nt] by blast
  then show ?thesis unfolding json_parse_def append_Nil2 by (simp only: option.case prod.case skip_simps if_True simp_thms)
qed

end
