(* ===== verification/Http.thy ===== *)
theory Http
  imports Zod JSON
begin

text \<open>
  What the server side of the portal runs against: the environment (the process environment, the
  validation library, the backend) and the world its handlers change (the browser's cookies and
  the requests sent to the backend so far).

  The backend is not part of this code. It is a function of everything it was sent before and of the
  request, and may fail to answer (\<open>None\<close>: \<open>fetch\<close> rejects). A handler is a function from a request
  and a world to an outcome and a world; the outcome \<open>None\<close> is an exception that leaves the handler.
  \<open>await\<close> runs a step that may throw and hands its value to the rest of the handler.
\<close>

record http_req =
  rq_method :: string
  rq_url :: string
  rq_headers :: "(string \<times> string) list"
  rq_body :: "jv option"

record http_res =
  rs_status :: nat
  rs_headers :: "(string \<times> string) list"
  rs_json :: "jv option"
  rs_bytes :: string

definition res_ok :: "http_res \<Rightarrow> bool" where
  "res_ok r \<longleftrightarrow> 200 \<le> rs_status r \<and> rs_status r \<le> 299"

text \<open>\<open>Headers.get\<close> ignores case; the headers here are single-valued.\<close>

definition header_get :: "(string \<times> string) list \<Rightarrow> string \<Rightarrow> string option" where
  "header_get hs n = map_option snd (find (\<lambda>h. js_toLowerCase (fst h) = js_toLowerCase n) hs)"

text \<open>\<open>Headers.set\<close> replaces every header of that name.\<close>

definition header_set :: "(string \<times> string) list \<Rightarrow> string \<Rightarrow> string \<Rightarrow> (string \<times> string) list" where
  "header_set hs n v = filter (\<lambda>h. js_toLowerCase (fst h) \<noteq> js_toLowerCase n) hs @ [(n, v)]"

type_synonym backend = "http_req list \<Rightarrow> http_req \<Rightarrow> http_res option"

record env =
  env_parse :: "zschema \<Rightarrow> jv \<Rightarrow> jv option"
  env_issues :: "zschema \<Rightarrow> jv \<Rightarrow> jv"
  env_backend :: backend
  env_production :: bool
  API_INTERNAL_URL :: "string option"
  NEXT_PUBLIC_API_BASE_URL :: "string option"
  NEXT_PUBLIC_ROOT_DOMAIN :: "string option"

definition API_BASE :: "env \<Rightarrow> string" where
  "API_BASE e = nullish (API_INTERNAL_URL e) (nullish (NEXT_PUBLIC_API_BASE_URL e) ''http://localhost:8000'')"

record inbound =
  in_headers :: "(string \<times> string) list"
  in_query :: "(string \<times> string) list"
  in_json :: "jv option"

datatype same_site = Strict | Lax

record cookie =
  ck_value :: string
  ck_httpOnly :: bool
  ck_secure :: bool
  ck_sameSite :: same_site
  ck_path :: string
  ck_maxAge :: nat

record world =
  jar :: "string \<rightharpoonup> cookie"
  sent :: "http_req list"

datatype outcome =
    Json jv nat
  | Empty nat
  | Bytes string "(string \<times> string) list"

section \<open>Steps of a handler\<close>

type_synonym 'a act = "'a option \<times> world"

definition await :: "'a act \<Rightarrow> ('a \<Rightarrow> world \<Rightarrow> 'r act) \<Rightarrow> 'r act" where
  "await m k = (case m of (None, w) \<Rightarrow> (None, w) | (Some a, w) \<Rightarrow> k a w)"

definition send :: "http_req \<Rightarrow> world \<Rightarrow> world" where
  "send rq w = w\<lparr>sent := sent w @ [rq]\<rparr>"

definition fetch :: "env \<Rightarrow> http_req \<Rightarrow> world \<Rightarrow> http_res act" where
  "fetch e rq w = (env_backend e (sent w) rq, send rq w)"

definition get_req :: "string \<Rightarrow> (string \<times> string) list \<Rightarrow> http_req" where
  "get_req url hs = \<lparr>rq_method = ''GET'', rq_url = url, rq_headers = hs, rq_body = None\<rparr>"

definition post_req :: "string \<Rightarrow> (string \<times> string) list \<Rightarrow> jv option \<Rightarrow> http_req" where
  "post_req url hs body = \<lparr>rq_method = ''POST'', rq_url = url, rq_headers = hs,
     rq_body = map_option json_wire body\<rparr>"

text \<open>
  \<open>NextResponse.json\<close> throws when the status is out of range or one that forbids a body;
  \<open>new NextResponse(null, \<dots>)\<close> only when it is out of range.
\<close>

definition reply_json :: "jv \<Rightarrow> nat \<Rightarrow> world \<Rightarrow> outcome act" where
  "reply_json v st w =
     (if 200 \<le> st \<and> st \<le> 599 \<and> st \<notin> {204, 205, 304} then (Some (Json v st), w) else (None, w))"

definition reply_empty :: "nat \<Rightarrow> world \<Rightarrow> outcome act" where
  "reply_empty st w = (if 200 \<le> st \<and> st \<le> 599 then (Some (Empty st), w) else (None, w))"

definition error_json :: "string \<Rightarrow> jv" where
  "error_json msg = JObj [(''error'', JStr msg)]"

text \<open>Reading a property of null or undefined throws.\<close>

definition is_object :: "jv \<Rightarrow> jv option" where
  "is_object v = (if v = JNull \<or> v = JUndef then None else Some v)"

definition safeJson :: "http_res \<Rightarrow> jv" where
  "safeJson r = nullish (rs_json r) JNull"

definition json_header :: "(string \<times> string) list" where
  "json_header = [(''Content-Type'', ''application/json'')]"

lemma await_simps [simp]: "await (None, w) k = (None, w)" "await (Some a, w) k = k a w"
  by (simp_all add: await_def)

lemma awaitE:
  assumes "await m k = (Some r, w')"
  obtains a w where "m = (Some a, w)" "k a w = (Some r, w')"
  using assms by (cases m; cases "fst m") auto

lemma send_simps [simp]: "jar (send rq w) = jar w" "sent (send rq w) = sent w @ [rq]"
  by (simp_all add: send_def)

lemma reply_world [simp]: "snd (reply_json v st w) = w" "snd (reply_empty st w) = w"
  by (simp_all add: reply_json_def reply_empty_def)

lemma header_get_set_same [simp]: "header_get (header_set hs n v) n = Some v"
proof -
  have f: "find P (filter (\<lambda>h. \<not> P h) hs @ [x]) = find P [x]" for P and x :: "string \<times> string"
    by (induction hs) auto
  show ?thesis
    using f [of "\<lambda>h. js_toLowerCase (fst h) = js_toLowerCase n" "(n, v)"]
    by (simp add: header_get_def header_set_def)
qed

end
