(* ===== verification/Cookies.thy ===== *)
theory Cookies
  imports Http
begin

text \<open>
  The cookie helpers of \<open>apps/portal/src/auth/cookies.ts\<close> over the cookie jar, and the interface
  they rely on: a store in which a cookie set or deleted under one name leaves every other name
  alone. The facts about sequences of sets and deletes are proved once from that interface.
\<close>

section \<open>The interface of a cookie store\<close>

datatype 'c cookie_op = Put string 'c | Del string

fun op_name :: "'c cookie_op \<Rightarrow> string" where
  "op_name (Put n c) = n"
| "op_name (Del n) = n"

fun run_op :: "(string \<Rightarrow> 'c \<Rightarrow> 'j \<Rightarrow> 'j) \<Rightarrow> (string \<Rightarrow> 'j \<Rightarrow> 'j) \<Rightarrow> 'c cookie_op \<Rightarrow> 'j \<Rightarrow> 'j" where
  "run_op put del (Put n c) j = put n c j"
| "run_op put del (Del n) j = del n j"

definition run_ops :: "(string \<Rightarrow> 'c \<Rightarrow> 'j \<Rightarrow> 'j) \<Rightarrow> (string \<Rightarrow> 'j \<Rightarrow> 'j) \<Rightarrow> 'c cookie_op list \<Rightarrow> 'j \<Rightarrow> 'j" where
  "run_ops put del ops j = fold (run_op put del) ops j"

locale cookie_store =
  fixes get :: "'j \<Rightarrow> string \<Rightarrow> 'c option"
    and put :: "string \<Rightarrow> 'c \<Rightarrow> 'j \<Rightarrow> 'j"
    and del :: "string \<Rightarrow> 'j \<Rightarrow> 'j"
  assumes get_put: "get (put n c j) m = (if m = n then Some c else get j m)"
    and get_del: "get (del n j) m = (if m = n then None else get j m)"
begin

lemma ops_frame:
  assumes "\<forall>op \<in> set ops. op_name op \<noteq> m"
  shows "get (run_ops put del ops j) m = get j m"
  using assms
proof (induction ops arbitrary: j)
  case (Cons op ops)
  have "get (run_op put del op j) m = get j m"
    using Cons.prems by (cases op) (auto simp: get_put get_del)
  with Cons show ?case by (simp add: run_ops_def)
qed (simp add: run_ops_def)

lemma ops_invariant:
  assumes "\<forall>op \<in> set ops. \<forall>c. op = Put m c \<longrightarrow> Q c" "\<forall>c. get j m = Some c \<longrightarrow> Q c"
  shows "\<forall>c. get (run_ops put del ops j) m = Some c \<longrightarrow> Q c"
  using assms
proof (induction ops arbitrary: j)
  case (Cons op ops)
  have "\<forall>c. get (run_op put del op j) m = Some c \<longrightarrow> Q c"
    using Cons.prems by (cases op) (simp_all add: get_put get_del)
  moreover have "\<forall>op \<in> set ops. \<forall>c. op = Put m c \<longrightarrow> Q c" using Cons.prems(1) by simp
  ultimately have "\<forall>c. get (run_ops put del ops (run_op put del op j)) m = Some c \<longrightarrow> Q c"
    by (rule Cons.IH [rotated])
  then show ?case unfolding run_ops_def by (simp only: fold_simps comp_apply list.inject fold.simps)
qed (simp add: run_ops_def)

lemma ops_cleared:
  assumes "Del m \<in> set ops" "\<forall>op \<in> set ops. \<forall>c. op \<noteq> Put m c"
  shows "get (run_ops put del ops j) m = None"
proof -
  obtain xs ys where ops: "ops = xs @ Del m # ys" using assms(1) by (metis in_set_conv_decomp)
  define j' where "j' = del m (run_ops put del xs j)"
  have "\<forall>c. get (run_ops put del ys j') m = Some c \<longrightarrow> False"
    using assms(2) by (intro ops_invariant) (auto simp: ops j'_def get_del)
  then show ?thesis by (auto simp: ops run_ops_def j'_def)
qed

end

section \<open>The jar of a browser\<close>

definition jar_get :: "(string \<rightharpoonup> cookie) \<Rightarrow> string \<Rightarrow> cookie option" where
  "jar_get j n = j n"

definition jar_put :: "string \<Rightarrow> cookie \<Rightarrow> (string \<rightharpoonup> cookie) \<Rightarrow> (string \<rightharpoonup> cookie)" where
  "jar_put n c j = j(n \<mapsto> c)"

definition jar_delete :: "string \<Rightarrow> (string \<rightharpoonup> cookie) \<Rightarrow> (string \<rightharpoonup> cookie)" where
  "jar_delete n j = j(n := None)"

interpretation browser: cookie_store jar_get jar_put jar_delete
  by unfold_locales (simp_all add: jar_get_def jar_put_def jar_delete_def)

abbreviation jar_ops :: "cookie cookie_op list \<Rightarrow> (string \<rightharpoonup> cookie) \<Rightarrow> (string \<rightharpoonup> cookie)" where
  "jar_ops \<equiv> run_ops jar_put jar_delete"

section \<open>The helpers\<close>

definition PLATFORM_REFRESH_COOKIE :: string where
  "PLATFORM_REFRESH_COOKIE = ''sacco_refresh_platform''"

definition TENANT_REFRESH_COOKIE :: string where
  "TENANT_REFRESH_COOKIE = ''sacco_refresh_tenant''"

definition MEMBER_REFRESH_COOKIE :: string where
  "MEMBER_REFRESH_COOKIE = ''sacco_refresh_member''"

definition TENANT_SLUG_COOKIE :: string where
  "TENANT_SLUG_COOKIE = ''sacco_tenant_slug''"

definition IMPERSONATION_COOKIE :: string where
  "IMPERSONATION_COOKIE = ''sacco_impersonation''"

definition PLATFORM_REFRESH_MAX_AGE :: nat where
  "PLATFORM_REFRESH_MAX_AGE = 60 * 60"

definition TENANT_REFRESH_MAX_AGE :: nat where
  "TENANT_REFRESH_MAX_AGE = 60 * 60 * 8"

definition MEMBER_REFRESH_MAX_AGE :: nat where
  "MEMBER_REFRESH_MAX_AGE = 60 * 60 * 8"

definition jar_set :: "string \<Rightarrow> cookie \<Rightarrow> world \<Rightarrow> world" where
  "jar_set n c w = w\<lparr>jar := jar_put n c (jar w)\<rparr>"

definition jar_del :: "string \<Rightarrow> world \<Rightarrow> world" where
  "jar_del n w = w\<lparr>jar := jar_delete n (jar w)\<rparr>"

definition jar_value :: "world \<Rightarrow> string \<Rightarrow> string option" where
  "jar_value w n = map_option ck_value (jar_get (jar w) n)"

definition refresh_cookie :: "env \<Rightarrow> string \<Rightarrow> nat \<Rightarrow> cookie" where
  "refresh_cookie e v age = \<lparr>ck_value = v, ck_httpOnly = True, ck_secure = env_production e,
     ck_sameSite = Strict, ck_path = ''/'', ck_maxAge = age\<rparr>"

definition setRefreshCookie :: "env \<Rightarrow> string \<Rightarrow> string \<Rightarrow> nat \<Rightarrow> world \<Rightarrow> world" where
  "setRefreshCookie e name v maxAgeSeconds w = jar_set name (refresh_cookie e v maxAgeSeconds) w"

definition clearRefreshCookie :: "string \<Rightarrow> world \<Rightarrow> world" where
  "clearRefreshCookie name w = jar_del name w"

definition readRefreshCookie :: "string \<Rightarrow> world \<Rightarrow> string option" where
  "readRefreshCookie name w = jar_value w name"

definition slug_cookie :: "env \<Rightarrow> string \<Rightarrow> cookie" where
  "slug_cookie e slug = \<lparr>ck_value = slug, ck_httpOnly = False, ck_secure = env_production e,
     ck_sameSite = Strict, ck_path = ''/'', ck_maxAge = 60 * 60 * 24 * 30\<rparr>"

definition setTenantSlugCookie :: "env \<Rightarrow> string \<Rightarrow> world \<Rightarrow> world" where
  "setTenantSlugCookie e slug w = jar_set TENANT_SLUG_COOKIE (slug_cookie e slug) w"

definition clearTenantSlugCookie :: "world \<Rightarrow> world" where
  "clearTenantSlugCookie w = jar_del TENANT_SLUG_COOKIE w"

definition getTenantSlugCookie :: "world \<Rightarrow> string option" where
  "getTenantSlugCookie w = jar_value w TENANT_SLUG_COOKIE"

record impersonation_marker =
  mk_id :: string
  mk_tenantId :: string
  mk_tenantName :: string
  mk_expiresAt :: string

definition marker_json :: "impersonation_marker \<Rightarrow> jv" where
  "marker_json m = JObj [(''id'', JStr (mk_id m)), (''tenantId'', JStr (mk_tenantId m)),
     (''tenantName'', JStr (mk_tenantName m)), (''expiresAt'', JStr (mk_expiresAt m))]"

definition impersonation_cookie :: "env \<Rightarrow> impersonation_marker \<Rightarrow> cookie" where
  "impersonation_cookie e m = \<lparr>ck_value = stringify (\<lambda>_. []) (marker_json m), ck_httpOnly = True,
     ck_secure = env_production e, ck_sameSite = Strict, ck_path = ''/'', ck_maxAge = TENANT_REFRESH_MAX_AGE\<rparr>"

definition setImpersonationCookie :: "env \<Rightarrow> impersonation_marker \<Rightarrow> world \<Rightarrow> world" where
  "setImpersonationCookie e m w = jar_set IMPERSONATION_COOKIE (impersonation_cookie e m) w"

definition readImpersonationCookie :: "world \<Rightarrow> jv option" where
  "readImpersonationCookie w = (case jar_value w IMPERSONATION_COOKIE of
       None \<Rightarrow> None
     | Some raw \<Rightarrow> if raw = [] then None else
         (case json_parse raw of Some JNull \<Rightarrow> None | Some v \<Rightarrow> Some v | None \<Rightarrow> None))"

definition clearImpersonationCookie :: "world \<Rightarrow> world" where
  "clearImpersonationCookie w = jar_del IMPERSONATION_COOKIE w"

lemmas cookie_names = PLATFORM_REFRESH_COOKIE_def TENANT_REFRESH_COOKIE_def MEMBER_REFRESH_COOKIE_def
  TENANT_SLUG_COOKIE_def IMPERSONATION_COOKIE_def

lemmas cookie_helpers [route_defs] = setRefreshCookie_def clearRefreshCookie_def readRefreshCookie_def
  setTenantSlugCookie_def clearTenantSlugCookie_def getTenantSlugCookie_def setImpersonationCookie_def
  clearImpersonationCookie_def

lemma jar_set_simps [simp]:
  "jar (jar_set n c w) = jar_put n c (jar w)" "sent (jar_set n c w) = sent w"
  "jar (jar_del n w) = jar_delete n (jar w)" "sent (jar_del n w) = sent w"
  by (simp_all add: jar_set_def jar_del_def)

lemma jar_value_simps [simp]:
  "jar_value (jar_set n c w) m = (if m = n then Some (ck_value c) else jar_value w m)"
  "jar_value (jar_del n w) m = (if m = n then None else jar_value w m)"
  "jar_value (send rq w) m = jar_value w m"
  by (simp_all add: jar_value_def browser.get_put browser.get_del)

lemma marker_text: "stringify nt (marker_json m) \<noteq> []"
  unfolding marker_json_def stringify.simps(7) by (rule list.distinct(2))

lemma marker_plain: "plain (marker_json m)"
  unfolding marker_json_def plain.simps list.pred_inject fst_conv snd_conv list.map
  by simp

lemmas marker_parse = json_round_trip [OF marker_plain]

lemma marker_cases: "(case marker_json m of JNull \<Rightarrow> None | v \<Rightarrow> Some v) = Some (marker_json m)"
  by (simp add: marker_json_def)

lemma marker_round_trip: "readImpersonationCookie (setImpersonationCookie e m w) = Some (marker_json m)"
proof -
  have "jar_value (setImpersonationCookie e m w) IMPERSONATION_COOKIE = Some (stringify (\<lambda>_. []) (marker_json m))"
    by (simp only: setImpersonationCookie_def impersonation_cookie_def jar_value_simps cookie.simps if_True simp_thms)
  then show ?thesis
    by (simp only: readImpersonationCookie_def option.case marker_text if_False marker_parse marker_cases)
qed

end
