(* ===== verification/Middleware.thy ===== *)
theory Middleware
  imports Form_Logic Cookies
begin

text \<open>
  The request path before any page renders: \<open>apps/portal/src/auth/tenant-resolver.ts\<close> and
  \<open>apps/portal/middleware.ts\<close>. The resolver is shown equal to a reference definition (the first
  valid candidate), and the middleware's three results (redirect, pass, pass and remember the
  tenant) are characterised.
\<close>

section \<open>Resolving the tenant\<close>

definition SLUG_RE :: rexp where
  "SLUG_RE = Between 1 40 (Cls (\<lambda>c. is_lower c \<or> is_digit c \<or> c = CHR ''-''))"

record resolve_args =
  ra_host :: "string option"
  ra_searchParams :: "(string \<times> string) list"
  ra_cookieValue :: "string option"
  ra_rootDomain :: "string option"

definition extractSubdomain :: "string \<Rightarrow> string \<Rightarrow> string option" where
  "extractSubdomain host rootDomain =
     (let hostNoPort = js_toLowerCase (hd (js_split CHR '':'' host));
          root = js_toLowerCase rootDomain in
      if hostNoPort = root \<or> \<not> js_endsWith hostNoPort (CHR ''.'' # root) then None
      else
        (let sub = take (length hostNoPort - (1 + length root)) hostNoPort in
         if sub = [] \<or> sub = ''www'' \<or> CHR ''.'' \<in> set sub then None else Some sub))"

definition resolveTenantSlug :: "resolve_args \<Rightarrow> string option" where
  "resolveTenantSlug args =
     (let fromCookie = (case ra_cookieValue args of
          Some c \<Rightarrow> if c \<noteq> [] \<and> matches SLUG_RE c then Some c else None | None \<Rightarrow> None);
          fromQuery = (case map_of (ra_searchParams args) ''tenant'' of
            Some q \<Rightarrow> if q \<noteq> [] \<and> matches SLUG_RE q then Some q else fromCookie | None \<Rightarrow> fromCookie)
      in if truthy_str (ra_host args) \<and> truthy_str (ra_rootDomain args) then
           (case extractSubdomain (the (ra_host args)) (the (ra_rootDomain args)) of
              Some subdomain \<Rightarrow> if subdomain \<noteq> [] \<and> matches SLUG_RE subdomain then Some subdomain else fromQuery
            | None \<Rightarrow> fromQuery)
         else fromQuery)"

text \<open>The reference: what the host, the query and the cookie offer, in that order, and the first
  of them that is a slug.\<close>

definition valid_slug :: "string \<Rightarrow> bool" where
  "valid_slug s \<longleftrightarrow> 1 \<le> length s \<and> length s \<le> 40 \<and> list_all (\<lambda>c. slug_char c \<or> c = CHR ''-'') s"

definition candidates :: "resolve_args \<Rightarrow> string list" where
  "candidates args = List.map_filter id
     [(case (ra_host args, ra_rootDomain args) of
         (Some h, Some d) \<Rightarrow> if h \<noteq> [] \<and> d \<noteq> [] then extractSubdomain h d else None | _ \<Rightarrow> None),
      map_of (ra_searchParams args) ''tenant'',
      ra_cookieValue args]"

lemma SLUG_RE_valid: "matches SLUG_RE s \<longleftrightarrow> valid_slug s"
  using slug_re_iff [of s] by (simp add: SLUG_RE_def TENANT_SLUG_RE_def valid_slug_def)

lemma valid_slug_nonempty: "valid_slug s \<Longrightarrow> s \<noteq> []"
  by (auto simp: valid_slug_def)

lemma resolve_find: "resolveTenantSlug args = find valid_slug (candidates args)"
  by (auto simp: resolveTenantSlug_def candidates_def SLUG_RE_valid map_filter_simps Let_def
      dest: valid_slug_nonempty split: option.splits if_splits)

lemma take_before_suffix: "take (length (s @ t) - length t) (s @ t) = s"
  by simp

lemma extractSubdomain_iff:
  "extractSubdomain host rootDomain = Some s \<longleftrightarrow>
     js_toLowerCase (hd (js_split CHR '':'' host)) = s @ CHR ''.'' # js_toLowerCase rootDomain \<and>
     s \<noteq> [] \<and> s \<noteq> ''www'' \<and> CHR ''.'' \<notin> set s"
proof -
  let ?h = "js_toLowerCase (hd (js_split CHR '':'' host))" and ?r = "js_toLowerCase rootDomain"
  show ?thesis
  proof (cases "\<exists>t. ?h = t @ CHR ''.'' # ?r")
    case True
    then obtain t where t: "?h = t @ CHR ''.'' # ?r" by blast
    then have "js_endsWith ?h (CHR ''.'' # ?r)" by (simp add: js_endsWith_def suffix_def)
    moreover have "?h \<noteq> ?r" using arg_cong [OF t, of length] by auto
    moreover have "take (length ?h - (1 + length ?r)) ?h = t" by (simp add: t)
    ultimately show ?thesis using t by (auto simp: extractSubdomain_def Let_def)
  next
    case False
    then have "\<not> js_endsWith ?h (CHR ''.'' # ?r)" by (auto simp: js_endsWith_def suffix_def)
    with False show ?thesis by (auto simp: extractSubdomain_def Let_def)
  qed
qed

text \<open>
  C18. The tenant of a request is the first valid slug among the subdomain, the \<open>tenant\<close> query
  parameter and the cookie, and nothing else; a resolved slug always matches the backend's pattern.
  A subdomain counts when the host, lower-cased and without its port, is one label other than
  \<open>www\<close> directly below the root domain, and then neither query nor cookie can override it.
\<close>

theorem resolve_tenant_slug:
  "resolveTenantSlug args = find valid_slug (candidates args) \<and>
   (resolveTenantSlug args = Some t \<longrightarrow> valid_slug t) \<and>
   (ra_host args = Some h \<and> ra_rootDomain args = Some d \<and> h \<noteq> [] \<and> d \<noteq> [] \<and>
      js_toLowerCase (hd (js_split CHR '':'' h)) = s @ CHR ''.'' # js_toLowerCase d \<and>
      valid_slug s \<and> s \<noteq> ''www'' \<longrightarrow> resolveTenantSlug args = Some s)"
proof -
  have "valid_slug t" if "resolveTenantSlug args = Some t"
    using that unfolding resolve_find by (auto simp: find_Some_iff)
  moreover have "resolveTenantSlug args = Some s"
    if "ra_host args = Some h" "ra_rootDomain args = Some d" "h \<noteq> []" "d \<noteq> []" "valid_slug s" "s \<noteq> ''www''"
      "js_toLowerCase (hd (js_split CHR '':'' h)) = s @ CHR ''.'' # js_toLowerCase d"
  proof -
    have "CHR ''.'' \<notin> set s"
      using that(5) by (auto simp: valid_slug_def list_all_iff slug_char_def is_lower_def is_digit_def)
    then have "extractSubdomain h d = Some s"
      using that valid_slug_nonempty by (simp add: extractSubdomain_iff)
    then show ?thesis using that by (simp add: resolve_find candidates_def map_filter_simps)
  qed
  ultimately show ?thesis using resolve_find by blast
qed

definition demo_args :: resolve_args where
  "demo_args = \<lparr>ra_host = Some ''sacco-one.app.ug:3000'', ra_searchParams = [(''tenant'', ''other'')],
     ra_cookieValue = Some ''third'', ra_rootDomain = Some ''app.ug''\<rparr>"

theorem resolve_tenant_slug_witness: "resolveTenantSlug demo_args = Some ''sacco-one''"
proof -
  have "js_toLowerCase (hd (js_split CHR '':'' ''sacco-one.app.ug:3000'')) = ''sacco-one'' @ CHR ''.'' # js_toLowerCase ''app.ug''"
    by (simp add: js_toLowerCase_def lower_char_def)
  moreover have "valid_slug ''sacco-one''"
    by (simp add: valid_slug_def slug_char_def is_lower_def is_digit_def)
  moreover have "ra_host demo_args = Some ''sacco-one.app.ug:3000''" "ra_rootDomain demo_args = Some ''app.ug''"
    "''sacco-one.app.ug:3000'' \<noteq> []" "''app.ug'' \<noteq> []" "''sacco-one'' \<noteq> ''www''"
    by (simp_all add: demo_args_def)
  ultimately show ?thesis using resolve_tenant_slug by blast
qed

section \<open>The middleware\<close>

definition PUBLIC_PATHS_PLATFORM :: "string list" where
  "PUBLIC_PATHS_PLATFORM = [''/platform/login'', ''/platform/forgot-password'', ''/platform/reset-password'']"

definition PUBLIC_PATHS_TENANT :: "string list" where
  "PUBLIC_PATHS_TENANT = [''/login'', ''/forgot-password'', ''/reset-password'']"

definition PUBLIC_PATHS_MEMBER :: "string list" where
  "PUBLIC_PATHS_MEMBER = [''/member/login'', ''/member/set-password'', ''/member/forgot-password'',
     ''/member/reset-password'']"

record page_req =
  pg_pathname :: string
  pg_query :: "(string \<times> string) list"
  pg_headers :: "(string \<times> string) list"
  pg_jar :: "string \<rightharpoonup> cookie"

datatype mw_result =
    MwRedirect string "(string \<times> string) list"
  | MwNext "(string \<times> string) list" "(string \<times> cookie) option"

text \<open>\<open>config.matcher\<close>: every path but those whose first segment begins like an internal one.\<close>

definition matcher_applies :: "string \<Rightarrow> bool" where
  "matcher_applies p \<longleftrightarrow> (\<exists>rest. p = CHR ''/'' # rest \<and>
     \<not> list_ex (js_startsWith rest) [''api'', ''_next/static'', ''_next/image'', ''favicon'', ''public''])"

definition isPlatformPath :: "string \<Rightarrow> bool" where
  "isPlatformPath pathname \<longleftrightarrow> js_startsWith pathname ''/platform''"

definition isMemberPath :: "string \<Rightarrow> bool" where
  "isMemberPath pathname \<longleftrightarrow> pathname = ''/member'' \<or> js_startsWith pathname ''/member/''"

definition isPublic :: "string \<Rightarrow> bool" where
  "isPublic pathname =
     (if isPlatformPath pathname then pathname \<in> set PUBLIC_PATHS_PLATFORM
      else if isMemberPath pathname then pathname \<in> set PUBLIC_PATHS_MEMBER
      else pathname \<in> set PUBLIC_PATHS_TENANT)"

definition refreshCookieFor :: "string \<Rightarrow> string" where
  "refreshCookieFor pathname =
     (if isPlatformPath pathname then PLATFORM_REFRESH_COOKIE
      else if isMemberPath pathname then MEMBER_REFRESH_COOKIE else TENANT_REFRESH_COOKIE)"

definition loginPath :: "string \<Rightarrow> string" where
  "loginPath pathname =
     (if isPlatformPath pathname then ''/platform/login''
      else if isMemberPath pathname then ''/member/login'' else ''/login'')"

definition page_slug :: "env \<Rightarrow> page_req \<Rightarrow> string option" where
  "page_slug e r = resolveTenantSlug
     \<lparr>ra_host = header_get (pg_headers r) ''host'', ra_searchParams = pg_query r,
      ra_cookieValue = map_option ck_value (jar_get (pg_jar r) TENANT_SLUG_COOKIE),
      ra_rootDomain = Some (nullish (NEXT_PUBLIC_ROOT_DOMAIN e) '''')\<rparr>"

definition middleware :: "env \<Rightarrow> page_req \<Rightarrow> mw_result" where
  "middleware e r =
     (let pathname = pg_pathname r;
          slug = page_slug e r;
          headers = (if truthy_str slug then header_set (pg_headers r) ''x-sacco-tenant-slug'' (the slug)
                     else pg_headers r) in
      if \<not> isPublic pathname \<and> jar_get (pg_jar r) (refreshCookieFor pathname) = None
      then MwRedirect (loginPath pathname) [(''next'', pathname)]
      else MwNext headers
        (if truthy_str slug \<and> jar_get (pg_jar r) TENANT_SLUG_COOKIE = None \<and> \<not> isPlatformPath pathname
         then Some (TENANT_SLUG_COOKIE, slug_cookie e (the slug)) else None))"

lemma page_slug_valid: "page_slug e r = Some s \<Longrightarrow> valid_slug s"
  unfolding page_slug_def resolve_find by (auto simp: find_Some_iff)

lemma truthy_slug: "truthy_str (page_slug e r) \<longleftrightarrow> page_slug e r \<noteq> None"
  using page_slug_valid [of e r] by (cases "page_slug e r") (auto dest: valid_slug_nonempty)

lemma login_public: "isPublic (loginPath p)"
  by (simp add: isPublic_def loginPath_def isPlatformPath_def isMemberPath_def js_startsWith_def
      PUBLIC_PATHS_PLATFORM_def PUBLIC_PATHS_MEMBER_def PUBLIC_PATHS_TENANT_def)

lemma login_same_session: "refreshCookieFor (loginPath p) = refreshCookieFor p"
  by (simp add: refreshCookieFor_def loginPath_def isPlatformPath_def isMemberPath_def js_startsWith_def)


text \<open>
  What a passing request carries on: a resolved tenant overwrites whatever tenant header the
  client sent, and the tenant cookie is set only outside the platform pages, only when the
  browser has none, with a valid slug and the attributes of the cookie helper.
\<close>

theorem middleware_tenant_context:
  assumes "middleware e r = MwNext h c"
  shows "(\<forall>s. page_slug e r = Some s \<longrightarrow> header_get h ''x-sacco-tenant-slug'' = Some s) \<and>
    (page_slug e r = None \<longrightarrow> h = pg_headers r \<and> c = None) \<and>
    (c \<noteq> None \<longrightarrow> \<not> isPlatformPath (pg_pathname r) \<and> jar_get (pg_jar r) TENANT_SLUG_COOKIE = None \<and>
       (\<exists>s. page_slug e r = Some s \<and> valid_slug s \<and> c = Some (TENANT_SLUG_COOKIE, slug_cookie e s)))"
proof (cases "page_slug e r")
  case None
  with assms show ?thesis by (auto simp: middleware_def Let_def split: if_splits)
next
  case (Some s)
  then have "valid_slug s" "s \<noteq> []" using page_slug_valid valid_slug_nonempty by blast+
  with Some assms show ?thesis by (auto simp: middleware_def Let_def split: if_splits)
qed

definition demo_page :: page_req where
  "demo_page = \<lparr>pg_pathname = ''/login'', pg_query = [(''tenant'', ''sacco-one'')],
     pg_headers = [(''x-sacco-tenant-slug'', ''evil'')], pg_jar = (\<lambda>_. None)\<rparr>"

definition demo_env :: env where
  "demo_env = \<lparr>env_parse = (\<lambda>_ v. Some v), env_issues = (\<lambda>_ _. JNull), env_backend = (\<lambda>_ _. None),
     env_production = True, API_INTERNAL_URL = None, NEXT_PUBLIC_API_BASE_URL = None,
     NEXT_PUBLIC_ROOT_DOMAIN = None\<rparr>"

lemma demo_page_slug: "page_slug demo_env demo_page = Some ''sacco-one''"
proof -
  have "valid_slug ''sacco-one''" by (simp add: valid_slug_def slug_char_def is_lower_def is_digit_def)
  then show ?thesis
    by (simp add: page_slug_def resolve_find candidates_def map_filter_simps demo_page_def demo_env_def
        jar_get_def header_get_def split: option.splits)
qed

theorem middleware_tenant_context_witness:
  "\<exists>h c. middleware demo_env demo_page = MwNext h c \<and> header_get h ''x-sacco-tenant-slug'' = Some ''sacco-one''"
proof -
  have "isPublic (pg_pathname demo_page)" using login_public [of "''/x''"]
    by (simp add: demo_page_def loginPath_def isPlatformPath_def isMemberPath_def js_startsWith_def)
  then obtain h c where "middleware demo_env demo_page = MwNext h c" by (auto simp: middleware_def Let_def)
  then show ?thesis using middleware_tenant_context demo_page_slug by blast
qed

end
