(* ===== verification/Server_Context.thy ===== *)
theory Server_Context
  imports Middleware Permissions
begin

text \<open>
  The server-side session helpers: \<open>apps/portal/src/auth/server-helpers.ts\<close> and
  \<open>server-page-context.ts\<close>. React's \<open>cache\<close> makes the helpers run once per request and argument;
  no handler below calls one twice with a visible effect, so the helpers are modelled without it.
\<close>

datatype variant = Platform | Tenant | Member

definition HEADER_TENANT_SLUG :: string where
  "HEADER_TENANT_SLUG = ''x-sacco-tenant-slug''"

definition getServerTenantSlug :: "inbound \<Rightarrow> world \<Rightarrow> string option" where
  "getServerTenantSlug rq w =
     (let fromHeader = header_get (in_headers rq) HEADER_TENANT_SLUG in
      if truthy_str fromHeader then fromHeader else jar_value w TENANT_SLUG_COOKIE)"

definition refreshCookieName :: "variant \<Rightarrow> string" where
  "refreshCookieName v = (case v of Platform \<Rightarrow> PLATFORM_REFRESH_COOKIE | Tenant \<Rightarrow> TENANT_REFRESH_COOKIE
     | Member \<Rightarrow> MEMBER_REFRESH_COOKIE)"

definition refreshEndpoint :: "variant \<Rightarrow> string" where
  "refreshEndpoint v = (case v of Platform \<Rightarrow> ''/platform/auth/refresh'' | Tenant \<Rightarrow> ''/auth/refresh''
     | Member \<Rightarrow> ''/member/auth/refresh'')"

definition meEndpoint :: "variant \<Rightarrow> string" where
  "meEndpoint v = (case v of Platform \<Rightarrow> ''/platform/auth/me'' | Tenant \<Rightarrow> ''/auth/me''
     | Member \<Rightarrow> ''/member/auth/me'')"

text \<open>The access token and its lifetime; null and null when there is no session.\<close>

definition getServerAccessToken :: "env \<Rightarrow> variant \<Rightarrow> inbound \<Rightarrow> world \<Rightarrow> (jv \<times> jv) act" where
  "getServerAccessToken e v rq w =
     (if \<not> truthy_str (jar_value w (refreshCookieName v)) then (Some (JNull, JNull), w)
      else if v \<noteq> Platform \<and> \<not> truthy_str (getServerTenantSlug rq w) then (Some (JNull, JNull), w)
      else
        (let headersInit = json_header @
               (if v = Platform then [] else [(''X-Tenant-Slug'', the (getServerTenantSlug rq w))]);
             body = JObj [(''refresh_token'', JStr (the (jar_value w (refreshCookieName v))))] in
         await (fetch e (post_req (API_BASE e @ refreshEndpoint v) headersInit (Some body)) w) (\<lambda>r w.
           if \<not> res_ok r then (Some (JNull, JNull), w)
           else await (rs_json r, w) (\<lambda>j w. await (is_object j, w) (\<lambda>data w.
             (Some (js_prop data ''access_token'', js_prop data ''expires_in''), w))))))"

definition bearer :: "jv \<Rightarrow> string \<times> string" where
  "bearer accessToken = (''Authorization'', ''Bearer '' @ js_str accessToken)"

definition getServerCurrentUser :: "env \<Rightarrow> variant \<Rightarrow> jv \<Rightarrow> inbound \<Rightarrow> world \<Rightarrow> jv act" where
  "getServerCurrentUser e v accessToken rq w =
     (let headersInit = bearer accessToken #
            (if v \<noteq> Platform \<and> truthy_str (getServerTenantSlug rq w)
             then [(''X-Tenant-Slug'', the (getServerTenantSlug rq w))] else []) in
      await (fetch e (get_req (API_BASE e @ meEndpoint v) headersInit) w) (\<lambda>r w.
        if \<not> res_ok r then (Some JNull, w) else (rs_json r, w)))"

section \<open>Page contexts\<close>

record api_session =
  as_baseUrl :: string
  as_accessToken :: jv
  as_refreshEndpoint :: string
  as_slug :: "string option"

datatype page_res =
    PageRedirect string
  | PageContext jv "string option" api_session

definition getPlatformPageContext :: "env \<Rightarrow> inbound \<Rightarrow> world \<Rightarrow> page_res act" where
  "getPlatformPageContext e rq w =
     await (getServerAccessToken e Platform rq w) (\<lambda>(accessToken, _) w.
     if \<not> js_truthy accessToken then (Some (PageRedirect ''/platform/login''), w)
     else await (getServerCurrentUser e Platform accessToken rq w) (\<lambda>user w.
     if \<not> js_truthy user then (Some (PageRedirect ''/platform/login''), w)
     else (Some (PageContext user None
       \<lparr>as_baseUrl = API_BASE e, as_accessToken = accessToken,
        as_refreshEndpoint = ''/platform/auth/refresh'', as_slug = None\<rparr>), w)))"

definition getTenantPageContext :: "env \<Rightarrow> inbound \<Rightarrow> world \<Rightarrow> page_res act" where
  "getTenantPageContext e rq w =
     (let slug = getServerTenantSlug rq w in
     await (getServerAccessToken e Tenant rq w) (\<lambda>(accessToken, _) w.
     if \<not> truthy_str slug \<or> \<not> js_truthy accessToken then (Some (PageRedirect ''/login''), w)
     else await (getServerCurrentUser e Tenant accessToken rq w) (\<lambda>user w.
     if \<not> js_truthy user then (Some (PageRedirect ''/login''), w)
     else (Some (PageContext user slug
       \<lparr>as_baseUrl = API_BASE e, as_accessToken = accessToken,
        as_refreshEndpoint = ''/auth/refresh'', as_slug = slug\<rparr>), w))))"

definition getMemberPageContext :: "env \<Rightarrow> inbound \<Rightarrow> world \<Rightarrow> page_res act" where
  "getMemberPageContext e rq w =
     (let slug = getServerTenantSlug rq w in
     await (getServerAccessToken e Member rq w) (\<lambda>(accessToken, _) w.
     if \<not> truthy_str slug \<or> \<not> js_truthy accessToken then (Some (PageRedirect ''/member/login''), w)
     else await (getServerCurrentUser e Member accessToken rq w) (\<lambda>member w.
     if \<not> js_truthy member then (Some (PageRedirect ''/member/login''), w)
     else (Some (PageContext member slug
       \<lparr>as_baseUrl = API_BASE e, as_accessToken = accessToken,
        as_refreshEndpoint = ''/member/auth/refresh'', as_slug = slug\<rparr>), w))))"

text \<open>The gate redirects (Some) or lets the page go on (None).\<close>

definition requirePlatformPermission :: "current_user \<Rightarrow> string \<Rightarrow> string option" where
  "requirePlatformPermission user p =
     (if \<not> userHasPermission (Some user) p then Some ''/permission-denied'' else None)"

lemmas context_defs [route_defs] = getServerAccessToken_def getServerCurrentUser_def

end
