(* ===== verification/Auth_Routes.thy ===== *)
theory Auth_Routes
  imports Server_Context
begin

text \<open>
  The route handlers under \<open>apps/portal/app/api\<close> that keep the sessions: the nine login, refresh and
  logout routes, the six password routes and the two impersonation routes. Each is the whole
  handler: validation, early returns, the backend call, the cookies it writes and the answer.
\<close>

section \<open>Login\<close>

definition invalid_request :: "env \<Rightarrow> zschema \<Rightarrow> jv \<Rightarrow> jv" where
  "invalid_request e s body = JObj [(''error'', JStr ''Invalid request''), (''issues'', env_issues e s body)]"

definition token_body :: "jv \<Rightarrow> jv" where
  "token_body data = json_wire (JObj [(''access_token'', js_prop data ''access_token''),
     (''expires_in'', js_prop data ''expires_in'')])"

definition tenant_token_body :: "jv \<Rightarrow> jv \<Rightarrow> jv" where
  "tenant_token_body data slug = json_wire (JObj [(''access_token'', js_prop data ''access_token''),
     (''expires_in'', js_prop data ''expires_in''), (''tenant_slug'', slug)])"

definition platform_login :: "env \<Rightarrow> inbound \<Rightarrow> world \<Rightarrow> outcome act" where
  "platform_login e rq w =
     await (in_json rq, w) (\<lambda>body w.
     case env_parse e loginSchema body of
       None \<Rightarrow> reply_json (invalid_request e loginSchema body) 400 w
     | Some parsed \<Rightarrow>
         await (fetch e (post_req (API_BASE e @ ''/platform/auth/token'') json_header (Some parsed)) w) (\<lambda>r w.
         if \<not> res_ok r then reply_json (js_nullish (safeJson r) (error_json ''Login failed'')) (rs_status r) w
         else await (rs_json r, w) (\<lambda>j w. await (is_object j, w) (\<lambda>data w.
           let w = setRefreshCookie e PLATFORM_REFRESH_COOKIE (js_str (js_prop data ''refresh_token''))
                     PLATFORM_REFRESH_MAX_AGE w
           in reply_json (token_body data) 200 w))))"

definition tenant_header :: "string \<Rightarrow> (string \<times> string) list" where
  "tenant_header slug = json_header @ [(''X-Tenant-Slug'', slug)]"

definition login_slug :: "inbound \<Rightarrow> world \<Rightarrow> string option" where
  "login_slug rq w = (case header_get (in_headers rq) ''x-sacco-tenant-slug'' of
     Some s \<Rightarrow> Some s | None \<Rightarrow> getTenantSlugCookie w)"

definition tenant_login :: "env \<Rightarrow> inbound \<Rightarrow> world \<Rightarrow> outcome act" where
  "tenant_login e rq w =
     await (in_json rq, w) (\<lambda>body w.
     case env_parse e loginSchema body of
       None \<Rightarrow> reply_json (invalid_request e loginSchema body) 400 w
     | Some parsed \<Rightarrow>
         if \<not> truthy_str (login_slug rq w) then reply_json (error_json ''Tenant context missing'') 400 w
         else let tenantSlug = the (login_slug rq w) in
         await (fetch e (post_req (API_BASE e @ ''/auth/token'') (tenant_header tenantSlug) (Some parsed)) w) (\<lambda>r w.
         if \<not> res_ok r then reply_json (js_nullish (safeJson r) (error_json ''Login failed'')) (rs_status r) w
         else await (rs_json r, w) (\<lambda>j w. await (is_object j, w) (\<lambda>data w.
           let w = setRefreshCookie e TENANT_REFRESH_COOKIE (js_str (js_prop data ''refresh_token''))
                     TENANT_REFRESH_MAX_AGE w;
               w = setTenantSlugCookie e tenantSlug w
           in reply_json (tenant_token_body data (JStr tenantSlug)) 200 w))))"

definition member_login :: "env \<Rightarrow> inbound \<Rightarrow> world \<Rightarrow> outcome act" where
  "member_login e rq w =
     await (in_json rq, w) (\<lambda>body w.
     case env_parse e loginSchema body of
       None \<Rightarrow> reply_json (invalid_request e loginSchema body) 400 w
     | Some parsed \<Rightarrow>
         if \<not> truthy_str (login_slug rq w) then reply_json (error_json ''Tenant context missing'') 400 w
         else let tenantSlug = the (login_slug rq w) in
         await (fetch e (post_req (API_BASE e @ ''/member/auth/token'') (tenant_header tenantSlug) (Some parsed)) w) (\<lambda>r w.
         if \<not> res_ok r then reply_json (js_nullish (safeJson r) (error_json ''Login failed'')) (rs_status r) w
         else await (rs_json r, w) (\<lambda>j w. await (is_object j, w) (\<lambda>data w.
           let w = setRefreshCookie e MEMBER_REFRESH_COOKIE (js_str (js_prop data ''refresh_token''))
                     MEMBER_REFRESH_MAX_AGE w;
               w = setTenantSlugCookie e tenantSlug w
           in reply_json (tenant_token_body data (JStr tenantSlug)) 200 w))))"

section \<open>Refresh\<close>

definition refresh_body :: "string \<Rightarrow> jv" where
  "refresh_body t = JObj [(''refresh_token'', JStr t)]"

definition platform_refresh :: "env \<Rightarrow> world \<Rightarrow> outcome act" where
  "platform_refresh e w =
     (let refreshToken = readRefreshCookie PLATFORM_REFRESH_COOKIE w in
      if \<not> truthy_str refreshToken then reply_json (error_json ''No refresh token'') 401 w
      else
        await (fetch e (post_req (API_BASE e @ ''/platform/auth/refresh'') json_header
                 (Some (refresh_body (the refreshToken)))) w) (\<lambda>r w.
        if \<not> res_ok r then reply_json (error_json ''Refresh failed'') 401 w
        else await (rs_json r, w) (\<lambda>j w. await (is_object j, w) (\<lambda>data w.
          let w = setRefreshCookie e PLATFORM_REFRESH_COOKIE (js_str (js_prop data ''refresh_token''))
                    PLATFORM_REFRESH_MAX_AGE w
          in reply_json (token_body data) 200 w))))"

definition tenant_refresh :: "env \<Rightarrow> world \<Rightarrow> outcome act" where
  "tenant_refresh e w =
     (let refreshToken = readRefreshCookie TENANT_REFRESH_COOKIE w;
          slug = jar_value w ''sacco_tenant_slug'' in
      if \<not> truthy_str refreshToken then reply_json (error_json ''No refresh token'') 401 w
      else if \<not> truthy_str slug then reply_json (error_json ''Tenant context missing'') 401 w
      else
        await (fetch e (post_req (API_BASE e @ ''/auth/refresh'') (tenant_header (the slug))
                 (Some (refresh_body (the refreshToken)))) w) (\<lambda>r w.
        if \<not> res_ok r then reply_json (error_json ''Refresh failed'') 401 w
        else await (rs_json r, w) (\<lambda>j w. await (is_object j, w) (\<lambda>data w.
          let w = setRefreshCookie e TENANT_REFRESH_COOKIE (js_str (js_prop data ''refresh_token''))
                    TENANT_REFRESH_MAX_AGE w
          in reply_json (token_body data) 200 w))))"

definition member_refresh :: "env \<Rightarrow> world \<Rightarrow> outcome act" where
  "member_refresh e w =
     (let refreshToken = readRefreshCookie MEMBER_REFRESH_COOKIE w;
          slug = jar_value w ''sacco_tenant_slug'' in
      if \<not> truthy_str refreshToken then reply_json (error_json ''No refresh token'') 401 w
      else if \<not> truthy_str slug then reply_json (error_json ''Tenant context missing'') 401 w
      else
        await (fetch e (post_req (API_BASE e @ ''/member/auth/refresh'') (tenant_header (the slug))
                 (Some (refresh_body (the refreshToken)))) w) (\<lambda>r w.
        if \<not> res_ok r then reply_json (error_json ''Refresh failed'') 401 w
        else await (rs_json r, w) (\<lambda>j w. await (is_object j, w) (\<lambda>data w.
          let w = setRefreshCookie e MEMBER_REFRESH_COOKIE (js_str (js_prop data ''refresh_token''))
                    MEMBER_REFRESH_MAX_AGE w
          in reply_json (token_body data) 200 w))))"

section \<open>Logout\<close>

text \<open>The backend call is not awaited: whatever comes of it, the handler goes on.\<close>

definition logout_call :: "env \<Rightarrow> string \<Rightarrow> inbound \<Rightarrow> world \<Rightarrow> world" where
  "logout_call e path rq w =
     (let auth = header_get (in_headers rq) ''authorization'' in
      if truthy_str auth then send (post_req (API_BASE e @ path) [(''Authorization'', the auth)] None) w else w)"

definition ok_body :: jv where
  "ok_body = JObj [(''status'', JStr ''ok'')]"

definition platform_logout :: "env \<Rightarrow> inbound \<Rightarrow> world \<Rightarrow> outcome act" where
  "platform_logout e rq w =
     (let w = logout_call e ''/platform/auth/logout'' rq w;
          w = clearRefreshCookie PLATFORM_REFRESH_COOKIE w in reply_json ok_body 200 w)"

definition tenant_logout :: "env \<Rightarrow> inbound \<Rightarrow> world \<Rightarrow> outcome act" where
  "tenant_logout e rq w =
     (let w = logout_call e ''/auth/logout'' rq w;
          w = clearRefreshCookie TENANT_REFRESH_COOKIE w in reply_json ok_body 200 w)"

definition member_logout :: "env \<Rightarrow> inbound \<Rightarrow> world \<Rightarrow> outcome act" where
  "member_logout e rq w =
     (let w = logout_call e ''/member/auth/logout'' rq w;
          w = clearRefreshCookie MEMBER_REFRESH_COOKIE w in reply_json ok_body 200 w)"

section \<open>Passwords\<close>

definition platform_forgot_password :: "env \<Rightarrow> inbound \<Rightarrow> world \<Rightarrow> outcome act" where
  "platform_forgot_password e rq w =
     await (in_json rq, w) (\<lambda>body w.
     case env_parse e passwordResetRequestSchema body of
       None \<Rightarrow> reply_json (error_json ''Invalid request'') 400 w
     | Some parsed \<Rightarrow>
         await (fetch e (post_req (API_BASE e @ ''/platform/auth/password-reset/request'') json_header (Some parsed)) w)
           (\<lambda>r w. reply_empty (rs_status r) w))"

definition confirm_body :: "jv \<Rightarrow> jv" where
  "confirm_body data = JObj [(''token'', js_prop data ''token''), (''new_password'', js_prop data ''new_password'')]"

definition reset_reply :: "http_res \<Rightarrow> world \<Rightarrow> outcome act" where
  "reset_reply r w =
     (if rs_status r = 204 then reply_empty 204 w
      else reply_json (nullish (rs_json r) (JObj [(''detail'', JStr ''Reset failed'')])) (rs_status r) w)"

definition platform_reset_password :: "env \<Rightarrow> inbound \<Rightarrow> world \<Rightarrow> outcome act" where
  "platform_reset_password e rq w =
     await (in_json rq, w) (\<lambda>body w.
     case env_parse e passwordResetConfirmSchema body of
       None \<Rightarrow> reply_json (error_json ''Invalid request'') 400 w
     | Some parsed \<Rightarrow>
         await (fetch e (post_req (API_BASE e @ ''/platform/auth/password-reset/confirm'') json_header
                  (Some (confirm_body parsed))) w) reset_reply)"

definition tenant_forgot_password :: "env \<Rightarrow> inbound \<Rightarrow> world \<Rightarrow> outcome act" where
  "tenant_forgot_password e rq w =
     await (in_json rq, w) (\<lambda>body w.
     case env_parse e passwordResetRequestSchema body of
       None \<Rightarrow> reply_json (error_json ''Invalid request'') 400 w
     | Some parsed \<Rightarrow>
         (let tenantSlug = header_get (in_headers rq) ''x-sacco-tenant-slug'' in
          if \<not> truthy_str tenantSlug then reply_json (error_json ''Tenant context missing'') 400 w
          else await (fetch e (post_req (API_BASE e @ ''/auth/password-reset/request'')
                   (tenant_header (the tenantSlug)) (Some parsed)) w)
                 (\<lambda>r w. reply_empty (rs_status r) w)))"

definition tenant_reset_password :: "env \<Rightarrow> inbound \<Rightarrow> world \<Rightarrow> outcome act" where
  "tenant_reset_password e rq w =
     await (in_json rq, w) (\<lambda>body w.
     case env_parse e passwordResetConfirmSchema body of
       None \<Rightarrow> reply_json (error_json ''Invalid request'') 400 w
     | Some parsed \<Rightarrow>
         (let tenantSlug = header_get (in_headers rq) ''x-sacco-tenant-slug'' in
          if \<not> truthy_str tenantSlug then reply_json (error_json ''Tenant context missing'') 400 w
          else await (fetch e (post_req (API_BASE e @ ''/auth/password-reset/confirm'')
                   (tenant_header (the tenantSlug)) (Some (confirm_body parsed))) w) reset_reply))"

definition member_forgot_password :: "env \<Rightarrow> inbound \<Rightarrow> world \<Rightarrow> outcome act" where
  "member_forgot_password e rq w =
     await (in_json rq, w) (\<lambda>body w.
     case env_parse e passwordResetRequestSchema body of
       None \<Rightarrow> reply_json (error_json ''Invalid request'') 400 w
     | Some parsed \<Rightarrow>
         (let tenantSlug = header_get (in_headers rq) ''x-sacco-tenant-slug'' in
          if \<not> truthy_str tenantSlug then reply_json (error_json ''Tenant context missing'') 400 w
          else await (fetch e (post_req (API_BASE e @ ''/member/auth/password-reset/request'')
                   (tenant_header (the tenantSlug)) (Some parsed)) w)
                 (\<lambda>r w. reply_empty (rs_status r) w)))"

definition member_reset_password :: "env \<Rightarrow> inbound \<Rightarrow> world \<Rightarrow> outcome act" where
  "member_reset_password e rq w =
     await (in_json rq, w) (\<lambda>body w.
     case env_parse e passwordResetConfirmSchema body of
       None \<Rightarrow> reply_json (error_json ''Invalid request'') 400 w
     | Some parsed \<Rightarrow>
         (let tenantSlug = header_get (in_headers rq) ''x-sacco-tenant-slug'' in
          if \<not> truthy_str tenantSlug then reply_json (error_json ''Tenant context missing'') 400 w
          else await (fetch e (post_req (API_BASE e @ ''/member/auth/password-reset/confirm'')
                   (tenant_header (the tenantSlug)) (Some (confirm_body parsed))) w) reset_reply))"

section \<open>Impersonation\<close>

definition impersonation_activate :: "env \<Rightarrow> inbound \<Rightarrow> world \<Rightarrow> outcome act" where
  "impersonation_activate e rq w =
     await (in_json rq, w) (\<lambda>j w. await (is_object j, w) (\<lambda>body w.
     if \<not> js_truthy (js_prop body ''impersonation_id'') \<or> \<not> js_truthy (js_prop body ''tenant_id'')
        \<or> \<not> js_truthy (js_prop body ''tenant_name'')
     then reply_json (error_json ''Missing fields'') 400 w
     else await (getServerAccessToken e Platform rq w) (\<lambda>(accessToken, _) w.
     if \<not> js_truthy accessToken then reply_json (error_json ''No platform session'') 401 w
     else await (fetch e (post_req (API_BASE e @ ''/platform/impersonations/'' @
              js_str (js_prop body ''impersonation_id'') @ ''/mint-tenant-token'') [bearer accessToken] None) w) (\<lambda>r w.
     if \<not> res_ok r then reply_json (js_nullish (safeJson r) (error_json ''Mint failed'')) (rs_status r) w
     else await (rs_json r, w) (\<lambda>j w. await (is_object j, w) (\<lambda>data w.
       let w = setRefreshCookie e TENANT_REFRESH_COOKIE (js_str (js_prop data ''refresh_token''))
                 TENANT_REFRESH_MAX_AGE w;
           w = setTenantSlugCookie e (js_str (js_prop data ''tenant_slug'')) w;
           w = setImpersonationCookie e
                 \<lparr>mk_id = js_str (js_prop data ''impersonation_id''),
                  mk_tenantId = js_str (js_prop body ''tenant_id''),
                  mk_tenantName = js_str (js_prop body ''tenant_name''),
                  mk_expiresAt = js_str (js_prop data ''impersonation_expires_at'')\<rparr> w
       in reply_json (tenant_token_body data (js_prop data ''tenant_slug'')) 200 w))))))"

definition impersonation_end :: "env \<Rightarrow> inbound \<Rightarrow> world \<Rightarrow> outcome act" where
  "impersonation_end e rq w =
     await (in_json rq, w) (\<lambda>j w. await (is_object j, w) (\<lambda>body w.
     if \<not> js_truthy (js_prop body ''impersonation_id'')
     then reply_json (error_json ''Missing impersonation_id'') 400 w
     else await (getServerAccessToken e Platform rq w) (\<lambda>(accessToken, _) w.
     if \<not> js_truthy accessToken then reply_json (error_json ''No platform session'') 401 w
     else await (fetch e \<lparr>rq_method = ''DELETE'',
              rq_url = API_BASE e @ ''/platform/impersonations/'' @ js_str (js_prop body ''impersonation_id''),
              rq_headers = [bearer accessToken], rq_body = None\<rparr> w) (\<lambda>r w.
       let ended = (res_ok r \<or> rs_status r = 404 \<or> rs_status r = 410);
           w = clearRefreshCookie TENANT_REFRESH_COOKIE w;
           w = clearTenantSlugCookie w;
           w = clearImpersonationCookie w
       in if \<not> ended then reply_json (error_json ''End failed'') (rs_status r) w
          else reply_json (JObj [(''ok'', JBool True)]) 200 w))))"

end
