(* ===== verification/Sessions.thy ===== *)
theory Sessions
  imports Auth_Routes
begin

text \<open>
  What the session routes do to the browser's cookies, for every backend and every sequence of
  requests: each route touches only the cookies of its own session, every cookie it writes keeps
  the portal's policy, and no sequence of routes, expiries and unrelated writes leads out of it.
\<close>

section \<open>The policy\<close>

definition session_cookies :: "string list" where
  "session_cookies = [PLATFORM_REFRESH_COOKIE, TENANT_REFRESH_COOKIE, MEMBER_REFRESH_COOKIE, IMPERSONATION_COOKIE]"

definition policy :: "env \<Rightarrow> string \<Rightarrow> cookie \<Rightarrow> bool" where
  "policy e n c \<longleftrightarrow> ck_secure c = env_production e \<and> ck_sameSite c = Strict \<and> ck_path c = ''/'' \<and>
     (n \<in> set session_cookies \<longrightarrow> ck_httpOnly c)"

definition jar_ok :: "env \<Rightarrow> (string \<rightharpoonup> cookie) \<Rightarrow> bool" where
  "jar_ok e j \<longleftrightarrow> (\<forall>n \<in> set (TENANT_SLUG_COOKIE # session_cookies). \<forall>c. jar_get j n = Some c \<longrightarrow> policy e n c)"

definition jar_by :: "env \<Rightarrow> string list \<Rightarrow> (string \<rightharpoonup> cookie) \<Rightarrow> (string \<rightharpoonup> cookie) \<Rightarrow> bool" where
  "jar_by e ns j j' \<longleftrightarrow> (\<exists>ops. j' = jar_ops ops j \<and>
     (\<forall>op \<in> set ops. op_name op \<in> set ns \<and> (\<forall>n c. op = Put n c \<longrightarrow> policy e n c)))"

lemma jar_by_refl [simp]: "jar_by e ns j j"
  unfolding jar_by_def by (rule exI [of _ "[]"]) (simp add: run_ops_def)

lemma jar_by_op:
  assumes "jar_by e ns j j'" "op_name op \<in> set ns" "\<forall>n c. op = Put n c \<longrightarrow> policy e n c"
  shows "jar_by e ns j (run_op jar_put jar_delete op j')"
proof -
  from assms(1) obtain ops where "j' = jar_ops ops j"
    "\<forall>op \<in> set ops. op_name op \<in> set ns \<and> (\<forall>n c. op = Put n c \<longrightarrow> policy e n c)"
    unfolding jar_by_def by blast
  with assms(2,3) show ?thesis
    unfolding jar_by_def by (intro exI [of _ "ops @ [op]"]) (simp add: run_ops_def)
qed

lemma jar_by_put: "jar_by e ns j j' \<Longrightarrow> n \<in> set ns \<Longrightarrow> policy e n c \<Longrightarrow> jar_by e ns j (jar_put n c j')"
  using jar_by_op [of e ns j j' "Put n c"] by simp

lemma jar_by_delete: "jar_by e ns j j' \<Longrightarrow> n \<in> set ns \<Longrightarrow> jar_by e ns j (jar_delete n j')"
  using jar_by_op [of e ns j j' "Del n"] by simp

lemma jar_by_frame: "jar_by e ns j j' \<Longrightarrow> n \<notin> set ns \<Longrightarrow> jar_get j' n = jar_get j n"
  unfolding jar_by_def by (metis browser.ops_frame)

lemma jar_by_ok:
  assumes "jar_by e ns j j'" "jar_ok e j"
  shows "jar_ok e j'"
proof -
  from assms(1) obtain ops where ops: "j' = jar_ops ops j" "\<forall>op \<in> set ops. \<forall>n c. op = Put n c \<longrightarrow> policy e n c"
    unfolding jar_by_def by blast
  have "\<forall>c. jar_get j' n = Some c \<longrightarrow> policy e n c" if "n \<in> set (TENANT_SLUG_COOKIE # session_cookies)" for n
    unfolding ops(1)
  proof (rule browser.ops_invariant)
    show "\<forall>op \<in> set ops. \<forall>c. op = Put n c \<longrightarrow> policy e n c" using ops(2) by blast
    show "\<forall>c. jar_get j n = Some c \<longrightarrow> policy e n c" using assms(2) that unfolding jar_ok_def by blast
  qed
  then show ?thesis unfolding jar_ok_def by blast
qed

section \<open>The routes keep it\<close>

definition keeps :: "env \<Rightarrow> string list \<Rightarrow> (string \<rightharpoonup> cookie) \<Rightarrow> 'a act \<Rightarrow> bool" where
  "keeps e ns j m \<longleftrightarrow> jar_by e ns j (jar (snd m))"

lemma keeps_await:
  assumes "keeps e ns j m" "\<And>a w. jar_by e ns j (jar w) \<Longrightarrow> keeps e ns j (k a w)"
  shows "keeps e ns j (await m k)"
  using assms by (cases m; cases "fst m") (auto simp: keeps_def)

lemma keeps_value: "jar_by e ns j (jar w) \<Longrightarrow> keeps e ns j (x, w)"
  by (simp add: keeps_def)

lemma keeps_replies:
  "jar_by e ns j (jar w) \<Longrightarrow> keeps e ns j (reply_json v st w)"
  "jar_by e ns j (jar w) \<Longrightarrow> keeps e ns j (reply_empty st w)"
  "jar_by e ns j (jar w) \<Longrightarrow> keeps e ns j (fetch e rq w)"
  by (simp_all add: keeps_def fetch_def)

lemma keeps_reset: "jar_by e ns j (jar w) \<Longrightarrow> keeps e ns j (reset_reply r w)"
  by (simp add: reset_reply_def keeps_replies)

lemma keeps_if: "(b \<Longrightarrow> keeps e ns j m) \<Longrightarrow> (\<not> b \<Longrightarrow> keeps e ns j m') \<Longrightarrow> keeps e ns j (if b then m else m')"
  by simp

lemma keeps_option:
  "keeps e ns j m \<Longrightarrow> (\<And>a. keeps e ns j (k a)) \<Longrightarrow> keeps e ns j (case x of None \<Rightarrow> m | Some a \<Rightarrow> k a)"
  by (cases x) auto

lemma keeps_prod: "(\<And>a b. keeps e ns j (k a b w)) \<Longrightarrow> keeps e ns j ((case p of (a, b) \<Rightarrow> k a b) w)"
  by (cases p) simp

lemma keeps_access: "jar_by e ns j (jar w) \<Longrightarrow> keeps e ns j (getServerAccessToken e v rq w)"
  unfolding getServerAccessToken_def Let_def
  by (intro keeps_if keeps_await keeps_value keeps_replies)

lemma policies [simp]:
  "policy e n (refresh_cookie e v a)" "policy e TENANT_SLUG_COOKIE (slug_cookie e s)"
  "policy e IMPERSONATION_COOKIE (impersonation_cookie e m)"
  by (simp_all add: policy_def refresh_cookie_def slug_cookie_def impersonation_cookie_def session_cookies_def
      cookie_names)

lemmas keeps_rules = keeps_if keeps_option keeps_await keeps_prod keeps_value keeps_replies keeps_reset keeps_access

datatype route =
    PlatformLogin | TenantLogin | MemberLogin
  | PlatformRefresh | TenantRefresh | MemberRefresh
  | PlatformLogout | TenantLogout | MemberLogout
  | PlatformForgot | TenantForgot | MemberForgot
  | PlatformReset | TenantReset | MemberReset
  | ImpersonationActivate | ImpersonationEnd

fun run_route :: "env \<Rightarrow> route \<Rightarrow> inbound \<Rightarrow> world \<Rightarrow> outcome act" where
  "run_route e PlatformLogin rq w = platform_login e rq w"
| "run_route e TenantLogin rq w = tenant_login e rq w"
| "run_route e MemberLogin rq w = member_login e rq w"
| "run_route e PlatformRefresh rq w = platform_refresh e w"
| "run_route e TenantRefresh rq w = tenant_refresh e w"
| "run_route e MemberRefresh rq w = member_refresh e w"
| "run_route e PlatformLogout rq w = platform_logout e rq w"
| "run_route e TenantLogout rq w = tenant_logout e rq w"
| "run_route e MemberLogout rq w = member_logout e rq w"
| "run_route e PlatformForgot rq w = platform_forgot_password e rq w"
| "run_route e TenantForgot rq w = tenant_forgot_password e rq w"
| "run_route e MemberForgot rq w = member_forgot_password e rq w"
| "run_route e PlatformReset rq w = platform_reset_password e rq w"
| "run_route e TenantReset rq w = tenant_reset_password e rq w"
| "run_route e MemberReset rq w = member_reset_password e rq w"
| "run_route e ImpersonationActivate rq w = impersonation_activate e rq w"
| "run_route e ImpersonationEnd rq w = impersonation_end e rq w"

fun touches :: "route \<Rightarrow> string list" where
  "touches PlatformLogin = [PLATFORM_REFRESH_COOKIE]"
| "touches TenantLogin = [TENANT_REFRESH_COOKIE, TENANT_SLUG_COOKIE]"
| "touches MemberLogin = [MEMBER_REFRESH_COOKIE, TENANT_SLUG_COOKIE]"
| "touches PlatformRefresh = [PLATFORM_REFRESH_COOKIE]"
| "touches TenantRefresh = [TENANT_REFRESH_COOKIE]"
| "touches MemberRefresh = [MEMBER_REFRESH_COOKIE]"
| "touches PlatformLogout = [PLATFORM_REFRESH_COOKIE]"
| "touches TenantLogout = [TENANT_REFRESH_COOKIE]"
| "touches MemberLogout = [MEMBER_REFRESH_COOKIE]"
| "touches ImpersonationActivate = [TENANT_REFRESH_COOKIE, TENANT_SLUG_COOKIE, IMPERSONATION_COOKIE]"
| "touches ImpersonationEnd = [TENANT_REFRESH_COOKIE, TENANT_SLUG_COOKIE, IMPERSONATION_COOKIE]"
| "touches _ = []"

lemma logout_call_jar [simp]: "jar (logout_call e p rq w) = jar w"
  by (simp add: logout_call_def Let_def)

lemma keeps_logins:
  "keeps e (touches PlatformLogin) (jar w) (platform_login e rq w)"
  "keeps e (touches TenantLogin) (jar w) (tenant_login e rq w)"
  "keeps e (touches MemberLogin) (jar w) (member_login e rq w)"
  unfolding platform_login_def tenant_login_def member_login_def Let_def
  by (intro keeps_rules; simp add: cookie_helpers jar_by_put)+

lemma keeps_refreshes:
  "keeps e (touches PlatformRefresh) (jar w) (platform_refresh e w)"
  "keeps e (touches TenantRefresh) (jar w) (tenant_refresh e w)"
  "keeps e (touches MemberRefresh) (jar w) (member_refresh e w)"
  unfolding platform_refresh_def tenant_refresh_def member_refresh_def Let_def
  by (intro keeps_rules; simp add: cookie_helpers jar_by_put)+

lemma keeps_logouts:
  "keeps e (touches PlatformLogout) (jar w) (platform_logout e rq w)"
  "keeps e (touches TenantLogout) (jar w) (tenant_logout e rq w)"
  "keeps e (touches MemberLogout) (jar w) (member_logout e rq w)"
  unfolding platform_logout_def tenant_logout_def member_logout_def Let_def
  by (intro keeps_rules; simp add: cookie_helpers jar_by_delete)+

lemma keeps_passwords:
  "keeps e [] (jar w) (platform_forgot_password e rq w)" "keeps e [] (jar w) (platform_reset_password e rq w)"
  "keeps e [] (jar w) (tenant_forgot_password e rq w)" "keeps e [] (jar w) (tenant_reset_password e rq w)"
  "keeps e [] (jar w) (member_forgot_password e rq w)" "keeps e [] (jar w) (member_reset_password e rq w)"
  unfolding platform_forgot_password_def platform_reset_password_def tenant_forgot_password_def
    tenant_reset_password_def member_forgot_password_def member_reset_password_def Let_def
  by (intro keeps_rules; simp)+

lemma keeps_impersonation:
  "keeps e (touches ImpersonationActivate) (jar w) (impersonation_activate e rq w)"
  "keeps e (touches ImpersonationEnd) (jar w) (impersonation_end e rq w)"
  unfolding impersonation_activate_def impersonation_end_def Let_def
  by (intro keeps_rules; simp add: cookie_helpers jar_by_put jar_by_delete)+

lemma route_keeps: "keeps e (touches rt) (jar w) (run_route e rt rq w)"
  by (cases rt) (simp_all only: run_route.simps touches.simps keeps_logins [unfolded touches.simps]
      keeps_refreshes [unfolded touches.simps] keeps_logouts [unfolded touches.simps] keeps_passwords
      keeps_impersonation [unfolded touches.simps])

lemma session_frame: "n \<notin> set (touches rt) \<Longrightarrow> jar_get (jar (snd (run_route e rt rq w))) n = jar_get (jar w) n"
  using route_keeps [of e rt w rq] jar_by_frame unfolding keeps_def by blast

section \<open>Every sequence of steps keeps it\<close>

inductive portal_step :: "env \<Rightarrow> world \<Rightarrow> world \<Rightarrow> bool" for e where
  route: "portal_step e w (snd (run_route e rt rq w))"
| page: "pg_jar r = jar w \<Longrightarrow> middleware e r = MwNext h (Some (n, c)) \<Longrightarrow> portal_step e w (jar_set n c w)"
| expiry: "portal_step e w (jar_del n w)"
| unrelated: "n \<notin> set (TENANT_SLUG_COOKIE # session_cookies) \<Longrightarrow> portal_step e w (jar_set n c w)"

inductive portal_reach :: "env \<Rightarrow> world \<Rightarrow> bool" for e where
  fresh: "jar w = (\<lambda>_. None) \<Longrightarrow> portal_reach e w"
| step: "portal_reach e w \<Longrightarrow> portal_step e w w' \<Longrightarrow> portal_reach e w'"

lemma jar_ok_put: "jar_ok e j \<Longrightarrow> n \<in> set (TENANT_SLUG_COOKIE # session_cookies) \<longrightarrow> policy e n c \<Longrightarrow> jar_ok e (jar_put n c j)"
  unfolding jar_ok_def browser.get_put by auto

lemma middleware_cookie:
  "middleware e r = MwNext h (Some (n, c)) \<Longrightarrow> \<exists>s. n = TENANT_SLUG_COOKIE \<and> c = slug_cookie e s"
  by (auto simp: middleware_def Let_def split: if_splits)

lemma step_ok: "portal_step e w w' \<Longrightarrow> jar_ok e (jar w) \<Longrightarrow> jar_ok e (jar w')"
proof (induction rule: portal_step.induct)
  case (route w rt rq)
  then show ?case using jar_by_ok route_keeps unfolding keeps_def by blast
next
  case (page r w h n c)
  then show ?case using middleware_cookie [OF page(2)] by (auto intro: jar_ok_put)
next
  case (expiry w n)
  then show ?case by (auto simp: jar_ok_def browser.get_del)
next
  case (unrelated n w c)
  then have "jar_ok e (jar_put n c (jar w))" by (intro jar_ok_put) blast+
  then show ?case by simp
qed

lemma reach_ok: "portal_reach e w \<Longrightarrow> jar_ok e (jar w)"
proof (induction rule: portal_reach.induct)
  case (fresh w)
  then show ?case by (simp add: jar_ok_def jar_get_def)
qed (rule step_ok)

text \<open>
  C12. Whatever sequence of logins, refreshes, logouts, password and impersonation requests, page
  loads and cookie expiries a browser goes through, against any backend, every session cookie it
  holds is \<open>httpOnly\<close>, and every session or tenant cookie is same-site strict, for the whole site
  and secure in production.
\<close>

theorem session_cookie_policy:
  assumes "portal_reach e w" "jar_get (jar w) n = Some c" "n \<in> set (TENANT_SLUG_COOKIE # session_cookies)"
  shows "(n \<in> set session_cookies \<longrightarrow> ck_httpOnly c) \<and> ck_secure c = env_production e \<and>
    ck_sameSite c = Strict \<and> ck_path c = ''/''"
  using reach_ok [OF assms(1)] assms(2,3) unfolding jar_ok_def policy_def by blast

definition start_world :: world where
  "start_world = \<lparr>jar = (\<lambda>_. None), sent = []\<rparr>"

definition tokens :: jv where
  "tokens = JObj [(''access_token'', JStr ''acc''), (''refresh_token'', JStr ''ref''), (''expires_in'', JNum (Fin 900)),
     (''tenant_slug'', JStr ''sacco-one''), (''impersonation_id'', JStr ''imp''),
     (''impersonation_expires_at'', JStr ''soon'')]"

definition kind_env :: env where
  "kind_env = demo_env\<lparr>env_backend := (\<lambda>_ _. Some \<lparr>rs_status = 200, rs_headers = [], rs_json = Some tokens, rs_bytes = []\<rparr>)\<rparr>"

definition login_form :: inbound where
  "login_form = \<lparr>in_headers = [], in_query = [], in_json = Some (JObj [])\<rparr>"

lemma demo_login:
  "snd (run_route kind_env PlatformLogin login_form start_world) =
     jar_set PLATFORM_REFRESH_COOKIE (refresh_cookie kind_env ''ref'' PLATFORM_REFRESH_MAX_AGE)
       (send (post_req (API_BASE kind_env @ ''/platform/auth/token'') json_header (Some (JObj []))) start_world)"
  by (simp add: platform_login_def login_form_def kind_env_def demo_env_def fetch_def res_ok_def is_object_def
      tokens_def cookie_helpers token_body_def)

theorem session_cookie_policy_witness:
  "ck_httpOnly (refresh_cookie kind_env ''ref'' PLATFORM_REFRESH_MAX_AGE)"
proof -
  have "portal_reach kind_env start_world" by (rule portal_reach.fresh) (simp add: start_world_def)
  then have "portal_reach kind_env (snd (run_route kind_env PlatformLogin login_form start_world))"
    by (rule portal_reach.step) (rule portal_step.route)
  moreover have "jar_get (jar (snd (run_route kind_env PlatformLogin login_form start_world))) PLATFORM_REFRESH_COOKIE
      = Some (refresh_cookie kind_env ''ref'' PLATFORM_REFRESH_MAX_AGE)"
    unfolding demo_login by (simp add: browser.get_put)
  ultimately show ?thesis
    using session_cookie_policy [of kind_env _ PLATFORM_REFRESH_COOKIE] by (simp add: session_cookies_def)
qed

text \<open>
  C13. Sessions are isolated: a route leaves every cookie alone that is not one of its own. In
  particular no tenant, member or impersonation route changes the platform session, no platform
  session route changes a tenant's, and the password routes change no cookie at all.
\<close>

theorem session_isolation:
  assumes "n \<notin> set (touches rt)"
  shows "jar_get (jar (snd (run_route e rt rq w))) n = jar_get (jar w) n"
  using assms by (rule session_frame)

theorem session_isolation_witness:
  "jar_get (jar (snd (run_route kind_env ImpersonationEnd login_form start_world))) PLATFORM_REFRESH_COOKIE
     = jar_get (jar start_world) PLATFORM_REFRESH_COOKIE"
  by (rule session_isolation) (simp add: cookie_names)

section \<open>Login and logout\<close>

fun login :: "variant \<Rightarrow> route" where
  "login Platform = PlatformLogin" | "login Tenant = TenantLogin" | "login Member = MemberLogin"

fun logout :: "variant \<Rightarrow> route" where
  "logout Platform = PlatformLogout" | "logout Tenant = TenantLogout" | "logout Member = MemberLogout"

fun tokenEndpoint :: "variant \<Rightarrow> string" where
  "tokenEndpoint Platform = ''/platform/auth/token''"
| "tokenEndpoint Tenant = ''/auth/token''"
| "tokenEndpoint Member = ''/member/auth/token''"

definition login_request :: "env \<Rightarrow> variant \<Rightarrow> string option \<Rightarrow> jv \<Rightarrow> http_req" where
  "login_request e v slug creds = post_req (API_BASE e @ tokenEndpoint v)
     (if v = Platform then json_header else tenant_header (the slug)) (Some creds)"

definition session_answer :: "variant \<Rightarrow> string option \<Rightarrow> jv \<Rightarrow> jv" where
  "session_answer v slug data = (if v = Platform then token_body data else tenant_token_body data (JStr (the slug)))"

lemmas login_defs = platform_login_def tenant_login_def member_login_def

lemma is_object_Some: "is_object v = Some w \<longleftrightarrow> w = v \<and> v \<noteq> JNull \<and> v \<noteq> JUndef"
  by (auto simp: is_object_def)

lemma reply_same: "reply_json v st w = (res, w') \<Longrightarrow> w' = w"
  by (metis reply_world(1) snd_conv)

lemma session_answer_keys: "set (js_keys (session_answer v slug data)) \<subseteq> {''access_token'', ''expires_in'', ''tenant_slug''}"
  by (auto simp: session_answer_def token_body_def tenant_token_body_def)

text \<open>
  C14. Credentials the backend accepts open a session, in all three name spaces: the answer is 200
  with the access token and its lifetime (and the tenant), never the refresh token, which goes
  into the \<open>httpOnly\<close> cookie of that name space; a tenant or member login also remembers the tenant.
\<close>

theorem login_opens_session:
  assumes "in_json rq = Some body" "env_parse e loginSchema body = Some creds"
    and "v \<noteq> Platform \<longrightarrow> truthy_str (login_slug rq w)"
    and "env_backend e (sent w) (login_request e v (login_slug rq w) creds) = Some r"
    and "res_ok r" "rs_json r = Some data" "data \<noteq> JNull" "data \<noteq> JUndef"
  shows "\<exists>w'. run_route e (login v) rq w = (Some (Json (session_answer v (login_slug rq w) data) 200), w') \<and>
    set (js_keys (session_answer v (login_slug rq w) data)) \<subseteq> {''access_token'', ''expires_in'', ''tenant_slug''} \<and>
    jar_value w' (refreshCookieName v) = Some (js_str (js_prop data ''refresh_token'')) \<and>
    (v \<noteq> Platform \<longrightarrow> jar_value w' TENANT_SLUG_COOKIE = login_slug rq w)"
proof -
  have o: "is_object data = Some data" using assms(7,8) by (simp add: is_object_def)
  show ?thesis
    using assms(1-6) o session_answer_keys [of v "login_slug rq w" data]
    by (cases v) (auto simp: login_defs login_request_def session_answer_def fetch_def Let_def refreshCookieName_def
        cookie_helpers reply_json_def refresh_cookie_def slug_cookie_def cookie_names elim: truthy_strE)
qed

theorem login_opens_session_witness:
  "\<exists>w'. run_route kind_env (login Platform) login_form start_world =
      (Some (Json (session_answer Platform (login_slug login_form start_world) tokens) 200), w') \<and>
    jar_value w' PLATFORM_REFRESH_COOKIE = Some ''ref''"
  using login_opens_session [of login_form "JObj []" kind_env "JObj []" Platform start_world
      "\<lparr>rs_status = 200, rs_headers = [], rs_json = Some tokens, rs_bytes = []\<rparr>" tokens]
  by (auto simp: login_form_def kind_env_def demo_env_def res_ok_def tokens_def refreshCookieName_def)

text \<open>
  No session without the backend's word: unless the credentials passed validation and the
  backend answered the login request (with the tenant, for a tenant or member login) with success,
  a login leaves all cookies as they were.
\<close>

theorem login_only_on_success:
  assumes "run_route e (login v) rq w = (res, w')" "jar w' \<noteq> jar w"
  shows "\<exists>body creds r. in_json rq = Some body \<and> env_parse e loginSchema body = Some creds \<and>
    (v \<noteq> Platform \<longrightarrow> truthy_str (login_slug rq w)) \<and>
    env_backend e (sent w) (login_request e v (login_slug rq w) creds) = Some r \<and> res_ok r"
proof (cases "in_json rq")
  case None
  with assms show ?thesis by (cases v) (auto simp: login_defs)
next
  case (Some body)
  show ?thesis
  proof (cases "env_parse e loginSchema body")
    case None
    with assms Some show ?thesis by (cases v) (auto simp: login_defs dest: reply_same)
  next
    case p: (Some creds)
    show ?thesis
    proof (cases "env_backend e (sent w) (login_request e v (login_slug rq w) creds)")
      case None
      with assms Some p show ?thesis
        by (cases v) (auto simp: login_defs login_request_def fetch_def Let_def split: if_splits
            dest: reply_same)
    next
      case (Some r)
      with assms \<open>in_json rq = _\<close> p show ?thesis
        by (cases v) (auto simp: login_defs login_request_def fetch_def Let_def split: if_splits
            dest: reply_same)
    qed
  qed
qed

theorem login_only_on_success_witness:
  "\<exists>r. env_backend kind_env (sent start_world)
      (login_request kind_env Platform (login_slug login_form start_world) (JObj [])) = Some r \<and> res_ok r"
proof -
  let ?w = "snd (run_route kind_env (login Platform) login_form start_world)"
  have "jar_get (jar ?w) PLATFORM_REFRESH_COOKIE \<noteq> jar_get (jar start_world) PLATFORM_REFRESH_COOKIE"
    unfolding login.simps demo_login by (simp add: start_world_def jar_get_def jar_put_def)
  then have "jar ?w \<noteq> jar start_world" by auto
  then show ?thesis
    using login_only_on_success [of kind_env Platform login_form start_world "fst (run_route kind_env (login Platform) login_form start_world)" ?w]
    by (auto simp: login_form_def kind_env_def demo_env_def)
qed

text \<open>
  Signing out always ends the browser's session: whatever the request and the backend do, the
  answer is 200 and the refresh cookie of that name space is gone.
\<close>

theorem logout_clears:
  "\<exists>w'. run_route e (logout v) rq w = (Some (Json ok_body 200), w') \<and>
     jar w' = jar_delete (refreshCookieName v) (jar w)"
  by (cases v) (simp_all add: platform_logout_def tenant_logout_def member_logout_def cookie_helpers
      refreshCookieName_def reply_json_def)

text \<open>
  The backend rarely hears of it: a sign-out request without an \<open>Authorization\<close> header (which the
  header component never sends) makes no backend call, and the call it otherwise makes carries no
  tenant header, which the backend requires for tenant and member sessions. The session on the
  backend is then not revoked.
\<close>

theorem logout_backend_call:
  assumes "run_route e (logout v) rq w = (res, w')"
  shows "(header_get (in_headers rq) ''authorization'' = None \<longrightarrow> sent w' = sent w) \<and>
    (\<forall>q. sent w' = sent w @ [q] \<longrightarrow> header_get (rq_headers q) ''X-Tenant-Slug'' = None)"
proof -
  have tail: "q = q'" if "sent w @ [q] = sent w @ [q']" for q q' using that by simp
  have "js_toLowerCase ''Authorization'' \<noteq> js_toLowerCase ''X-Tenant-Slug''" by (simp add: js_toLowerCase_def lower_char_def)
  then show ?thesis
    using assms
    by (cases v) (auto simp: platform_logout_def tenant_logout_def member_logout_def cookie_helpers logout_call_def
        Let_def header_get_def post_req_def dest!: reply_same split: if_splits)
qed

theorem logout_backend_call_witness:
  "\<exists>res w'. run_route kind_env (logout Tenant) login_form start_world = (res, w') \<and> sent w' = sent start_world"
proof -
  have "header_get (in_headers login_form) ''authorization'' = None" by (simp add: login_form_def header_get_def)
  then show ?thesis
    using logout_backend_call [of kind_env Tenant login_form start_world] by (metis prod.collapse)
qed

section \<open>Passwords\<close>

text \<open>
  The tenant and member password forms cannot work as the portal calls them: without the tenant
  header, which the middleware does not add to \<open>/api\<close> requests, every valid request is answered 400
  and never reaches the backend, even when the tenant cookie is set.
\<close>

theorem password_routes_need_header:
  assumes "header_get (in_headers rq) ''x-sacco-tenant-slug'' = None" "in_json rq = Some body"
    and "rt \<in> {TenantForgot, MemberForgot} \<and> env_parse e passwordResetRequestSchema body = Some p \<or>
         rt \<in> {TenantReset, MemberReset} \<and> env_parse e passwordResetConfirmSchema body = Some p"
  shows "run_route e rt rq w = (Some (Json (error_json ''Tenant context missing'') 400), w)"
  using assms
  by (auto simp: tenant_forgot_password_def member_forgot_password_def tenant_reset_password_def
      member_reset_password_def reply_json_def)

theorem password_routes_need_header_witness:
  "jar_value (setTenantSlugCookie kind_env ''sacco-one'' start_world) TENANT_SLUG_COOKIE = Some ''sacco-one'' \<and>
   run_route kind_env TenantForgot login_form (setTenantSlugCookie kind_env ''sacco-one'' start_world) =
     (Some (Json (error_json ''Tenant context missing'') 400), setTenantSlugCookie kind_env ''sacco-one'' start_world)"
proof
  show "jar_value (setTenantSlugCookie kind_env ''sacco-one'' start_world) TENANT_SLUG_COOKIE = Some ''sacco-one''"
    by (simp add: setTenantSlugCookie_def slug_cookie_def)
  show "run_route kind_env TenantForgot login_form (setTenantSlugCookie kind_env ''sacco-one'' start_world) =
     (Some (Json (error_json ''Tenant context missing'') 400), setTenantSlugCookie kind_env ''sacco-one'' start_world)"
    by (rule password_routes_need_header [where body = "JObj []" and p = "JObj []"])
      (simp_all add: login_form_def header_get_def kind_env_def demo_env_def)
qed

section \<open>Impersonation\<close>

lemma access_token_jar: "getServerAccessToken e v rq w = (x, w') \<Longrightarrow> jar w' = jar w"
  using keeps_access [of e "[]" "jar w" w v rq] jar_by_frame [of e "[]" "jar w" "jar w'"]
  by (auto simp: keeps_def jar_get_def)

lemma not_ok_200: "\<not> res_ok r \<Longrightarrow> rs_status r \<noteq> 200"
  by (auto simp: res_ok_def)

lemma reply_json_Some: "reply_json v st w = (Some (Json b n), w') \<longleftrightarrow>
    b = v \<and> n = st \<and> w' = w \<and> 200 \<le> st \<and> st \<le> 599 \<and> st \<notin> {204, 205, 304}"
  by (auto simp: reply_json_def)

lemma activate_success:
  assumes "impersonation_activate e rq w = (Some (Json b 200), w')"
  shows "\<exists>body data. in_json rq = Some body \<and>
    readImpersonationCookie w' = Some (marker_json
      \<lparr>mk_id = js_str (js_prop data ''impersonation_id''), mk_tenantId = js_str (js_prop body ''tenant_id''),
       mk_tenantName = js_str (js_prop body ''tenant_name''),
       mk_expiresAt = js_str (js_prop data ''impersonation_expires_at'')\<rparr>) \<and>
    jar_value w' TENANT_REFRESH_COOKIE = Some (js_str (js_prop data ''refresh_token'')) \<and>
    jar_value w' TENANT_SLUG_COOKIE = Some (js_str (js_prop data ''tenant_slug'')) \<and>
    b = tenant_token_body data (js_prop data ''tenant_slug'')"
  using assms unfolding impersonation_activate_def
  by (auto elim!: awaitE simp: Let_def reply_json_Some is_object_Some marker_round_trip setRefreshCookie_def
      setTenantSlugCookie_def refresh_cookie_def slug_cookie_def dest: not_ok_200 split: if_splits)
    (auto simp: setImpersonationCookie_def cookie_names not_ok_200)

lemma end_clears:
  assumes "impersonation_end e rq w = (Some (Json (JObj [(''ok'', JBool True)]) 200), w')"
  shows "jar w' = jar_delete IMPERSONATION_COOKIE (jar_delete TENANT_SLUG_COOKIE (jar_delete TENANT_REFRESH_COOKIE (jar w)))"
  using assms unfolding impersonation_end_def
  by (auto elim!: awaitE simp: Let_def reply_json_Some is_object_Some error_json_def cookie_helpers fetch_def
      dest!: access_token_jar split: if_splits)


definition platform_world :: world where
  "platform_world = setRefreshCookie kind_env PLATFORM_REFRESH_COOKIE ''p'' PLATFORM_REFRESH_MAX_AGE start_world"

definition start_form :: inbound where
  "start_form = \<lparr>in_headers = [], in_query = [], in_json = Some (JObj [(''impersonation_id'', JStr ''imp''),
     (''tenant_id'', JStr ''t1''), (''tenant_name'', JStr ''One'')])\<rparr>"

lemma kind_access:
  assumes "jar_value w PLATFORM_REFRESH_COOKIE = Some ''p''"
  shows "\<exists>w'. getServerAccessToken kind_env Platform rq w = (Some (JStr ''acc'', JNum (Fin 900)), w') \<and> jar w' = jar w"
  using assms
  by (simp add: getServerAccessToken_def refreshCookieName_def kind_env_def demo_env_def fetch_def res_ok_def
      is_object_def tokens_def)

lemma kind_fetch: "fetch kind_env rq w = (Some \<lparr>rs_status = 200, rs_headers = [], rs_json = Some tokens, rs_bytes = []\<rparr>, send rq w)"
  by (simp add: fetch_def kind_env_def)

lemma kind_activate:
  "\<exists>b w1. impersonation_activate kind_env start_form platform_world = (Some (Json b 200), w1) \<and>
     jar_value w1 PLATFORM_REFRESH_COOKIE = Some ''p''"
proof -
  have "jar_value platform_world PLATFORM_REFRESH_COOKIE = Some ''p''"
    by (simp add: platform_world_def setRefreshCookie_def refresh_cookie_def)
  then obtain w' where w': "getServerAccessToken kind_env Platform start_form platform_world = (Some (JStr ''acc'', JNum (Fin 900)), w')"
    "jar w' = jar platform_world" using kind_access by blast
  then have "jar_value w' PLATFORM_REFRESH_COOKIE = Some ''p''"
    by (simp add: jar_value_def) (simp add: platform_world_def setRefreshCookie_def refresh_cookie_def browser.get_put)
  then show ?thesis
    using w'(1)
    by (simp add: impersonation_activate_def start_form_def is_object_def kind_fetch res_ok_def reply_json_def Let_def
        tokens_def setRefreshCookie_def setTenantSlugCookie_def setImpersonationCookie_def)
      (simp add: cookie_names)
qed

lemma kind_end:
  assumes "jar_value w1 PLATFORM_REFRESH_COOKIE = Some ''p''"
  shows "\<exists>w2. impersonation_end kind_env start_form w1 = (Some (Json (JObj [(''ok'', JBool True)]) 200), w2)"
proof -
  obtain w' where "getServerAccessToken kind_env Platform start_form w1 = (Some (JStr ''acc'', JNum (Fin 900)), w')"
    using kind_access [OF assms] by blast
  then show ?thesis
    by (simp add: impersonation_end_def start_form_def is_object_def kind_fetch res_ok_def reply_json_def)
qed


end
