(* ===== verification/Proxy_Routes.thy ===== *)
theory Proxy_Routes
  imports Sessions
begin

text \<open>
  The download routes under \<open>apps/portal/app/api\<close>: member statement, reports and the three PDF routes. Each
  turns the browser's session cookie into an access token and passes the backend's bytes on. The
  theory also holds the properties of the page contexts, which start the same way.
\<close>

section \<open>Query strings\<close>

text \<open>The serialiser of \<open>URLSearchParams\<close>; a code unit from 128 to 255 is two bytes in UTF-8.\<close>

definition hex_upper :: "nat \<Rightarrow> char" where
  "hex_upper n = (if n < 10 then char_of (n + 48) else char_of (n + 55))"

definition percent :: "nat \<Rightarrow> string" where
  "percent b = [CHR ''%'', hex_upper (b div 16), hex_upper (b mod 16)]"

definition form_char :: "char \<Rightarrow> string" where
  "form_char c = (let n = of_char c :: nat in
     if is_lower c \<or> is_upper c \<or> is_digit c \<or> c \<in> set ''*-._'' then [c]
     else if c = CHR '' '' then ''+''
     else if n < 128 then percent n else percent (192 + n div 64) @ percent (128 + n mod 64))"

definition form_encode :: "string \<Rightarrow> string" where
  "form_encode s = concat (map form_char s)"

definition query_string :: "(string \<times> string) list \<Rightarrow> string" where
  "query_string ps = js_join CHR ''&'' (map (\<lambda>(k, v). form_encode k @ CHR ''='' # form_encode v) ps)"

definition with_query :: "string \<Rightarrow> (string \<times> string) list \<Rightarrow> string" where
  "with_query url ps = (let qs = query_string ps in url @ (if qs \<noteq> [] then CHR ''?'' # qs else []))"

section \<open>The routes\<close>

definition session_headers :: "jv \<Rightarrow> string \<Rightarrow> (string \<times> string) list" where
  "session_headers accessToken slug = [bearer accessToken, (''X-Tenant-Slug'', slug)]"

definition member_statement :: "env \<Rightarrow> inbound \<Rightarrow> world \<Rightarrow> outcome act" where
  "member_statement e rq w =
     (let slug = getServerTenantSlug rq w in
     await (getServerAccessToken e Member rq w) (\<lambda>(accessToken, _) w.
     if \<not> truthy_str slug \<or> \<not> js_truthy accessToken then reply_json (error_json ''No member session'') 401 w
     else
       (let params = concat (map (\<lambda>key. case map_of (in_query rq) key of
                Some v \<Rightarrow> if v \<noteq> [] then [(key, v)] else [] | None \<Rightarrow> []) [''from_date'', ''to_date'', ''format'']) in
       await (fetch e (get_req (with_query (API_BASE e @ ''/member/statement'') params)
                (session_headers accessToken (the slug))) w) (\<lambda>r w.
       if \<not> res_ok r then reply_json (error_json ''Failed to load statement'') (rs_status r) w
       else (Some (Bytes (rs_bytes r)
         (if js_startsWith (nullish (header_get (rs_headers r) ''content-type'') '''') ''text/html''
          then [(''Content-Type'', ''text/html; charset=utf-8'')]
          else [(''Content-Type'', ''application/pdf''),
                (''Content-Disposition'', ''attachment; filename='' @ dquote # ''member-statement.pdf'' @ [dquote])])), w)))))"

definition ALLOWED :: "string list" where
  "ALLOWED = [''trial-balance'', ''loan-portfolio'', ''income-statement'', ''savings-statement'', ''fee-collection'']"

definition reporting :: "env \<Rightarrow> string \<Rightarrow> inbound \<Rightarrow> world \<Rightarrow> outcome act" where
  "reporting e report rq w =
     (if report \<notin> set ALLOWED then reply_json (error_json ''Unknown report'') 404 w
      else
     (let slug = getServerTenantSlug rq w in
     await (getServerAccessToken e Tenant rq w) (\<lambda>(accessToken, _) w.
     if \<not> truthy_str slug \<or> \<not> js_truthy accessToken then reply_json (error_json ''No tenant session'') 401 w
     else
       await (fetch e (get_req (with_query (API_BASE e @ ''/reporting/'' @ report) (in_query rq))
                (session_headers accessToken (the slug))) w) (\<lambda>r w.
       if \<not> res_ok r then reply_json (error_json ''Failed to load report'') (rs_status r) w
       else (Some (Bytes (rs_bytes r)
         [(''Content-Type'', nullish (header_get (rs_headers r) ''content-type'') ''application/octet-stream''),
          (''Content-Disposition'', nullish (header_get (rs_headers r) ''content-disposition'')
             (''attachment; filename='' @ dquote # report @ [dquote]))]), w)))))"

definition pdf_headers :: "string \<Rightarrow> string \<Rightarrow> (string \<times> string) list" where
  "pdf_headers stem i = [(''Content-Type'', ''application/pdf''),
     (''Content-Disposition'', ''inline; filename='' @ dquote # stem @ i @ ''.pdf'' @ [dquote])]"

definition loan_statement_pdf :: "env \<Rightarrow> string \<Rightarrow> inbound \<Rightarrow> world \<Rightarrow> outcome act" where
  "loan_statement_pdf e i rq w =
     (let slug = getServerTenantSlug rq w in
     await (getServerAccessToken e Tenant rq w) (\<lambda>(accessToken, _) w.
     if \<not> truthy_str slug \<or> \<not> js_truthy accessToken then reply_json (error_json ''No tenant session'') 401 w
     else
       await (fetch e (get_req (API_BASE e @ ''/credit/loans/'' @ i @ ''/statement.pdf'')
                (session_headers accessToken (the slug))) w) (\<lambda>r w.
       if \<not> res_ok r then reply_json (error_json ''Failed to load statement PDF'') (rs_status r) w
       else (Some (Bytes (rs_bytes r) (pdf_headers ''loan-statement-'' i)), w))))"

definition platform_invoice_pdf :: "env \<Rightarrow> string \<Rightarrow> inbound \<Rightarrow> world \<Rightarrow> outcome act" where
  "platform_invoice_pdf e i rq w =
     await (getServerAccessToken e Platform rq w) (\<lambda>(accessToken, _) w.
     if \<not> js_truthy accessToken then reply_json (error_json ''No platform session'') 401 w
     else
       await (fetch e (get_req (API_BASE e @ ''/platform/billing/invoices/'' @ i @ ''.pdf'') [bearer accessToken]) w) (\<lambda>r w.
       if \<not> res_ok r then reply_json (error_json ''Failed to load invoice PDF'') (rs_status r) w
       else (Some (Bytes (rs_bytes r) (pdf_headers ''invoice-'' i)), w)))"

definition tenant_invoice_pdf :: "env \<Rightarrow> string \<Rightarrow> inbound \<Rightarrow> world \<Rightarrow> outcome act" where
  "tenant_invoice_pdf e i rq w =
     (let slug = getServerTenantSlug rq w in
     await (getServerAccessToken e Tenant rq w) (\<lambda>(accessToken, _) w.
     if \<not> truthy_str slug \<or> \<not> js_truthy accessToken then reply_json (error_json ''No tenant session'') 401 w
     else
       await (fetch e (get_req (API_BASE e @ ''/billing/me/invoices/'' @ i @ ''.pdf'')
                (session_headers accessToken (the slug))) w) (\<lambda>r w.
       if \<not> res_ok r then reply_json (error_json ''Failed to load invoice PDF'') (rs_status r) w
       else (Some (Bytes (rs_bytes r) (pdf_headers ''invoice-'' i)), w))))"

datatype download = Statement | Report string | LoanPdf string | PlatformInvoice string | TenantInvoice string

fun run_download :: "env \<Rightarrow> download \<Rightarrow> inbound \<Rightarrow> world \<Rightarrow> outcome act" where
  "run_download e Statement rq w = member_statement e rq w"
| "run_download e (Report r) rq w = reporting e r rq w"
| "run_download e (LoanPdf i) rq w = loan_statement_pdf e i rq w"
| "run_download e (PlatformInvoice i) rq w = platform_invoice_pdf e i rq w"
| "run_download e (TenantInvoice i) rq w = tenant_invoice_pdf e i rq w"

fun session_of :: "download \<Rightarrow> variant" where
  "session_of Statement = Member"
| "session_of (PlatformInvoice i) = Platform"
| "session_of _ = Tenant"

lemmas download_defs = member_statement_def reporting_def loan_statement_pdf_def platform_invoice_pdf_def
  tenant_invoice_pdf_def

section \<open>What the access token costs\<close>

lemma header_get_Cons:
  "header_get ((k, v) # hs) n = (if js_toLowerCase k = js_toLowerCase n then Some v else header_get hs n)"
  by (simp add: header_get_def)

lemma header_get_Nil [simp]: "header_get [] n = None"
  by (simp add: header_get_def)

lemma header_names_differ:
  "js_toLowerCase ''Content-Type'' \<noteq> js_toLowerCase ''X-Tenant-Slug''"
  "js_toLowerCase ''Authorization'' \<noteq> js_toLowerCase ''X-Tenant-Slug''"
  by (simp_all add: js_toLowerCase_def lower_char_def)

definition refresh_request :: "env \<Rightarrow> variant \<Rightarrow> inbound \<Rightarrow> world \<Rightarrow> http_req" where
  "refresh_request e v rq w = post_req (API_BASE e @ refreshEndpoint v)
     (json_header @ (if v = Platform then [] else [(''X-Tenant-Slug'', the (getServerTenantSlug rq w))]))
     (Some (JObj [(''refresh_token'', JStr (the (jar_value w (refreshCookieName v))))]))"

lemma access_token_cases:
  assumes "getServerAccessToken e v rq w = (Some (tok, ex), w')"
  shows "tok = JNull \<and> (w' = w \<or> w' = send (refresh_request e v rq w) w) \<or>
    w' = send (refresh_request e v rq w) w \<and> truthy_str (jar_value w (refreshCookieName v)) \<and>
    (v \<noteq> Platform \<longrightarrow> truthy_str (getServerTenantSlug rq w)) \<and>
    (\<exists>r. env_backend e (sent w) (refresh_request e v rq w) = Some r \<and> res_ok r)"
  using assms unfolding getServerAccessToken_def fetch_def refresh_request_def
  by (auto simp: Let_def split: if_splits elim!: awaitE)

lemma access_token_truthy:
  assumes "getServerAccessToken e v rq w = (Some (tok, ex), w')" "js_truthy tok"
  shows "w' = send (refresh_request e v rq w) w" "truthy_str (jar_value w (refreshCookieName v))"
    "v \<noteq> Platform \<Longrightarrow> truthy_str (getServerTenantSlug rq w)"
    "\<exists>r. env_backend e (sent w) (refresh_request e v rq w) = Some r \<and> res_ok r"
  using access_token_cases [OF assms(1)] assms(2) by auto

lemma no_cookie_no_token:
  "\<not> truthy_str (jar_value w (refreshCookieName v)) \<Longrightarrow> getServerAccessToken e v rq w = (Some (JNull, JNull), w)"
  by (simp add: getServerAccessToken_def)

section \<open>Properties of the downloads\<close>

definition authorised :: "env \<Rightarrow> variant \<Rightarrow> inbound \<Rightarrow> world \<Rightarrow> http_req \<Rightarrow> bool" where
  "authorised e v rq w q \<longleftrightarrow>
     (\<exists>tok. header_get (rq_headers q) ''Authorization'' = Some (''Bearer '' @ tok)) \<and>
     (v \<noteq> Platform \<longrightarrow> header_get (rq_headers q) ''X-Tenant-Slug'' = getServerTenantSlug rq w)"

lemma authorised_headers:
  "authorised e Platform rq w (get_req url [bearer tok])"
  "truthy_str (getServerTenantSlug rq w) \<Longrightarrow>
     authorised e v rq w (get_req url (session_headers tok (the (getServerTenantSlug rq w))))"
  using header_names_differ
  by (auto simp: authorised_def get_req_def session_headers_def bearer_def header_get_Cons elim: truthy_strE)

lemma reply_json_no_bytes: "reply_json v st w \<noteq> (Some (Bytes b hs), w')"
  by (simp add: reply_json_def)

text \<open>All five routes end in the same three steps.\<close>

definition granted :: "env \<Rightarrow> variant \<Rightarrow> inbound \<Rightarrow> world \<Rightarrow> string \<Rightarrow> world \<Rightarrow> bool" where
  "granted e v rq w b w' \<longleftrightarrow> truthy_str (jar_value w (refreshCookieName v)) \<and> jar w' = jar w \<and>
     (\<exists>q r. sent w' = sent w @ [refresh_request e v rq w, q] \<and> authorised e v rq w q \<and>
        env_backend e (sent w @ [refresh_request e v rq w]) q = Some r \<and> res_ok r \<and> b = rs_bytes r)"

lemma guarded_download:
  assumes run: "await (getServerAccessToken e v rq w) (\<lambda>(tok, _) w. if bad tok then reply_json x st w
      else await (fetch e (Q tok) w) (\<lambda>r w. if \<not> res_ok r then reply_json y (rs_status r) w
        else (Some (Bytes (rs_bytes r) (H r)), w))) = (Some (Bytes b hs), w')"
    and bad: "\<And>tok. \<not> bad tok \<Longrightarrow> js_truthy tok \<and> authorised e v rq w (Q tok)"
  shows "granted e v rq w b w'"
proof -
  obtain tok ex w1 where tok: "getServerAccessToken e v rq w = (Some (tok, ex), w1)"
    and rest: "(if bad tok then reply_json x st w1 else await (fetch e (Q tok) w1) (\<lambda>r w.
        if \<not> res_ok r then reply_json y (rs_status r) w else (Some (Bytes (rs_bytes r) (H r)), w)))
        = (Some (Bytes b hs), w')"
    using run by (auto elim!: awaitE)
  have "\<not> bad tok" using rest by (auto simp: reply_json_no_bytes split: if_splits)
  then have t: "js_truthy tok" "authorised e v rq w (Q tok)" using bad by blast+
  note a = access_token_truthy [OF tok t(1)]
  from rest \<open>\<not> bad tok\<close> obtain r where "env_backend e (sent w1) (Q tok) = Some r" "res_ok r"
    "b = rs_bytes r" "w' = send (Q tok) w1"
    by (auto simp: fetch_def reply_json_no_bytes elim!: awaitE split: if_splits)
  then show ?thesis using a(1,2) t(2) unfolding granted_def by auto
qed

lemma granted_downloads:
  "member_statement e rq w = (Some (Bytes b hs), w') \<Longrightarrow> granted e Member rq w b w'"
  "reporting e rep rq w = (Some (Bytes b hs), w') \<Longrightarrow> granted e Tenant rq w b w' \<and> rep \<in> set ALLOWED"
  "loan_statement_pdf e i rq w = (Some (Bytes b hs), w') \<Longrightarrow> granted e Tenant rq w b w'"
  "platform_invoice_pdf e i rq w = (Some (Bytes b hs), w') \<Longrightarrow> granted e Platform rq w b w'"
  "tenant_invoice_pdf e i rq w = (Some (Bytes b hs), w') \<Longrightarrow> granted e Tenant rq w b w'"
  unfolding download_defs Let_def
  by (auto simp: reply_json_no_bytes authorised_headers elim!: guarded_download split: if_splits)


text \<open>
  Without a session nothing leaves the portal: with no refresh cookie of the right kind a download
  is answered 401 (or 404 for an unknown report) and no request at all is sent to the backend.
\<close>

theorem download_refused:
  assumes "\<not> truthy_str (jar_value w (refreshCookieName (session_of d)))"
  shows "\<exists>msg st. run_download e d rq w = (Some (Json (error_json msg) st), w) \<and> st \<in> {401, 404} \<and>
    (st = 404 \<longrightarrow> (\<exists>rep. d = Report rep \<and> rep \<notin> set ALLOWED))"
  using no_cookie_no_token [OF assms, of e rq]
  by (cases d) (auto simp: download_defs Let_def reply_json_def)

theorem download_refused_witness:
  "\<exists>msg st. run_download kind_env (Report ''trial-balance'') login_form start_world
      = (Some (Json (error_json msg) st), start_world) \<and> st \<in> {401, 404}"
proof -
  have "\<not> truthy_str (jar_value start_world (refreshCookieName (session_of (Report ''trial-balance''))))"
    by (simp add: start_world_def jar_value_def jar_get_def)
  then show ?thesis using download_refused by blast
qed

lemma kind_download:
  "\<exists>w'. run_download kind_env (PlatformInvoice ''7'') login_form platform_world = (Some (Bytes [] (pdf_headers ''invoice-'' ''7'')), w')"
proof -
  have "jar_value platform_world PLATFORM_REFRESH_COOKIE = Some ''p''"
    by (simp add: platform_world_def setRefreshCookie_def refresh_cookie_def)
  then obtain w' where "getServerAccessToken kind_env Platform login_form platform_world = (Some (JStr ''acc'', JNum (Fin 900)), w')"
    using kind_access by blast
  then show ?thesis by (simp add: platform_invoice_pdf_def kind_fetch res_ok_def)
qed


section \<open>Page contexts\<close>

fun page_context :: "variant \<Rightarrow> env \<Rightarrow> inbound \<Rightarrow> world \<Rightarrow> page_res act" where
  "page_context Platform e rq w = getPlatformPageContext e rq w"
| "page_context Tenant e rq w = getTenantPageContext e rq w"
| "page_context Member e rq w = getMemberPageContext e rq w"

fun login_page :: "variant \<Rightarrow> string" where
  "login_page Platform = ''/platform/login''" | "login_page Tenant = ''/login''" | "login_page Member = ''/member/login''"

lemmas page_defs = getPlatformPageContext_def getTenantPageContext_def getMemberPageContext_def

text \<open>The request for the signed-in user.\<close>

definition me_request :: "env \<Rightarrow> variant \<Rightarrow> jv \<Rightarrow> inbound \<Rightarrow> world \<Rightarrow> http_req" where
  "me_request e v tok rq w = get_req (API_BASE e @ meEndpoint v) (bearer tok #
     (if v \<noteq> Platform \<and> truthy_str (getServerTenantSlug rq w)
      then [(''X-Tenant-Slug'', the (getServerTenantSlug rq w))] else []))"

lemma current_user_world:
  "getServerCurrentUser e v tok rq w = (Some u, w') \<Longrightarrow> w' = send (me_request e v tok rq w) w"
  by (auto simp: getServerCurrentUser_def me_request_def fetch_def Let_def elim!: awaitE split: if_splits)

lemma slug_send [simp]: "getServerTenantSlug rq (send q w) = getServerTenantSlug rq w"
  by (simp add: getServerTenantSlug_def Let_def)

lemma me_request_send [simp]: "me_request e v tok rq (send q w) = me_request e v tok rq w"
  by (simp add: me_request_def)

definition page_granted :: "variant \<Rightarrow> env \<Rightarrow> inbound \<Rightarrow> world \<Rightarrow> jv \<Rightarrow> string option \<Rightarrow> api_session \<Rightarrow> world \<Rightarrow> bool" where
  "page_granted v e rq w u slug s w' \<longleftrightarrow>
     truthy_str (jar_value w (refreshCookieName v)) \<and> js_truthy u \<and> js_truthy (as_accessToken s) \<and> as_slug s = slug \<and>
     as_refreshEndpoint s = refreshEndpoint v \<and>
     (if v = Platform then slug = None else slug = getServerTenantSlug rq w \<and> truthy_str slug) \<and>
     w' = send (me_request e v (as_accessToken s) rq w) (send (refresh_request e v rq w) w)"

lemma page_contextE:
  assumes "await (getServerAccessToken e v rq w) (\<lambda>(tok, _) w. if bad tok then (Some (PageRedirect l), w)
      else await (getServerCurrentUser e v tok rq w) (\<lambda>u w. if \<not> js_truthy u then (Some (PageRedirect l), w)
        else (Some (PageContext u sl (S tok)), w))) = (Some (PageContext u slug s), w')"
    and "\<And>tok. \<not> bad tok \<Longrightarrow> js_truthy tok"
  obtains tok where "\<not> bad tok" "js_truthy tok" "truthy_str (jar_value w (refreshCookieName v))" "js_truthy u" "slug = sl"
    "s = S tok" "w' = send (me_request e v tok rq w) (send (refresh_request e v rq w) w)"
proof -
  obtain tok ex w1 where tok: "getServerAccessToken e v rq w = (Some (tok, ex), w1)"
    and nb: "\<not> bad tok" and rest: "await (getServerCurrentUser e v tok rq w1) (\<lambda>u w. if \<not> js_truthy u then (Some (PageRedirect l), w)
        else (Some (PageContext u sl (S tok)), w)) = (Some (PageContext u slug s), w')"
    using assms(1) by (auto elim!: awaitE split: if_splits)
  have t: "js_truthy tok" using nb assms(2) by blast
  note a = access_token_truthy [OF tok t]
  from rest have "js_truthy u" "slug = sl" "s = S tok" "w' = send (me_request e v tok rq w1) w1"
    by (auto elim!: awaitE dest!: current_user_world split: if_splits)
  then show thesis using that [of tok] nb t a(1,2) by simp
qed

lemma page_context_granted:
  "page_context v e rq w = (Some (PageContext u slug s), w') \<Longrightarrow> page_granted v e rq w u slug s w'"
proof (cases v)
  case Platform
  assume "page_context v e rq w = (Some (PageContext u slug s), w')"
  then show ?thesis unfolding Platform page_context.simps page_defs
    by (rule page_contextE) (auto simp: page_granted_def refreshEndpoint_def)
next
  case Tenant
  assume "page_context v e rq w = (Some (PageContext u slug s), w')"
  then show ?thesis unfolding Tenant page_context.simps page_defs Let_def
    by (rule page_contextE) (auto simp: page_granted_def refreshEndpoint_def)
next
  case Member
  assume "page_context v e rq w = (Some (PageContext u slug s), w')"
  then show ?thesis unfolding Member page_context.simps page_defs Let_def
    by (rule page_contextE) (auto simp: page_granted_def refreshEndpoint_def)
qed


lemma kind_page:
  "\<exists>u s w'. page_context Platform kind_env login_form platform_world = (Some (PageContext u None s), w')"
proof -
  have "jar_value platform_world PLATFORM_REFRESH_COOKIE = Some ''p''"
    by (simp add: platform_world_def setRefreshCookie_def refresh_cookie_def)
  then obtain w' where "getServerAccessToken kind_env Platform login_form platform_world = (Some (JStr ''acc'', JNum (Fin 900)), w')"
    using kind_access by blast
  then show ?thesis
    by (simp add: getPlatformPageContext_def getServerCurrentUser_def kind_fetch res_ok_def tokens_def)
qed


text \<open>
  A visitor without the session's refresh cookie is sent to that name space's login page, and the
  backend is not asked.
\<close>

theorem page_context_redirects:
  assumes "\<not> truthy_str (jar_value w (refreshCookieName v))"
  shows "page_context v e rq w = (Some (PageRedirect (login_page v)), w)"
  using no_cookie_no_token [OF assms, of e rq] by (cases v) (simp_all add: page_defs)

theorem page_context_redirects_witness:
  "page_context Member kind_env login_form start_world = (Some (PageRedirect ''/member/login''), start_world)"
proof -
  have "\<not> truthy_str (jar_value start_world (refreshCookieName Member))"
    by (simp add: start_world_def jar_value_def jar_get_def)
  then show ?thesis using page_context_redirects by force
qed

text \<open>
  The tenant header is trusted as it arrives: on a page request for which no tenant resolves, the
  middleware passes a client's own \<open>x-sacco-tenant-slug\<close> header through, and the server helpers then
  take any text in it for the tenant, in place of the cookie and without checking its form.
\<close>

theorem spoofed_tenant_header:
  assumes "middleware e r = MwNext h c" "page_slug e r = None"
    and "header_get (pg_headers r) ''x-sacco-tenant-slug'' = Some evil" "evil \<noteq> []" "in_headers rq = h"
  shows "getServerTenantSlug rq w = Some evil"
proof -
  have "h = pg_headers r"
    using assms(1,2) by (auto simp: middleware_def Let_def split: if_splits)
  then show ?thesis using assms(3-5) by (simp add: getServerTenantSlug_def HEADER_TENANT_SLUG_def)
qed

definition spoof_page :: page_req where
  "spoof_page = demo_page\<lparr>pg_query := []\<rparr>"

theorem spoofed_tenant_header_witness:
  "getServerTenantSlug (login_form\<lparr>in_headers := pg_headers spoof_page\<rparr>) start_world = Some ''evil''"
proof (rule spoofed_tenant_header [of demo_env spoof_page "pg_headers spoof_page" None])
  show none: "page_slug demo_env spoof_page = None"
    by (simp add: page_slug_def resolve_find candidates_def map_filter_simps spoof_page_def demo_page_def
        demo_env_def jar_get_def header_get_def split: option.splits)
  show "middleware demo_env spoof_page = MwNext (pg_headers spoof_page) None"
    using login_public [of "''/x''"] none
    by (simp add: middleware_def spoof_page_def demo_page_def loginPath_def isPlatformPath_def isMemberPath_def
        js_startsWith_def)
qed (simp_all add: spoof_page_def demo_page_def header_get_def)

end
