(* ===== verification/Resources.thy ===== *)
theory Resources
  imports JS_Value Prelude
begin

text \<open>
  The resource wrappers of \<open>packages/api-client/src/resources\<close>: 24 modules with 196 operations, each of
  which hands one call to the HTTP client. A module is a datatype of its operations with their
  arguments and a function from an operation to the call it makes: the method, the path template,
  the path parameters, the query and the body, as they are passed to \<open>api.GET\<close>, \<open>api.POST\<close> and so on.
  An argument that may be left out (\<open>query?\<close>) is an option. \<open>buildResources\<close> joins the modules.
\<close>

record api_call =
  ac_method :: string
  ac_template :: string
  ac_path :: "(string \<times> string) list"
  ac_query :: "jv option"
  ac_body :: "jv option"

definition GET :: "string \<Rightarrow> (string \<times> string) list \<Rightarrow> jv option \<Rightarrow> jv option \<Rightarrow> api_call" where
  "GET t ps q b = \<lparr>ac_method = ''GET'', ac_template = t, ac_path = ps, ac_query = q, ac_body = b\<rparr>"

definition POST :: "string \<Rightarrow> (string \<times> string) list \<Rightarrow> jv option \<Rightarrow> jv option \<Rightarrow> api_call" where
  "POST t ps q b = \<lparr>ac_method = ''POST'', ac_template = t, ac_path = ps, ac_query = q, ac_body = b\<rparr>"

definition PUT :: "string \<Rightarrow> (string \<times> string) list \<Rightarrow> jv option \<Rightarrow> jv option \<Rightarrow> api_call" where
  "PUT t ps q b = \<lparr>ac_method = ''PUT'', ac_template = t, ac_path = ps, ac_query = q, ac_body = b\<rparr>"

definition PATCH :: "string \<Rightarrow> (string \<times> string) list \<Rightarrow> jv option \<Rightarrow> jv option \<Rightarrow> api_call" where
  "PATCH t ps q b = \<lparr>ac_method = ''PATCH'', ac_template = t, ac_path = ps, ac_query = q, ac_body = b\<rparr>"

definition DELETE :: "string \<Rightarrow> (string \<times> string) list \<Rightarrow> jv option \<Rightarrow> jv option \<Rightarrow> api_call" where
  "DELETE t ps q b = \<lparr>ac_method = ''DELETE'', ac_template = t, ac_path = ps, ac_query = q, ac_body = b\<rparr>"

lemmas call_defs = GET_def POST_def PUT_def PATCH_def DELETE_def

section \<open>The modules\<close>

datatype platformAuth_op =
    PlatformAuth_login jv
  | PlatformAuth_refresh jv
  | PlatformAuth_logout
  | PlatformAuth_me
  | PlatformAuth_passwordResetRequest jv
  | PlatformAuth_passwordResetConfirm jv

fun platformAuth :: "platformAuth_op \<Rightarrow> api_call" where
  "platformAuth (PlatformAuth_login body) = POST ''/platform/auth/token'' [] None (Some body)"
| "platformAuth (PlatformAuth_refresh body) = POST ''/platform/auth/refresh'' [] None (Some body)"
| "platformAuth PlatformAuth_logout = POST ''/platform/auth/logout'' [] None None"
| "platformAuth PlatformAuth_me = GET ''/platform/auth/me'' [] None None"
| "platformAuth (PlatformAuth_passwordResetRequest body) =
     POST ''/platform/auth/password-reset/request'' [] None (Some body)"
| "platformAuth (PlatformAuth_passwordResetConfirm body) =
     POST ''/platform/auth/password-reset/confirm'' [] None (Some body)"

datatype tenants_op =
    Tenants_list "jv option"
  | Tenants_listArchived
  | Tenants_get string
  | Tenants_create jv
  | Tenants_retryProvisioning string
  | Tenants_patch string jv
  | Tenants_suspend string jv
  | Tenants_reactivate string
  | Tenants_assignPlan string jv
  | Tenants_cancel string jv
  | Tenants_restore string
  | Tenants_extendRetention string jv
  | Tenants_lifecycle string
  | Tenants_listUsers string
  | Tenants_getUser string string
  | Tenants_createUser string jv
  | Tenants_patchUser string string jv
  | Tenants_resetUserPassword string string

fun tenants :: "tenants_op \<Rightarrow> api_call" where
  "tenants (Tenants_list query) = GET ''/platform/tenants'' [] query None"
| "tenants Tenants_listArchived =
     GET ''/platform/tenants'' [] (Some (JObj [(''lifecycle_state'', JStr ''archived'')])) None"
| "tenants (Tenants_get i) = GET ''/platform/tenants/{tenant_id}'' [(''tenant_id'', i)] None None"
| "tenants (Tenants_create body) = POST ''/platform/tenants'' [] None (Some body)"
| "tenants (Tenants_retryProvisioning i) =
     POST ''/platform/tenants/{tenant_id}/retry-provisioning'' [(''tenant_id'', i)] None None"
| "tenants (Tenants_patch i body) =
     PATCH ''/platform/tenants/{tenant_id}'' [(''tenant_id'', i)] None (Some body)"
| "tenants (Tenants_suspend i body) =
     POST ''/platform/tenants/{tenant_id}/suspend'' [(''tenant_id'', i)] None (Some body)"
| "tenants (Tenants_reactivate i) =
     POST ''/platform/tenants/{tenant_id}/reactivate'' [(''tenant_id'', i)] None None"
| "tenants (Tenants_assignPlan i body) =
     POST ''/platform/tenants/{tenant_id}/assign-plan'' [(''tenant_id'', i)] None (Some body)"
| "tenants (Tenants_cancel i body) =
     POST ''/platform/tenants/{tenant_id}/cancel'' [(''tenant_id'', i)] None (Some body)"
| "tenants (Tenants_restore i) =
     POST ''/platform/tenants/{tenant_id}/restore'' [(''tenant_id'', i)] None None"
| "tenants (Tenants_extendRetention i body) =
     POST ''/platform/tenants/{tenant_id}/extend-retention'' [(''tenant_id'', i)] None (Some body)"
| "tenants (Tenants_lifecycle i) =
     GET ''/platform/tenants/{tenant_id}/lifecycle'' [(''tenant_id'', i)] None None"
| "tenants (Tenants_listUsers i) =
     GET ''/platform/tenants/{tenant_id}/users'' [(''tenant_id'', i)] None None"
| "tenants (Tenants_getUser i userId) =
     GET ''/platform/tenants/{tenant_id}/users/{user_id}'' [(''tenant_id'', i), (''user_id'', userId)] None None"
| "tenants (Tenants_createUser i body) =
     POST ''/platform/tenants/{tenant_id}/users'' [(''tenant_id'', i)] None (Some body)"
| "tenants (Tenants_patchUser i userId body) =
     PATCH ''/platform/tenants/{tenant_id}/users/{user_id}'' [(''tenant_id'', i), (''user_id'', userId)] None (Some body)"
| "tenants (Tenants_resetUserPassword i userId) =
     POST ''/platform/tenants/{tenant_id}/users/{user_id}/password-reset'' [(''tenant_id'', i), (''user_id'', userId)] None None"

datatype billing_op =
    Billing_listPlans "jv option"
  | Billing_createPlan jv
  | Billing_getPlan string
  | Billing_patchPlan string jv
  | Billing_listSubscriptions "jv option"
  | Billing_createSubscription jv
  | Billing_getSubscription string
  | Billing_cancelSubscription string jv "jv option"
  | Billing_reactivateSubscription string
  | Billing_listInvoices "jv option"
  | Billing_getInvoice string
  | Billing_getInvoicePdf string
  | Billing_voidInvoice string jv
  | Billing_recordPayment string jv
  | Billing_listPendingPayments
  | Billing_rejectPayment string jv
  | Billing_mySubscription
  | Billing_myInvoices "jv option"
  | Billing_myInvoice string
  | Billing_myInvoicePdf string

fun billing :: "billing_op \<Rightarrow> api_call" where
  "billing (Billing_listPlans query) = GET ''/platform/billing/plans'' [] query None"
| "billing (Billing_createPlan body) = POST ''/platform/billing/plans'' [] None (Some body)"
| "billing (Billing_getPlan planId) =
     GET ''/platform/billing/plans/{plan_id}'' [(''plan_id'', planId)] None None"
| "billing (Billing_patchPlan planId body) =
     PATCH ''/platform/billing/plans/{plan_id}'' [(''plan_id'', planId)] None (Some body)"
| "billing (Billing_listSubscriptions query) = GET ''/platform/billing/subscriptions'' [] query None"
| "billing (Billing_createSubscription body) =
     POST ''/platform/billing/subscriptions'' [] None (Some body)"
| "billing (Billing_getSubscription i) =
     GET ''/platform/billing/subscriptions/{subscription_id}'' [(''subscription_id'', i)] None None"
| "billing (Billing_cancelSubscription i body query) =
     POST ''/platform/billing/subscriptions/{subscription_id}/cancel'' [(''subscription_id'', i)] query (Some body)"
| "billing (Billing_reactivateSubscription i) =
     POST ''/platform/billing/subscriptions/{subscription_id}/reactivate'' [(''subscription_id'', i)] None None"
| "billing (Billing_listInvoices query) = GET ''/platform/billing/invoices'' [] query None"
| "billing (Billing_getInvoice i) =
     GET ''/platform/billing/invoices/{invoice_id}'' [(''invoice_id'', i)] None None"
| "billing (Billing_getInvoicePdf i) =
     GET ''/platform/billing/invoices/{invoice_id}.pdf'' [(''invoice_id'', i)] None None"
| "billing (Billing_voidInvoice i body) =
     POST ''/platform/billing/invoices/{invoice_id}/void'' [(''invoice_id'', i)] None (Some body)"
| "billing (Billing_recordPayment i body) =
     POST ''/platform/billing/invoices/{invoice_id}/payments'' [(''invoice_id'', i)] None (Some body)"
| "billing Billing_listPendingPayments =
     GET ''/platform/billing/payments/pending-confirmation'' [] None None"
| "billing (Billing_rejectPayment paymentId body) =
     POST ''/platform/billing/payments/{payment_id}/reject'' [(''payment_id'', paymentId)] None (Some body)"
| "billing Billing_mySubscription = GET ''/billing/me/subscription'' [] None None"
| "billing (Billing_myInvoices query) = GET ''/billing/me/invoices'' [] query None"
| "billing (Billing_myInvoice i) =
     GET ''/billing/me/invoices/{invoice_id}'' [(''invoice_id'', i)] None None"
| "billing (Billing_myInvoicePdf i) =
     GET ''/billing/me/invoices/{invoice_id}.pdf'' [(''invoice_id'', i)] None None"

datatype members_op =
    Members_list "jv option"
  | Members_get string
  | Members_getKycRequirements
  | Members_putKycRequirements jv
  | Members_getKyc string
  | Members_listKycSubmissions "jv option"
  | Members_getKycSubmission string
  | Members_approveKycSubmission string
  | Members_rejectKycSubmission string jv
  | Members_create jv
  | Members_changeStatus string jv

fun members :: "members_op \<Rightarrow> api_call" where
  "members (Members_list query) = GET ''/members'' [] query None"
| "members (Members_get i) = GET ''/members/{member_id}'' [(''member_id'', i)] None None"
| "members Members_getKycRequirements = GET ''/members/kyc-requirements'' [] None None"
| "members (Members_putKycRequirements body) = PUT ''/members/kyc-requirements'' [] None (Some body)"
| "members (Members_getKyc i) = GET ''/members/{member_id}/kyc'' [(''member_id'', i)] None None"
| "members (Members_listKycSubmissions query) = GET ''/members/kyc-submissions'' [] query None"
| "members (Members_getKycSubmission i) =
     GET ''/members/kyc-submissions/{submission_id}'' [(''submission_id'', i)] None None"
| "members (Members_approveKycSubmission i) =
     POST ''/members/kyc-submissions/{submission_id}/approve'' [(''submission_id'', i)] None None"
| "members (Members_rejectKycSubmission i body) =
     POST ''/members/kyc-submissions/{submission_id}/reject'' [(''submission_id'', i)] None (Some body)"
| "members (Members_create body) = POST ''/members'' [] None (Some body)"
| "members (Members_changeStatus i body) =
     POST ''/members/{member_id}/status-change'' [(''member_id'', i)] None (Some body)"

datatype savings_op =
    Savings_listProducts "jv option"
  | Savings_createProduct jv
  | Savings_getProduct string
  | Savings_listAccounts "jv option"
  | Savings_createAccount jv
  | Savings_getAccount string
  | Savings_deposit string jv
  | Savings_withdraw string jv
  | Savings_listTransactions string "jv option"

fun savings :: "savings_op \<Rightarrow> api_call" where
  "savings (Savings_listProducts query) = GET ''/savings/products'' [] query None"
| "savings (Savings_createProduct body) = POST ''/savings/products'' [] None (Some body)"
| "savings (Savings_getProduct i) =
     GET ''/savings/products/{product_id}'' [(''product_id'', i)] None None"
| "savings (Savings_listAccounts query) = GET ''/savings/accounts'' [] query None"
| "savings (Savings_createAccount body) = POST ''/savings/accounts'' [] None (Some body)"
| "savings (Savings_getAccount i) =
     GET ''/savings/accounts/{account_id}'' [(''account_id'', i)] None None"
| "savings (Savings_deposit i body) =
     POST ''/savings/accounts/{account_id}/deposit'' [(''account_id'', i)] None (Some body)"
| "savings (Savings_withdraw i body) =
     POST ''/savings/accounts/{account_id}/withdraw'' [(''account_id'', i)] None (Some body)"
| "savings (Savings_listTransactions i query) =
     GET ''/savings/accounts/{account_id}/transactions'' [(''account_id'', i)] query None"

datatype shares_op =
    Shares_listProducts "jv option"
  | Shares_createProduct jv
  | Shares_getProduct string
  | Shares_listAccounts "jv option"
  | Shares_openAccount jv
  | Shares_getAccount string
  | Shares_listTransactions string "jv option"
  | Shares_purchase string jv
  | Shares_redeem string jv

fun shares :: "shares_op \<Rightarrow> api_call" where
  "shares (Shares_listProducts query) = GET ''/shares/products'' [] query None"
| "shares (Shares_createProduct body) = POST ''/shares/products'' [] None (Some body)"
| "shares (Shares_getProduct i) =
     GET ''/shares/products/{product_id}'' [(''product_id'', i)] None None"
| "shares (Shares_listAccounts query) = GET ''/shares/accounts'' [] query None"
| "shares (Shares_openAccount body) = POST ''/shares/accounts'' [] None (Some body)"
| "shares (Shares_getAccount i) =
     GET ''/shares/accounts/{account_id}'' [(''account_id'', i)] None None"
| "shares (Shares_listTransactions i query) =
     GET ''/shares/accounts/{account_id}/transactions'' [(''account_id'', i)] query None"
| "shares (Shares_purchase i body) =
     POST ''/shares/accounts/{account_id}/purchase'' [(''account_id'', i)] None (Some body)"
| "shares (Shares_redeem i body) =
     POST ''/shares/accounts/{account_id}/redeem'' [(''account_id'', i)] None (Some body)"

datatype credit_op =
    Credit_listApplications "jv option"
  | Credit_createApplication jv
  | Credit_getApplication string
  | Credit_approveApplication string jv
  | Credit_rejectApplication string jv
  | Credit_withdrawApplication string jv
  | Credit_listGuarantors string
  | Credit_addGuarantor string jv
  | Credit_acceptGuarantor string jv
  | Credit_declineGuarantor string jv
  | Credit_listLoans "jv option"
  | Credit_disburse string jv
  | Credit_getLoan string
  | Credit_getSchedule string
  | Credit_getStatement string "jv option"
  | Credit_getStatementPdf string "jv option"
  | Credit_listRepayments string "jv option"
  | Credit_recordRepayment string jv
  | Credit_writeOff string jv
  | Credit_recover string jv
  | Credit_restructure string jv
  | Credit_listRestructurings string
  | Credit_listProducts "jv option"
  | Credit_createProduct jv
  | Credit_getProduct string
  | Credit_patchProduct string jv
  | Credit_createPayrollBatch jv
  | Credit_createPayrollBatchFromCsv jv
  | Credit_getPayrollBatch string
  | Credit_rejectPayrollBatch string jv
  | Credit_loansEligibleForFee "jv option"

fun credit :: "credit_op \<Rightarrow> api_call" where
  "credit (Credit_listApplications query) = GET ''/credit/applications'' [] query None"
| "credit (Credit_createApplication body) = POST ''/credit/applications'' [] None (Some body)"
| "credit (Credit_getApplication i) =
     GET ''/credit/applications/{application_id}'' [(''application_id'', i)] None None"
| "credit (Credit_approveApplication i body) =
     POST ''/credit/applications/{application_id}/approve'' [(''application_id'', i)] None (Some body)"
| "credit (Credit_rejectApplication i body) =
     POST ''/credit/applications/{application_id}/reject'' [(''application_id'', i)] None (Some body)"
| "credit (Credit_withdrawApplication i body) =
     POST ''/credit/applications/{application_id}/withdraw'' [(''application_id'', i)] None (Some body)"
| "credit (Credit_listGuarantors applicationId) =
     GET ''/credit/applications/{application_id}/guarantors'' [(''application_id'', applicationId)] None None"
| "credit (Credit_addGuarantor applicationId body) =
     POST ''/credit/applications/{application_id}/guarantors'' [(''application_id'', applicationId)] None (Some body)"
| "credit (Credit_acceptGuarantor guarantorId body) =
     POST ''/credit/guarantors/{guarantor_id}/accept'' [(''guarantor_id'', guarantorId)] None (Some body)"
| "credit (Credit_declineGuarantor guarantorId body) =
     POST ''/credit/guarantors/{guarantor_id}/decline'' [(''guarantor_id'', guarantorId)] None (Some body)"
| "credit (Credit_listLoans query) = GET ''/credit/loans'' [] query None"
| "credit (Credit_disburse applicationId body) =
     POST ''/credit/loans/{application_id}/disburse'' [(''application_id'', applicationId)] None (Some body)"
| "credit (Credit_getLoan i) = GET ''/credit/loans/{loan_id}'' [(''loan_id'', i)] None None"
| "credit (Credit_getSchedule i) =
     GET ''/credit/loans/{loan_id}/schedule'' [(''loan_id'', i)] None None"
| "credit (Credit_getStatement i query) =
     GET ''/credit/loans/{loan_id}/statement'' [(''loan_id'', i)] query None"
| "credit (Credit_getStatementPdf i query) =
     GET ''/credit/loans/{loan_id}/statement.pdf'' [(''loan_id'', i)] query None"
| "credit (Credit_listRepayments i query) =
     GET ''/credit/loans/{loan_id}/repayments'' [(''loan_id'', i)] query None"
| "credit (Credit_recordRepayment i body) =
     POST ''/credit/loans/{loan_id}/repayments'' [(''loan_id'', i)] None (Some body)"
| "credit (Credit_writeOff i body) =
     POST ''/credit/loans/{loan_id}/write-off'' [(''loan_id'', i)] None (Some body)"
| "credit (Credit_recover i body) =
     POST ''/credit/loans/{loan_id}/recover'' [(''loan_id'', i)] None (Some body)"
| "credit (Credit_restructure i body) =
     POST ''/credit/loans/{loan_id}/restructure'' [(''loan_id'', i)] None (Some body)"
| "credit (Credit_listRestructurings i) =
     GET ''/credit/loans/{loan_id}/restructurings'' [(''loan_id'', i)] None None"
| "credit (Credit_listProducts query) = GET ''/credit/products'' [] query None"
| "credit (Credit_createProduct body) = POST ''/credit/products'' [] None (Some body)"
| "credit (Credit_getProduct i) =
     GET ''/credit/products/{product_id}'' [(''product_id'', i)] None None"
| "credit (Credit_patchProduct i body) =
     PATCH ''/credit/products/{product_id}'' [(''product_id'', i)] None (Some body)"
| "credit (Credit_createPayrollBatch body) = POST ''/credit/payroll-batches'' [] None (Some body)"
| "credit (Credit_createPayrollBatchFromCsv body) =
     POST ''/credit/payroll-batches/csv'' [] None (Some body)"
| "credit (Credit_getPayrollBatch i) =
     GET ''/credit/payroll-batches/{batch_id}'' [(''batch_id'', i)] None None"
| "credit (Credit_rejectPayrollBatch i body) =
     POST ''/credit/payroll-batches/{batch_id}/reject'' [(''batch_id'', i)] None (Some body)"
| "credit (Credit_loansEligibleForFee query) =
     GET ''/credit/query/loans-eligible-for-fee'' [] query None"

datatype fees_op =
    Fees_listTypes "jv option"
  | Fees_createType jv
  | Fees_getType string
  | Fees_patchType string jv
  | Fees_listAssessments "jv option"
  | Fees_createAssessment jv
  | Fees_getAssessment string
  | Fees_recordCollection jv

fun fees :: "fees_op \<Rightarrow> api_call" where
  "fees (Fees_listTypes query) = GET ''/fees/types'' [] query None"
| "fees (Fees_createType body) = POST ''/fees/types'' [] None (Some body)"
| "fees (Fees_getType i) = GET ''/fees/types/{fee_type_id}'' [(''fee_type_id'', i)] None None"
| "fees (Fees_patchType i body) =
     PATCH ''/fees/types/{fee_type_id}'' [(''fee_type_id'', i)] None (Some body)"
| "fees (Fees_listAssessments query) = GET ''/fees/assessments'' [] query None"
| "fees (Fees_createAssessment body) = POST ''/fees/assessments'' [] None (Some body)"
| "fees (Fees_getAssessment i) =
     GET ''/fees/assessments/{assessment_id}'' [(''assessment_id'', i)] None None"
| "fees (Fees_recordCollection body) = POST ''/fees/collections'' [] None (Some body)"

datatype ledger_op =
    Ledger_listAccounts "jv option"
  | Ledger_createAccount jv
  | Ledger_getAccount string
  | Ledger_listJournalEntries "jv option"
  | Ledger_getJournalEntry string
  | Ledger_submitJournalEntry jv

fun ledger :: "ledger_op \<Rightarrow> api_call" where
  "ledger (Ledger_listAccounts query) = GET ''/ledger/accounts'' [] query None"
| "ledger (Ledger_createAccount body) = POST ''/ledger/accounts'' [] None (Some body)"
| "ledger (Ledger_getAccount i) =
     GET ''/ledger/accounts/{account_id}'' [(''account_id'', i)] None None"
| "ledger (Ledger_listJournalEntries query) = GET ''/ledger/journal-entries'' [] query None"
| "ledger (Ledger_getJournalEntry i) =
     GET ''/ledger/journal-entries/{entry_id}'' [(''entry_id'', i)] None None"
| "ledger (Ledger_submitJournalEntry body) =
     POST ''/ledger/journal-entries/submit'' [] None (Some body)"

datatype reporting_op =
    Reporting_loanPortfolio "jv option"
  | Reporting_incomeStatement "jv option"
  | Reporting_savingsStatement "jv option"
  | Reporting_feeCollection "jv option"
  | Reporting_trialBalance "jv option"
  | Reporting_listRuns "jv option"

fun reporting_resource :: "reporting_op \<Rightarrow> api_call" where
  "reporting_resource (Reporting_loanPortfolio query) = GET ''/reporting/loan-portfolio'' [] query None"
| "reporting_resource (Reporting_incomeStatement query) = GET ''/reporting/income-statement'' [] query None"
| "reporting_resource (Reporting_savingsStatement query) = GET ''/reporting/savings-statement'' [] query None"
| "reporting_resource (Reporting_feeCollection query) = GET ''/reporting/fee-collection'' [] query None"
| "reporting_resource (Reporting_trialBalance query) = GET ''/reporting/trial-balance'' [] query None"
| "reporting_resource (Reporting_listRuns query) = GET ''/reporting/runs'' [] query None"

datatype makerChecker_op =
    MakerChecker_listPlatform "jv option"
  | MakerChecker_submitPlatform jv
  | MakerChecker_getPlatform string
  | MakerChecker_approvePlatform string jv
  | MakerChecker_rejectPlatform string jv
  | MakerChecker_cancelPlatform string jv
  | MakerChecker_listTenant "jv option"
  | MakerChecker_submitTenant jv
  | MakerChecker_getTenant string
  | MakerChecker_approveTenant string jv
  | MakerChecker_rejectTenant string jv
  | MakerChecker_cancelTenant string jv

fun makerChecker :: "makerChecker_op \<Rightarrow> api_call" where
  "makerChecker (MakerChecker_listPlatform query) = GET ''/platform/approvals'' [] query None"
| "makerChecker (MakerChecker_submitPlatform body) =
     POST ''/platform/approvals'' [] None (Some body)"
| "makerChecker (MakerChecker_getPlatform i) =
     GET ''/platform/approvals/{request_id}'' [(''request_id'', i)] None None"
| "makerChecker (MakerChecker_approvePlatform i body) =
     POST ''/platform/approvals/{request_id}/approve'' [(''request_id'', i)] None (Some body)"
| "makerChecker (MakerChecker_rejectPlatform i body) =
     POST ''/platform/approvals/{request_id}/reject'' [(''request_id'', i)] None (Some body)"
| "makerChecker (MakerChecker_cancelPlatform i body) =
     POST ''/platform/approvals/{request_id}/cancel'' [(''request_id'', i)] None (Some body)"
| "makerChecker (MakerChecker_listTenant query) = GET ''/approvals'' [] query None"
| "makerChecker (MakerChecker_submitTenant body) = POST ''/approvals'' [] None (Some body)"
| "makerChecker (MakerChecker_getTenant i) =
     GET ''/approvals/{request_id}'' [(''request_id'', i)] None None"
| "makerChecker (MakerChecker_approveTenant i body) =
     POST ''/approvals/{request_id}/approve'' [(''request_id'', i)] None (Some body)"
| "makerChecker (MakerChecker_rejectTenant i body) =
     POST ''/approvals/{request_id}/reject'' [(''request_id'', i)] None (Some body)"
| "makerChecker (MakerChecker_cancelTenant i body) =
     POST ''/approvals/{request_id}/cancel'' [(''request_id'', i)] None (Some body)"

datatype impersonations_op =
    Impersonations_request jv
  | Impersonations_listActive
  | Impersonations_listAll "jv option"
  | Impersonations_get string
  | Impersonations_end string
  | Impersonations_mintTenantToken string
  | Impersonations_revoke string

fun impersonations :: "impersonations_op \<Rightarrow> api_call" where
  "impersonations (Impersonations_request body) =
     POST ''/platform/impersonations'' [] None (Some body)"
| "impersonations Impersonations_listActive = GET ''/platform/impersonations/active'' [] None None"
| "impersonations (Impersonations_listAll query) =
     GET ''/platform/impersonations/all'' [] query None"
| "impersonations (Impersonations_get i) =
     GET ''/platform/impersonations/{impersonation_id}'' [(''impersonation_id'', i)] None None"
| "impersonations (Impersonations_end i) =
     DELETE ''/platform/impersonations/{impersonation_id}'' [(''impersonation_id'', i)] None None"
| "impersonations (Impersonations_mintTenantToken i) =
     POST ''/platform/impersonations/{impersonation_id}/mint-tenant-token'' [(''impersonation_id'', i)] None None"
| "impersonations (Impersonations_revoke i) =
     POST ''/platform/impersonations/{impersonation_id}/revoke'' [(''impersonation_id'', i)] None None"

datatype audit_op =
    Audit_listPlatform "jv option"
  | Audit_listTenant string "jv option"
  | Audit_listOperator "jv option"

fun audit :: "audit_op \<Rightarrow> api_call" where
  "audit (Audit_listPlatform query) = GET ''/platform/audit-log'' [] query None"
| "audit (Audit_listTenant tenantId query) =
     GET ''/platform/tenants/{tenant_id}/audit-log'' [(''tenant_id'', tenantId)] query None"
| "audit (Audit_listOperator query) = GET ''/audit-log'' [] query None"

datatype keys_op =
    Keys_listJwtKeys

fun keys :: "keys_op \<Rightarrow> api_call" where
  "keys Keys_listJwtKeys = GET ''/platform/jwt-keys'' [] None None"

datatype admin_op =
    Admin_dashboardStats
  | Admin_listUsers "jv option"
  | Admin_getUser string
  | Admin_createUser jv
  | Admin_patchUser string jv

fun admin :: "admin_op \<Rightarrow> api_call" where
  "admin Admin_dashboardStats = GET ''/platform/admin/dashboard-stats'' [] None None"
| "admin (Admin_listUsers query) = GET ''/platform/users'' [] query None"
| "admin (Admin_getUser i) = GET ''/platform/users/{user_id}'' [(''user_id'', i)] None None"
| "admin (Admin_createUser body) = POST ''/platform/users'' [] None (Some body)"
| "admin (Admin_patchUser i body) =
     PATCH ''/platform/users/{user_id}'' [(''user_id'', i)] None (Some body)"

datatype dashboard_op =
    Dashboard_tenantStats

fun dashboard :: "dashboard_op \<Rightarrow> api_call" where
  "dashboard Dashboard_tenantStats = GET ''/dashboard/stats'' [] None None"

datatype member_op =
    Member_listSavings "jv option"
  | Member_getSavingsTransactions string
  | Member_listShares "jv option"
  | Member_listLoans "jv option"
  | Member_getLoan string
  | Member_getLoanSchedule string
  | Member_getLoanStatement string
  | Member_listFees "jv option"
  | Member_listLoanApplications "jv option"
  | Member_getLoanApplication string
  | Member_listLoanProducts
  | Member_applyForLoan jv
  | Member_getMyKyc
  | Member_submitKyc jv

fun member :: "member_op \<Rightarrow> api_call" where
  "member (Member_listSavings query) = GET ''/member/savings'' [] query None"
| "member (Member_getSavingsTransactions accountId) =
     GET ''/member/savings/{account_id}/transactions'' [(''account_id'', accountId)] None None"
| "member (Member_listShares query) = GET ''/member/shares'' [] query None"
| "member (Member_listLoans query) = GET ''/member/loans'' [] query None"
| "member (Member_getLoan loanId) =
     GET ''/member/loans/{loan_id}'' [(''loan_id'', loanId)] None None"
| "member (Member_getLoanSchedule loanId) =
     GET ''/member/loans/{loan_id}/schedule'' [(''loan_id'', loanId)] None None"
| "member (Member_getLoanStatement loanId) =
     GET ''/member/loans/{loan_id}/statement'' [(''loan_id'', loanId)] None None"
| "member (Member_listFees query) = GET ''/member/fees'' [] query None"
| "member (Member_listLoanApplications query) = GET ''/member/loan-applications'' [] query None"
| "member (Member_getLoanApplication applicationId) =
     GET ''/member/loan-applications/{application_id}'' [(''application_id'', applicationId)] None None"
| "member Member_listLoanProducts = GET ''/member/loan-products'' [] None None"
| "member (Member_applyForLoan body) = POST ''/member/loan-applications'' [] None (Some body)"
| "member Member_getMyKyc = GET ''/member/me/kyc'' [] None None"
| "member (Member_submitKyc body) = POST ''/member/me/kyc'' [] None (Some body)"

datatype memberAuth_op =
    MemberAuth_login jv
  | MemberAuth_refresh jv
  | MemberAuth_logout
  | MemberAuth_me
  | MemberAuth_resetRequest jv
  | MemberAuth_resetConfirm jv

fun memberAuth :: "memberAuth_op \<Rightarrow> api_call" where
  "memberAuth (MemberAuth_login body) = POST ''/member/auth/token'' [] None (Some body)"
| "memberAuth (MemberAuth_refresh body) = POST ''/member/auth/refresh'' [] None (Some body)"
| "memberAuth MemberAuth_logout = POST ''/member/auth/logout'' [] None None"
| "memberAuth MemberAuth_me = GET ''/member/auth/me'' [] None None"
| "memberAuth (MemberAuth_resetRequest body) =
     POST ''/member/auth/password-reset/request'' [] None (Some body)"
| "memberAuth (MemberAuth_resetConfirm body) =
     POST ''/member/auth/password-reset/confirm'' [] None (Some body)"

datatype organization_op =
    Organization_getKyc
  | Organization_putKyc jv

fun organization :: "organization_op \<Rightarrow> api_call" where
  "organization Organization_getKyc = GET ''/organization/kyc'' [] None None"
| "organization (Organization_putKyc body) = PUT ''/organization/kyc'' [] None (Some body)"

datatype kyc_op =
    Kyc_getSaccoRequirements
  | Kyc_putSaccoRequirements jv
  | Kyc_getTenantKyc string
  | Kyc_verifyTenant string
  | Kyc_unverifyTenant string

fun kyc :: "kyc_op \<Rightarrow> api_call" where
  "kyc Kyc_getSaccoRequirements = GET ''/platform/kyc/sacco-requirements'' [] None None"
| "kyc (Kyc_putSaccoRequirements body) =
     PUT ''/platform/kyc/sacco-requirements'' [] None (Some body)"
| "kyc (Kyc_getTenantKyc tenantId) =
     GET ''/platform/tenants/{tenant_id}/kyc'' [(''tenant_id'', tenantId)] None None"
| "kyc (Kyc_verifyTenant tenantId) =
     POST ''/platform/tenants/{tenant_id}/kyc/verify'' [(''tenant_id'', tenantId)] None None"
| "kyc (Kyc_unverifyTenant tenantId) =
     POST ''/platform/tenants/{tenant_id}/kyc/unverify'' [(''tenant_id'', tenantId)] None None"

datatype notification_audience = Audience_platform | Audience_tenant | Audience_member

fun SELF_PREFIX :: "notification_audience \<Rightarrow> string" where
  "SELF_PREFIX Audience_platform = ''/platform/notifications/me''"
| "SELF_PREFIX Audience_tenant = ''/notifications/me''"
| "SELF_PREFIX Audience_member = ''/member/notifications/me''"

datatype notifications_op =
    Notifications_feed notification_audience "jv option"
  | Notifications_markRead notification_audience string
  | Notifications_getPreferences notification_audience
  | Notifications_putPreferences notification_audience jv
  | Notifications_listTemplates
  | Notifications_createTemplate jv
  | Notifications_patchTemplate string jv
  | Notifications_searchEvents "jv option"
  | Notifications_resendEvent string

fun notifications :: "notifications_op \<Rightarrow> api_call" where
  "notifications (Notifications_feed audience query) = GET (SELF_PREFIX audience) [] query None"
| "notifications (Notifications_markRead audience eventId) =
     POST (SELF_PREFIX audience @ ''/{event_id}/read'') [(''event_id'', eventId)] None None"
| "notifications (Notifications_getPreferences audience) =
     GET (SELF_PREFIX audience @ ''/preferences'') [] None None"
| "notifications (Notifications_putPreferences audience body) =
     PUT (SELF_PREFIX audience @ ''/preferences'') [] None (Some body)"
| "notifications Notifications_listTemplates =
     GET ''/platform/notifications/templates'' [] None None"
| "notifications (Notifications_createTemplate body) =
     POST ''/platform/notifications/templates'' [] None (Some body)"
| "notifications (Notifications_patchTemplate templateId body) =
     PATCH ''/platform/notifications/templates/{template_id}'' [(''template_id'', templateId)] None (Some body)"
| "notifications (Notifications_searchEvents query) =
     GET ''/platform/notifications/events'' [] query None"
| "notifications (Notifications_resendEvent eventId) =
     POST ''/platform/notifications/events/{event_id}/resend'' [(''event_id'', eventId)] None None"

definition search_query :: "string \<Rightarrow> string option \<Rightarrow> jv" where
  "search_query q types =
     JObj ((''q'', JStr q) # (if truthy_str types then [(''types'', JStr (the types))] else []))"

datatype search_op =
    Search_platformSearch string "string option"
  | Search_tenantSearch string "string option"

fun search :: "search_op \<Rightarrow> api_call" where
  "search (Search_platformSearch q types) =
     GET ''/platform/search'' [] (Some (search_query q types)) None"
| "search (Search_tenantSearch q types) = GET ''/search'' [] (Some (search_query q types)) None"

datatype ops_op =
    Ops_getBackups
  | Ops_lastVerifiedAt
  | Ops_triggerVerification

fun ops :: "ops_op \<Rightarrow> api_call" where
  "ops Ops_getBackups = GET ''/platform/ops/backups'' [] None None"
| "ops Ops_lastVerifiedAt = GET ''/platform/ops/backups/last-verified-at'' [] None None"
| "ops Ops_triggerVerification = POST ''/platform/ops/backups/trigger-verification'' [] None None"

datatype rateLimits_op =
    RateLimits_getConfig
  | RateLimits_getTenantLive string

fun rateLimits :: "rateLimits_op \<Rightarrow> api_call" where
  "rateLimits RateLimits_getConfig = GET ''/platform/rate-limits'' [] None None"
| "rateLimits (RateLimits_getTenantLive tenantId) =
     GET ''/platform/rate-limits/tenants/{tenant_id}/live'' [(''tenant_id'', tenantId)] None None"

datatype operation =
    Op_platformAuth platformAuth_op
  | Op_tenants tenants_op
  | Op_billing billing_op
  | Op_members members_op
  | Op_savings savings_op
  | Op_shares shares_op
  | Op_credit credit_op
  | Op_fees fees_op
  | Op_ledger ledger_op
  | Op_reporting reporting_op
  | Op_makerChecker makerChecker_op
  | Op_impersonations impersonations_op
  | Op_audit audit_op
  | Op_keys keys_op
  | Op_admin admin_op
  | Op_dashboard dashboard_op
  | Op_member member_op
  | Op_memberAuth memberAuth_op
  | Op_organization organization_op
  | Op_kyc kyc_op
  | Op_notifications notifications_op
  | Op_search search_op
  | Op_ops ops_op
  | Op_rateLimits rateLimits_op

fun buildResources :: "operation \<Rightarrow> api_call" where
  "buildResources (Op_platformAuth p) = platformAuth p"
| "buildResources (Op_tenants p) = tenants p"
| "buildResources (Op_billing p) = billing p"
| "buildResources (Op_members p) = members p"
| "buildResources (Op_savings p) = savings p"
| "buildResources (Op_shares p) = shares p"
| "buildResources (Op_credit p) = credit p"
| "buildResources (Op_fees p) = fees p"
| "buildResources (Op_ledger p) = ledger p"
| "buildResources (Op_reporting p) = reporting_resource p"
| "buildResources (Op_makerChecker p) = makerChecker p"
| "buildResources (Op_impersonations p) = impersonations p"
| "buildResources (Op_audit p) = audit p"
| "buildResources (Op_keys p) = keys p"
| "buildResources (Op_admin p) = admin p"
| "buildResources (Op_dashboard p) = dashboard p"
| "buildResources (Op_member p) = member p"
| "buildResources (Op_memberAuth p) = memberAuth p"
| "buildResources (Op_organization p) = organization p"
| "buildResources (Op_kyc p) = kyc p"
| "buildResources (Op_notifications p) = notifications p"
| "buildResources (Op_search p) = search p"
| "buildResources (Op_ops p) = ops p"
| "buildResources (Op_rateLimits p) = rateLimits p"

section \<open>What the calls look like\<close>

text \<open>The parameter names in braces of a path template, in order.\<close>

fun placeholders :: "string \<Rightarrow> string list" where
  "placeholders [] = []"
| "placeholders (c # cs) =
     (if c = CHR ''{'' then takeWhile (\<lambda>d. d \<noteq> CHR ''}'') cs # placeholders cs else placeholders cs)"

text \<open>A call the client can make sense of: a rooted path, every parameter of the template supplied once, no body on a read.\<close>

definition well_formed :: "api_call \<Rightarrow> bool" where
  "well_formed c \<longleftrightarrow> js_startsWith (ac_template c) ''/'' \<and> map fst (ac_path c) = placeholders (ac_template c) \<and>
     distinct (map fst (ac_path c)) \<and> (ac_method c = ''GET'' \<longrightarrow> ac_body c = None) \<and>
     (ac_method c \<noteq> ''GET'' \<longrightarrow> ac_method c \<in> {''POST'', ''PUT'', ''PATCH'', ''DELETE''})"

text \<open>The operations of the platform's own staff; all others act inside one tenant.\<close>

fun platform_op :: "operation \<Rightarrow> bool" where
  "platform_op (Op_platformAuth _) = True"
| "platform_op (Op_tenants _) = True"
| "platform_op (Op_impersonations _) = True"
| "platform_op (Op_keys _) = True"
| "platform_op (Op_admin _) = True"
| "platform_op (Op_kyc _) = True"
| "platform_op (Op_ops _) = True"
| "platform_op (Op_rateLimits _) = True"
| "platform_op (Op_billing p) = (case p of Billing_mySubscription \<Rightarrow> False | Billing_myInvoices _ \<Rightarrow> False
     | Billing_myInvoice _ \<Rightarrow> False | Billing_myInvoicePdf _ \<Rightarrow> False | _ \<Rightarrow> True)"
| "platform_op (Op_makerChecker p) = (case p of MakerChecker_listPlatform _ \<Rightarrow> True | MakerChecker_submitPlatform _ \<Rightarrow> True
     | MakerChecker_getPlatform _ \<Rightarrow> True | MakerChecker_approvePlatform _ _ \<Rightarrow> True
     | MakerChecker_rejectPlatform _ _ \<Rightarrow> True | MakerChecker_cancelPlatform _ _ \<Rightarrow> True | _ \<Rightarrow> False)"
| "platform_op (Op_audit p) = (case p of Audit_listOperator _ \<Rightarrow> False | _ \<Rightarrow> True)"
| "platform_op (Op_notifications p) = (case p of Notifications_feed a _ \<Rightarrow> a = Audience_platform
     | Notifications_markRead a _ \<Rightarrow> a = Audience_platform | Notifications_getPreferences a \<Rightarrow> a = Audience_platform
     | Notifications_putPreferences a _ \<Rightarrow> a = Audience_platform | _ \<Rightarrow> True)"
| "platform_op (Op_search p) = (case p of Search_platformSearch _ _ \<Rightarrow> True | _ \<Rightarrow> False)"
| "platform_op _ = False"

definition literal_head :: "string \<Rightarrow> string" where
  "literal_head t = takeWhile (\<lambda>c. c \<noteq> CHR ''{'') t"

text \<open>What is before the first parameter decides whether a path is below \<open>/platform/\<close> or \<open>/.well-known/\<close>.\<close>

definition call_ok :: "api_call \<Rightarrow> bool \<Rightarrow> bool" where
  "call_ok c b \<longleftrightarrow> well_formed c \<and> CHR ''?'' \<notin> set (ac_template c) \<and> CHR ''#'' \<notin> set (ac_template c) \<and>
     (let h = literal_head (ac_template c) in
       h \<parallel> ''/.well-known/'' \<and> (if b then prefix ''/platform/'' h else h \<parallel> ''/platform/''))"

lemma SELF_PREFIX_case:
  "SELF_PREFIX a = (case a of Audience_platform \<Rightarrow> ''/platform/notifications/me'' | Audience_tenant \<Rightarrow> ''/notifications/me''
     | Audience_member \<Rightarrow> ''/member/notifications/me'')"
  by (cases a) simp_all

lemma operation_ok: "call_ok (buildResources p) (platform_op p)"
  by (cases p; rename_tac x; case_tac x; simp add: call_ok_def well_formed_def call_defs js_startsWith_def
      literal_head_def parallel_def SELF_PREFIX_case split: notification_audience.split)

lemma platform_template: "call_ok c b \<Longrightarrow> js_startsWith (ac_template c) ''/platform/'' \<longleftrightarrow> b"
  using takeWhile_is_prefix [of "\<lambda>c. c \<noteq> CHR ''{''" "ac_template c"] parallel_append [of "literal_head (ac_template c)" "''/platform/''"]
  by (auto simp: call_ok_def literal_head_def js_startsWith_def Let_def dest: prefix_order.trans
      split: if_splits elim!: parallelE dest: prefix_same_cases)

text \<open>
  C36. All 196 operations make calls that fit together: a rooted path whose parameters are exactly
  the ones supplied, a known method, no body on a read; and the platform staff's operations, and
  only they, go to paths below \<open>/platform/\<close>, so that the client adds the tenant to all others.
\<close>

theorem resource_calls:
  "well_formed (buildResources p) \<and> (js_startsWith (ac_template (buildResources p)) ''/platform/'' \<longleftrightarrow> platform_op p)"
  using operation_ok [of p] platform_template by (auto simp: call_ok_def)

end
