(* ===== verification/Api_Client.thy ===== *)
theory Api_Client
  imports Resources Server_Context
begin

text \<open>
  The HTTP client of \<open>packages/api-client/src\<close>: the token stores and tenant contexts, the five
  middlewares and \<open>createApiClient\<close>, which installs them, with the browser's stores of
  \<open>apps/portal/src/auth/token-store.ts\<close>. The library \<open>openapi-fetch\<close> that runs the middlewares is
  not part of this code: it is the function \<open>dispatch\<close>, and how it documents to build a request and
  to order the middlewares are the hypotheses \<open>documented_url\<close> and \<open>documented_order\<close>. The key
  generator of the package \<open>uuid\<close> is likewise an argument.

  A TypeScript interface is a record of functions over the state of the object. \<open>setAccessToken\<close>
  of the interface is \<open>set_token\<close> and so on; the access token is a text or null, as declared.
\<close>

section \<open>Token stores and tenant contexts\<close>

record 's token_store =
  get_token :: "'s \<Rightarrow> string option"
  set_token :: "string option \<Rightarrow> 's \<Rightarrow> 's"
  get_endpoint :: "'s \<Rightarrow> string"
  get_refresh :: "'s \<Rightarrow> string option"

record mem_store =
  ms_accessToken :: "string option"
  ms_refreshToken :: "string option"
  ms_refreshEndpoint :: string

definition new_InMemoryTokenStore :: "string \<Rightarrow> mem_store" where
  "new_InMemoryTokenStore endpoint = \<lparr>ms_accessToken = None, ms_refreshToken = None, ms_refreshEndpoint = endpoint\<rparr>"

definition setRefreshToken :: "string option \<Rightarrow> mem_store \<Rightarrow> mem_store" where
  "setRefreshToken t s = s\<lparr>ms_refreshToken := t\<rparr>"

definition InMemoryTokenStore :: "mem_store token_store" where
  "InMemoryTokenStore = \<lparr>get_token = ms_accessToken, set_token = (\<lambda>t s. s\<lparr>ms_accessToken := t\<rparr>),
     get_endpoint = ms_refreshEndpoint, get_refresh = ms_refreshToken\<rparr>"

record auth_state =
  as_token :: "string option"
  as_tenantSlug :: "string option"
  as_context :: variant

definition useAuthStore :: auth_state where
  "useAuthStore = \<lparr>as_token = None, as_tenantSlug = None, as_context = Platform\<rparr>"

definition browserRefreshEndpoint :: "variant \<Rightarrow> string" where
  "browserRefreshEndpoint ctx = (case ctx of Platform \<Rightarrow> ''/api/auth/platform-refresh''
     | Tenant \<Rightarrow> ''/api/auth/tenant-refresh'' | Member \<Rightarrow> ''/api/auth/member-refresh'')"

definition CookieBackedTokenStore :: "auth_state token_store" where
  "CookieBackedTokenStore = \<lparr>get_token = as_token, set_token = (\<lambda>t s. s\<lparr>as_token := t\<rparr>),
     get_endpoint = (\<lambda>s. browserRefreshEndpoint (as_context s)), get_refresh = (\<lambda>_. None)\<rparr>"

definition ClientTenantContext :: "auth_state \<Rightarrow> string option" where
  "ClientTenantContext s = as_tenantSlug s"

definition FixedTenantContext :: "string option \<Rightarrow> 's \<Rightarrow> string option" where
  "FixedTenantContext slug s = slug"

section \<open>Errors\<close>

text \<open>The package's own errors, and \<open>RuntimeError\<close> for what JavaScript itself throws (a failed \<open>fetch\<close>, unreadable JSON, a used body).\<close>

datatype api_error =
    UnauthorizedError
  | SubscriptionPastDueError string
  | SubscriptionSuspendedError string
  | ServerError nat "string option" string
  | RuntimeError

definition new_ServerError :: "nat \<Rightarrow> string option \<Rightarrow> string option \<Rightarrow> api_error" where
  "new_ServerError st requestId message = ServerError st requestId (nullish message (''Server error '' @ show_nat st))"

definition GATE_403_PREFIX :: string where
  "GATE_403_PREFIX = ''Subscription status''"

definition detail_text :: "http_res \<Rightarrow> string option" where
  "detail_text r = (case js_prop (safeJson r) ''detail'' of JStr d \<Rightarrow> Some d | _ \<Rightarrow> None)"

definition gated :: "http_res \<Rightarrow> bool" where
  "gated r \<longleftrightarrow> (case detail_text r of Some d \<Rightarrow> js_startsWith d GATE_403_PREFIX | None \<Rightarrow> False)"

definition errorMiddleware :: "http_res \<Rightarrow> api_error + http_res" where
  "errorMiddleware r =
     (if res_ok r then Inr r
      else if rs_status r = 402 then Inl (SubscriptionPastDueError (nullish (detail_text r) ''Subscription past due''))
      else if rs_status r = 403 \<and> gated r then Inl (SubscriptionSuspendedError (the (detail_text r)))
      else if 500 \<le> rs_status r then Inl (new_ServerError (rs_status r) (header_get (rs_headers r) ''X-Request-ID'') (detail_text r))
      else Inr r)"

section \<open>Middlewares on the request\<close>

text \<open>\<open>new URL(request.url).pathname\<close>; the URL of a request is already serialised, with scheme and host.\<close>

definition pathname :: "string \<Rightarrow> string" where
  "pathname u = takeWhile (\<lambda>c. c \<noteq> CHR ''?'' \<and> c \<noteq> CHR ''#'')
     (dropWhile (\<lambda>c. c \<noteq> CHR ''/'') (drop 2 (dropWhile (\<lambda>c. c \<noteq> CHR ''/'') u)))"

definition authMiddleware :: "'s token_store \<Rightarrow> 's \<Rightarrow> http_req \<Rightarrow> http_req" where
  "authMiddleware ts s q = (if truthy_str (get_token ts s)
     then q\<lparr>rq_headers := header_set (rq_headers q) ''Authorization'' (''Bearer '' @ the (get_token ts s))\<rparr> else q)"

definition tenantMiddleware :: "('s \<Rightarrow> string option) \<Rightarrow> 's \<Rightarrow> http_req \<Rightarrow> http_req" where
  "tenantMiddleware ctx s q =
     (case ctx s of None \<Rightarrow> q
      | Some slug \<Rightarrow>
          (if \<not> js_startsWith (pathname (rq_url q)) ''/platform/'' \<and> \<not> js_startsWith (pathname (rq_url q)) ''/.well-known/''
           then q\<lparr>rq_headers := header_set (rq_headers q) ''X-Tenant-Slug'' slug\<rparr> else q))"

definition MUTATION_METHODS :: "string set" where
  "MUTATION_METHODS = {''POST'', ''PUT'', ''PATCH'', ''DELETE''}"

definition idempotencyMiddleware :: "string \<Rightarrow> http_req \<Rightarrow> http_req" where
  "idempotencyMiddleware key q =
     (if rq_method q \<notin> MUTATION_METHODS then q
      else if header_get (rq_headers q) ''Idempotency-Key'' = None
      then q\<lparr>rq_headers := header_set (rq_headers q) ''Idempotency-Key'' key\<rparr> else q)"

section \<open>Refresh\<close>

record 's client =
  cl_store :: 's
  cl_sent :: "http_req list"

definition client_send :: "http_req \<Rightarrow> 's client \<Rightarrow> 's client" where
  "client_send q cl = cl\<lparr>cl_sent := cl_sent cl @ [q]\<rparr>"

text \<open>A request that has been sent; \<open>fetch\<close> uses up its body.\<close>

record sent_request =
  sr_req :: http_req
  sr_bodyUsed :: bool

definition sent_of :: "http_req \<Rightarrow> sent_request" where
  "sent_of q = \<lparr>sr_req = q, sr_bodyUsed = (rq_body q \<noteq> None)\<rparr>"

definition renew_request :: "'s token_store \<Rightarrow> string \<Rightarrow> 's \<Rightarrow> http_req" where
  "renew_request ts baseUrl s = (let endpoint = baseUrl @ get_endpoint ts s in
     case get_refresh ts s of None \<Rightarrow> post_req endpoint [] None
     | Some t \<Rightarrow> post_req endpoint json_header (Some (JObj [(''refresh_token'', JStr t)])))"

text \<open>How the refresh call ends: it throws, the server refuses, or there is a new token (or none) in the answer.\<close>

datatype refresh_end = Threw | Refused | Renewed "string option"

definition refresh_answer :: "http_res option \<Rightarrow> refresh_end" where
  "refresh_answer r = (case r of None \<Rightarrow> Threw | Some r \<Rightarrow>
     (if \<not> res_ok r then Refused
      else case rs_json r of None \<Rightarrow> Threw | Some d \<Rightarrow>
        (case is_object d of None \<Rightarrow> Threw | Some data \<Rightarrow>
           Renewed (case js_prop data ''access_token'' of JStr t \<Rightarrow> Some t | _ \<Rightarrow> None))))"

fun store_answer :: "'s token_store \<Rightarrow> refresh_end \<Rightarrow> 's \<Rightarrow> 's" where
  "store_answer ts (Renewed t) s = set_token ts t s"
| "store_answer ts _ s = s"

fun promise_value :: "refresh_end \<Rightarrow> api_error + string option" where
  "promise_value Threw = Inl RuntimeError"
| "promise_value Refused = Inr None"
| "promise_value (Renewed t) = Inr t"

definition refreshOnce :: "backend \<Rightarrow> 's token_store \<Rightarrow> string \<Rightarrow> 's client \<Rightarrow> (api_error + string option) \<times> 's client" where
  "refreshOnce be ts baseUrl cl =
     (let q = renew_request ts baseUrl (cl_store cl); a = refresh_answer (be (cl_sent cl) q); cl1 = client_send q cl in
      (promise_value a, cl1\<lparr>cl_store := store_answer ts a (cl_store cl1)\<rparr>))"

text \<open>\<open>new Request(request, \<dots>)\<close> throws when the body of \<open>request\<close> is used.\<close>

definition retry_request :: "sent_request \<Rightarrow> string \<Rightarrow> http_req option" where
  "retry_request q newToken = (if sr_bodyUsed q then None
     else Some ((sr_req q)\<lparr>rq_headers := header_set (rq_headers (sr_req q)) ''Authorization'' (''Bearer '' @ newToken)\<rparr>))"

definition after_retry :: "http_res option \<Rightarrow> api_error + http_res" where
  "after_retry r = (case r of None \<Rightarrow> Inl RuntimeError
     | Some r \<Rightarrow> if rs_status r = 401 then Inl UnauthorizedError else Inr r)"

definition refreshMiddleware ::
  "backend \<Rightarrow> 's token_store \<Rightarrow> string \<Rightarrow> sent_request \<Rightarrow> http_res \<Rightarrow> 's client \<Rightarrow> (api_error + http_res) \<times> 's client" where
  "refreshMiddleware be ts baseUrl q r cl =
     (if rs_status r \<noteq> 401 then (Inr r, cl)
      else case refreshOnce be ts baseUrl cl of
        (Inl err, cl1) \<Rightarrow> (Inl err, cl1)
      | (Inr newToken, cl1) \<Rightarrow>
          (if \<not> truthy_str newToken then (Inl UnauthorizedError, cl1)
           else case retry_request q (the newToken) of None \<Rightarrow> (Inl RuntimeError, cl1)
             | Some retry \<Rightarrow> (after_retry (be (cl_sent cl1) retry), client_send retry cl1)))"

section \<open>The client\<close>

record 's middleware_fns =
  onRequest :: "('s \<Rightarrow> http_req \<Rightarrow> http_req) option"
  onResponse :: "(sent_request \<Rightarrow> http_res \<Rightarrow> 's client \<Rightarrow> (api_error + http_res) \<times> 's client) option"

definition createApiClient :: "backend \<Rightarrow> 's token_store \<Rightarrow> string \<Rightarrow> ('s \<Rightarrow> string option) \<Rightarrow> string \<Rightarrow> 's middleware_fns list" where
  "createApiClient be ts baseUrl ctx key =
    [\<lparr>onRequest = Some (authMiddleware ts), onResponse = None\<rparr>,
     \<lparr>onRequest = Some (tenantMiddleware ctx), onResponse = None\<rparr>,
     \<lparr>onRequest = Some (\<lambda>_. idempotencyMiddleware key), onResponse = None\<rparr>,
     \<lparr>onRequest = None, onResponse = Some (\<lambda>_ r cl. (errorMiddleware r, cl))\<rparr>,
     \<lparr>onRequest = None, onResponse = Some (refreshMiddleware be ts baseUrl)\<rparr>]"

section \<open>The interface of a token store\<close>

text \<open>
  What the client relies on: a stored token is read back, and storing one changes neither the refresh
  endpoint nor the refresh token.
\<close>

locale lawful_store =
  fixes ts :: "'s token_store"
  assumes get_set: "get_token ts (set_token ts t s) = t"
    and endpoint_set: "get_endpoint ts (set_token ts t s) = get_endpoint ts s"
    and refresh_set: "get_refresh ts (set_token ts t s) = get_refresh ts s"
begin

lemma renew_stable: "renew_request ts base (store_answer ts a s) = renew_request ts base s"
  by (cases a) (simp_all add: renew_request_def endpoint_set refresh_set)

lemma renewed_token: "promise_value a = Inr (Some t) \<Longrightarrow> get_token ts (store_answer ts a s) = Some t"
  by (cases a) (auto simp: get_set)

lemma next_request_token:
  assumes "refreshOnce be ts base cl = (Inr (Some t), cl')" "t \<noteq> []"
  shows "header_get (rq_headers (authMiddleware ts (cl_store cl') q)) ''Authorization'' = Some (''Bearer '' @ t)"
  using assms renewed_token by (auto simp: refreshOnce_def Let_def authMiddleware_def client_send_def)

end

interpretation memory: lawful_store InMemoryTokenStore
  by unfold_locales (simp_all add: InMemoryTokenStore_def)

interpretation browser_store: lawful_store CookieBackedTokenStore
  by unfold_locales (simp_all add: CookieBackedTokenStore_def)

section \<open>The library that runs the middlewares\<close>

text \<open>
  \<open>openapi-fetch\<close> documents that it runs the request middlewares in the order of \<open>use\<close>, sends the
  request, and runs the response middlewares in the reverse order with the request it sent; what a
  middleware throws leaves the call.
\<close>

type_synonym 's dispatcher = "'s middleware_fns list \<Rightarrow> http_req \<Rightarrow> 's client \<Rightarrow> (api_error + http_res) \<times> 's client"

definition run_requests :: "'s middleware_fns list \<Rightarrow> 's \<Rightarrow> http_req \<Rightarrow> http_req" where
  "run_requests mws s q = fold (\<lambda>m q. case onRequest m of None \<Rightarrow> q | Some f \<Rightarrow> f s q) mws q"

fun run_responses :: "'s middleware_fns list \<Rightarrow> sent_request \<Rightarrow> http_res \<Rightarrow> 's client \<Rightarrow> (api_error + http_res) \<times> 's client" where
  "run_responses [] q r cl = (Inr r, cl)"
| "run_responses (m # ms) q r cl = (case onResponse m of None \<Rightarrow> run_responses ms q r cl
     | Some f \<Rightarrow> (case f q r cl of (Inl err, cl') \<Rightarrow> (Inl err, cl') | (Inr r', cl') \<Rightarrow> run_responses ms q r' cl'))"

definition in_order :: "backend \<Rightarrow> 's dispatcher" where
  "in_order be mws q cl = (let q' = run_requests mws (cl_store cl) q in
     case be (cl_sent cl) q' of None \<Rightarrow> (Inl RuntimeError, client_send q' cl)
     | Some r \<Rightarrow> run_responses (rev mws) (sent_of q') r (client_send q' cl))"

definition documented_order :: "backend \<Rightarrow> 's dispatcher \<Rightarrow> bool" where
  "documented_order be dispatch \<longleftrightarrow> (\<forall>mws q cl. dispatch mws q cl = in_order be mws q cl)"

text \<open>The request as it leaves the client, and the call from there on.\<close>

definition outgoing :: "'s token_store \<Rightarrow> ('s \<Rightarrow> string option) \<Rightarrow> string \<Rightarrow> 's \<Rightarrow> http_req \<Rightarrow> http_req" where
  "outgoing ts ctx key s q = idempotencyMiddleware key (tenantMiddleware ctx s (authMiddleware ts s q))"

lemma client_call:
  assumes "documented_order be dispatch"
  shows "dispatch (createApiClient be ts base ctx key) q cl =
    (let q' = outgoing ts ctx key (cl_store cl) q in
     case be (cl_sent cl) q' of None \<Rightarrow> (Inl RuntimeError, client_send q' cl)
     | Some r \<Rightarrow> (case refreshMiddleware be ts base (sent_of q') r (client_send q' cl) of
         (Inl err, cl') \<Rightarrow> (Inl err, cl') | (Inr r', cl') \<Rightarrow> (errorMiddleware r', cl')))"
  using assms unfolding documented_order_def
  by (auto simp: in_order_def createApiClient_def run_requests_def outgoing_def Let_def split: option.split sum.split prod.split)

definition presentable :: "http_res \<Rightarrow> bool" where
  "presentable r \<longleftrightarrow> rs_status r \<notin> {401, 402} \<and> rs_status r < 500 \<and> \<not> (rs_status r = 403 \<and> gated r)"

lemma errorMiddleware_presentable:
  "errorMiddleware r = Inr r' \<Longrightarrow> rs_status r \<noteq> 401 \<Longrightarrow> r' = r \<and> presentable r"
  by (auto simp: errorMiddleware_def presentable_def res_ok_def split: if_splits)

lemma errorMiddleware_error: "errorMiddleware r \<noteq> Inl UnauthorizedError" "errorMiddleware r \<noteq> Inl RuntimeError"
  by (auto simp: errorMiddleware_def new_ServerError_def)

lemma refresh_cases:
  assumes "refreshMiddleware be ts base sr r cl = (res, cl')"
  obtains (pass) "rs_status r \<noteq> 401" "res = Inr r" "cl' = cl"
  | (fail) err where "rs_status r = 401" "res = Inl err" "err \<in> {UnauthorizedError, RuntimeError}"
      "cl_sent cl' = cl_sent cl @ [renew_request ts base (cl_store cl)]"
  | (retry) t q2 where "rs_status r = 401" "truthy_str (Some t)" "retry_request sr t = Some q2"
      "cl_sent cl' = cl_sent cl @ [renew_request ts base (cl_store cl), q2]"
      "res = after_retry (be (cl_sent cl @ [renew_request ts base (cl_store cl)]) q2)"
      "promise_value (refresh_answer (be (cl_sent cl) (renew_request ts base (cl_store cl)))) = Inr (Some t)"
proof -
  let ?a = "refresh_answer (be (cl_sent cl) (renew_request ts base (cl_store cl)))"
  consider "rs_status r \<noteq> 401"
    | "rs_status r = 401" "promise_value ?a = Inl RuntimeError"
    | tok where "rs_status r = 401" "promise_value ?a = Inr tok" "\<not> truthy_str tok"
    | t where "rs_status r = 401" "promise_value ?a = Inr (Some t)" "truthy_str (Some t)"
    by (cases ?a) (auto, metis option.exhaust truthy_str_simps)
  then show thesis
    using assms that
    by cases (auto simp: refreshMiddleware_def refreshOnce_def Let_def client_send_def split: option.splits)
qed

text \<open>
  C19. What a caller gets from the client is a response it can present: never a 401, 402, a 5xx or a
  403 of the subscription gate, which are all turned into errors, also when they answer the retry. A
  call sends its request once, renews the token at most once and only after a 401, and repeats the
  request at most once with the new token; \<open>UnauthorizedError\<close> is raised only after a 401.
\<close>

theorem client_result:
  assumes order: "documented_order be dispatch"
    and call: "dispatch (createApiClient be ts base ctx key) q cl = (res, cl')"
  defines "q' \<equiv> outgoing ts ctx key (cl_store cl) q"
    and "renew \<equiv> renew_request ts base (cl_store cl)"
  shows "(\<forall>r. res = Inr r \<longrightarrow> presentable r) \<and>
    (res = Inl UnauthorizedError \<longrightarrow> (\<exists>r. be (cl_sent cl) q' = Some r \<and> rs_status r = 401)) \<and>
    (cl_sent cl' = cl_sent cl @ [q'] \<or>
     (\<exists>r. be (cl_sent cl) q' = Some r \<and> rs_status r = 401) \<and>
     (cl_sent cl' = cl_sent cl @ [q', renew] \<or>
      (\<exists>t. cl_sent cl' = cl_sent cl @ [q', renew, q'\<lparr>rq_headers := header_set (rq_headers q') ''Authorization'' (''Bearer '' @ t)\<rparr>])))"
proof (cases "be (cl_sent cl) q'")
  case None
  then show ?thesis using call client_call [OF order, of ts base ctx key q cl] by (auto simp: q'_def Let_def client_send_def)
next
  case (Some r)
  obtain mid cl1 where mid: "refreshMiddleware be ts base (sent_of q') r (client_send q' cl) = (mid, cl1)" by fastforce
  have res: "cl' = cl1 \<and> res = (case mid of Inl err \<Rightarrow> Inl err | Inr r' \<Rightarrow> errorMiddleware r')"
    using call client_call [OF order, of ts base ctx key q cl] Some mid by (auto simp: q'_def Let_def split: sum.splits)
  have ok: "\<forall>r'. res = Inr r' \<longrightarrow> presentable r'" if "\<forall>r'. mid = Inr r' \<longrightarrow> rs_status r' \<noteq> 401"
    using res that errorMiddleware_presentable by (cases mid) auto
  have sent: "cl_sent (client_send q' cl) = cl_sent cl @ [q']" "cl_store (client_send q' cl) = cl_store cl"
    by (simp_all add: client_send_def)
  from mid show ?thesis
  proof (cases rule: refresh_cases)
    case pass
    then show ?thesis using ok res sent errorMiddleware_error by auto
  next
    case (fail err)
    then show ?thesis using ok res sent Some by (auto simp: renew_def)
  next
    case (retry t q2)
    then have "\<forall>r'. mid = Inr r' \<longrightarrow> rs_status r' \<noteq> 401" by (auto simp: after_retry_def split: option.splits if_splits)
    moreover have "q2 = q'\<lparr>rq_headers := header_set (rq_headers q') ''Authorization'' (''Bearer '' @ t)\<rparr>"
      using retry(3) by (simp add: retry_request_def sent_of_def split: if_splits)
    ultimately show ?thesis using ok res sent Some retry by (auto simp: renew_def)
  qed
qed

lemma outgoing_body: "rq_body (outgoing ts ctx key s q) = rq_body q"
  by (simp add: outgoing_def idempotencyMiddleware_def tenantMiddleware_def authMiddleware_def split: option.split)

text \<open>
  C39. A write is not repeated after a refresh: when a request with a body is answered 401 and the
  refresh succeeds, the retry cannot be built, because the body is used, and the caller gets a
  runtime error although the session is valid again.
\<close>

theorem retry_loses_body:
  assumes "documented_order be dispatch" "rq_body q \<noteq> None"
    and "be (cl_sent cl) (outgoing ts ctx key (cl_store cl) q) = Some r" "rs_status r = 401"
    and "refresh_answer (be (cl_sent cl @ [outgoing ts ctx key (cl_store cl) q]) (renew_request ts base (cl_store cl))) = Renewed (Some t)"
    and "t \<noteq> []"
  shows "fst (dispatch (createApiClient be ts base ctx key) q cl) = Inl RuntimeError"
  using assms
  by (simp add: client_call Let_def refreshMiddleware_def refreshOnce_def client_send_def retry_request_def sent_of_def
      outgoing_body)

section \<open>The requests of the operations\<close>

text \<open>
  \<open>openapi-fetch\<close> documents that it joins the base URL, the template with its parameters filled in
  and the serialised query, and sets no header of its own but the content type of a body. Encoding
  leaves an identifier of letters, digits, hyphens and underscores (such as the portal's UUIDs) as it is.
\<close>

function expand :: "(string \<times> string) list \<Rightarrow> string \<Rightarrow> string" where
  "expand ps [] = []"
| "expand ps (c # cs) = (if c = CHR ''{''
     then nullish (map_of ps (takeWhile (\<lambda>d. d \<noteq> CHR ''}'') cs)) [] @ expand ps (drop 1 (dropWhile (\<lambda>d. d \<noteq> CHR ''}'') cs))
     else c # expand ps cs)"
  by pat_completeness auto

termination
  by (relation "measure (\<lambda>(ps, s). length s)") (auto simp: less_Suc_eq_le intro: order.trans [OF diff_le_self] length_dropWhile_le)

definition plain_char :: "char \<Rightarrow> bool" where
  "plain_char c \<longleftrightarrow> is_lower c \<or> is_upper c \<or> is_digit c \<or> c = CHR ''-'' \<or> c = CHR ''_''"

definition plain_ids :: "api_call \<Rightarrow> bool" where
  "plain_ids c \<longleftrightarrow> list_all (\<lambda>(n, v). v \<noteq> [] \<and> list_all plain_char v) (ac_path c)"

definition client_headers :: "string list" where
  "client_headers = [''Authorization'', ''X-Tenant-Slug'', ''Idempotency-Key'']"

definition documented_url :: "(string \<Rightarrow> api_call \<Rightarrow> http_req) \<Rightarrow> bool" where
  "documented_url build \<longleftrightarrow> (\<forall>base c. rq_method (build base c) = ac_method c \<and>
     list_all (\<lambda>n. header_get (rq_headers (build base c)) n = None) client_headers \<and>
     (plain_ids c \<longrightarrow> (\<exists>qs. rq_url (build base c) = base @ expand (ac_path c) (ac_template c) @ qs \<and>
        (qs = [] \<or> hd qs = CHR ''?''))))"

definition origin :: "string \<Rightarrow> bool" where
  "origin base \<longleftrightarrow> (\<exists>s h. base = s @ ''://'' @ h \<and> CHR ''/'' \<notin> set s \<and> set h \<inter> {CHR ''/'', CHR ''?'', CHR ''#''} = {})"

lemma header_get_set_other [simp]:
  assumes "js_toLowerCase m \<noteq> js_toLowerCase n"
  shows "header_get (header_set hs n v) m = header_get hs m"
proof -
  have "find P (filter (\<lambda>h. \<not> Q h) hs @ [x]) = find P hs" if "\<not> P x" "\<And>h. P h \<Longrightarrow> \<not> Q h" for P Q and x :: "string \<times> string"
    using that by (induction hs) auto
  from this [of "\<lambda>h. js_toLowerCase (fst h) = js_toLowerCase m" "(n, v)" "\<lambda>h. js_toLowerCase (fst h) = js_toLowerCase n"]
  show ?thesis using assms by (auto simp: header_get_def header_set_def)
qed

lemma client_headers_differ [simp]:
  "js_toLowerCase ''Authorization'' \<noteq> js_toLowerCase ''X-Tenant-Slug''" "js_toLowerCase ''Authorization'' \<noteq> js_toLowerCase ''Idempotency-Key''"
  "js_toLowerCase ''X-Tenant-Slug'' \<noteq> js_toLowerCase ''Authorization''" "js_toLowerCase ''X-Tenant-Slug'' \<noteq> js_toLowerCase ''Idempotency-Key''"
  "js_toLowerCase ''Idempotency-Key'' \<noteq> js_toLowerCase ''Authorization''" "js_toLowerCase ''Idempotency-Key'' \<noteq> js_toLowerCase ''X-Tenant-Slug''"
  by (simp_all add: js_toLowerCase_def lower_char_def)

lemma takeWhile_drop_hd: "xs = [] \<or> \<not> P (hd xs) \<Longrightarrow> takeWhile P xs = []"
  by (cases xs) auto

lemma pathname_join:
  assumes "origin base" "prefix ''/'' p" "CHR ''?'' \<notin> set p" "CHR ''#'' \<notin> set p" "qs = [] \<or> hd qs = CHR ''?''"
  shows "pathname (base @ p @ qs) = p"
proof -
  obtain s h where b: "base = s @ ''://'' @ h" "CHR ''/'' \<notin> set s" "CHR ''/'' \<notin> set h"
    using assms(1) by (auto simp: origin_def)
  have dw: "dropWhile (\<lambda>c. c \<noteq> CHR ''/'') (xs @ CHR ''/'' # ys) = CHR ''/'' # ys" if "CHR ''/'' \<notin> set xs" for xs ys
    using that by (induction xs) auto
  obtain p' where p: "p = CHR ''/'' # p'" using assms(2) by (auto simp: prefix_def)
  have "dropWhile (\<lambda>c. c \<noteq> CHR ''/'') (base @ p @ qs) = ''//'' @ h @ p @ qs"
    using dw [of "s @ '':''" "CHR ''/'' # h @ p @ qs"] b by simp
  then have "pathname (base @ p @ qs) = takeWhile (\<lambda>c. c \<noteq> CHR ''?'' \<and> c \<noteq> CHR ''#'') (p @ qs)"
    using dw [of h "p' @ qs"] b(3) p by (simp add: pathname_def)
  also have "\<dots> = p"
    using assms(3-5) by (subst takeWhile_append2) (auto intro: takeWhile_drop_hd)
  finally show ?thesis .
qed

lemma expand_head: "expand ps t = literal_head t @ expand ps (dropWhile (\<lambda>c. c \<noteq> CHR ''{'') t)"
  by (induction t) (auto simp: literal_head_def)

lemma expand_set: "d \<in> set (expand ps t) \<Longrightarrow> d \<in> set t \<or> (\<exists>(n, v) \<in> set ps. d \<in> set v)"
proof (induction ps t rule: expand.induct)
  case (2 ps c cs)
  show ?case
  proof (cases "c = CHR ''{''")
    case True
    let ?rest = "drop 1 (dropWhile (\<lambda>d. d \<noteq> CHR ''}'') cs)"
    have rest: "d \<in> set cs" if "d \<in> set ?rest" using that by (meson in_set_dropD set_dropWhileD)
    consider "d \<in> set (nullish (map_of ps (takeWhile (\<lambda>d. d \<noteq> CHR ''}'') cs)) [])" | "d \<in> set (expand ps ?rest)"
      using 2(3) True by auto
    then show ?thesis
    proof cases
      case 1
      then show ?thesis
        by (cases "map_of ps (takeWhile (\<lambda>d. d \<noteq> CHR ''}'') cs)") (auto dest!: map_of_SomeD)
    next
      case b: 2
      then show ?thesis using 2(1) [OF True b] rest by auto
    qed
  next
    case False
    then show ?thesis using 2(2,3) by auto
  qed
qed simp

lemma parallel_no_prefix: "h \<parallel> l \<Longrightarrow> \<not> prefix l (h @ x)"
  by (metis parallelE prefixI prefix_same_cases)

lemma operation_path:
  assumes "documented_url build" "origin base" "plain_ids (buildResources p)"
  defines "c \<equiv> buildResources p"
  shows "pathname (rq_url (build base c)) = expand (ac_path c) (ac_template c)"
    and "prefix ''/platform/'' (pathname (rq_url (build base c))) \<longleftrightarrow> platform_op p"
    and "\<not> prefix ''/.well-known/'' (pathname (rq_url (build base c)))"
proof -
  let ?e = "expand (ac_path c) (ac_template c)" and ?h = "literal_head (ac_template c)"
  have ok: "call_ok c (platform_op p)" unfolding c_def by (rule operation_ok)
  obtain qs where url: "rq_url (build base c) = base @ ?e @ qs" "qs = [] \<or> hd qs = CHR ''?''"
    using assms(1,3) unfolding documented_url_def c_def by blast
  have ids: "\<forall>(n, v) \<in> set (ac_path c). list_all plain_char v"
    using assms(3) by (auto simp: plain_ids_def list_all_iff c_def)
  have marks: "\<not> plain_char CHR ''?''" "\<not> plain_char CHR ''#''"
    by (simp_all add: plain_char_def is_lower_def is_upper_def is_digit_def)
  have clean: "d \<notin> set ?e" if "d = CHR ''?'' \<or> d = CHR ''#''" for d
    using that ok ids marks expand_set [of d "ac_path c" "ac_template c"] by (auto simp: call_ok_def list_all_iff)
  have head: "?e = ?h @ expand (ac_path c) (dropWhile (\<lambda>c. c \<noteq> CHR ''{'') (ac_template c))" by (rule expand_head)
  have "prefix ''/'' ?h" using ok by (cases "ac_template c") (auto simp: call_ok_def well_formed_def js_startsWith_def literal_head_def parallel_def)
  then have "prefix ''/'' ?e" using head by (metis prefix_prefix)
  then show path: "pathname (rq_url (build base c)) = ?e"
    using pathname_join [OF assms(2)] clean url by simp
  show "prefix ''/platform/'' (pathname (rq_url (build base c))) \<longleftrightarrow> platform_op p"
    unfolding path using ok parallel_no_prefix [of ?h] by (subst head) (auto simp: call_ok_def Let_def split: if_splits)
  show "\<not> prefix ''/.well-known/'' (pathname (rq_url (build base c)))"
    unfolding path using ok parallel_no_prefix [of ?h] by (subst head) (auto simp: call_ok_def Let_def)
qed

text \<open>
  C20. Every operation is sent to its own path with the right credentials: the bearer token exactly when
  there is one, the tenant of the context on all operations of a tenant and on none of the
  platform's, and a fresh idempotency key on exactly the operations that change something.
\<close>

theorem operation_requests:
  fixes ts :: "'s token_store" and ctx :: "'s \<Rightarrow> string option" and key :: string and s :: 's
  assumes "documented_url build" "origin base" "plain_ids (buildResources p)"
  defines "q \<equiv> outgoing ts ctx key s (build base (buildResources p))"
  shows "rq_method q = ac_method (buildResources p) \<and>
    pathname (rq_url q) = expand (ac_path (buildResources p)) (ac_template (buildResources p)) \<and>
    header_get (rq_headers q) ''Authorization'' = (if truthy_str (get_token ts s) then Some (''Bearer '' @ the (get_token ts s)) else None) \<and>
    header_get (rq_headers q) ''X-Tenant-Slug'' = (if platform_op p then None else ctx s) \<and>
    header_get (rq_headers q) ''Idempotency-Key'' = (if ac_method (buildResources p) = ''GET'' then None else Some key)"
proof -
  have lib: "rq_method (build base (buildResources p)) = ac_method (buildResources p)"
    "list_all (\<lambda>n. header_get (rq_headers (build base (buildResources p))) n = None) client_headers"
    using assms(1) unfolding documented_url_def by blast+
  have "ac_method (buildResources p) \<in> MUTATION_METHODS \<longleftrightarrow> ac_method (buildResources p) \<noteq> ''GET''"
    using operation_ok [of p] by (auto simp: call_ok_def well_formed_def MUTATION_METHODS_def)
  then show ?thesis
    using lib operation_path [OF assms(1-3)]
    by (auto simp: q_def outgoing_def idempotencyMiddleware_def tenantMiddleware_def authMiddleware_def client_headers_def
        js_startsWith_def split: option.split)
qed

text \<open>
  In the browser the refresh call goes to the API's base URL followed by the path of one of the portal's
  own route handlers, which is no endpoint of the API.
\<close>

lemma browser_refresh_target:
  "rq_url (renew_request CookieBackedTokenStore base s) = base @ browserRefreshEndpoint (as_context s) \<and>
   browserRefreshEndpoint (as_context s) \<noteq> refreshEndpoint v"
  by (auto simp: renew_request_def CookieBackedTokenStore_def post_req_def browserRefreshEndpoint_def refreshEndpoint_def
      split: variant.split)

section \<open>Sample runs\<close>

definition demo_build :: "string \<Rightarrow> api_call \<Rightarrow> http_req" where
  "demo_build base c = \<lparr>rq_method = ac_method c, rq_url = base @ expand (ac_path c) (ac_template c), rq_headers = [], rq_body = ac_body c\<rparr>"

lemma demo_build_documented: "documented_url demo_build"
  by (simp add: documented_url_def demo_build_def client_headers_def header_get_def)

lemma in_order_documented: "documented_order be (in_order be)"
  by (simp add: documented_order_def)

definition demo_base :: string where
  "demo_base = ''https://api.test''"

lemma demo_origin: "origin demo_base"
  unfolding origin_def demo_base_def by (rule exI [of _ "''https''"], rule exI [of _ "''api.test''"]) simp

theorem operation_requests_witness:
  "header_get (rq_headers (outgoing InMemoryTokenStore (FixedTenantContext (Some ''sacco-one'')) ''k'' (new_InMemoryTokenStore ''/auth/refresh'')
      (demo_build demo_base (buildResources (Op_members (Members_get ''m1'')))))) ''X-Tenant-Slug'' = Some ''sacco-one''"
proof -
  have "plain_ids (buildResources (Op_members (Members_get ''m1'')))"
    by (simp add: plain_ids_def call_defs plain_char_def is_lower_def is_digit_def)
  from operation_requests [OF demo_build_documented demo_origin this, of InMemoryTokenStore "FixedTenantContext (Some ''sacco-one'')"]
  show ?thesis by (simp add: FixedTenantContext_def)
qed

definition expired_answer :: http_res where
  "expired_answer = \<lparr>rs_status = 401, rs_headers = [], rs_json = None, rs_bytes = []\<rparr>"

definition fresh_answer :: http_res where
  "fresh_answer = \<lparr>rs_status = 200, rs_headers = [], rs_json = Some (JObj [(''access_token'', JStr ''new'')]), rs_bytes = []\<rparr>"

text \<open>A backend that knows only the renewed token, and a client with an expired one.\<close>

definition demo_backend :: backend where
  "demo_backend past q = Some (if rq_url q = demo_base @ ''/auth/refresh'' \<or> header_get (rq_headers q) ''Authorization'' = Some ''Bearer new''
     then fresh_answer else expired_answer)"

definition demo_client :: "mem_store client" where
  "demo_client = \<lparr>cl_store = (new_InMemoryTokenStore ''/auth/refresh'')\<lparr>ms_accessToken := Some ''old''\<rparr>, cl_sent = []\<rparr>"

definition demo_post :: "http_req" where
  "demo_post = post_req (demo_base @ ''/x'') [] (Some (JObj []))"

lemma demo_out:
  "outgoing InMemoryTokenStore (FixedTenantContext None) ''k'' (cl_store demo_client) q =
     idempotencyMiddleware ''k'' (q\<lparr>rq_headers := header_set (rq_headers q) ''Authorization'' ''Bearer old''\<rparr>)"
  by (simp add: outgoing_def FixedTenantContext_def tenantMiddleware_def authMiddleware_def demo_client_def InMemoryTokenStore_def)

lemma demo_out_get:
  "rq_method q = ''GET'' \<Longrightarrow> outgoing InMemoryTokenStore (FixedTenantContext None) ''k'' (cl_store demo_client) q =
     q\<lparr>rq_headers := header_set (rq_headers q) ''Authorization'' ''Bearer old''\<rparr>"
  by (simp add: demo_out idempotencyMiddleware_def MUTATION_METHODS_def)

lemma demo_refresh: "refresh_answer (demo_backend past (renew_request InMemoryTokenStore demo_base (cl_store demo_client))) = Renewed (Some ''new'')"
  by (simp add: demo_backend_def renew_request_def demo_client_def InMemoryTokenStore_def new_InMemoryTokenStore_def post_req_def
      fresh_answer_def refresh_answer_def res_ok_def is_object_def)

theorem retry_loses_body_witness:
  "fst (in_order demo_backend (createApiClient demo_backend InMemoryTokenStore demo_base (FixedTenantContext None) ''k'') demo_post demo_client)
     = Inl RuntimeError"
proof -
  have "demo_backend (cl_sent demo_client) (outgoing InMemoryTokenStore (FixedTenantContext None) ''k'' (cl_store demo_client) demo_post)
      = Some expired_answer"
    by (simp add: demo_out idempotencyMiddleware_def demo_backend_def demo_post_def post_req_def demo_base_def)
  moreover have "rq_body demo_post \<noteq> None" "rs_status expired_answer = 401" "''new'' \<noteq> []"
    by (simp_all add: demo_post_def post_req_def expired_answer_def)
  ultimately show ?thesis
    using retry_loses_body in_order_documented demo_refresh by blast
qed

lemma set_memory: "set_token InMemoryTokenStore t s = s\<lparr>ms_accessToken := t\<rparr>"
  by (simp add: InMemoryTokenStore_def)

theorem client_result_witness:
  "\<exists>r cl'. in_order demo_backend (createApiClient demo_backend InMemoryTokenStore demo_base (FixedTenantContext None) ''k'')
       (get_req (demo_base @ ''/x'') []) demo_client = (Inr r, cl') \<and> presentable r \<and> ms_accessToken (cl_store cl') = Some ''new''"
proof -
  let ?q = "get_req (demo_base @ ''/x'') []" and ?out = "outgoing InMemoryTokenStore (FixedTenantContext None) ''k'' (cl_store demo_client)"
  have first: "demo_backend (cl_sent demo_client) (?out ?q) = Some expired_answer"
    by (simp add: demo_out_get get_req_def demo_backend_def demo_base_def)
  have again: "demo_backend past (?out ?q\<lparr>rq_headers := header_set hs ''Authorization'' ''Bearer new''\<rparr>) = Some fresh_answer" for past hs
    by (simp add: demo_backend_def)
  have "fst (in_order demo_backend (createApiClient demo_backend InMemoryTokenStore demo_base (FixedTenantContext None) ''k'') ?q demo_client)
      = Inr fresh_answer \<and>
    ms_accessToken (cl_store (snd (in_order demo_backend (createApiClient demo_backend InMemoryTokenStore demo_base (FixedTenantContext None) ''k'') ?q demo_client)))
      = Some ''new''"
    using first again demo_refresh
    by (simp add: client_call [OF in_order_documented] Let_def refreshMiddleware_def refreshOnce_def client_send_def retry_request_def
        sent_of_def demo_out_get get_req_def expired_answer_def after_retry_def fresh_answer_def errorMiddleware_def res_ok_def
        outgoing_body set_memory)
  then show ?thesis
    using client_result [OF in_order_documented] by (metis prod.collapse)
qed

end
