(* ===== verification/Refresh.thy ===== *)
theory Refresh
  imports Api_Client
begin

text \<open>
  Many calls at once through one \<open>refreshMiddleware\<close>. The middleware keeps the promise of the refresh
  in flight in \<open>pending\<close>: a call that is answered 401 starts a refresh when there is none and joins
  it otherwise; when the refresh ends, \<open>pending\<close> is cleared first and the calls that wait for it go on,
  one by one, in an order the scheduler picks. The state is the token store, \<open>pending\<close> and, for each
  call, where its \<open>onResponse\<close> stands; \<open>rn_started\<close> and \<open>rn_ended\<close> count the refresh calls. The answers
  of the server are arbitrary: every step that takes one takes any.
\<close>

datatype call =
    Ready sent_request
  | Sent sent_request
  | Waiting sent_request
  | Resumed sent_request "api_error + string option"
  | Retried http_req
  | Settled "api_error + http_res"

record 's machine =
  mc_store :: 's
  mc_pending :: bool
  mc_calls :: "call list"
  rn_started :: nat
  rn_ended :: nat

definition set_call :: "nat \<Rightarrow> call \<Rightarrow> 's machine \<Rightarrow> 's machine" where
  "set_call i c m = m\<lparr>mc_calls := (mc_calls m)[i := c]\<rparr>"

text \<open>What follows the refresh middleware in a call: the error middleware.\<close>

definition settle :: "api_error + http_res \<Rightarrow> call" where
  "settle res = Settled (case res of Inl err \<Rightarrow> Inl err | Inr r \<Rightarrow> errorMiddleware r)"

text \<open>\<open>refreshOnce\<close> up to its first await: the promise in flight, or a new one.\<close>

definition join_refresh :: "'s machine \<Rightarrow> 's machine" where
  "join_refresh m = (if mc_pending m then m else m\<lparr>mc_pending := True, rn_started := Suc (rn_started m)\<rparr>)"

definition first_answer :: "sent_request \<Rightarrow> nat \<Rightarrow> http_res option \<Rightarrow> 's machine \<Rightarrow> 's machine" where
  "first_answer q i r m = (case r of None \<Rightarrow> set_call i (Settled (Inl RuntimeError)) m
     | Some r \<Rightarrow> if rs_status r \<noteq> 401 then set_call i (settle (Inr r)) m
                 else set_call i (Waiting q) (join_refresh m))"

fun wake :: "api_error + string option \<Rightarrow> call \<Rightarrow> call" where
  "wake p (Waiting q) = Resumed q p"
| "wake p c = c"

text \<open>The end of the refresh: the token is stored, \<open>pending\<close> is cleared, the promise is settled.\<close>

definition end_refresh :: "'s token_store \<Rightarrow> http_res option \<Rightarrow> 's machine \<Rightarrow> 's machine" where
  "end_refresh ts r m = (let a = refresh_answer r in
     m\<lparr>mc_store := store_answer ts a (mc_store m), mc_pending := False, mc_calls := map (wake (promise_value a)) (mc_calls m),
       rn_ended := Suc (rn_ended m)\<rparr>)"

definition after_refresh :: "sent_request \<Rightarrow> api_error + string option \<Rightarrow> call" where
  "after_refresh q p = (case p of Inl err \<Rightarrow> settle (Inl err)
     | Inr newToken \<Rightarrow> (if \<not> truthy_str newToken then settle (Inl UnauthorizedError)
         else case retry_request q (the newToken) of None \<Rightarrow> settle (Inl RuntimeError) | Some retry \<Rightarrow> Retried retry))"

inductive step :: "'s token_store \<Rightarrow> 's machine \<Rightarrow> 's machine \<Rightarrow> bool" for ts where
  go: "i < length (mc_calls m) \<Longrightarrow> mc_calls m ! i = Ready q \<Longrightarrow> step ts m (set_call i (Sent q) m)"
| answer: "i < length (mc_calls m) \<Longrightarrow> mc_calls m ! i = Sent q \<Longrightarrow> step ts m (first_answer q i r m)"
| refreshed: "mc_pending m \<Longrightarrow> step ts m (end_refresh ts r m)"
| resume: "i < length (mc_calls m) \<Longrightarrow> mc_calls m ! i = Resumed q p \<Longrightarrow> step ts m (set_call i (after_refresh q p) m)"
| retried: "i < length (mc_calls m) \<Longrightarrow> mc_calls m ! i = Retried q \<Longrightarrow> step ts m (set_call i (settle (after_retry r)) m)"

inductive run :: "'s token_store \<Rightarrow> nat \<Rightarrow> 's machine \<Rightarrow> 's machine \<Rightarrow> bool" for ts where
  run_0: "run ts 0 m m"
| run_Suc: "run ts n m m' \<Longrightarrow> step ts m' m'' \<Longrightarrow> run ts (Suc n) m m''"

text \<open>A client with the given calls about to be sent.\<close>

definition start :: "'s \<Rightarrow> sent_request list \<Rightarrow> 's machine" where
  "start s qs = \<lparr>mc_store = s, mc_pending = False, mc_calls = map Ready qs, rn_started = 0, rn_ended = 0\<rparr>"

section \<open>Invariants\<close>

definition waiting :: "call \<Rightarrow> bool" where
  "waiting c \<longleftrightarrow> (\<exists>q. c = Waiting q)"

text \<open>
  The refresh calls in flight are the ones started and not ended; \<open>pending\<close> tells whether there is one,
  and there is one exactly when some call waits for it.
\<close>

definition coherent :: "'s machine \<Rightarrow> bool" where
  "coherent m \<longleftrightarrow> rn_started m = rn_ended m + (if mc_pending m then 1 else 0) \<and>
     (mc_pending m \<longleftrightarrow> list_ex waiting (mc_calls m))"

lemma waiting_simps [simp]:
  "waiting (Waiting q)" "\<not> waiting (Ready q)" "\<not> waiting (Sent q)" "\<not> waiting (Resumed q p)" "\<not> waiting (Retried q')"
  "\<not> waiting (Settled r)" "\<not> waiting (settle r)" "\<not> waiting (after_refresh q p)" "\<not> waiting (wake p c)"
  by (simp_all add: waiting_def settle_def after_refresh_def split: sum.split option.split) (cases c; simp)

lemma waiting_update:
  "i < length cs \<Longrightarrow> \<not> waiting (cs ! i) \<Longrightarrow> list_ex waiting (cs[i := d]) \<longleftrightarrow> waiting d \<or> list_ex waiting cs"
proof (induction cs arbitrary: i)
  case (Cons c cs)
  then show ?case by (cases i) auto
qed simp

lemma woken: "\<not> list_ex waiting (map (wake p) cs)"
  by (simp add: list_ex_iff)

lemma step_coherent:
  assumes "step ts m m'" "coherent m"
  shows "coherent m'"
  using assms
proof cases
  case (answer i q r)
  then show ?thesis
    using assms(2) waiting_update [of i "mc_calls m"]
    by (simp add: coherent_def first_answer_def join_refresh_def set_call_def split: option.split)
next
  case (refreshed r)
  then show ?thesis using assms(2) by (simp add: coherent_def end_refresh_def Let_def woken)
qed (use assms(2) waiting_update in \<open>auto simp: coherent_def set_call_def\<close>)

lemma start_coherent: "coherent (start s qs)"
  by (simp add: coherent_def start_def list_ex_iff)

lemma run_coherent: "run ts n m m' \<Longrightarrow> coherent m \<Longrightarrow> coherent m'"
  by (induction rule: run.induct) (auto intro: step_coherent)

section \<open>How many refreshes\<close>

fun unanswered :: "call \<Rightarrow> bool" where
  "unanswered (Ready q) = True" | "unanswered (Sent q) = True" | "unanswered _ = False"

lemma unanswered_simps [simp]: "\<not> unanswered (settle r)" "\<not> unanswered (after_refresh q p)" "unanswered (wake p c) = unanswered c"
  by (simp_all add: settle_def after_refresh_def split: sum.split option.split) (cases c; simp)

lemma count_update:
  "i < length cs \<Longrightarrow> P d = P (cs ! i) \<Longrightarrow> length (filter P (cs[i := d])) = length (filter P cs)"
  "i < length cs \<Longrightarrow> \<not> P d \<Longrightarrow> P (cs ! i) \<Longrightarrow> length (filter P (cs[i := d])) < length (filter P cs)"
proof (induction cs arbitrary: i)
  case (Cons c cs)
  {
    case 1
    then show ?case using Cons.IH(1) by (cases i) auto
  next
    case 2
    then show ?case using Cons.IH(2) by (cases i) auto
  }
qed simp_all

definition budget :: "nat \<Rightarrow> 's machine \<Rightarrow> bool" where
  "budget n m \<longleftrightarrow> rn_started m + length (filter unanswered (mc_calls m)) \<le> n"

lemma step_budget:
  assumes "step ts m m'" "budget n m"
  shows "budget n m'"
  using assms
proof cases
  case (answer i q r)
  then have "length (filter unanswered ((mc_calls m)[i := d])) < length (filter unanswered (mc_calls m))" if "\<not> unanswered d" for d
    using that by (simp add: count_update)
  from this [of "Settled (Inl RuntimeError)"] this [of "Waiting q"] this [of "settle (Inr (the r))"] answer assms(2)
  show ?thesis by (cases r) (auto simp: budget_def first_answer_def join_refresh_def set_call_def)
next
  case (refreshed r)
  then show ?thesis using assms(2) by (simp add: budget_def end_refresh_def Let_def filter_map comp_def)
qed (use assms(2) in \<open>simp_all add: budget_def set_call_def count_update\<close>)

lemma start_budget: "budget (length qs) (start s qs)"
  by (simp add: budget_def start_def)

lemma run_budget: "run ts n m m' \<Longrightarrow> budget k m \<Longrightarrow> budget k m'"
  by (induction rule: run.induct) (auto intro: step_budget)

text \<open>
  C21. Concurrent 401s share one refresh: at any time at most one refresh call is in flight, and one is in
  flight exactly when some call waits for it, so no call waits for a refresh that never ends; and
  never more refresh calls are made than there are calls.
\<close>

theorem refresh_single_flight:
  assumes "run ts n (start s qs) m"
  shows "rn_started m = rn_ended m + (if mc_pending m then 1 else 0) \<and>
    (mc_pending m \<longleftrightarrow> list_ex waiting (mc_calls m)) \<and> rn_started m \<le> length qs"
  using run_coherent [OF assms start_coherent] run_budget [OF assms start_budget] by (simp add: coherent_def budget_def)

section \<open>Every call settles\<close>

fun weight :: "call \<Rightarrow> nat" where
  "weight (Ready q) = 5" | "weight (Sent q) = 4" | "weight (Waiting q) = 3" | "weight (Resumed q p) = 2"
| "weight (Retried q) = 1" | "weight (Settled r) = 0"

definition work :: "'s machine \<Rightarrow> nat" where
  "work m = sum_list (map weight (mc_calls m))"

lemma weight_settle [simp]: "weight (settle r) = 0"
  by (simp add: settle_def)

lemma weight_after_refresh: "weight (after_refresh q p) \<le> 1"
  by (simp add: after_refresh_def split: sum.split option.split)

lemma weight_wake: "weight (wake p c) \<le> weight c" "waiting c \<Longrightarrow> weight (wake p c) < weight c"
  by (cases c; simp)+

lemma work_update: "i < length cs \<Longrightarrow> weight d < weight (cs ! i) \<Longrightarrow> sum_list (map weight (cs[i := d])) < sum_list (map weight cs)"
proof (induction cs arbitrary: i)
  case (Cons c cs)
  then show ?case by (cases i) auto
qed simp

lemma work_wake: "list_ex waiting cs \<Longrightarrow> sum_list (map weight (map (wake p) cs)) < sum_list (map weight cs)"
proof (induction cs)
  case (Cons c cs)
  have "sum_list (map weight (map (wake p) cs)) \<le> sum_list (map weight cs)"
    by (simp add: sum_list_mono weight_wake)
  with Cons show ?case using weight_wake(1) [of p c] weight_wake(2) [of c p]
    by (fastforce intro: add_less_le_mono add_le_less_mono)
qed simp

lemma step_work:
  assumes "step ts m m'" "coherent m"
  shows "work m' < work m"
  using assms
proof cases
  case (answer i q r)
  then show ?thesis
    by (auto simp: work_def first_answer_def join_refresh_def set_call_def work_update split: option.split)
next
  case (refreshed r)
  then show ?thesis
    using assms(2) work_wake [of "mc_calls m"] by (simp add: work_def end_refresh_def Let_def coherent_def)
next
  case (resume i q p)
  then show ?thesis
    using weight_after_refresh [of q p] by (simp add: work_def set_call_def work_update)
qed (simp_all add: work_def set_call_def work_update)

lemma run_work: "run ts n m m' \<Longrightarrow> coherent m \<Longrightarrow> n + work m' \<le> work m"
proof (induction rule: run.induct)
  case (run_Suc n m m' m'')
  then show ?case using step_work [OF run_Suc(2)] run_coherent [OF run_Suc(1)] by fastforce
qed simp

lemma start_work: "work (start s qs) = 5 * length qs"
  by (simp add: work_def start_def comp_def sum_list_triv)

definition settled :: "call \<Rightarrow> bool" where
  "settled c \<longleftrightarrow> (\<exists>r. c = Settled r)"

lemma stuck_settled:
  assumes "coherent m"
  shows "(\<nexists>m'. step ts m m') \<longleftrightarrow> list_all settled (mc_calls m)"
proof
  assume stuck: "\<nexists>m'. step ts m m'"
  then have "\<not> list_ex waiting (mc_calls m)" using assms refreshed unfolding coherent_def by blast
  then have nw: "\<not> waiting (mc_calls m ! i)" if "i < length (mc_calls m)" for i using that by (auto simp: list_ex_length)
  have "settled (mc_calls m ! i)" if i: "i < length (mc_calls m)" for i
  proof (cases "mc_calls m ! i")
    case (Ready q) then show ?thesis using stuck step.go [OF i] by blast
  next
    case (Sent q) then show ?thesis using stuck step.answer [OF i] by blast
  next
    case (Waiting q) then show ?thesis using nw [OF i] by simp
  next
    case (Resumed q p) then show ?thesis using stuck step.resume [OF i] by blast
  next
    case (Retried q) then show ?thesis using stuck step.retried [OF i] by blast
  qed (simp add: settled_def)
  then show "list_all settled (mc_calls m)" by (simp add: list_all_length)
next
  assume all: "list_all settled (mc_calls m)"
  then have np: "\<not> mc_pending m" using assms by (auto simp: coherent_def list_ex_iff list_all_iff settled_def waiting_def)
  have st: "settled (mc_calls m ! i)" if "i < length (mc_calls m)" for i
    using all that by (simp add: list_all_length)
  have False if "step ts m m'" for m'
    using that
  proof cases
    case refreshed then show False using np by simp
  qed (use st in \<open>force simp: settled_def\<close>)+
  then show "\<nexists>m'. step ts m m'" by blast
qed

fun shown_ok :: "call \<Rightarrow> bool" where
  "shown_ok (Settled (Inr r)) = presentable r" | "shown_ok _ = True"

lemma settle_shown: "(\<forall>r. res = Inr r \<longrightarrow> rs_status r \<noteq> 401) \<Longrightarrow> shown_ok (settle res)"
  using errorMiddleware_presentable [of "projr res"]
  by (cases res; cases "errorMiddleware (projr res)") (auto simp: settle_def)

lemma step_shown:
  assumes "step ts m m'" "list_all shown_ok (mc_calls m)"
  shows "list_all shown_ok (mc_calls m')"
proof -
  have upd: "list_all shown_ok (mc_calls (set_call i c m0))" if "shown_ok c" "mc_calls m0 = mc_calls m" for i c m0
    using assms(2) that set_update_subset_insert [of "mc_calls m" i c] by (auto simp: set_call_def list_all_iff)
  have after: "shown_ok (after_refresh q p)" for q p
    by (auto simp: after_refresh_def settle_shown split: sum.split option.split)
  have wake: "shown_ok (wake p c)" if "shown_ok c" for p c using that by (cases c) auto
  from assms(1) show ?thesis
  proof cases
    case (answer i q r)
    then show ?thesis
      by (cases r) (auto simp: first_answer_def join_refresh_def intro!: upd settle_shown)
  next
    case (refreshed r)
    then show ?thesis using assms(2) wake by (auto simp: end_refresh_def Let_def list_all_iff)
  next
    case (retried i q r)
    then show ?thesis
      by (auto simp: after_retry_def split: option.split intro!: upd settle_shown)
  qed (auto intro!: upd after)
qed

lemma run_shown: "run ts n m m' \<Longrightarrow> list_all shown_ok (mc_calls m) \<Longrightarrow> list_all shown_ok (mc_calls m')"
  by (induction rule: run.induct) (auto intro: step_shown)

text \<open>
  C22. Every call settles: however the calls, the refreshes and the answers interleave, a client with
  \<open>n\<close> calls makes at most \<open>5 n\<close> steps, it can go on as long as one call is open, and what a call
  settles with is an error or a response that can be presented.
\<close>

theorem refresh_settles:
  assumes "run ts n (start s qs) m"
  shows "n \<le> 5 * length qs \<and> ((\<nexists>m'. step ts m m') \<longleftrightarrow> list_all settled (mc_calls m)) \<and> list_all shown_ok (mc_calls m)"
proof -
  have "list_all shown_ok (mc_calls (start s qs))" by (simp add: start_def list_all_iff)
  then show ?thesis
    using run_work [OF assms start_coherent] run_coherent [OF assms start_coherent] run_shown [OF assms] stuck_settled
    by (simp add: start_work)
qed

section \<open>One call alone\<close>

definition alone :: "'s \<Rightarrow> call \<Rightarrow> bool \<Rightarrow> nat \<Rightarrow> nat \<Rightarrow> 's machine" where
  "alone s c p a b = \<lparr>mc_store = s, mc_pending = p, mc_calls = [c], rn_started = a, rn_ended = b\<rparr>"

lemma alone_simps [simp]: "mc_calls (alone s c p a b) = [c]" "mc_store (alone s c p a b) = s"
  by (simp_all add: alone_def)

lemma alone_steps:
  "step ts (alone s (Ready q) p a b) (alone s (Sent q) p a b)"
  "step ts (alone s (Sent q) p a b) (first_answer q 0 r (alone s (Sent q) p a b))"
  "step ts (alone s (Waiting q) True a b)
     (alone (store_answer ts (refresh_answer r) s) (Resumed q (promise_value (refresh_answer r))) False a (Suc b))"
  "step ts (alone s (Resumed q t) p a b) (alone s (after_refresh q t) p a b)"
  "step ts (alone s (Retried h) p a b) (alone s (settle (after_retry r)) p a b)"
  using step.go [of 0 "alone s (Ready q) p a b" q ts] step.answer [of 0 "alone s (Sent q) p a b" q ts r]
    step.refreshed [of "alone s (Waiting q) True a b" ts r] step.resume [of 0 "alone s (Resumed q t) p a b" q t ts]
    step.retried [of 0 "alone s (Retried h) p a b" h ts r]
  by (simp_all add: alone_def set_call_def end_refresh_def Let_def)

lemma alone_answer:
  "first_answer q 0 None (alone s c p a b) = alone s (Settled (Inl RuntimeError)) p a b"
  "rs_status r \<noteq> 401 \<Longrightarrow> first_answer q 0 (Some r) (alone s c p a b) = alone s (settle (Inr r)) p a b"
  "rs_status r = 401 \<Longrightarrow> first_answer q 0 (Some r) (alone s c False a b) = alone s (Waiting q) True (Suc a) b"
  by (simp_all add: first_answer_def alone_def set_call_def join_refresh_def)

lemma run_two: "step ts m m1 \<Longrightarrow> step ts m1 m2 \<Longrightarrow> run ts (Suc (Suc 0)) m m2"
  by (blast intro: run.intros)

lemma alone_refresh:
  fixes r :: http_res
  assumes "rs_status r = 401"
  shows "run ts 4 (alone s (Ready q) False 0 0)
    (alone (store_answer ts (refresh_answer x) s) (after_refresh q (promise_value (refresh_answer x))) False 1 1)"
proof -
  have "run ts (Suc (Suc 0)) (alone s (Ready q) False 0 0) (alone s (Waiting q) True (Suc 0) 0)"
    using run_two [OF alone_steps(1) alone_steps(2), of ts s q False 0 0 "Some r"] by (simp add: alone_answer(3) [OF assms])
  from run_Suc [OF run_Suc [OF this alone_steps(3)] alone_steps(4)] show ?thesis by (simp add: eval_nat_numeral)
qed

lemma sequential_end:
  assumes "refreshMiddleware be ts base q r cl = (mid, cl')" "rs_status r = 401"
  shows "\<exists>n. run ts n (alone (cl_store cl) (Ready q) False 0 0) (alone (cl_store cl') (settle mid) False 1 1)"
proof -
  let ?x = "be (cl_sent cl) (renew_request ts base (cl_store cl))"
  let ?a = "refresh_answer ?x"
  note four = alone_refresh [OF assms(2), of ts "cl_store cl" q ?x]
  have store: "cl_store cl' = store_answer ts ?a (cl_store cl)"
    using assms by (auto simp: refreshMiddleware_def refreshOnce_def Let_def client_send_def split: sum.splits if_splits option.splits)
  show ?thesis
  proof (cases "\<exists>h. after_refresh q (promise_value ?a) = Retried h")
    case False
    then have "after_refresh q (promise_value ?a) = settle mid"
      using assms by (auto simp: refreshMiddleware_def refreshOnce_def Let_def after_refresh_def split: sum.splits if_splits option.splits)
    then show ?thesis using four store by auto
  next
    case True
    then obtain h where h: "after_refresh q (promise_value ?a) = Retried h" by blast
    then have "\<exists>y. mid = after_retry y"
      using assms by (auto simp: refreshMiddleware_def refreshOnce_def Let_def after_refresh_def settle_def split: sum.splits if_splits option.splits)
    then show ?thesis using run_Suc [OF four [unfolded h] alone_steps(5)] store by auto
  qed
qed


section \<open>Sample runs\<close>

definition demo_sent :: sent_request where
  "demo_sent = sent_of (get_req (demo_base @ ''/x'') [])"

definition demo_start :: "mem_store machine" where
  "demo_start = start (new_InMemoryTokenStore ''/auth/refresh'') [demo_sent, demo_sent]"

definition demo_both :: "mem_store machine" where
  "demo_both = \<lparr>mc_store = new_InMemoryTokenStore ''/auth/refresh'', mc_pending = True,
     mc_calls = [Waiting demo_sent, Waiting demo_sent], rn_started = 1, rn_ended = 0\<rparr>"

text \<open>Two calls that are both answered 401 before the refresh ends.\<close>

lemma demo_run: "run InMemoryTokenStore 4 demo_start demo_both"
proof -
  let ?s = "new_InMemoryTokenStore ''/auth/refresh''" and ?w = "Waiting demo_sent" and ?o = "Sent demo_sent"
  let ?m = "\<lambda>cs p a. \<lparr>mc_store = ?s, mc_pending = p, mc_calls = cs, rn_started = a, rn_ended = 0\<rparr>"
  let ?r = "Ready demo_sent"
  have 0: "demo_start = ?m [?r, ?r] False 0" by (simp add: demo_start_def start_def)
  have 1: "step InMemoryTokenStore (?m [?r, ?r] False 0) (?m [?o, ?r] False 0)"
    using step.go [of 0 "?m [?r, ?r] False 0"] by (simp add: set_call_def)
  have 2: "step InMemoryTokenStore (?m [?o, ?r] False 0) (?m [?o, ?o] False 0)"
    using step.go [of 1 "?m [?o, ?r] False 0"] by (simp add: set_call_def)
  have 3: "step InMemoryTokenStore (?m [?o, ?o] False 0) (?m [?w, ?o] True 1)"
    using step.answer [of 0 "?m [?o, ?o] False 0" demo_sent InMemoryTokenStore "Some expired_answer"]
    by (simp add: first_answer_def expired_answer_def join_refresh_def set_call_def)
  have 4: "step InMemoryTokenStore (?m [?w, ?o] True 1) (?m [?w, ?w] True 1)"
    using step.answer [of 1 "?m [?w, ?o] True 1" demo_sent InMemoryTokenStore "Some expired_answer"]
    by (simp add: first_answer_def expired_answer_def join_refresh_def set_call_def)
  show ?thesis
    using run_Suc [OF run_Suc [OF run_Suc [OF run_Suc [OF run_0 1] 2] 3] 4] by (simp add: 0 demo_both_def eval_nat_numeral)
qed

theorem refresh_single_flight_witness:
  "run InMemoryTokenStore 4 demo_start demo_both \<and> mc_calls demo_both = [Waiting demo_sent, Waiting demo_sent] \<and>
   rn_started demo_both = rn_ended demo_both + 1 \<and> rn_started demo_both \<le> 2"
  using demo_run refresh_single_flight [OF demo_run [unfolded demo_start_def]] by (simp add: demo_both_def)

theorem refresh_settles_witness: "\<exists>m'. step InMemoryTokenStore demo_both m'"
  using refresh_settles [OF demo_run [unfolded demo_start_def]] by (simp add: demo_both_def settled_def)


end
