(* ===== verification/Query_Keys.thy ===== *)
theory Query_Keys
  imports JS_Value Prelude "HOL-Library.Sublist"
begin

text \<open>
  The cache keys of \<open>packages/api-client/src/query-keys.ts\<close>: 22 domains with 99 key factories. A domain is
  a datatype of its factories with their arguments and a function to the key, an array of texts and,
  where a list can be filtered, of the filter object. The type parameter is the type of the filters:
  in the source they may be left out.
\<close>

datatype platformAuth_key =
    K_platformAuth_me

fun platformAuthKeys :: "platformAuth_key \<Rightarrow> jv list" where
  "platformAuthKeys K_platformAuth_me = [JStr ''platformAuth'', JStr ''me'']"

datatype platformUsers_key =
    K_platformUsers_root | K_platformUsers_list | K_platformUsers_detail string

fun platformUsersKeys :: "platformUsers_key \<Rightarrow> jv list" where
  "platformUsersKeys K_platformUsers_root = [JStr ''platformUsers'']"
| "platformUsersKeys K_platformUsers_list = [JStr ''platformUsers'', JStr ''list'']"
| "platformUsersKeys (K_platformUsers_detail x) = [JStr ''platformUsers'', JStr ''detail'', JStr x]"

datatype 'f tenants_key =
    K_tenants_root | K_tenants_list 'f | K_tenants_detail string | K_tenants_users string | K_tenants_kyc string
  | K_tenants_lifecycle string | K_tenants_archived

fun tenantsKeys :: "jv option tenants_key \<Rightarrow> jv list" where
  "tenantsKeys K_tenants_root = [JStr ''tenants'']"
| "tenantsKeys (K_tenants_list f) = [JStr ''tenants'', JStr ''list'', nullish f (JObj [])]"
| "tenantsKeys (K_tenants_detail x) = [JStr ''tenants'', JStr ''detail'', JStr x]"
| "tenantsKeys (K_tenants_users x) = [JStr ''tenants'', JStr ''users'', JStr x]"
| "tenantsKeys (K_tenants_kyc x) = [JStr ''tenants'', JStr ''kyc'', JStr x]"
| "tenantsKeys (K_tenants_lifecycle x) = [JStr ''tenants'', JStr ''lifecycle'', JStr x]"
| "tenantsKeys K_tenants_archived = [JStr ''tenants'', JStr ''archived'']"

datatype 'f billing_key =
    K_billing_root | K_billing_plans 'f | K_billing_plan string | K_billing_subscriptions 'f
  | K_billing_subscription string | K_billing_invoices 'f | K_billing_invoice string | K_billing_pendingPayments

fun billingKeys :: "jv option billing_key \<Rightarrow> jv list" where
  "billingKeys K_billing_root = [JStr ''billing'']"
| "billingKeys (K_billing_plans f) = [JStr ''billing'', JStr ''plans'', nullish f (JObj [])]"
| "billingKeys (K_billing_plan x) = [JStr ''billing'', JStr ''plan'', JStr x]"
| "billingKeys (K_billing_subscriptions f) = [JStr ''billing'', JStr ''subscriptions'', nullish f (JObj [])]"
| "billingKeys (K_billing_subscription x) = [JStr ''billing'', JStr ''subscription'', JStr x]"
| "billingKeys (K_billing_invoices f) = [JStr ''billing'', JStr ''invoices'', nullish f (JObj [])]"
| "billingKeys (K_billing_invoice x) = [JStr ''billing'', JStr ''invoice'', JStr x]"
| "billingKeys K_billing_pendingPayments = [JStr ''billing'', JStr ''pendingPayments'']"

datatype 'f members_key =
    K_members_root | K_members_list 'f | K_members_detail string | K_members_kycRequirements
  | K_members_kyc string | K_members_kycSubmissions | K_members_kycSubmission string

fun membersKeys :: "jv option members_key \<Rightarrow> jv list" where
  "membersKeys K_members_root = [JStr ''members'']"
| "membersKeys (K_members_list f) = [JStr ''members'', JStr ''list'', nullish f (JObj [])]"
| "membersKeys (K_members_detail x) = [JStr ''members'', JStr ''detail'', JStr x]"
| "membersKeys K_members_kycRequirements = [JStr ''members'', JStr ''kycRequirements'']"
| "membersKeys (K_members_kyc x) = [JStr ''members'', JStr ''kyc'', JStr x]"
| "membersKeys K_members_kycSubmissions = [JStr ''members'', JStr ''kycSubmissions'']"
| "membersKeys (K_members_kycSubmission x) = [JStr ''members'', JStr ''kycSubmissions'', JStr x]"

datatype 'f savings_key =
    K_savings_root | K_savings_products | K_savings_accounts 'f | K_savings_account string
  | K_savings_transactions string

fun savingsKeys :: "jv option savings_key \<Rightarrow> jv list" where
  "savingsKeys K_savings_root = [JStr ''savings'']"
| "savingsKeys K_savings_products = [JStr ''savings'', JStr ''products'']"
| "savingsKeys (K_savings_accounts f) = [JStr ''savings'', JStr ''accounts'', nullish f (JObj [])]"
| "savingsKeys (K_savings_account x) = [JStr ''savings'', JStr ''account'', JStr x]"
| "savingsKeys (K_savings_transactions x) = [JStr ''savings'', JStr ''account'', JStr x, JStr ''transactions'']"

datatype 'f credit_key =
    K_credit_root | K_credit_products | K_credit_applications 'f | K_credit_application string
  | K_credit_loans 'f | K_credit_loan string | K_credit_schedule string | K_credit_repayments string
  | K_credit_payrollBatches

fun creditKeys :: "jv option credit_key \<Rightarrow> jv list" where
  "creditKeys K_credit_root = [JStr ''credit'']"
| "creditKeys K_credit_products = [JStr ''credit'', JStr ''products'']"
| "creditKeys (K_credit_applications f) = [JStr ''credit'', JStr ''applications'', nullish f (JObj [])]"
| "creditKeys (K_credit_application x) = [JStr ''credit'', JStr ''application'', JStr x]"
| "creditKeys (K_credit_loans f) = [JStr ''credit'', JStr ''loans'', nullish f (JObj [])]"
| "creditKeys (K_credit_loan x) = [JStr ''credit'', JStr ''loan'', JStr x]"
| "creditKeys (K_credit_schedule x) = [JStr ''credit'', JStr ''loan'', JStr x, JStr ''schedule'']"
| "creditKeys (K_credit_repayments x) = [JStr ''credit'', JStr ''loan'', JStr x, JStr ''repayments'']"
| "creditKeys K_credit_payrollBatches = [JStr ''credit'', JStr ''payrollBatches'']"

datatype 'f fees_key =
    K_fees_root | K_fees_types | K_fees_assessments 'f

fun feesKeys :: "jv option fees_key \<Rightarrow> jv list" where
  "feesKeys K_fees_root = [JStr ''fees'']"
| "feesKeys K_fees_types = [JStr ''fees'', JStr ''types'']"
| "feesKeys (K_fees_assessments f) = [JStr ''fees'', JStr ''assessments'', nullish f (JObj [])]"

datatype ledger_key =
    K_ledger_root | K_ledger_accounts | K_ledger_account string | K_ledger_journalEntries

fun ledgerKeys :: "ledger_key \<Rightarrow> jv list" where
  "ledgerKeys K_ledger_root = [JStr ''ledger'']"
| "ledgerKeys K_ledger_accounts = [JStr ''ledger'', JStr ''accounts'']"
| "ledgerKeys (K_ledger_account x) = [JStr ''ledger'', JStr ''account'', JStr x]"
| "ledgerKeys K_ledger_journalEntries = [JStr ''ledger'', JStr ''journalEntries'']"

datatype 'f reporting_key =
    K_reporting_root | K_reporting_trialBalance 'f | K_reporting_loanPortfolio 'f
  | K_reporting_incomeStatement 'f | K_reporting_savingsStatement 'f | K_reporting_feeCollection 'f
  | K_reporting_runs

fun reportingKeys :: "jv option reporting_key \<Rightarrow> jv list" where
  "reportingKeys K_reporting_root = [JStr ''reporting'']"
| "reportingKeys (K_reporting_trialBalance f) = [JStr ''reporting'', JStr ''trial-balance'', nullish f (JObj [])]"
| "reportingKeys (K_reporting_loanPortfolio f) = [JStr ''reporting'', JStr ''loan-portfolio'', nullish f (JObj [])]"
| "reportingKeys (K_reporting_incomeStatement f) = [JStr ''reporting'', JStr ''income-statement'', nullish f (JObj [])]"
| "reportingKeys (K_reporting_savingsStatement f) = [JStr ''reporting'', JStr ''savings-statement'', nullish f (JObj [])]"
| "reportingKeys (K_reporting_feeCollection f) = [JStr ''reporting'', JStr ''fee-collection'', nullish f (JObj [])]"
| "reportingKeys K_reporting_runs = [JStr ''reporting'', JStr ''runs'']"

datatype 'f approvals_key =
    K_approvals_root | K_approvals_platform 'f | K_approvals_tenant 'f | K_approvals_detail string

fun approvalsKeys :: "jv option approvals_key \<Rightarrow> jv list" where
  "approvalsKeys K_approvals_root = [JStr ''approvals'']"
| "approvalsKeys (K_approvals_platform f) = [JStr ''approvals'', JStr ''platform'', nullish f (JObj [])]"
| "approvalsKeys (K_approvals_tenant f) = [JStr ''approvals'', JStr ''tenant'', nullish f (JObj [])]"
| "approvalsKeys (K_approvals_detail x) = [JStr ''approvals'', JStr ''detail'', JStr x]"

datatype impersonations_key =
    K_impersonations_root | K_impersonations_active | K_impersonations_all

fun impersonationsKeys :: "impersonations_key \<Rightarrow> jv list" where
  "impersonationsKeys K_impersonations_root = [JStr ''impersonations'']"
| "impersonationsKeys K_impersonations_active = [JStr ''impersonations'', JStr ''active'']"
| "impersonationsKeys K_impersonations_all = [JStr ''impersonations'', JStr ''all'']"

datatype 'f audit_key =
    K_audit_root | K_audit_platform 'f | K_audit_tenant 'f | K_audit_detail string

fun auditKeys :: "jv option audit_key \<Rightarrow> jv list" where
  "auditKeys K_audit_root = [JStr ''audit'']"
| "auditKeys (K_audit_platform f) = [JStr ''audit'', JStr ''platform'', nullish f (JObj [])]"
| "auditKeys (K_audit_tenant f) = [JStr ''audit'', JStr ''tenant'', nullish f (JObj [])]"
| "auditKeys (K_audit_detail x) = [JStr ''audit'', JStr ''detail'', JStr x]"

datatype keys_key =
    K_keys_root | K_keys_list

fun keysKeys :: "keys_key \<Rightarrow> jv list" where
  "keysKeys K_keys_root = [JStr ''keys'']"
| "keysKeys K_keys_list = [JStr ''keys'', JStr ''list'']"

datatype admin_key =
    K_admin_dashboardStats

fun adminKeys :: "admin_key \<Rightarrow> jv list" where
  "adminKeys K_admin_dashboardStats = [JStr ''admin'', JStr ''dashboardStats'']"

datatype member_key =
    K_member_root | K_member_savings | K_member_savingsTransactions string | K_member_shares | K_member_loans
  | K_member_loan string | K_member_loanSchedule string | K_member_loanStatement string | K_member_fees
  | K_member_loanApplications | K_member_loanApplication string | K_member_loanProducts | K_member_kyc

fun memberKeys :: "member_key \<Rightarrow> jv list" where
  "memberKeys K_member_root = [JStr ''member'']"
| "memberKeys K_member_savings = [JStr ''member'', JStr ''savings'']"
| "memberKeys (K_member_savingsTransactions x) = [JStr ''member'', JStr ''savings'', JStr x, JStr ''transactions'']"
| "memberKeys K_member_shares = [JStr ''member'', JStr ''shares'']"
| "memberKeys K_member_loans = [JStr ''member'', JStr ''loans'']"
| "memberKeys (K_member_loan x) = [JStr ''member'', JStr ''loan'', JStr x]"
| "memberKeys (K_member_loanSchedule x) = [JStr ''member'', JStr ''loan'', JStr x, JStr ''schedule'']"
| "memberKeys (K_member_loanStatement x) = [JStr ''member'', JStr ''loan'', JStr x, JStr ''statement'']"
| "memberKeys K_member_fees = [JStr ''member'', JStr ''fees'']"
| "memberKeys K_member_loanApplications = [JStr ''member'', JStr ''loan-applications'']"
| "memberKeys (K_member_loanApplication x) = [JStr ''member'', JStr ''loan-applications'', JStr x]"
| "memberKeys K_member_loanProducts = [JStr ''member'', JStr ''loan-products'']"
| "memberKeys K_member_kyc = [JStr ''member'', JStr ''kyc'']"

datatype organization_key =
    K_organization_root | K_organization_kyc

fun organizationKeys :: "organization_key \<Rightarrow> jv list" where
  "organizationKeys K_organization_root = [JStr ''organization'']"
| "organizationKeys K_organization_kyc = [JStr ''organization'', JStr ''kyc'']"

datatype kyc_key =
    K_kyc_root | K_kyc_saccoRequirements

fun kycKeys :: "kyc_key \<Rightarrow> jv list" where
  "kycKeys K_kyc_root = [JStr ''kyc'']"
| "kycKeys K_kyc_saccoRequirements = [JStr ''kyc'', JStr ''saccoRequirements'']"

datatype search_key =
    K_search_root | K_search_platform string | K_search_tenant string

fun searchKeys :: "search_key \<Rightarrow> jv list" where
  "searchKeys K_search_root = [JStr ''search'']"
| "searchKeys (K_search_platform x) = [JStr ''search'', JStr ''platform'', JStr x]"
| "searchKeys (K_search_tenant x) = [JStr ''search'', JStr ''tenant'', JStr x]"

datatype 'f notifications_key =
    K_notifications_root | K_notifications_feed string | K_notifications_preferences string
  | K_notifications_templates | K_notifications_events 'f

fun notificationsKeys :: "jv option notifications_key \<Rightarrow> jv list" where
  "notificationsKeys K_notifications_root = [JStr ''notifications'']"
| "notificationsKeys (K_notifications_feed x) = [JStr ''notifications'', JStr ''feed'', JStr x]"
| "notificationsKeys (K_notifications_preferences x) = [JStr ''notifications'', JStr ''preferences'', JStr x]"
| "notificationsKeys K_notifications_templates = [JStr ''notifications'', JStr ''templates'']"
| "notificationsKeys (K_notifications_events f) = [JStr ''notifications'', JStr ''events'', nullish f (JObj [])]"

datatype ops_key =
    K_ops_root | K_ops_backups | K_ops_lastVerified

fun opsKeys :: "ops_key \<Rightarrow> jv list" where
  "opsKeys K_ops_root = [JStr ''ops'']"
| "opsKeys K_ops_backups = [JStr ''ops'', JStr ''backups'']"
| "opsKeys K_ops_lastVerified = [JStr ''ops'', JStr ''lastVerified'']"

datatype rateLimits_key =
    K_rateLimits_root | K_rateLimits_config | K_rateLimits_tenantLive string

fun rateLimitsKeys :: "rateLimits_key \<Rightarrow> jv list" where
  "rateLimitsKeys K_rateLimits_root = [JStr ''rateLimits'']"
| "rateLimitsKeys K_rateLimits_config = [JStr ''rateLimits'', JStr ''config'']"
| "rateLimitsKeys (K_rateLimits_tenantLive x) = [JStr ''rateLimits'', JStr ''tenantLive'', JStr x]"

datatype 'f query_ref =
    Q_platformAuth platformAuth_key
  | Q_platformUsers platformUsers_key
  | Q_tenants "'f tenants_key"
  | Q_billing "'f billing_key"
  | Q_members "'f members_key"
  | Q_savings "'f savings_key"
  | Q_credit "'f credit_key"
  | Q_fees "'f fees_key"
  | Q_ledger ledger_key
  | Q_reporting "'f reporting_key"
  | Q_approvals "'f approvals_key"
  | Q_impersonations impersonations_key
  | Q_audit "'f audit_key"
  | Q_keys keys_key
  | Q_admin admin_key
  | Q_member member_key
  | Q_organization organization_key
  | Q_kyc kyc_key
  | Q_search search_key
  | Q_notifications "'f notifications_key"
  | Q_ops ops_key
  | Q_rateLimits rateLimits_key

fun queryKeys :: "jv option query_ref \<Rightarrow> jv list" where
  "queryKeys (Q_platformAuth k) = platformAuthKeys k"
| "queryKeys (Q_platformUsers k) = platformUsersKeys k"
| "queryKeys (Q_tenants k) = tenantsKeys k"
| "queryKeys (Q_billing k) = billingKeys k"
| "queryKeys (Q_members k) = membersKeys k"
| "queryKeys (Q_savings k) = savingsKeys k"
| "queryKeys (Q_credit k) = creditKeys k"
| "queryKeys (Q_fees k) = feesKeys k"
| "queryKeys (Q_ledger k) = ledgerKeys k"
| "queryKeys (Q_reporting k) = reportingKeys k"
| "queryKeys (Q_approvals k) = approvalsKeys k"
| "queryKeys (Q_impersonations k) = impersonationsKeys k"
| "queryKeys (Q_audit k) = auditKeys k"
| "queryKeys (Q_keys k) = keysKeys k"
| "queryKeys (Q_admin k) = adminKeys k"
| "queryKeys (Q_member k) = memberKeys k"
| "queryKeys (Q_organization k) = organizationKeys k"
| "queryKeys (Q_kyc k) = kycKeys k"
| "queryKeys (Q_search k) = searchKeys k"
| "queryKeys (Q_notifications k) = notificationsKeys k"
| "queryKeys (Q_ops k) = opsKeys k"
| "queryKeys (Q_rateLimits k) = rateLimitsKeys k"

fun domain :: "'f query_ref \<Rightarrow> string" where
  "domain (Q_platformAuth k) = ''platformAuth''"
| "domain (Q_platformUsers k) = ''platformUsers''"
| "domain (Q_tenants k) = ''tenants''"
| "domain (Q_billing k) = ''billing''"
| "domain (Q_members k) = ''members''"
| "domain (Q_savings k) = ''savings''"
| "domain (Q_credit k) = ''credit''"
| "domain (Q_fees k) = ''fees''"
| "domain (Q_ledger k) = ''ledger''"
| "domain (Q_reporting k) = ''reporting''"
| "domain (Q_approvals k) = ''approvals''"
| "domain (Q_impersonations k) = ''impersonations''"
| "domain (Q_audit k) = ''audit''"
| "domain (Q_keys k) = ''keys''"
| "domain (Q_admin k) = ''admin''"
| "domain (Q_member k) = ''member''"
| "domain (Q_organization k) = ''organization''"
| "domain (Q_kyc k) = ''kyc''"
| "domain (Q_search k) = ''search''"
| "domain (Q_notifications k) = ''notifications''"
| "domain (Q_ops k) = ''ops''"
| "domain (Q_rateLimits k) = ''rateLimits''"

section \<open>Keys and invalidation\<close>

lemma domain_head: "\<exists>rest. queryKeys r = JStr (domain r) # rest"
  by (cases r; rename_tac k; case_tac k; simp)

lemma same_domain: "queryKeys a = queryKeys b \<Longrightarrow> domain a = domain b"
  using domain_head [of a] domain_head [of b] by auto

text \<open>Two references to the same query: equal once a filter that was left out is the empty one.\<close>

definition same_query :: "jv option query_ref \<Rightarrow> jv option query_ref \<Rightarrow> bool" where
  "same_query a b \<longleftrightarrow>
     map_query_ref (\<lambda>f. nullish f (JObj [])) a = map_query_ref (\<lambda>f. nullish f (JObj [])) b"

lemma domain_map [simp]: "domain (map_query_ref f r) = domain r"
  by (cases r) simp_all

lemma same_query_domain: "same_query a b \<Longrightarrow> domain a = domain b"
  unfolding same_query_def by (metis domain_map)

lemma same_query_iff: "queryKeys a = queryKeys b \<longleftrightarrow> same_query a b"
proof (cases "domain a = domain b")
  case True
  then show ?thesis
    by (cases a; cases b; simp add: same_query_def; rename_tac k l; case_tac k; case_tac l; simp)
qed (use same_domain same_query_domain in blast)

text \<open>
  C37. Two queries share a cache entry only when they are the same query with the same arguments, where
  leaving the filter out means the empty filter; invalidating the root key of a domain hits all
  queries of that domain and no other, and invalidating a savings account or a loan hits that
  one record and its parts.
\<close>

theorem query_keys_separate:
  "(queryKeys a = queryKeys b \<longleftrightarrow> same_query a b) \<and>
   (prefix [JStr d] (queryKeys a) \<longleftrightarrow> domain a = d) \<and>
   (prefix (queryKeys (Q_savings (K_savings_account x))) (queryKeys a) \<longleftrightarrow>
      a \<in> {Q_savings (K_savings_account x), Q_savings (K_savings_transactions x)}) \<and>
   (prefix (queryKeys (Q_credit (K_credit_loan x))) (queryKeys a) \<longleftrightarrow>
      a \<in> Q_credit ` {K_credit_loan x, K_credit_schedule x, K_credit_repayments x})"
proof -
  have "prefix [JStr d] (queryKeys a) \<longleftrightarrow> domain a = d" for d using domain_head [of a] by auto
  moreover have "prefix (queryKeys (Q_savings (K_savings_account x))) (queryKeys a) \<longleftrightarrow>
      a \<in> {Q_savings (K_savings_account x), Q_savings (K_savings_transactions x)}"
    by (cases "domain a = ''savings''"; cases a; simp; rename_tac k; case_tac k; auto)
  moreover have "prefix (queryKeys (Q_credit (K_credit_loan x))) (queryKeys a) \<longleftrightarrow>
      a \<in> Q_credit ` {K_credit_loan x, K_credit_schedule x, K_credit_repayments x}"
    by (cases "domain a = ''credit''"; cases a; simp; rename_tac k; case_tac k; auto)
  ultimately show ?thesis using same_query_iff by blast
qed

end
