(* ===== verification/Money_Input.thy ===== *)
theory Money_Input
  imports Form_Logic
begin

text \<open>
  The amount and percentage fields of \<open>packages/ui\<close>: the currency table of \<open>utils/currency.ts\<close>, the
  formatting helpers and the state of \<open>MoneyInput\<close>, and \<open>PercentageInput\<close>. A field is controlled: the
  parent hands the emitted value back as the \<open>value\<close> of the next rendering. The argument \<open>big\<close> is
  \<open>Number::toString\<close>, which \<open>toFixed\<close> falls back to from \<open>10^21\<close> on.
\<close>

section \<open>Currencies\<close>

record currency_config =
  cc_code :: string
  cc_decimals :: nat
  cc_locale :: string

definition currency :: "string \<Rightarrow> nat \<Rightarrow> string \<Rightarrow> string \<times> currency_config" where
  "currency c d l = (c, \<lparr>cc_code = c, cc_decimals = d, cc_locale = l\<rparr>)"

definition CURRENCIES :: "(string \<times> currency_config) list" where
  "CURRENCIES =
    [currency ''UGX'' 0 ''en-UG'', currency ''KES'' 2 ''en-KE'', currency ''TZS'' 2 ''en-TZ'', currency ''RWF'' 0 ''en-RW'',
     currency ''USD'' 2 ''en-US'', currency ''EUR'' 2 ''en-IE'', currency ''GBP'' 2 ''en-GB'']"

text \<open>No name that objects inherit is in upper case, so the lookup finds an own entry or nothing.\<close>

definition getCurrencyConfig :: "string \<Rightarrow> currency_config" where
  "getCurrencyConfig code = (let upper = js_toUpperCase code in
     nullish (map_of CURRENCIES upper) \<lparr>cc_code = upper, cc_decimals = 2, cc_locale = ''en-US''\<rparr>)"

definition DEFAULT_CURRENCY :: string where
  "DEFAULT_CURRENCY = ''UGX''"

section \<open>Formatting while typing\<close>

definition amount_char :: "char \<Rightarrow> bool" where
  "amount_char c \<longleftrightarrow> is_digit c \<or> c = CHR ''.''"

definition one_dot :: "string \<Rightarrow> string" where
  "one_dot digits =
     (if CHR ''.'' \<notin> set digits then digits
      else takeWhile (\<lambda>c. c \<noteq> CHR ''.'') digits @ CHR ''.'' #
        filter (\<lambda>c. c \<noteq> CHR ''.'') (tl (dropWhile (\<lambda>c. c \<noteq> CHR ''.'') digits)))"

definition stripFormatting :: "string \<Rightarrow> string" where
  "stripFormatting input =
     (if input = [] then []
      else (let leadingMinus = (if js_startsWith (js_trimStart input) ''-'' then ''-'' else []) in
        leadingMinus @ one_dot (filter amount_char input)))"

definition word_char :: "char \<Rightarrow> bool" where
  "word_char c \<longleftrightarrow> is_lower c \<or> is_upper c \<or> is_digit c \<or> c = CHR ''_''"

text \<open>
  \<open>replace(/\B(?=(\d{3})+(?!\d))/g, ",")\<close>: a comma goes before a digit that is not at a word boundary
  and from which the run of digits has a length divisible by three.
\<close>

fun thousands :: "bool \<Rightarrow> string \<Rightarrow> string" where
  "thousands inside [] = []"
| "thousands inside (c # cs) =
     (if inside \<and> is_digit c \<and> 3 dvd length (takeWhile is_digit (c # cs)) then [CHR '',''] else []) @
     c # thousands (word_char c) cs"

definition formatTyping :: "string \<Rightarrow> string" where
  "formatTyping stripped =
     (if stripped = [] then []
      else (let negative = js_startsWith stripped ''-'';
                body = (if negative then tl stripped else stripped);
                parts = js_split CHR ''.'' body;
                withThousands = thousands False (hd parts);
                result = (if tl parts = [] then withThousands else withThousands @ CHR ''.'' # hd (tl parts))
            in (if negative then ''-'' else []) @ result))"

definition canonicalise :: "(num \<Rightarrow> string) \<Rightarrow> string \<Rightarrow> string \<Rightarrow> string" where
  "canonicalise big stripped cur =
     (if stripped = [] \<or> stripped = ''-'' then []
      else (let numeric = parseFloat stripped in
        if \<not> js_isFinite numeric then [] else toFixed big numeric (cc_decimals (getCurrencyConfig cur))))"

section \<open>The amount field\<close>

record money_field =
  mf_display :: string
  mf_value :: string

definition mount :: "string \<Rightarrow> money_field" where
  "mount v = \<lparr>mf_display = formatTyping v, mf_value = v\<rparr>"

text \<open>A rendering: the visible text is derived anew when it no longer stands for the value.\<close>

definition out_of_sync :: "money_field \<Rightarrow> bool" where
  "out_of_sync f \<longleftrightarrow> formatTyping (stripFormatting (mf_display f)) \<noteq> formatTyping (mf_value f)"

definition render :: "money_field \<Rightarrow> money_field" where
  "render f = (if out_of_sync f then f\<lparr>mf_display := formatTyping (mf_value f)\<rparr> else f)"

definition onChange :: "bool \<Rightarrow> string \<Rightarrow> money_field \<Rightarrow> money_field" where
  "onChange neg text f =
     (let stripped = stripFormatting text;
          stripped = (if \<not> neg \<and> js_startsWith stripped ''-'' then tl stripped else stripped)
      in f\<lparr>mf_display := formatTyping stripped, mf_value := stripped\<rparr>)"

definition handleBlur :: "(num \<Rightarrow> string) \<Rightarrow> string \<Rightarrow> money_field \<Rightarrow> money_field" where
  "handleBlur big cur f = (let canonical = canonicalise big (stripFormatting (mf_display f)) cur in
     f\<lparr>mf_display := formatTyping canonical, mf_value := canonical\<rparr>)"

section \<open>The percentage field\<close>

definition strip :: "string \<Rightarrow> string" where
  "strip input = one_dot (filter amount_char input)"

definition clampDecimals :: "string \<Rightarrow> string" where
  "clampDecimals s = (let parts = js_split CHR ''.'' s in
     if tl parts = [] then hd parts else hd parts @ CHR ''.'' # take 2 (hd (tl parts)))"

definition percentage_onChange :: "string \<Rightarrow> string" where
  "percentage_onChange text = clampDecimals (strip text)"

definition js_max :: "num \<Rightarrow> num \<Rightarrow> num" where
  "js_max a b = (if a = NaN \<or> b = NaN then NaN else if js_less a b then b else a)"

definition js_min :: "num \<Rightarrow> num \<Rightarrow> num" where
  "js_min a b = (if a = NaN \<or> b = NaN then NaN else if js_less b a then b else a)"

definition percentage_handleBlur :: "(num \<Rightarrow> string) \<Rightarrow> num \<Rightarrow> num \<Rightarrow> string \<Rightarrow> string" where
  "percentage_handleBlur big mn mx v =
     (if v = [] then v
      else (let numeric = parseFloat v in
        if \<not> js_isFinite numeric then [] else toFixed big (js_min mx (js_max mn numeric)) 2))"

section \<open>Stripped text\<close>

definition stripped_text :: "string \<Rightarrow> bool" where
  "stripped_text s \<longleftrightarrow> (\<exists>sg ds fs. s = sg @ ds @ fs \<and> (sg = [] \<or> sg = ''-'') \<and> list_all is_digit ds \<and>
     (fs = [] \<or> (\<exists>gs. fs = CHR ''.'' # gs \<and> list_all is_digit gs)))"

lemma digit_marks [simp]: "\<not> is_digit CHR ''-''" "\<not> is_digit CHR '',''" "\<not> amount_char CHR '',''" "\<not> amount_char CHR ''-''"
  "amount_char CHR ''.''" "is_digit c \<Longrightarrow> amount_char c"
  by (simp_all add: amount_char_def is_digit_def)

lemma one_dot_form:
  assumes "list_all amount_char s"
  shows "\<exists>ds fs. one_dot s = ds @ fs \<and> list_all is_digit ds \<and> (fs = [] \<or> (\<exists>gs. fs = CHR ''.'' # gs \<and> list_all is_digit gs))"
proof (cases "CHR ''.'' \<in> set s")
  case False
  then have "list_all is_digit s" using assms by (auto simp: list_all_iff amount_char_def)
  with False show ?thesis by (auto simp: one_dot_def)
next
  case True
  let ?ds = "takeWhile (\<lambda>c. c \<noteq> CHR ''.'') s" and ?gs = "filter (\<lambda>c. c \<noteq> CHR ''.'') (tl (dropWhile (\<lambda>c. c \<noteq> CHR ''.'') s))"
  have "list_all is_digit ?ds"
    using assms by (auto simp: list_all_iff amount_char_def dest: set_takeWhileD)
  moreover have "c \<in> set s" if "c \<in> set (tl (dropWhile (\<lambda>c. c \<noteq> CHR ''.'') s))" for c
    using that by (metis set_dropWhileD list.sel(2) list.set_sel(2))
  then have "list_all is_digit ?gs"
    using assms by (auto simp: list_all_iff amount_char_def)
  ultimately show ?thesis using True by (auto simp: one_dot_def)
qed

lemma strip_normal: "stripped_text (stripFormatting x)"
proof -
  have "list_all amount_char (filter amount_char x)" by (simp add: list_all_iff)
  from one_dot_form [OF this] obtain ds fs where f: "one_dot (filter amount_char x) = ds @ fs" "list_all is_digit ds"
      "fs = [] \<or> (\<exists>gs. fs = CHR ''.'' # gs \<and> list_all is_digit gs)" by blast
  have "stripped_text (sg @ ds @ fs)" if "sg = [] \<or> sg = ''-''" for sg unfolding stripped_text_def using that f(2,3) by blast
  from this [of "[]"] this [of "''-''"] show ?thesis by (auto simp: stripFormatting_def f(1) Let_def stripped_text_def)
qed

lemma one_dot_id:
  assumes "list_all is_digit ds" "fs = [] \<or> (\<exists>gs. fs = CHR ''.'' # gs \<and> list_all is_digit gs)"
  shows "one_dot (ds @ fs) = ds @ fs"
proof -
  have no: "CHR ''.'' \<notin> set xs" if "list_all is_digit xs" for xs using that by (auto simp: list_all_iff)
  have tk: "takeWhile (\<lambda>c. c \<noteq> CHR ''.'') (ds @ CHR ''.'' # gs) = ds" "dropWhile (\<lambda>c. c \<noteq> CHR ''.'') (ds @ CHR ''.'' # gs) = CHR ''.'' # gs" for gs
    using no [OF assms(1)] by (induction ds) auto
  show ?thesis
    using assms(2)
  proof
    assume "fs = []" then show ?thesis using no [OF assms(1)] by (simp add: one_dot_def)
  next
    assume "\<exists>gs. fs = CHR ''.'' # gs \<and> list_all is_digit gs"
    then obtain gs where gs: "fs = CHR ''.'' # gs" "list_all is_digit gs" by blast
    have "filter (\<lambda>c. c \<noteq> CHR ''.'') gs = gs" using no [OF gs(2)] by (induction gs) auto
    then show ?thesis by (simp add: one_dot_def gs(1) tk)
  qed
qed

lemma filter_thousands: "\<not> P CHR '','' \<Longrightarrow> filter P (thousands b s) = filter P s"
  by (induction b s rule: thousands.induct) auto

lemma thousands_head: "s = [] \<Longrightarrow> thousands False s = []" "s \<noteq> [] \<Longrightarrow> hd (thousands False s) = hd s \<and> thousands False s \<noteq> []"
  by (cases s; simp)+

lemma split_dot:
  assumes "list_all is_digit ds"
  shows "js_split CHR ''.'' ds = [ds]" "list_all is_digit gs \<Longrightarrow> js_split CHR ''.'' (ds @ CHR ''.'' # gs) = [ds, gs]"
proof -
  have one: "js_split CHR ''.'' xs = [xs]" if "list_all is_digit xs" for xs using that by (induction xs) auto
  then show "js_split CHR ''.'' ds = [ds]" using assms .
  show "js_split CHR ''.'' (ds @ CHR ''.'' # gs) = [ds, gs]" if "list_all is_digit gs"
    using assms one [OF that] by (induction ds) auto
qed

lemma format_stripped:
  assumes "list_all is_digit ds" "fs = [] \<or> (\<exists>gs. fs = CHR ''.'' # gs \<and> list_all is_digit gs)"
  shows "formatTyping (ds @ fs) = thousands False ds @ fs" "formatTyping (CHR ''-'' # ds @ fs) = CHR ''-'' # thousands False ds @ fs"
proof -
  have nm: "\<not> js_startsWith (ds @ fs) ''-''"
    using assms by (cases ds) (auto simp: js_startsWith_def)
  show "formatTyping (ds @ fs) = thousands False ds @ fs" "formatTyping (CHR ''-'' # ds @ fs) = CHR ''-'' # thousands False ds @ fs"
    using assms nm split_dot [OF assms(1)] by (auto simp: formatTyping_def Let_def js_startsWith_def)
qed

lemma strip_pieces:
  assumes "list_all is_digit ds" "fs = [] \<or> (\<exists>gs. fs = CHR ''.'' # gs \<and> list_all is_digit gs)"
    and "filter amount_char xs = ds" "xs = [] \<or> is_digit (hd xs)"
  shows "stripFormatting (xs @ fs) = ds @ fs" "stripFormatting (CHR ''-'' # xs @ fs) = CHR ''-'' # ds @ fs"
proof -
  have all: "filter amount_char gs = gs" if "list_all is_digit gs" for gs using that by (induction gs) auto
  then have flt: "filter amount_char (xs @ fs) = ds @ fs" using assms(2,3) by auto
  have nm: "\<not> js_startsWith (js_trimStart (xs @ fs)) ''-''"
  proof (cases "xs @ fs")
    case (Cons c cs)
    then have "is_digit c \<or> c = CHR ''.''" using assms(2,4) by (cases xs) auto
    then have "\<not> js_ws c" "c \<noteq> CHR ''-''" using digit_starts(1) by (auto simp: js_ws_def)
    then show ?thesis by (simp add: Cons js_trimStart_def js_startsWith_def)
  qed (simp add: js_trimStart_def js_startsWith_def)
  have id: "one_dot (ds @ fs) = ds @ fs" using assms(1,2) by (rule one_dot_id)
  show "stripFormatting (xs @ fs) = ds @ fs" using flt nm id assms(3) by (auto simp: stripFormatting_def)
  have "js_trimStart (CHR ''-'' # xs @ fs) = CHR ''-'' # xs @ fs" by (simp add: js_trimStart_def js_ws_def)
  then show "stripFormatting (CHR ''-'' # xs @ fs) = CHR ''-'' # ds @ fs"
    using flt id by (simp add: stripFormatting_def js_startsWith_def)
qed

lemma strip_format:
  assumes "stripped_text s"
  shows "stripFormatting (formatTyping s) = s"
proof -
  obtain sg ds fs where s: "s = sg @ ds @ fs" "sg = [] \<or> sg = ''-''" and d: "list_all is_digit ds"
      "fs = [] \<or> (\<exists>gs. fs = CHR ''.'' # gs \<and> list_all is_digit gs)"
    using assms unfolding stripped_text_def by blast
  have "filter amount_char ds = ds" using d(1) by (induction ds) auto
  then have f: "filter amount_char (thousands False ds) = ds" by (simp add: filter_thousands)
  have "thousands False ds = [] \<or> is_digit (hd (thousands False ds))"
    using d(1) thousands_head [of ds] by (cases ds) auto
  from strip_pieces [OF d f this] s(2) format_stripped [OF d] show ?thesis by (auto simp: s(1))
qed

section \<open>What \<open>toFixed\<close> prints\<close>

lemma digit_char: "n < 10 \<Longrightarrow> is_digit (digit_char n) \<and> digit_val (digit_char n) = n"
  by (auto simp: digit_char_def digit_val_def is_digit_code)

lemma digits_val_snoc: "digits_val (ds @ [c]) = 10 * digits_val ds + digit_val c"
  by (simp add: digits_val_def)

lemma show_nat_digits: "list_all is_digit (show_nat n) \<and> digits_val (show_nat n) = n \<and> show_nat n \<noteq> []"
proof (induction n rule: show_nat.induct)
  case (1 n)
  then show ?case
    using digit_char [of n] digit_char [of "n mod 10"]
    by (subst (1 2 3) show_nat.simps) (auto simp: digits_val_snoc digits_val_def)
qed

lemma digits_val_zeros: "digits_val (replicate k CHR ''0'' @ ds) = digits_val ds"
proof -
  have "foldl (\<lambda>n c. 10 * n + digit_val c) 0 (replicate k CHR ''0'') = 0"
    by (induction k) (simp_all add: digit_val_def)
  then show ?thesis by (simp add: digits_val_def)
qed

lemma fixed_digits_form:
  "\<exists>ds fs. fixed_digits f n = ds @ (if f = 0 then [] else CHR ''.'' # fs) \<and> ds \<noteq> [] \<and> list_all is_digit ds \<and>
     list_all is_digit fs \<and> length fs = f \<and> digits_val (ds @ fs) = n"
proof (cases "f = 0")
  case True
  then show ?thesis using show_nat_digits [of n] by (auto simp: fixed_digits_def)
next
  case False
  define p where "p = replicate (Suc f - length (show_nat n)) CHR ''0'' @ show_nat n"
  define k where "k = length p - f"
  have len: "Suc f \<le> length p" by (simp add: p_def)
  have "list_all is_digit p" using show_nat_digits [of n] by (auto simp: p_def list_all_iff is_digit_def)
  then have dig: "list_all is_digit (take k p)" "list_all is_digit (drop k p)"
    by (auto simp: list_all_iff dest: in_set_takeD in_set_dropD)
  have cut: "take k p \<noteq> []" "length (drop k p) = f" using len by (auto simp: k_def)
  have val: "digits_val (take k p @ drop k p) = n"
    unfolding append_take_drop_id p_def digits_val_zeros using show_nat_digits [of n] by simp
  have "fixed_digits f n = take k p @ CHR ''.'' # drop k p"
    using False by (simp add: fixed_digits_def Let_def p_def k_def)
  then show ?thesis
    by (intro exI [of _ "take k p"] exI [of _ "drop k p"]) (use False dig cut val in simp)
qed

lemma fixed_digits_decimal: "is_decimal f (fixed_digits f n)" "dec_val (fixed_digits f n) = of_nat n / 10 ^ f"
proof -
  obtain ds fs where f: "fixed_digits f n = ds @ (if f = 0 then [] else CHR ''.'' # fs)" "ds \<noteq> []" "list_all is_digit ds"
     "list_all is_digit fs" "length fs = f" "digits_val (ds @ fs) = n" using fixed_digits_form by blast
  show "is_decimal f (fixed_digits f n)"
  proof (cases "f = 0")
    case True
    then have "fixed_digits f n = ds" using f(1) by simp
    then show ?thesis using f(2,3) unfolding is_decimal_def by (intro exI [of _ ds] exI [of _ "[]"]) simp
  next
    case False
    then have "fixed_digits f n = ds @ CHR ''.'' # fs" using f(1) by simp
    then show ?thesis using False f unfolding is_decimal_def by (intro exI [of _ ds] exI [of _ fs]) simp
  qed
  show "dec_val (fixed_digits f n) = of_nat n / 10 ^ f"
    using f by (auto simp: dec_val_def decimal_parts Let_def)
qed

lemma decimal_stripped: "is_decimal k s \<Longrightarrow> stripped_text s \<and> stripped_text (CHR ''-'' # s)"
proof -
  assume "is_decimal k s"
  then obtain ds fs where d: "list_all is_digit ds" "list_all is_digit fs" "s = ds \<or> s = ds @ CHR ''.'' # fs"
    unfolding is_decimal_def by blast
  then obtain gs where "s = ds @ gs" "gs = [] \<or> (\<exists>hs. gs = CHR ''.'' # hs \<and> list_all is_digit hs)" by auto
  with d(1) have "stripped_text (sg @ s)" if "sg = [] \<or> sg = ''-''" for sg
    using that unfolding stripped_text_def by auto
  from this [of "[]"] this [of "''-''"] show ?thesis by simp
qed

text \<open>The nearest multiple of a unit, when the double is close enough to one.\<close>

lemma fixed_int_near:
  assumes "\<bar>x - of_nat n / 10 ^ f\<bar> < 1 / (2 * 10 ^ f)" "0 \<le> x"
  shows "fixed_int f x = n"
proof -
  have p: "(0::rat) < 10 ^ f" by simp
  have "x * 10 ^ f - of_nat n = (x - of_nat n / 10 ^ f) * 10 ^ f" by (simp add: left_diff_distrib)
  then have "\<bar>x * 10 ^ f - of_nat n\<bar> = \<bar>x - of_nat n / 10 ^ f\<bar> * 10 ^ f" by (simp add: abs_mult)
  also have "\<dots> < 1 / (2 * 10 ^ f) * 10 ^ f" using assms(1) p by (rule mult_strict_right_mono)
  finally have "\<bar>x * 10 ^ f - of_nat n\<bar> < 1 / 2" by simp
  then have "\<lfloor>x * 10 ^ f + 1 / 2\<rfloor> = int n" 
    unfolding abs_less_iff by (intro floor_unique) (simp_all only: of_int_of_nat_eq, linarith+)
  then show ?thesis using assms(2) by (simp add: fixed_int_def)
qed

section \<open>Leaving the field\<close>

lemma parseFloat_stripped:
  assumes "list_all is_digit ds" "fs = [] \<or> (\<exists>gs. fs = CHR ''.'' # gs \<and> list_all is_digit gs)" "sg = [] \<or> sg = ''-''"
  shows "parseFloat (sg @ ds @ fs) = (if ds = [] \<and> tl fs = [] then NaN
    else to_num ((if sg = [] then 1 else - 1) * (of_nat (digits_val (ds @ tl fs)) / 10 ^ length (tl fs))))"
proof -
  let ?t = "ds @ fs"
  have hd: "?t = [] \<or> is_digit (hd ?t) \<or> hd ?t = CHR ''.''" using assms(1,2) by (cases ds) auto
  then have inf: "\<not> prefix ''Infinity'' ?t" by (cases ?t) (auto simp: is_digit_def)
  have trim: "js_trimStart (sg @ ?t) = sg @ ?t"
    using hd assms(3) by (cases ?t) (auto simp: js_trimStart_def js_ws_def is_digit_code)
  have sign: "take_sign (sg @ ?t) = (if sg = [] then 1 else - 1, ?t)"
    using hd assms(3) by (cases ?t) (auto simp: is_digit_def)
  have tw: "takeWhile is_digit ?t = ds" "dropWhile is_digit ?t = fs"
    using assms(1,2) by (auto simp: decimal_parts)
  have exp: "take_exp [] = (0, [])" by (simp add: take_exp_def)
  have "decimal_prefix (sg @ ?t) = (if ds = [] \<and> tl fs = [] then None
    else Some (to_num ((if sg = [] then 1 else - 1) * of_nat (digits_val (ds @ tl fs)) * 10 powi (0 - int (length (tl fs)))), []))"
    using assms(2)
  proof
    assume "fs = []"
    then show ?thesis using inf sign by (simp add: decimal_prefix_def exp Let_def decimal_parts [OF assms(1)])
  next
    assume "\<exists>gs. fs = CHR ''.'' # gs \<and> list_all is_digit gs"
    then obtain gs where gs: "fs = CHR ''.'' # gs" "list_all is_digit gs" by blast
    with tw inf sign show ?thesis by (simp add: decimal_prefix_def exp Let_def decimal_parts [OF gs(2)])
  qed
  then show ?thesis
    by (auto simp: parseFloat_def trim power_int_minus field_simps)
qed

lemma currency_decimals: "cc_decimals (getCurrencyConfig cur) \<le> 2"
  by (auto simp: getCurrencyConfig_def CURRENCIES_def currency_def Let_def nullish_def split: option.split dest!: map_of_SomeD)

lemma decimal_not_special: "is_decimal k s \<Longrightarrow> s \<noteq> [] \<and> s \<noteq> ''-''"
  by (auto simp: is_decimal_def neq_Nil_conv)

lemma double_near:
  assumes "0 \<le> x" "x < 2 ^ 38"
  shows "\<bar>rnd x - x\<bar> < 1 / (2 * 10 ^ 2)" "to_num x = Fin (rnd x)" "rnd x < 10 ^ 21"
proof -
  show "\<bar>rnd x - x\<bar> < 1 / (2 * 10 ^ 2)"
  proof (cases "x = 0")
    case False
    then have "0 < x" using assms(1) by linarith
    then have "ulp_exp x \<le> - 15" using assms(2) by (intro ulp_exp_le) auto
    then have "(2::rat) powi ulp_exp x \<le> 2 powi (- 15)" by (simp only: powi_le_iff)
    with rnd_error [of x] have "\<bar>rnd x - x\<bar> \<le> 2 powi (- 15) / 2" by simp
    also have "\<dots> < 1 / (2 * 10 ^ 2)" by (simp add: power_int_minus)
    finally show ?thesis .
  qed simp
  have "(2::rat) ^ 38 \<le> 2 ^ 1023" by (rule power_increasing) auto
  then show "to_num x = Fin (rnd x)" using to_num_Fin [of x] assms by simp
  have "rnd x \<le> 2 ^ 38" using rnd_bound_pow [of x 38] assms by (simp add: abs_le_iff)
  then show "rnd x < 10 ^ 21" by simp
qed

lemma canonicalise_decimal:
  assumes "is_decimal d s" "cc_decimals (getCurrencyConfig cur) = d" "dec_val s < 2 ^ 38" "dec_val s = of_nat n / 10 ^ d"
  shows "canonicalise big s cur = fixed_digits d n"
proof -
  let ?x = "dec_val s"
  have x: "0 \<le> ?x" by simp
  have d: "d \<le> 2" using currency_decimals assms(2) by blast
  have "1 / (2 * 10 ^ 2) \<le> 1 / (2 * 10 ^ d :: rat)" using d power_increasing [of d 2 "10::rat"] by (simp add: frac_le)
  then have err: "\<bar>rnd ?x - ?x\<bar> < 1 / (2 * 10 ^ d)" using double_near(1) [OF x assms(3)] by linarith
  note small = double_near(3) [OF x assms(3)]
  have "parseFloat s = Fin (rnd ?x)" using parseFloat_decimal [OF assms(1)] double_near(2) [OF x assms(3)] by simp
  moreover have "fixed_int d (rnd ?x) = n"
    using fixed_int_near [of "rnd ?x" n d] err rnd_nonneg [OF x] assms(4) by simp
  ultimately show ?thesis
    using decimal_not_special [OF assms(1)] small rnd_nonneg [OF x] by (simp add: canonicalise_def toFixed_def assms(2))
qed

text \<open>
  C28. Leaving an amount field never changes the amount: a decimal with no more places than the currency
  has, below \<open>2^38\<close>, comes out with exactly the currency's places and the same value, although it
  passes through a double; leaving the field again changes nothing.
\<close>

theorem money_blur_exact:
  assumes "is_decimal (cc_decimals (getCurrencyConfig cur)) s" "dec_val s < 2 ^ 38"
  shows "is_decimal (cc_decimals (getCurrencyConfig cur)) (canonicalise big s cur) \<and>
    dec_val (canonicalise big s cur) = dec_val s \<and>
    canonicalise big (canonicalise big s cur) cur = canonicalise big s cur"
proof -
  obtain n where n: "dec_val s = of_nat n / 10 ^ cc_decimals (getCurrencyConfig cur)" using dec_val_units [OF assms(1)] by blast
  note c = canonicalise_decimal [OF assms(1) refl assms(2) n]
  then have "dec_val (canonicalise big s cur) = dec_val s" using fixed_digits_decimal(2) n by simp
  moreover have "is_decimal (cc_decimals (getCurrencyConfig cur)) (canonicalise big s cur)" by (simp add: c fixed_digits_decimal(1))
  ultimately show ?thesis using canonicalise_decimal [OF _ refl, of cur "canonicalise big s cur" n] assms(2) n c by simp
qed

theorem money_blur_exact_witness: "dec_val (canonicalise (\<lambda>_. []) ''12.50'' ''USD'') = 25 / 2"
proof -
  have usd: "cc_decimals (getCurrencyConfig ''USD'') = 2"
    by (simp add: getCurrencyConfig_def CURRENCIES_def currency_def js_toUpperCase_def upper_char_def Let_def)
  have "is_decimal 2 ''12.50''"
    unfolding is_decimal_def by (intro exI [of _ "''12''"] exI [of _ "''50''"]) (simp add: is_digit_def)
  moreover have "dec_val ''12.50'' = 25 / 2"
    by (simp add: dec_val_def is_digit_def digits_val_def digit_val_def)
  ultimately show ?thesis using money_blur_exact [of "''USD''" "''12.50''" "\<lambda>_. []"] by (simp add: usd)
qed

section \<open>The field in use\<close>

text \<open>An amount the field can hold: stripped text whose value is at most \<open>10^20\<close>, or no number at all.\<close>

definition amount_ok :: "string \<Rightarrow> bool" where
  "amount_ok s \<longleftrightarrow> stripped_text s \<and> (case parseFloat s of Fin x \<Rightarrow> \<bar>x\<bar> \<le> 10 ^ 20 | NaN \<Rightarrow> True | _ \<Rightarrow> False)"

lemma rnd_cap:
  assumes "\<bar>v\<bar> \<le> 10 ^ 20"
  shows "to_num v = Fin (rnd v)" "\<bar>rnd v\<bar> \<le> 10 ^ 20"
proof -
  have e: "rnd (10 ^ 20) = 10 ^ 20" using rnd_exact [of "5 ^ 20" 20] by simp
  have "(10::rat) ^ 20 \<le> 2 ^ 67" by simp
  also have "(2::rat) ^ 67 \<le> 2 ^ 1023" by (rule power_increasing) auto
  finally have "\<bar>v\<bar> \<le> 2 ^ 1023" using assms by linarith
  then show "to_num v = Fin (rnd v)" by (rule to_num_Fin)
  have "rnd v \<le> rnd (10 ^ 20)" "rnd (- (10 ^ 20)) \<le> rnd v" using assms by (auto intro!: rnd_mono simp: abs_le_iff)
  then show "\<bar>rnd v\<bar> \<le> 10 ^ 20" unfolding rnd_minus e by (simp add: abs_le_iff)
qed

lemma amount_parts:
  assumes "list_all is_digit ds" "fs = [] \<or> (\<exists>gs. fs = CHR ''.'' # gs \<and> list_all is_digit gs)" "sg = [] \<or> sg = ''-''"
    and "of_nat (digits_val (ds @ tl fs)) / 10 ^ length (tl fs) \<le> (10 ^ 20 :: rat)"
  shows "amount_ok (sg @ ds @ fs)"
proof -
  let ?v = "(if sg = [] then 1 else - 1) * (of_nat (digits_val (ds @ tl fs)) / 10 ^ length (tl fs)) :: rat"
  have "\<bar>?v\<bar> \<le> 10 ^ 20" using assms(4) by (auto simp: abs_mult)
  from rnd_cap [OF this] have "case parseFloat (sg @ ds @ fs) of Fin x \<Rightarrow> \<bar>x\<bar> \<le> 10 ^ 20 | NaN \<Rightarrow> True | _ \<Rightarrow> False"
    unfolding parseFloat_stripped [OF assms(1-3)] by simp
  moreover have "stripped_text (sg @ ds @ fs)" unfolding stripped_text_def using assms(1-3) by blast
  ultimately show ?thesis by (simp add: amount_ok_def)
qed

lemma short_ok:
  assumes "stripped_text s" "length s \<le> 20"
  shows "amount_ok s"
proof -
  obtain sg ds fs where s: "s = sg @ ds @ fs" "sg = [] \<or> sg = ''-''" "list_all is_digit ds"
      "fs = [] \<or> (\<exists>gs. fs = CHR ''.'' # gs \<and> list_all is_digit gs)"
    using assms(1) unfolding stripped_text_def by blast
  have "list_all is_digit (ds @ tl fs)" using s(3,4) by auto
  then have "digits_val (ds @ tl fs) < 10 ^ length (ds @ tl fs)" by (rule digits_val_less)
  also have "(10::nat) ^ length (ds @ tl fs) \<le> 10 ^ 20" using assms(2) s(1) by (intro power_increasing) auto
  finally have "(of_nat (digits_val (ds @ tl fs)) :: rat) \<le> of_nat (10 ^ 20)" by (simp only: of_nat_le_iff)
  moreover have "(of_nat (digits_val (ds @ tl fs)) / 10 ^ length (tl fs) :: rat) \<le> of_nat (digits_val (ds @ tl fs)) / 1"
    by (intro divide_left_mono) auto
  ultimately show ?thesis unfolding s(1) by (intro amount_parts [OF s(3,4,2)]) simp
qed

lemma canonical_form:
  assumes "amount_ok s"
  obtains "canonicalise big s cur = []"
  | sg n where "canonicalise big s cur = sg @ fixed_digits (cc_decimals (getCurrencyConfig cur)) n" "sg = [] \<or> sg = ''-''"
      "of_nat n / 10 ^ cc_decimals (getCurrencyConfig cur) \<le> (10 ^ 20 :: rat)" "sg = ''-'' \<Longrightarrow> js_startsWith s ''-''"
proof (cases "canonicalise big s cur = []")
  case False
  let ?d = "cc_decimals (getCurrencyConfig cur)"
  obtain x where x: "parseFloat s = Fin x" "\<bar>x\<bar> \<le> 10 ^ 20"
    using False assms by (cases "parseFloat s") (auto simp: canonicalise_def amount_ok_def split: if_splits)
  have "s \<noteq> [] \<and> s \<noteq> ''-''" using False by (auto simp: canonicalise_def)
  then have c: "canonicalise big s cur = (if x < 0 then ''-'' else []) @ fixed_digits ?d (fixed_int ?d x)"
    using x by (simp add: canonicalise_def toFixed_def)
  have "\<lfloor>\<bar>x\<bar> * 10 ^ ?d + 1 / 2\<rfloor> \<le> \<lfloor>of_int (10 ^ 20 * 10 ^ ?d) + 1 / 2 :: rat\<rfloor>"
    using x(2) by (intro floor_mono add_right_mono) (simp add: mult_right_mono)
  also have "\<dots> = 10 ^ 20 * 10 ^ ?d" by (intro floor_unique) auto
  finally have "int (fixed_int ?d x) \<le> 10 ^ 20 * 10 ^ ?d" by (simp add: fixed_int_def nat_le_iff)
  then have "(of_int (int (fixed_int ?d x)) :: rat) \<le> of_int (10 ^ 20 * 10 ^ ?d)" by (simp only: of_int_le_iff)
  then have le: "of_nat (fixed_int ?d x) / 10 ^ ?d \<le> (10 ^ 20 :: rat)" by (simp add: divide_le_eq)
  have neg: "js_startsWith s ''-''" if "x < 0"
  proof (rule ccontr)
    assume "\<not> js_startsWith s ''-''"
    moreover obtain sg ds fs where f: "s = sg @ ds @ fs" "sg = [] \<or> sg = ''-''" "list_all is_digit ds"
        "fs = [] \<or> (\<exists>gs. fs = CHR ''.'' # gs \<and> list_all is_digit gs)"
      using assms unfolding amount_ok_def stripped_text_def by blast
    ultimately have "sg = []" by (auto simp: js_startsWith_def)
    then have "parseFloat s = NaN \<or> (\<exists>v\<ge>0. parseFloat s = to_num v)"
      using parseFloat_stripped [OF f(3,4,2)] f(1) by (auto intro!: exI [of _ "of_nat _ / 10 ^ _"])
    then obtain v where "0 \<le> v" "to_num v = Fin x" using x(1) by auto
    then show False using to_num_cases [of v] rnd_nonneg [of v] that by auto
  qed
  show thesis
    using that(2) [of "if x < 0 then ''-'' else []" "fixed_int ?d x"] c le neg by (auto split: if_splits)
qed

lemma canonical_ok:
  assumes "amount_ok s"
  shows "amount_ok (canonicalise big s cur)"
  using assms
proof (cases rule: canonical_form [of s big cur])
  case 1
  then show ?thesis using amount_parts [of "[]" "[]" "[]"] by (simp add: digits_val_def)
next
  case (2 sg n)
  let ?d = "cc_decimals (getCurrencyConfig cur)"
  obtain ds fs where f: "fixed_digits ?d n = ds @ (if ?d = 0 then [] else CHR ''.'' # fs)" "list_all is_digit ds"
     "list_all is_digit fs" "length fs = ?d" "digits_val (ds @ fs) = n" using fixed_digits_form by blast
  then have "amount_ok (sg @ ds @ (if ?d = 0 then [] else CHR ''.'' # fs))"
    using 2(2,3) by (intro amount_parts) auto
  then show ?thesis by (simp add: 2(1) f(1))
qed

definition signed_ok :: "bool \<Rightarrow> string \<Rightarrow> bool" where
  "signed_ok neg s \<longleftrightarrow> amount_ok s \<and> (neg \<or> \<not> js_startsWith s ''-'')"

text \<open>
  What can happen to a field: it is mounted with an amount, the user types (at most 20 characters that
  count) or leaves the field, the form puts another amount in; each is followed by a rendering.
\<close>

inductive field_reach :: "bool \<Rightarrow> (num \<Rightarrow> string) \<Rightarrow> string \<Rightarrow> money_field \<Rightarrow> bool" for neg big cur where
  mounted: "signed_ok neg v \<Longrightarrow> field_reach neg big cur (mount v)"
| changed: "field_reach neg big cur f \<Longrightarrow> length (stripFormatting t) \<le> 20 \<Longrightarrow> field_reach neg big cur (render (onChange neg t f))"
| blurred: "field_reach neg big cur f \<Longrightarrow> field_reach neg big cur (render (handleBlur big cur f))"
| replaced: "field_reach neg big cur f \<Longrightarrow> signed_ok neg v \<Longrightarrow> field_reach neg big cur (render (f\<lparr>mf_value := v\<rparr>))"

definition in_step :: "bool \<Rightarrow> money_field \<Rightarrow> bool" where
  "in_step neg f \<longleftrightarrow> signed_ok neg (mf_value f) \<and> mf_display f = formatTyping (mf_value f)"

lemma in_step_sync:
  assumes "in_step neg f"
  shows "stripFormatting (mf_display f) = mf_value f" "\<not> out_of_sync f" "render f = f"
proof -
  show s: "stripFormatting (mf_display f) = mf_value f"
    using assms strip_format by (simp add: in_step_def signed_ok_def amount_ok_def)
  then show "\<not> out_of_sync f" by (simp add: out_of_sync_def)
  then show "render f = f" by (simp add: render_def)
qed

lemma tail_stripped: "stripped_text s \<Longrightarrow> js_startsWith s ''-'' \<Longrightarrow> stripped_text (tl s) \<and> \<not> js_startsWith (tl s) ''-''"
proof -
  assume "stripped_text s" "js_startsWith s ''-''"
  then obtain sg ds fs where f: "s = sg @ ds @ fs" "sg = [] \<or> sg = ''-''" "list_all is_digit ds"
      "fs = [] \<or> (\<exists>gs. fs = CHR ''.'' # gs \<and> list_all is_digit gs)" unfolding stripped_text_def by blast
  have no: "\<not> js_startsWith (ds @ fs) ''-''" using f(3,4) by (cases ds) (auto simp: js_startsWith_def)
  with f(1,2) \<open>js_startsWith s ''-''\<close> have "tl s = ds @ fs" by auto
  moreover have "stripped_text ([] @ ds @ fs)" unfolding stripped_text_def using f(3,4) by blast
  ultimately show ?thesis using no by simp
qed

lemma onChange_in_step:
  assumes "length (stripFormatting t) \<le> 20"
  shows "in_step neg (onChange neg t f)"
proof -
  have "signed_ok neg (if \<not> neg \<and> js_startsWith (stripFormatting t) ''-'' then tl (stripFormatting t) else stripFormatting t)"
    using assms strip_normal [of t] tail_stripped [of "stripFormatting t"] short_ok [of "stripFormatting t"] short_ok [of "tl (stripFormatting t)"]
    by (auto simp: signed_ok_def)
  then show ?thesis by (simp add: in_step_def onChange_def Let_def)
qed

lemma canonical_signed: "signed_ok neg s \<Longrightarrow> signed_ok neg (canonicalise big s cur)"
proof -
  assume s: "signed_ok neg s"
  then have "amount_ok s" by (simp add: signed_ok_def)
  then have "neg \<or> \<not> js_startsWith (canonicalise big s cur) ''-''"
  proof (cases rule: canonical_form [of s big cur])
    case (2 sg n)
    obtain ds fs where "fixed_digits (cc_decimals (getCurrencyConfig cur)) n = ds @ fs" "list_all is_digit ds" "ds \<noteq> []"
      using fixed_digits_form by blast
    then show ?thesis using 2 s by (cases ds) (auto simp: js_startsWith_def signed_ok_def)
  qed (simp add: js_startsWith_def)
  then show ?thesis using s canonical_ok by (simp add: signed_ok_def)
qed

lemma reach_in_step: "field_reach neg big cur f \<Longrightarrow> in_step neg f"
proof (induction rule: field_reach.induct)
  case (changed f t)
  then show ?case using onChange_in_step in_step_sync(3) by metis
next
  case (blurred f)
  then have "in_step neg (handleBlur big cur f)"
    using in_step_sync(1) [OF blurred(2)] canonical_signed by (simp add: in_step_def handleBlur_def Let_def)
  then show ?case using in_step_sync(3) by metis
next
  case (replaced f v)
  have "stripped_text v" "stripped_text (mf_value f)" using replaced by (auto simp: in_step_def signed_ok_def amount_ok_def)
  moreover have "stripFormatting (mf_display f) = mf_value f" using in_step_sync(1) [OF replaced(3)] .
  ultimately show ?case
    using replaced by (auto simp: render_def out_of_sync_def in_step_def)
qed (simp add: mount_def in_step_def)

lemma is_decimal_mono: "is_decimal k s \<Longrightarrow> k \<le> m \<Longrightarrow> is_decimal m s"
  unfolding is_decimal_def using order.trans by blast

lemma money_pattern_sign: "is_decimal 4 s \<Longrightarrow> matches (money_pattern neg) s \<and> matches (money_pattern True) (CHR ''-'' # s)"
proof -
  assume "is_decimal 4 s"
  then have s: "s \<in> lang (decimal_re 4)" using decimal_re_iff [of 4 s] by (simp add: matches_lang)
  have "u @ s \<in> lang (money_pattern True)" if "u \<in> lang (Opt (Chr CHR ''-''))" for u
    using that s unfolding money_pattern_def by auto
  from this [of "[]"] this [of "''-''"] have "s \<in> lang (money_pattern True)" "CHR ''-'' # s \<in> lang (money_pattern True)" by simp_all
  with s show ?thesis by (cases neg) (simp_all add: matches_lang money_pattern_def)
qed

lemma canonical_accepted:
  assumes "signed_ok neg s"
  shows "canonicalise big s cur = [] \<or> matches (money_pattern neg) (canonicalise big s cur)"
proof -
  from assms have "amount_ok s" by (simp add: signed_ok_def)
  then show ?thesis
  proof (cases rule: canonical_form [of s big cur])
    case (2 sg n)
    have "is_decimal 4 (fixed_digits (cc_decimals (getCurrencyConfig cur)) n)"
      using is_decimal_mono [OF fixed_digits_decimal(1)] currency_decimals [of cur] by simp
    then show ?thesis using money_pattern_sign 2 assms by (auto simp: signed_ok_def)
  qed simp
qed


definition typed_field :: money_field where
  "typed_field = render (onChange False ''UGX -1,234.5'' (mount []))"

lemma typed_field_reached: "field_reach False (\<lambda>_. []) ''UGX'' typed_field"
proof -
  have "signed_ok False []" using short_ok [of "[]"] by (simp add: signed_ok_def stripped_text_def js_startsWith_def)
  moreover have "length (stripFormatting ''UGX -1,234.5'') \<le> 20"
    by (simp add: stripFormatting_def one_dot_def amount_char_def is_digit_def js_startsWith_def js_trimStart_def js_ws_def)
  ultimately show ?thesis unfolding typed_field_def by (blast intro: field_reach.intros)
qed


section \<open>The percentage field\<close>

lemma clamp_range:
  assumes "parseFloat v = Fin x"
  shows "\<exists>y. js_min (Fin 100) (js_max (Fin 0) (Fin x)) = Fin y \<and> 0 \<le> y \<and> y \<le> 100 \<and> (0 \<le> x \<and> x \<le> 100 \<longrightarrow> y = x)"
  by (auto simp: js_min_def js_max_def)

lemma percentage_text:
  assumes "0 \<le> y" "y \<le> 100"
  shows "is_decimal 2 (toFixed big (Fin y) 2) \<and> dec_val (toFixed big (Fin y) 2) \<le> 100"
proof -
  have "\<lfloor>y * 100 + 1 / 2\<rfloor> \<le> 10000" using assms(2) by linarith
  then have "fixed_int 2 y \<le> 10000" using assms(1) by (simp add: fixed_int_def nat_le_iff)
  then have "(of_nat (fixed_int 2 y) :: rat) \<le> of_nat 10000" by (simp only: of_nat_le_iff)
  then show ?thesis using fixed_digits_decimal [of 2 "fixed_int 2 y"] assms by (simp add: toFixed_def)
qed

text \<open>
  What a percentage field hands on when it is left is empty or a decimal with two places from 0 to
  100, which the percentage schema accepts; and a percentage with at most two places in that range
  is handed on with its value unchanged.
\<close>

theorem percentage_blur:
  shows "(percentage_handleBlur big (Fin 0) (Fin 100) v = [] \<or>
      is_decimal 2 (percentage_handleBlur big (Fin 0) (Fin 100) v) \<and> dec_val (percentage_handleBlur big (Fin 0) (Fin 100) v) \<le> 100) \<and>
    (is_decimal 2 v \<and> dec_val v \<le> 100 \<longrightarrow> dec_val (percentage_handleBlur big (Fin 0) (Fin 100) v) = dec_val v)"
proof -
  let ?out = "percentage_handleBlur big (Fin 0) (Fin 100) v"
  have first: "?out = [] \<or> is_decimal 2 ?out \<and> dec_val ?out \<le> 100"
  proof (cases "parseFloat v")
    case (Fin x)
    obtain y where "js_min (Fin 100) (js_max (Fin 0) (Fin x)) = Fin y" "0 \<le> y" "y \<le> 100" using clamp_range [OF Fin] by blast
    then show ?thesis using percentage_text [of y big] by (simp add: percentage_handleBlur_def Fin)
  qed (simp_all add: percentage_handleBlur_def)
  have "dec_val ?out = dec_val v" if d: "is_decimal 2 v" "dec_val v \<le> 100"
  proof -
    obtain n where v: "dec_val v = of_nat n / 10 ^ 2" using dec_val_units [OF d(1)] by blast
    have lt: "dec_val v < 2 ^ 38" using d(2) by simp
    note near = double_near [OF dec_val_nonneg lt]
    have f: "parseFloat v = Fin (rnd (dec_val v))" using parseFloat_decimal [OF d(1)] near(2) by simp
    have "rnd 100 = 100" using rnd_of_int [of 100] by simp
    then have r: "0 \<le> rnd (dec_val v)" "rnd (dec_val v) \<le> 100" using rnd_nonneg [of "dec_val v"] rnd_mono [OF d(2)] by simp_all
    then have out: "?out = toFixed big (Fin (rnd (dec_val v))) 2"
      using f decimal_not_special [OF d(1)] clamp_range [OF f] by (auto simp: percentage_handleBlur_def)
    have "fixed_int 2 (rnd (dec_val v)) = n" 
      unfolding v using near(1) r(1) unfolding v by (rule fixed_int_near)
    then have "toFixed big (Fin (rnd (dec_val v))) 2 = fixed_digits 2 n" using r near(3) by (simp add: toFixed_def)
    then show ?thesis using out fixed_digits_decimal(2) [of 2 n] v by simp
  qed
  with first show ?thesis by blast
qed

theorem percentage_blur_witness: "dec_val (percentage_handleBlur (\<lambda>_. []) (Fin 0) (Fin 100) ''12.5'') = 25 / 2"
proof -
  have "is_decimal 2 ''12.5''"
    unfolding is_decimal_def by (intro exI [of _ "''12''"] exI [of _ "''5''"]) (simp add: is_digit_def)
  moreover have "dec_val ''12.5'' = 25 / 2"
    by (simp add: dec_val_def is_digit_def digits_val_def digit_val_def)
  ultimately show ?thesis using percentage_blur [of "\<lambda>_. []" "''12.5''"] by simp
qed

end
