(* ===== verification/Data_Table.thy ===== *)
theory Data_Table
  imports Money_Input
begin

text \<open>
  The data table of \<open>packages/ui/src/components/DataTable\<close>: the CSV export, the URL-synchronised state
  with the sort header, the pagination bar, the columns that can be hidden, the selection and the
  choice of what is shown. The library that keeps the state in the URL is not part of this code; its
  state is the record \<open>url_state\<close>, and setting a key changes that key. \<open>num_text\<close> is \<open>Number::toString\<close>.
\<close>

section \<open>CSV export\<close>

text \<open>\<open>String(v)\<close>; an array joins its elements with commas, null and undefined being empty.\<close>

fun js_String :: "(num \<Rightarrow> string) \<Rightarrow> jv \<Rightarrow> string" where
  "js_String num_text JUndef = ''undefined''"
| "js_String num_text JNull = ''null''"
| "js_String num_text (JBool b) = (if b then ''true'' else ''false'')"
| "js_String num_text (JNum n) = num_text n"
| "js_String num_text (JStr s) = s"
| "js_String num_text (JArr vs) =
     js_join CHR '','' (map (\<lambda>v. if v = JNull \<or> v = JUndef then [] else js_String num_text v) vs)"
| "js_String num_text (JObj fs) = ''[object Object]''"

definition quote :: char where
  "quote = CHR 0x22"

definition newline :: char where
  "newline = CHR 0x0A"

definition escape_text :: "string \<Rightarrow> string" where
  "escape_text str = (if quote \<in> set str \<or> CHR '','' \<in> set str \<or> newline \<in> set str
     then quote # concat (map (\<lambda>c. if c = quote then [quote, quote] else [c]) str) @ [quote] else str)"

definition cell_text :: "(num \<Rightarrow> string) \<Rightarrow> jv \<Rightarrow> string" where
  "cell_text num_text v = (if v = JNull \<or> v = JUndef then [] else js_String num_text v)"

record csv_column =
  col_key :: string
  col_header :: string

definition rowsToCsv :: "(num \<Rightarrow> string) \<Rightarrow> jv list \<Rightarrow> csv_column list \<Rightarrow> string" where
  "rowsToCsv num_text rows columns =
     (let header = js_join CHR '','' (map (\<lambda>c. escape_text (col_header c)) columns);
          body = js_join newline
            (map (\<lambda>row. js_join CHR '','' (map (\<lambda>c. escape_text (cell_text num_text (js_prop row (col_key c)))) columns)) rows)
      in header @ newline # body @ [newline])"

section \<open>The state in the URL\<close>

datatype density = Default | Compact

datatype sort_direction = Asc | Desc

record table_options =
  op_defaultSort :: "(string \<times> sort_direction) option"
  op_defaultPageSize :: "int option"
  op_defaultDensity :: "density option"
  op_filterKeys :: "string list"

record url_state =
  us_page :: int
  us_pageSize :: int
  us_sort :: string
  us_dir :: string
  us_density :: string
  us_filters :: "string \<Rightarrow> string"

fun dir_text :: "sort_direction \<Rightarrow> string" where
  "dir_text Asc = ''asc''" | "dir_text Desc = ''desc''"

fun density_text :: "density \<Rightarrow> string" where
  "density_text Default = ''default''" | "density_text Compact = ''compact''"

definition default_column :: "table_options \<Rightarrow> string" where
  "default_column opts = (case op_defaultSort opts of None \<Rightarrow> [] | Some (c, d) \<Rightarrow> c)"

definition default_dir :: "table_options \<Rightarrow> string" where
  "default_dir opts = (case op_defaultSort opts of None \<Rightarrow> ''desc'' | Some (c, d) \<Rightarrow> dir_text d)"

definition default_pageSize :: "table_options \<Rightarrow> int" where
  "default_pageSize opts = nullish (op_defaultPageSize opts) 25"

definition default_density :: "table_options \<Rightarrow> density" where
  "default_density opts = nullish (op_defaultDensity opts) Default"

definition initial_state :: "table_options \<Rightarrow> url_state" where
  "initial_state opts = \<lparr>us_page = 1, us_pageSize = default_pageSize opts, us_sort = default_column opts,
     us_dir = default_dir opts, us_density = density_text (default_density opts), us_filters = (\<lambda>_. [])\<rparr>"

definition filter_key :: "string \<Rightarrow> string" where
  "filter_key k = ''f_'' @ k"

definition sortColumn :: "url_state \<Rightarrow> string option" where
  "sortColumn u = (if us_sort u = [] then None else Some (us_sort u))"

definition sortDirection :: "url_state \<Rightarrow> sort_direction" where
  "sortDirection u = (if us_dir u = ''asc'' then Asc else Desc)"

definition view_density :: "url_state \<Rightarrow> density" where
  "view_density u = (if us_density u = ''compact'' then Compact else Default)"

definition filters :: "table_options \<Rightarrow> url_state \<Rightarrow> string \<rightharpoonup> string" where
  "filters opts u k = (if k \<in> set (op_filterKeys opts) \<and> us_filters u (filter_key k) \<noteq> []
     then Some (us_filters u (filter_key k)) else None)"

definition setPage :: "int \<Rightarrow> url_state \<Rightarrow> url_state" where
  "setPage n u = u\<lparr>us_page := max 1 n\<rparr>"

definition setPageSize :: "int \<Rightarrow> url_state \<Rightarrow> url_state" where
  "setPageSize n u = u\<lparr>us_pageSize := n, us_page := 1\<rparr>"

definition setSort :: "string option \<Rightarrow> sort_direction \<Rightarrow> url_state \<Rightarrow> url_state" where
  "setSort column direction u = u\<lparr>us_sort := nullish column [], us_dir := dir_text direction, us_page := 1\<rparr>"

definition setFilter :: "string \<Rightarrow> string option \<Rightarrow> url_state \<Rightarrow> url_state" where
  "setFilter k v u = u\<lparr>us_filters := (us_filters u)(filter_key k := nullish v []), us_page := 1\<rparr>"

definition setFilters :: "(string \<times> string option) list \<Rightarrow> url_state \<Rightarrow> url_state" where
  "setFilters vs u = u\<lparr>us_filters := fold (\<lambda>(k, v) f. f(filter_key k := nullish v [])) vs (us_filters u), us_page := 1\<rparr>"

definition setDensity :: "density \<Rightarrow> url_state \<Rightarrow> url_state" where
  "setDensity d u = u\<lparr>us_density := density_text d\<rparr>"

definition reset :: "table_options \<Rightarrow> url_state \<Rightarrow> url_state" where
  "reset opts u = u\<lparr>us_page := 1, us_pageSize := default_pageSize opts, us_sort := default_column opts,
     us_dir := default_dir opts, us_filters := fold (\<lambda>k f. f(filter_key k := [])) (op_filterKeys opts) (us_filters u)\<rparr>"

text \<open>The header of a column: a click turns it ascending, then descending, then off.\<close>

definition onSortClick :: "string \<Rightarrow> url_state \<Rightarrow> url_state" where
  "onSortClick columnId u =
     (if sortColumn u = Some columnId
      then setSort (if sortDirection u = Asc then Some columnId else None) (if sortDirection u = Asc then Desc else Asc) u
      else setSort (Some columnId) Asc u)"

section \<open>The pagination bar\<close>

text \<open>\<open>Math.ceil(totalRows / pageSize)\<close>, the quotient being a double.\<close>

definition lastPage :: "int \<Rightarrow> int \<Rightarrow> int" where
  "lastPage totalRows pageSize = max 1 \<lceil>rnd (of_int totalRows / of_int pageSize)\<rceil>"

definition firstRow :: "int \<Rightarrow> int \<Rightarrow> int \<Rightarrow> int" where
  "firstRow totalRows page pageSize = (if totalRows = 0 then 0 else (page - 1) * pageSize + 1)"

definition lastRow :: "int \<Rightarrow> int \<Rightarrow> int \<Rightarrow> int" where
  "lastRow totalRows page pageSize = min totalRows (page * pageSize)"

text \<open>The buttons: a disabled one does nothing.\<close>

definition previousPage :: "url_state \<Rightarrow> url_state" where
  "previousPage u = (if us_page u \<le> 1 then u else setPage (us_page u - 1) u)"

definition nextPage :: "int \<Rightarrow> url_state \<Rightarrow> url_state" where
  "nextPage totalRows u = (if lastPage totalRows (us_pageSize u) \<le> us_page u then u else setPage (us_page u + 1) u)"

section \<open>Reading an export back\<close>

text \<open>A reader of the format (RFC 4180 with line feeds): where it is in a field, the field and the record so far.\<close>

datatype place = Start | Bare | Quoted | QuoteSeen

fun csv_read :: "place \<Rightarrow> string \<Rightarrow> string list \<Rightarrow> string \<Rightarrow> string list list" where
  "csv_read p cur fs [] = (if p = Start \<and> fs = [] then [] else [fs @ [cur]])"
| "csv_read Quoted cur fs (c # cs) = (if c = quote then csv_read QuoteSeen cur fs cs else csv_read Quoted (cur @ [c]) fs cs)"
| "csv_read p cur fs (c # cs) =
     (if c = CHR '','' then csv_read Start [] (fs @ [cur]) cs
      else if c = newline then (fs @ [cur]) # csv_read Start [] [] cs
      else if c = quote \<and> p \<noteq> Bare then csv_read Quoted (if p = QuoteSeen then cur @ [quote] else []) fs cs
      else csv_read Bare (cur @ [c]) fs cs)"

lemma marks [simp]: "quote \<noteq> CHR '',''" "newline \<noteq> CHR '',''" "quote \<noteq> newline" "newline \<noteq> quote"
  by (simp_all add: quote_def newline_def)

lemma read_quoted:
  "csv_read Quoted cur fs (concat (map (\<lambda>c. if c = quote then [quote, quote] else [c]) s) @ quote # rest)
     = csv_read QuoteSeen (cur @ s) fs rest"
  by (induction s arbitrary: cur) auto

lemma read_bare:
  "quote \<notin> set s \<Longrightarrow> CHR '','' \<notin> set s \<Longrightarrow> newline \<notin> set s \<Longrightarrow> p = Bare \<or> cur = [] \<and> p = Start \<Longrightarrow>
   csv_read p cur fs (s @ rest) = csv_read (if s = [] then p else Bare) (cur @ s) fs rest"
proof (induction s arbitrary: cur p)
  case (Cons c s)
  then have "csv_read p cur fs (c # s @ rest) = csv_read Bare (cur @ [c]) fs (s @ rest)" by (cases p) auto
  with Cons show ?case by simp
qed simp

lemma read_field:
  "csv_read Start [] fs (escape_text s @ CHR '','' # rest) = csv_read Start [] (fs @ [s]) rest"
  "csv_read Start [] fs (escape_text s @ newline # rest) = (fs @ [s]) # csv_read Start [] [] rest"
proof -
  have "csv_read Start [] fs (escape_text s @ r) = csv_read (if quote \<in> set s \<or> CHR '','' \<in> set s \<or> newline \<in> set s then QuoteSeen
      else if s = [] then Start else Bare) s fs r" for r
    using read_quoted [of "[]" fs s r] read_bare [of s Start "[]" fs r] by (simp add: escape_text_def)
  then show "csv_read Start [] fs (escape_text s @ CHR '','' # rest) = csv_read Start [] (fs @ [s]) rest"
    "csv_read Start [] fs (escape_text s @ newline # rest) = (fs @ [s]) # csv_read Start [] [] rest" by simp_all
qed

lemma read_row:
  "cells \<noteq> [] \<Longrightarrow> csv_read Start [] fs (js_join CHR '','' (map escape_text cells) @ newline # rest) = (fs @ cells) # csv_read Start [] [] rest"
proof (induction cells arbitrary: fs)
  case (Cons s cells)
  then show ?case using read_field by (cases cells) auto
qed simp

lemma read_rows:
  "rows \<noteq> [] \<Longrightarrow> (\<forall>r \<in> set rows. r \<noteq> []) \<Longrightarrow>
   csv_read Start [] [] (js_join newline (map (\<lambda>r. js_join CHR '','' (map escape_text r)) rows) @ [newline]) = rows"
proof (induction rows)
  case (Cons r rows)
  then show ?case using read_row [of r "[]"] by (cases rows) auto
qed simp

text \<open>
  C34. An exported table can be read back: the header and, for every row, the text of every cell, also
  when it contains commas, quotes or line feeds, come back exactly and in order.
\<close>

theorem csv_round_trip:
  assumes "columns \<noteq> []" "rows \<noteq> []"
  shows "csv_read Start [] [] (rowsToCsv num_text rows columns) =
    map col_header columns # map (\<lambda>row. map (\<lambda>c. cell_text num_text (js_prop row (col_key c))) columns) rows"
proof -
  let ?cells = "map (\<lambda>row. map (\<lambda>c. cell_text num_text (js_prop row (col_key c))) columns) rows"
  have "rowsToCsv num_text rows columns = js_join CHR '','' (map escape_text (map col_header columns)) @ newline #
      js_join newline (map (\<lambda>r. js_join CHR '','' (map escape_text r)) ?cells) @ [newline]"
    by (simp add: rowsToCsv_def comp_def)
  moreover have "csv_read Start [] [] (js_join newline (map (\<lambda>r. js_join CHR '','' (map escape_text r)) ?cells) @ [newline]) = ?cells"
    using assms by (intro read_rows) auto
  ultimately show ?thesis using read_row [of "map col_header columns" "[]"] assms(1) by simp
qed

theorem csv_round_trip_witness:
  "csv_read Start [] [] (rowsToCsv (\<lambda>_. []) [JObj [(''n'', JStr ''a,b'')]] [\<lparr>col_key = ''n'', col_header = ''Name''\<rparr>]) =
     [[''Name''], [''a,b'']]"
  using csv_round_trip [of "[\<lparr>col_key = ''n'', col_header = ''Name''\<rparr>]" "[JObj [(''n'', JStr ''a,b'')]]" "\<lambda>_. []"]
  by (simp add: cell_text_def)

section \<open>How the table state moves\<close>

datatype table_event =
    Goto int | Size int | Click string | Filter string "string option" | Filters "(string \<times> string option) list"
  | Density density | Reset | Previous | Next

fun on_event :: "table_options \<Rightarrow> int \<Rightarrow> table_event \<Rightarrow> url_state \<Rightarrow> url_state" where
  "on_event opts rows_total (Goto n) u = setPage n u"
| "on_event opts rows_total (Size n) u = setPageSize n u"
| "on_event opts rows_total (Click c) u = onSortClick c u"
| "on_event opts rows_total (Filter k v) u = setFilter k v u"
| "on_event opts rows_total (Filters vs) u = setFilters vs u"
| "on_event opts rows_total (Density d) u = setDensity d u"
| "on_event opts rows_total Reset u = reset opts u"
| "on_event opts rows_total Previous u = previousPage u"
| "on_event opts rows_total Next u = nextPage rows_total u"

text \<open>Which events change what is listed, so that the reader starts again on the first page.\<close>

fun relists :: "table_event \<Rightarrow> bool" where
  "relists (Goto n) = False" | "relists (Density d) = False" | "relists Previous = False" | "relists Next = False" | "relists _ = True"

lemmas setter_defs = setPage_def setPageSize_def setSort_def setFilter_def setFilters_def setDensity_def reset_def onSortClick_def
  previousPage_def nextPage_def

lemma event_page: "relists ev \<Longrightarrow> us_page (on_event opts rows_total ev u) = 1" "1 \<le> us_page u \<Longrightarrow> 1 \<le> us_page (on_event opts rows_total ev u)"
  by (cases ev; simp add: setter_defs)+

lemma events_page: "1 \<le> us_page u \<Longrightarrow> 1 \<le> us_page (fold (on_event opts rows_total) evs u)"
  by (induction evs arbitrary: u) (simp_all add: event_page)

lemma sort_click:
  assumes "c \<noteq> []"
  shows "sortColumn u \<noteq> Some c \<Longrightarrow> sortColumn (onSortClick c u) = Some c \<and> sortDirection (onSortClick c u) = Asc"
    "sortColumn u = Some c \<Longrightarrow> sortDirection u = Asc \<Longrightarrow> sortColumn (onSortClick c u) = Some c \<and> sortDirection (onSortClick c u) = Desc"
    "sortColumn u = Some c \<Longrightarrow> sortDirection u = Desc \<Longrightarrow> sortColumn (onSortClick c u) = None"
  using assms by (auto simp: onSortClick_def setSort_def sortColumn_def sortDirection_def)

lemma filter_key_inj [simp]: "filter_key a = filter_key b \<longleftrightarrow> a = b"
  by (simp add: filter_key_def)

lemma reset_filters:
  "fold (\<lambda>k f. f(filter_key k := [])) ks f = (\<lambda>a. if a \<in> filter_key ` set ks then [] else f a)"
  by (induction ks arbitrary: f) auto

text \<open>
  C35. The table's state behaves: the page never drops below 1, everything that changes what is listed
  goes back to page 1, three clicks on a header sort it ascending, descending and not at all, a filter
  reads back as set (a declared one with some text) and touches no other, and a reset clears them all.
\<close>

theorem table_state:
  assumes "1 \<le> us_page u" "c \<noteq> []" "sortColumn u \<noteq> Some c"
  shows "1 \<le> us_page (fold (on_event opts rows_total) evs u) \<and> (relists ev \<longrightarrow> us_page (on_event opts rows_total ev u) = 1) \<and>
    map (\<lambda>v. (sortColumn v, sortDirection v)) [onSortClick c u, onSortClick c (onSortClick c u)] = [(Some c, Asc), (Some c, Desc)] \<and>
    sortColumn (onSortClick c (onSortClick c (onSortClick c u))) = None \<and>
    filters opts (setFilter k v u) = (filters opts u)(k := (if k \<in> set (op_filterKeys opts) \<and> truthy_str v then v else None)) \<and>
    filters opts (reset opts u) = Map.empty"
proof -
  have "filters opts (setFilter k v u) j = ((filters opts u)(k := (if k \<in> set (op_filterKeys opts) \<and> truthy_str v then v else None))) j" for j
    by (cases v) (auto simp: filters_def setFilter_def)
  moreover have "filters opts (reset opts u) j = None" for j
    by (auto simp: filters_def reset_def reset_filters)
  ultimately show ?thesis
    using assms events_page event_page(1) sort_click [OF assms(2)] by (auto simp: fun_eq_iff)
qed

section \<open>Pages and rows\<close>

lemma lastPage_exact:
  assumes "0 \<le> t" "t < 2 ^ 38" "1 \<le> s" "s \<le> 100"
  shows "lastPage t s = max 1 \<lceil>of_int t / of_int s :: rat\<rceil>"
proof -
  let ?x = "of_int t / of_int s :: rat"
  have x: "0 \<le> ?x" using assms by simp
  have "?x \<le> of_int t / 1" using assms by (intro divide_left_mono) auto
  moreover have "(of_int t :: rat) < of_int (2 ^ 38)" using assms(2) by (simp only: of_int_less_iff)
  ultimately have lt: "?x < 2 ^ 38" by simp
  have near: "\<bar>rnd ?x - ?x\<bar> < 1 / 200" using double_near(1) [OF x lt] by simp
  define c where "c = \<lceil>?x\<rceil>"
  have c: "of_int c - 1 < ?x" "?x \<le> of_int c" unfolding c_def by linarith+
  have "of_int ((c - 1) * s) < (of_int t :: rat)"
    using c(1) assms(3) by (simp add: less_divide_eq)
  then have "(c - 1) * s + 1 \<le> t" by linarith
  then have "(of_int ((c - 1) * s + 1) :: rat) \<le> of_int t" by (simp only: of_int_le_iff)
  then have "of_int ((c - 1) * s + 1) / of_int s \<le> ?x" using assms(3) by (intro divide_right_mono) auto
  then have "of_int (c - 1) + 1 / of_int s \<le> ?x" using assms(3) by (simp add: add_divide_distrib)
  moreover have "1 / 100 \<le> (1 / of_int s :: rat)" using assms(3,4) by (simp add: frac_le)
  ultimately have low: "of_int c - 1 < rnd ?x" using near unfolding abs_less_iff of_int_diff of_int_1 by linarith
  have "(of_int c :: rat) < of_int (2 ^ 39)" using c(1) lt by simp
  then have "c < 2 ^ 39" by (simp only: of_int_less_iff)
  moreover have "0 \<le> c" using c(2) x by linarith
  ultimately have "rnd (of_int c) = of_int c" by (intro rnd_of_int) auto
  then have "rnd ?x \<le> of_int c" using rnd_mono [OF c(2)] by simp
  with low have "\<lceil>rnd ?x\<rceil> = c" by (intro ceiling_unique) auto
  then show ?thesis by (simp add: lastPage_def c_def)
qed

lemma last_page_rows:
  assumes "0 \<le> t" "1 \<le> s" "t < 2 ^ 38" "s \<le> 100"
  shows "t \<le> lastPage t s * s" "1 < lastPage t s \<Longrightarrow> (lastPage t s - 1) * s < t"
proof -
  have s: "(0::rat) < of_int s" using assms by simp
  define c where "c = \<lceil>of_int t / of_int s :: rat\<rceil>"
  have l: "lastPage t s = max 1 c" using lastPage_exact assms by (simp add: c_def)
  have "of_int t / of_int s \<le> (of_int c :: rat)" unfolding c_def by (rule le_of_int_ceiling)
  then have "(of_int t :: rat) \<le> of_int (c * s)" unfolding pos_divide_le_eq [OF s] by simp
  then have "t \<le> c * s" by linarith
  also have "c * s \<le> lastPage t s * s" using assms(2) l by (intro mult_right_mono) auto
  finally show "t \<le> lastPage t s * s" .
  assume "1 < lastPage t s"
  then have "lastPage t s = c" using l by simp
  moreover have "of_int c - 1 < (of_int t / of_int s :: rat)" unfolding c_def by linarith
  then have "(of_int ((c - 1) * s) :: rat) < of_int t" using s by (simp add: less_divide_eq)
  then have "(c - 1) * s < t" by linarith
  ultimately show "(lastPage t s - 1) * s < t" by simp
qed

text \<open>
  The pages tile the rows: with up to \<open>2^38\<close> rows and the page sizes on offer every row is on
  exactly one page from 1 to the last, no page among them is empty when there are rows, and the bar
  shows the first and the last row of the page.
\<close>

theorem pagination_tiles:
  assumes "0 \<le> rows_total" "rows_total < 2 ^ 38" "s \<in> {10, 25, 50, 100}"
  shows "(\<forall>r \<in> {1..rows_total}. \<exists>!p. p \<in> {1..lastPage rows_total s} \<and> r \<in> {firstRow rows_total p s..lastRow rows_total p s}) \<and>
    (\<forall>p \<in> {1..lastPage rows_total s}. 0 < rows_total \<longrightarrow> firstRow rows_total p s \<le> lastRow rows_total p s)"
proof (intro conjI ballI)
  have s: "1 \<le> s" "s \<le> 100" using assms(3) by auto
  note rows = last_page_rows [OF assms(1) s(1) assms(2) s(2)]
  fix r assume r: "r \<in> {1..rows_total}"
  define p where "p = (r - 1) div s + 1"
  have "r - 1 = (p - 1) * s + (r - 1) mod s" "(r - 1) mod s < s" "0 \<le> (r - 1) mod s" using s(1) by (simp_all add: p_def)
  then have pr: "(p - 1) * s < r" "r \<le> p * s" by (simp_all add: algebra_simps)
  have "p \<le> lastPage rows_total s"
  proof (rule ccontr)
    assume "\<not> p \<le> lastPage rows_total s"
    then have "lastPage rows_total s * s \<le> (p - 1) * s" using s(1) by (intro mult_right_mono) auto
    then show False using pr(1) rows(1) r by auto
  qed
  moreover have "1 \<le> p" using r s(1) by (simp add: p_def pos_imp_zdiv_nonneg_iff)
  ultimately have ok: "p \<in> {1..lastPage rows_total s} \<and> r \<in> {firstRow rows_total p s..lastRow rows_total p s}"
    using pr r by (auto simp: firstRow_def lastRow_def)
  have "p' = p" if "p' \<in> {1..lastPage rows_total s} \<and> r \<in> {firstRow rows_total p' s..lastRow rows_total p' s}" for p'
  proof -
    have "(p' - 1) * s < r" "r \<le> p' * s" using that r by (auto simp: firstRow_def lastRow_def split: if_splits)
    then have "(p' - 1) * s < p * s" "(p - 1) * s < p' * s" using pr by linarith+
    then show ?thesis using s(1) by (auto simp: mult_less_cancel_right)
  qed
  with ok show "\<exists>!p. p \<in> {1..lastPage rows_total s} \<and> r \<in> {firstRow rows_total p s..lastRow rows_total p s}" by blast
next
  have s: "1 \<le> s" "s \<le> 100" using assms(3) by auto
  note rows = last_page_rows [OF assms(1) s(1) assms(2) s(2)]
  fix p assume p: "p \<in> {1..lastPage rows_total s}"
  have "(p - 1) * s < rows_total" if "0 < rows_total"
  proof (cases "lastPage rows_total s = 1")
    case False
    then have "(lastPage rows_total s - 1) * s < rows_total" using rows(2) p by auto
    moreover have "(p - 1) * s \<le> (lastPage rows_total s - 1) * s" using p s(1) by (intro mult_right_mono) auto
    ultimately show ?thesis by simp
  qed (use p that in auto)
  moreover have "(p - 1) * s + 1 \<le> p * s" using s(1) by (simp add: algebra_simps)
  ultimately show "0 < rows_total \<longrightarrow> firstRow rows_total p s \<le> lastRow rows_total p s" by (auto simp: firstRow_def lastRow_def)
qed

theorem pagination_tiles_witness: "\<exists>!p. p \<in> {1..lastPage 26 25} \<and> (26::int) \<in> {firstRow 26 p 25..lastRow 26 p 25}"
  using pagination_tiles [of 26 25] by simp

definition fresh_table :: url_state where
  "fresh_table = \<lparr>us_page = 3, us_pageSize = 25, us_sort = [], us_dir = ''desc'', us_density = ''default'', us_filters = (\<lambda>_. [])\<rparr>"

theorem table_state_witness:
  "sortColumn (onSortClick ''name'' (onSortClick ''name'' (onSortClick ''name'' fresh_table))) = None \<and>
   us_page (on_event \<lparr>op_defaultSort = None, op_defaultPageSize = None, op_defaultDensity = None, op_filterKeys = [''status'']\<rparr> 26 Reset fresh_table) = 1"
proof -
  have "1 \<le> us_page fresh_table" "''name'' \<noteq> []" "sortColumn fresh_table \<noteq> Some ''name''" by (simp_all add: fresh_table_def sortColumn_def)
  moreover have "relists Reset" by simp
  ultimately show ?thesis using table_state by blast
qed

end
