(* ===== verification/Navigation.thy ===== *)
theory Navigation
  imports Server_Context
begin

text \<open>
  The navigation of the portal: the menus of \<open>components/shell/nav-config.tsx\<close>, the sidebar that shows
  them (\<open>shell/SidebarNav.tsx\<close>, with \<open>PermissionGuard\<close>) and the quick-navigation commands of the search
  palette (\<open>search/nav-actions.ts\<close>). Icons and styles are left out. A parent's own fold state is what
  the user last set, or nothing.
\<close>

record nav_item =
  ni_label :: string
  ni_href :: "string option"
  ni_children :: "(string \<times> string) list"
  ni_permission :: "string option"
  ni_comingSoon :: bool

record nav_group =
  ng_label :: "string option"
  ng_items :: "nav_item list"

definition parent :: "string \<Rightarrow> string option \<Rightarrow> (string \<times> string) list \<Rightarrow> nav_item" where
  "parent l h cs = \<lparr>ni_label = l, ni_href = h, ni_children = cs, ni_permission = None, ni_comingSoon = False\<rparr>"

definition link :: "string \<Rightarrow> string \<Rightarrow> nav_item" where
  "link l h = parent l (Some h) []"

definition gated_link :: "string \<Rightarrow> string \<Rightarrow> string \<Rightarrow> nav_item" where
  "gated_link l h p = (link l h)\<lparr>ni_permission := Some p\<rparr>"

definition coming_soon :: "string \<Rightarrow> string \<Rightarrow> nav_item" where
  "coming_soon l p = (parent l None [])\<lparr>ni_permission := Some p, ni_comingSoon := True\<rparr>"

section \<open>The menus\<close>

definition MEMBER_NAV :: "nav_group list" where
  "MEMBER_NAV =
    [\<lparr>ng_label = None, ng_items =
      [link ''Dashboard'' ''/member/dashboard'']\<rparr>,
     \<lparr>ng_label = None, ng_items =
      [link ''Savings'' ''/member/savings'',
       link ''Shares'' ''/member/shares'',
       link ''Loans'' ''/member/loans'',
       link ''Fees'' ''/member/fees'',
       link ''Statements'' ''/member/statements'',
       link ''Profile'' ''/member/profile'']\<rparr>]"

definition TENANT_NAV :: "nav_group list" where
  "TENANT_NAV =
    [\<lparr>ng_label = None, ng_items =
      [link ''Dashboard'' ''/'']\<rparr>,
     \<lparr>ng_label = (Some ''Operations''), ng_items =
      [parent ''Members'' (Some ''/members'') [(''KYC submissions'', ''/members/kyc-submissions'')],
       parent ''Savings'' (Some ''/savings'') [(''Accounts'', ''/savings/accounts'')],
       parent ''Shares'' (Some ''/shares'') [(''Accounts'', ''/shares/accounts'')],
       parent ''Credit'' (Some ''/credit'') [(''Applications'', ''/credit/applications''), (''Loans'', ''/credit/loans'')],
       parent ''Fees'' None [(''Fee types'', ''/fees/types''), (''Assessments'', ''/fees/assessments'')]]\<rparr>,
     \<lparr>ng_label = (Some ''Books''), ng_items =
      [parent ''Ledger'' None [(''Accounts'', ''/ledger/accounts''), (''Journal entries'', ''/ledger/journal-entries'')],
       parent ''Reports'' (Some ''/reports'') [(''Trial balance'', ''/reports/trial-balance''), (''Loan portfolio'', ''/reports/loan-portfolio''), (''Income statement'', ''/reports/income-statement''), (''Savings statement'', ''/reports/savings-statement''), (''Fee collection'', ''/reports/fee-collection''), (''Report runs'', ''/reports/runs'')]]\<rparr>,
     \<lparr>ng_label = (Some ''Billing''), ng_items =
      [link ''Billing'' ''/billing'']\<rparr>,
     \<lparr>ng_label = (Some ''Organization''), ng_items =
      [link ''Organization KYC'' ''/organization/kyc'',
       link ''Member KYC requirements'' ''/organization/member-kyc-requirements'']\<rparr>,
     \<lparr>ng_label = (Some ''Approvals & Audit''), ng_items =
      [link ''Approvals'' ''/approvals'',
       link ''Audit'' ''/audit'']\<rparr>,
     \<lparr>ng_label = (Some ''Settings''), ng_items =
      [link ''Appearance'' ''/settings/appearance'']\<rparr>]"

definition PLATFORM_NAV :: "nav_group list" where
  "PLATFORM_NAV =
    [\<lparr>ng_label = None, ng_items =
      [link ''Dashboard'' ''/platform'']\<rparr>,
     \<lparr>ng_label = (Some ''Platform''), ng_items =
      [gated_link ''Tenants'' ''/platform/tenants'' ''platform.tenants.read'',
       gated_link ''Users'' ''/platform/users'' ''platform.users.read'',
       coming_soon ''Roles & Permissions'' ''platform.users.read'']\<rparr>,
     \<lparr>ng_label = (Some ''Finance''), ng_items =
      [gated_link ''Plans'' ''/platform/billing/plans'' ''billing.read'',
       gated_link ''Subscriptions'' ''/platform/billing/subscriptions'' ''billing.read'',
       gated_link ''Invoices'' ''/platform/billing/invoices'' ''billing.read'',
       gated_link ''Payments'' ''/platform/billing/payments'' ''billing.read'']\<rparr>,
     \<lparr>ng_label = (Some ''Operations''), ng_items =
      [gated_link ''Approvals'' ''/platform/approvals'' ''approvals.read'',
       gated_link ''Backups'' ''/platform/operations/backups'' ''operations.read'',
       coming_soon ''Scheduled Jobs'' ''operations.read'']\<rparr>,
     \<lparr>ng_label = (Some ''Monitoring''), ng_items =
      [gated_link ''Audit Logs'' ''/platform/audit'' ''audit.read'',
       coming_soon ''System Health'' ''operations.read'',
       coming_soon ''Activity Log'' ''audit.read'',
       gated_link ''Rate limits'' ''/platform/settings/rate-limits'' ''settings.read'']\<rparr>,
     \<lparr>ng_label = (Some ''Settings''), ng_items =
      [gated_link ''Security'' ''/platform/settings/security'' ''settings.read'',
       (parent ''Notifications'' None [(''Preferences'', ''/platform/settings/notifications''), (''Templates'', ''/platform/notifications/templates''), (''Events'', ''/platform/notifications/events'')])\<lparr>ni_permission := Some ''settings.read''\<rparr>,
       gated_link ''KYC Configuration'' ''/platform/settings/kyc'' ''settings.read'',
       gated_link ''Billing Configuration'' ''/platform/settings/billing'' ''settings.read'',
       gated_link ''Appearance'' ''/platform/settings/appearance'' ''settings.read'']\<rparr>]"

fun navForVariant :: "variant \<Rightarrow> nav_group list" where
  "navForVariant Platform = PLATFORM_NAV" | "navForVariant Member = MEMBER_NAV" | "navForVariant Tenant = TENANT_NAV"

section \<open>The palette\<close>

record nav_action =
  na_label :: string
  na_url :: string

definition push :: "string \<Rightarrow> string option \<Rightarrow> nav_action list \<Rightarrow> nav_action list" where
  "push label url out = (if \<not> truthy_str url \<or> the url \<in> set (map na_url out) then out
     else out @ [\<lparr>na_label = ''Go to '' @ label, na_url = the url\<rparr>])"

definition navActions :: "variant \<Rightarrow> nav_action list" where
  "navActions v = fold (\<lambda>group. fold (\<lambda>item out.
     fold (\<lambda>(l, h). push l (Some h)) (ni_children item) (push (ni_label item) (ni_href item) out)) (ng_items group))
     (navForVariant v) []"

section \<open>The sidebar\<close>

definition EXACT_ROOTS :: "string list" where
  "EXACT_ROOTS = [''/'', ''/platform'', ''/member/dashboard'']"

definition isActive :: "string \<Rightarrow> string \<Rightarrow> bool" where
  "isActive pathname href = (if href \<in> set EXACT_ROOTS then pathname = href
     else pathname = href \<or> js_startsWith pathname (href @ ''/''))"

datatype node =
    Heading string
  | Disabled string
  | Anchor string string bool
  | Fold string bool "(string \<times> string \<times> bool) list"

definition link_active :: "string \<Rightarrow> string option \<Rightarrow> bool" where
  "link_active path href \<longleftrightarrow> truthy_str href \<and> isActive path (the href)"

definition contains_active :: "string \<Rightarrow> nav_item \<Rightarrow> bool" where
  "contains_active path item \<longleftrightarrow> list_ex (\<lambda>(l, h). isActive path h) (ni_children item) \<or> link_active path (ni_href item)"

definition parent_expanded :: "string \<Rightarrow> bool option \<Rightarrow> nav_item \<Rightarrow> bool" where
  "parent_expanded path opened item = nullish opened (contains_active path item)"

definition toggle_parent :: "string \<Rightarrow> nav_item \<Rightarrow> bool option \<Rightarrow> bool option" where
  "toggle_parent path item opened = Some (\<not> parent_expanded path opened item)"

definition Leaf :: "nav_item \<Rightarrow> bool \<Rightarrow> node" where
  "Leaf item active = Anchor (nullish (ni_href item) ''#'') (ni_label item) active"

definition Parent :: "string \<Rightarrow> bool \<Rightarrow> bool option \<Rightarrow> nav_item \<Rightarrow> node" where
  "Parent path collapsed opened item =
     (if collapsed
      then Leaf (item\<lparr>ni_href := Some (nullish (ni_href item) (case ni_children item of [] \<Rightarrow> ''#'' | (l, h) # _ \<Rightarrow> h))\<rparr>)
             (contains_active path item)
      else Fold (ni_label item) (parent_expanded path opened item)
        (if parent_expanded path opened item then map (\<lambda>(l, h). (h, l, isActive path h)) (ni_children item) else []))"

text \<open>The user of the page context, when the page provides one, wins over the browser's store.\<close>

definition PermissionGuard :: "current_user option option \<Rightarrow> current_user option \<Rightarrow> string \<Rightarrow> 'n list \<Rightarrow> 'n list \<Rightarrow> 'n list" where
  "PermissionGuard ctxUser storeUser permission fallback children =
     (if \<not> userHasPermission (nullish ctxUser storeUser) permission then fallback else children)"

definition Item :: "current_user option option \<Rightarrow> current_user option \<Rightarrow> string \<Rightarrow> bool \<Rightarrow> bool option \<Rightarrow> nav_item \<Rightarrow> node list" where
  "Item ctxUser storeUser path collapsed opened item =
     (let nd = (if ni_comingSoon item then Disabled (ni_label item)
                else if ni_children item \<noteq> [] then Parent path collapsed opened item
                else Leaf item (link_active path (ni_href item)))
      in if truthy_str (ni_permission item) then PermissionGuard ctxUser storeUser (the (ni_permission item)) [] [nd]
         else [nd])"

definition group_nodes :: "current_user option option \<Rightarrow> current_user option \<Rightarrow> string \<Rightarrow> bool \<Rightarrow> (string \<Rightarrow> bool option) \<Rightarrow> nav_group \<Rightarrow> node list" where
  "group_nodes ctxUser storeUser path collapsed opened g =
     (if \<not> collapsed \<and> truthy_str (ng_label g) then [Heading (the (ng_label g))] else []) @
     concat (map (\<lambda>i. Item ctxUser storeUser path collapsed (opened (ni_label i)) i) (ng_items g))"

definition SidebarNav :: "current_user option option \<Rightarrow> current_user option \<Rightarrow> string \<Rightarrow> bool \<Rightarrow> (string \<Rightarrow> bool option) \<Rightarrow> nav_group list \<Rightarrow> node list" where
  "SidebarNav ctxUser storeUser path collapsed opened groups =
     concat (map (group_nodes ctxUser storeUser path collapsed opened) groups)"

fun node_links :: "node \<Rightarrow> string list" where
  "node_links (Anchor h l a) = [h]"
| "node_links (Fold l e cs) = map fst cs"
| "node_links n = []"

fun current_links :: "node \<Rightarrow> string list" where
  "current_links (Anchor h l a) = (if a then [h] else [])"
| "current_links (Fold l e cs) = map fst (filter (\<lambda>(h, l, a). a) cs)"
| "current_links n = []"

definition sidebar_links :: "node list \<Rightarrow> string list" where
  "sidebar_links ns = concat (map node_links ns)"

definition sidebar_current :: "node list \<Rightarrow> string list" where
  "sidebar_current ns = concat (map current_links ns)"

section \<open>Menus, sessions and permissions\<close>

definition items :: "variant \<Rightarrow> nav_item list" where
  "items v = concat (map ng_items (navForVariant v))"

lemmas menu_defs = items_def PLATFORM_NAV_def TENANT_NAV_def MEMBER_NAV_def link_def gated_link_def coming_soon_def parent_def

text \<open>A page of the variant: the middleware sees it, asks for a session there, and that session is the variant's own.\<close>

definition page_ok :: "variant \<Rightarrow> string \<Rightarrow> bool" where
  "page_ok v url \<longleftrightarrow> \<not> isPublic url \<and> refreshCookieFor url = refreshCookieName v \<and> matcher_applies url"

lemmas page_ok_defs = page_ok_def isPublic_def isPlatformPath_def isMemberPath_def matcher_applies_def js_startsWith_def
  refreshCookieFor_def refreshCookieName_def PUBLIC_PATHS_PLATFORM_def PUBLIC_PATHS_MEMBER_def PUBLIC_PATHS_TENANT_def

text \<open>The pages an item leads to: its own, then those of its children.\<close>

definition item_urls :: "nav_item \<Rightarrow> string list" where
  "item_urls i = (case ni_href i of None \<Rightarrow> [] | Some h \<Rightarrow> [h]) @ map snd (ni_children i)"

definition leaf_urls :: "nav_item \<Rightarrow> string list" where
  "leaf_urls i = (if ni_children i \<noteq> [] then map snd (ni_children i) else item_urls i)"

definition urls :: "variant \<Rightarrow> string list" where
  "urls v = concat (map item_urls (items v))"

lemma urls_eval:
  "urls v = (case v of
     Member \<Rightarrow> [''/member/dashboard'', ''/member/savings'', ''/member/shares'', ''/member/loans'', ''/member/fees'',
       ''/member/statements'', ''/member/profile'']
   | Tenant \<Rightarrow> [''/'', ''/members'', ''/members/kyc-submissions'', ''/savings'', ''/savings/accounts'', ''/shares'',
       ''/shares/accounts'', ''/credit'', ''/credit/applications'', ''/credit/loans'', ''/fees/types'', ''/fees/assessments'',
       ''/ledger/accounts'', ''/ledger/journal-entries'', ''/reports'', ''/reports/trial-balance'', ''/reports/loan-portfolio'',
       ''/reports/income-statement'', ''/reports/savings-statement'', ''/reports/fee-collection'', ''/reports/runs'',
       ''/billing'', ''/organization/kyc'', ''/organization/member-kyc-requirements'', ''/approvals'', ''/audit'',
       ''/settings/appearance'']
   | Platform \<Rightarrow> [''/platform'', ''/platform/tenants'', ''/platform/users'', ''/platform/billing/plans'',
       ''/platform/billing/subscriptions'', ''/platform/billing/invoices'', ''/platform/billing/payments'',
       ''/platform/approvals'', ''/platform/operations/backups'', ''/platform/audit'', ''/platform/settings/rate-limits'',
       ''/platform/settings/security'', ''/platform/settings/notifications'', ''/platform/notifications/templates'',
       ''/platform/notifications/events'', ''/platform/settings/kyc'', ''/platform/settings/billing'',
       ''/platform/settings/appearance''])"
  by (cases v) (simp_all add: urls_def menu_defs item_urls_def)

lemma urls_distinct: "distinct (urls v)"
  by (cases v) (simp_all add: urls_eval)

lemma urls_pages: "list_all (page_ok v) (urls v)"
  by (cases v) (simp_all add: urls_eval page_ok_defs)


section \<open>The palette lists the menu\<close>

definition push_item :: "nav_item \<Rightarrow> nav_action list \<Rightarrow> nav_action list" where
  "push_item item out = fold (\<lambda>(l, h). push l (Some h)) (ni_children item) (push (ni_label item) (ni_href item) out)"

lemma navActions_items: "navActions v = fold push_item (items v) []"
proof -
  have "fold (\<lambda>g. fold push_item (ng_items g)) gs out = fold push_item (concat (map ng_items gs)) out" for gs out
    by (induction gs arbitrary: out) simp_all
  then show ?thesis by (simp add: navActions_def items_def push_item_def [abs_def])
qed

lemma push_children:
  "distinct (map na_url out @ map snd cs) \<Longrightarrow> [] \<notin> snd ` set cs \<Longrightarrow>
   map na_url (fold (\<lambda>(l, h). push l (Some h)) cs out) = map na_url out @ map snd cs"
proof (induction cs arbitrary: out)
  case (Cons c cs)
  obtain l h where c: "c = (l, h)" by (cases c)
  have "push l (Some h) out = out @ [\<lparr>na_label = ''Go to '' @ l, na_url = h\<rparr>]"
    using Cons.prems by (auto simp: c push_def truthy_str_def)
  moreover have "distinct (map na_url (out @ [\<lparr>na_label = ''Go to '' @ l, na_url = h\<rparr>]) @ map snd cs)"
    using Cons.prems(1) by (auto simp: c)
  ultimately show ?case using Cons.IH [of "out @ [\<lparr>na_label = ''Go to '' @ l, na_url = h\<rparr>]"] Cons.prems(2) by (simp add: c)
qed simp

lemma push_item_urls:
  assumes "distinct (map na_url out @ item_urls i)" "[] \<notin> set (item_urls i)"
  shows "map na_url (push_item i out) = map na_url out @ item_urls i"
proof (cases "ni_href i")
  case None
  then show ?thesis using assms push_children [of out "ni_children i"]
    by (simp add: push_item_def item_urls_def push_def truthy_str_def)
next
  case (Some h)
  have "push (ni_label i) (Some h) out = out @ [\<lparr>na_label = ''Go to '' @ ni_label i, na_url = h\<rparr>]"
    using assms Some by (auto simp: push_def truthy_str_def item_urls_def)
  then show ?thesis using assms Some push_children [of "out @ [\<lparr>na_label = ''Go to '' @ ni_label i, na_url = h\<rparr>]" "ni_children i"]
    by (simp add: push_item_def item_urls_def)
qed

lemma push_items_urls:
  "distinct (map na_url out @ concat (map item_urls is)) \<Longrightarrow> [] \<notin> set (concat (map item_urls is)) \<Longrightarrow>
   map na_url (fold push_item is out) = map na_url out @ concat (map item_urls is)"
proof (induction "is" arbitrary: out)
  case (Cons i "is")
  have "map na_url (push_item i out) = map na_url out @ item_urls i"
    using Cons.prems by (intro push_item_urls) auto
  then show ?case using Cons.IH [of "push_item i out"] Cons.prems by simp
qed simp

lemma navActions_urls: "map na_url (navActions v) = urls v"
proof -
  have "[] \<notin> set (urls v)" by (cases v) (simp_all add: urls_eval)
  then show ?thesis using push_items_urls [of "[]" "items v"] urls_distinct [of v]
    by (simp add: navActions_items urls_def)
qed

section \<open>What the sidebar shows\<close>

lemma sidebar_simps [simp]:
  "sidebar_links [] = []" "sidebar_current [] = []"
  "sidebar_links (n # ns) = node_links n @ sidebar_links ns"
  "sidebar_current (n # ns) = current_links n @ sidebar_current ns"
  "sidebar_links (xs @ ys) = sidebar_links xs @ sidebar_links ys"
  "sidebar_current (xs @ ys) = sidebar_current xs @ sidebar_current ys"
  by (simp_all add: sidebar_links_def sidebar_current_def)

lemma sidebar_concat:
  "sidebar_links (concat nss) = concat (map sidebar_links nss)"
  "sidebar_current (concat nss) = concat (map sidebar_current nss)"
  by (induction nss) simp_all

lemma sidebar_items:
  "sidebar_links (SidebarNav c s path col op gs) =
     concat (map (\<lambda>i. sidebar_links (Item c s path col (op (ni_label i)) i)) (concat (map ng_items gs)))"
  "sidebar_current (SidebarNav c s path col op gs) =
     concat (map (\<lambda>i. sidebar_current (Item c s path col (op (ni_label i)) i)) (concat (map ng_items gs)))"
  by (induction gs) (simp_all add: SidebarNav_def group_nodes_def sidebar_concat comp_def)

lemmas item_defs = Item_def Leaf_def PermissionGuard_def item_urls_def leaf_urls_def link_active_def truthy_str_def

definition item_ok :: "nav_item \<Rightarrow> bool" where
  "item_ok i \<longleftrightarrow> ni_comingSoon i \<or> ni_href i \<noteq> None \<or> ni_children i \<noteq> []"

lemma items_ok: "list_all item_ok (items v)"
  by (cases v) (simp_all add: menu_defs item_ok_def)

lemma parent_links:
  "ni_children i \<noteq> [] \<Longrightarrow> set (node_links (Parent path col op i)) \<subseteq> set (item_urls i)"
  by (cases "ni_children i"; cases "ni_href i"; cases col) (force simp: Parent_def Leaf_def item_urls_def)+

lemma item_links:
  assumes "item_ok i"
  shows "set (sidebar_links (Item c s path col op i)) \<subseteq> set (item_urls i)"
proof -
  have "ni_children i = [] \<Longrightarrow> \<not> ni_comingSoon i \<Longrightarrow> set (node_links (Leaf i a)) \<subseteq> set (item_urls i)" for a
    using assms by (cases "ni_href i") (simp_all add: Leaf_def item_urls_def item_ok_def nullish_def)
  then show ?thesis using parent_links [of i path col op]
    by (auto simp: Item_def PermissionGuard_def Let_def split: if_splits)
qed

lemma item_permitted:
  "\<not> userHasPermission (nullish c s) p \<Longrightarrow> ni_permission i = Some p \<Longrightarrow> p \<noteq> [] \<Longrightarrow> Item c s path col op i = []"
  by (simp add: item_defs)

lemma parent_current:
  "length (current_links (Parent path False op i)) \<le> length (filter (isActive path) (map snd (ni_children i)))"
  by (simp add: Parent_def filter_map comp_def case_prod_unfold)

lemma item_current:
  "length (sidebar_current (Item c s path False op i)) \<le> length (filter (isActive path) (leaf_urls i))"
  using parent_current [of path op i]
  by (cases "ni_href i") (auto simp: item_defs Let_def)

definition clash :: "string \<Rightarrow> string \<Rightarrow> bool" where
  "clash a b \<longleftrightarrow> a = b \<or> a \<notin> set EXACT_ROOTS \<and> js_startsWith b (a @ ''/'') \<or> b \<notin> set EXACT_ROOTS \<and> js_startsWith a (b @ ''/'')"

lemma startsWith_both:
  "js_startsWith p (a @ [x]) \<Longrightarrow> js_startsWith p (b @ [x]) \<Longrightarrow>
   a = b \<or> js_startsWith b (a @ [x]) \<or> js_startsWith a (b @ [x])"
  unfolding js_startsWith_def using prefix_same_cases [of "a @ [x]" p "b @ [x]"] by auto

lemma active_clash: "isActive p a \<Longrightarrow> isActive p b \<Longrightarrow> clash a b"
  using startsWith_both [of p a "CHR ''/''" b] by (auto simp: isActive_def clash_def split: if_splits)

lemma one_active:
  "sorted_wrt (\<lambda>a b. \<not> clash a b) xs \<Longrightarrow> length (filter (isActive p) xs) \<le> 1"
proof (induction xs)
  case (Cons x xs)
  then show ?case using active_clash [of p x]
    by (cases "isActive p x") (auto simp: filter_empty_conv)
qed simp

lemma leaf_urls_eval: "concat (map leaf_urls (items v)) =
    filter (\<lambda>u. u \<notin> set [''/members'', ''/savings'', ''/shares'', ''/credit'', ''/reports'']) (urls v)"
  by (cases v) (simp_all add: urls_def menu_defs leaf_urls_def item_urls_def)

lemma leaf_urls_apart: "sorted_wrt (\<lambda>a b. \<not> clash a b) (concat (map leaf_urls (items v)))"
  by (cases v) (simp_all add: leaf_urls_eval urls_eval clash_def EXACT_ROOTS_def js_startsWith_def)


lemma concat_length_le:
  "(\<And>x. length (f x) \<le> length (filter P (g x))) \<Longrightarrow> length (concat (map f xs)) \<le> length (filter P (concat (map g xs)))"
  by (induction xs) (auto intro: add_mono)

lemma sidebar_one_current:
  "length (sidebar_current (SidebarNav c s path False op (navForVariant v))) \<le> 1"
proof -
  have "length (sidebar_current (SidebarNav c s path False op (navForVariant v)))
      \<le> length (filter (isActive path) (concat (map leaf_urls (items v))))"
    unfolding sidebar_items items_def by (intro concat_length_le item_current)
  also have "\<dots> \<le> 1" by (intro one_active leaf_urls_apart)
  finally show ?thesis .
qed

lemma sidebar_links_urls:
  "set (sidebar_links (SidebarNav c s path col op (navForVariant v))) \<subseteq> set (urls v)"
  using items_ok [of v] item_links unfolding sidebar_items urls_def items_def list_all_iff by fastforce

text \<open>
  Every quick-navigation command of the palette opens a page of its own shell: the middleware covers
  the page, it is not public, and the session it needs is the shell's. No command is listed twice, the
  sidebar never links a page the palette lacks, whatever is folded, collapsed or hidden, and the
  expanded sidebar marks at most one link as the current page on any path.
\<close>

theorem navigation_pages:
  "distinct (map na_url (navActions v)) \<and> list_all (page_ok v) (map na_url (navActions v)) \<and>
   set (sidebar_links (SidebarNav c s path col op (navForVariant v))) \<subseteq> set (map na_url (navActions v)) \<and>
   length (sidebar_current (SidebarNav c s path False op (navForVariant v))) \<le> 1"
  using urls_distinct urls_pages sidebar_links_urls sidebar_one_current unfolding navActions_urls by blast

definition gated :: "current_user option \<Rightarrow> nav_item \<Rightarrow> bool" where
  "gated u i \<longleftrightarrow> (\<exists>p. ni_permission i = Some p \<and> userHasPermission u p)"

lemma items_registered:
  "list_all (\<lambda>i. item_urls i = [''/platform''] \<or> truthy_str (ni_permission i)) (items Platform)"
  "list_all (\<lambda>i. case ni_permission i of None \<Rightarrow> True | Some p \<Rightarrow> p \<in> set (map fst PERMISSION_MIN_ROLE)) (items v)"
  by (simp add: menu_defs item_urls_def truthy_str_def)
    (cases v; simp add: menu_defs PERMISSION_MIN_ROLE_def)

lemma item_gated:
  "truthy_str (ni_permission i) \<Longrightarrow> x \<in> set (sidebar_links (Item c s path col op i)) \<Longrightarrow> gated (nullish c s) i"
  by (cases "ni_permission i") (auto simp: item_defs gated_def Let_def split: if_splits)

lemma platform_links_gated:
  "set (sidebar_links (SidebarNav c s path col op (navForVariant Platform)))
     \<subseteq> insert ''/platform'' (\<Union>i \<in> set (filter (gated (nullish c s)) (items Platform)). set (item_urls i))"
proof
  fix x
  assume "x \<in> set (sidebar_links (SidebarNav c s path col op (navForVariant Platform)))"
  then obtain i where i: "i \<in> set (items Platform)" and x: "x \<in> set (sidebar_links (Item c s path col (op (ni_label i)) i))"
    unfolding sidebar_items items_def by auto
  have u: "x \<in> set (item_urls i)" using item_links x i items_ok [of Platform] by (fastforce simp: list_all_iff)
  show "x \<in> insert ''/platform'' (\<Union>i \<in> set (filter (gated (nullish c s)) (items Platform)). set (item_urls i))"
  proof (cases "truthy_str (ni_permission i)")
    case True
    then show ?thesis using item_gated [OF True x] i u by auto
  next
    case False
    then have "item_urls i = [''/platform'']" using items_registered(1) i by (simp add: list_all_iff) blast
    then show ?thesis using u by simp
  qed
qed

text \<open>
  Apart from the dashboard, the platform sidebar links a page only under an item whose
  permission the user holds; the permissions it asks for are all in the role table, and a visitor
  without a user sees the dashboard link alone.
\<close>

theorem navigation_permissions:
  "set (sidebar_links (SidebarNav c s path col op (navForVariant Platform)))
     \<subseteq> insert ''/platform'' (set (concat (map item_urls (filter (gated (nullish c s)) (items Platform))))) \<and>
   list_all (\<lambda>i. case ni_permission i of None \<Rightarrow> True | Some p \<Rightarrow> p \<in> set (map fst PERMISSION_MIN_ROLE)) (items v) \<and>
   set (sidebar_links (SidebarNav (Some None) s path col op (navForVariant Platform))) \<subseteq> {''/platform''}"
  using platform_links_gated [of c s path col op] platform_links_gated [of "Some None" s path col op] items_registered(2)
  by (simp add: gated_def userHasPermission_def)

end
