(* ===== verification/Screens.thy ===== *)
theory Screens
  imports Schemas_Admin Api_Client Query_Keys
begin

text \<open>
  How a client component of the portal runs: a React component with dialogs, forms and mutations. The
  state holds its boolean and nullable \<open>useState\<close> cells by name, its forms (values and defaults of
  \<open>react-hook-form\<close>), the mutations in flight and a log of what it did, newest last. What is on the
  page is a list of controls computed from the props and the state; a step of the user is to
  press one, to fill a rendered field or to submit a form, which runs the handler only on values the
  form's schema accepts; a step of the world answers a request or re-renders with new props. Handlers
  run to completion before the next event. The dialogs of \<open>packages/ui\<close>, \<open>useTypedMutation\<close> of
  \<open>packages/api-client/src/hooks.ts\<close> and \<open>lib/api-error.ts\<close> are modelled here, the components in
  the theories that follow. A dialog does not hide the controls behind it, so the model has all runs
  of the component and some that the overlay rules out. Long dashes in texts are written as two hyphens.
\<close>

section \<open>State and effects\<close>

datatype effect =
    Sent string operation
  | Invalidated "jv list"
  | Toast_success string
  | Toast_error string string
  | Refreshed
  | Pushed string
  | Went_back

record ui =
  ui_open :: "string \<Rightarrow> bool"
  ui_held :: "string \<Rightarrow> jv"
  ui_form :: "string \<Rightarrow> jv"
  ui_base :: "string \<Rightarrow> jv"
  ui_running :: "(string \<times> jv) list"
  ui_log :: "effect list"

text \<open>A component that has just been mounted, with the default values of its forms.\<close>

definition mounted :: "(string \<times> jv) list \<Rightarrow> ui" where
  "mounted defaults = (let d = (\<lambda>f. case map_of defaults f of Some v \<Rightarrow> v | None \<Rightarrow> JUndef) in
     \<lparr>ui_open = (\<lambda>_. False), ui_held = (\<lambda>_. JNull), ui_form = d, ui_base = d, ui_running = [], ui_log = []\<rparr>)"

definition setOpen :: "string \<Rightarrow> bool \<Rightarrow> ui \<Rightarrow> ui" where
  "setOpen n b s = s\<lparr>ui_open := (ui_open s)(n := b)\<rparr>"

definition setHeld :: "string \<Rightarrow> jv \<Rightarrow> ui \<Rightarrow> ui" where
  "setHeld n v s = s\<lparr>ui_held := (ui_held s)(n := v)\<rparr>"

text \<open>\<open>form.reset()\<close> returns to the defaults, \<open>form.reset(values)\<close> also replaces them.\<close>

definition resetForm :: "string \<Rightarrow> ui \<Rightarrow> ui" where
  "resetForm f s = s\<lparr>ui_form := (ui_form s)(f := ui_base s f)\<rparr>"

definition resetTo :: "string \<Rightarrow> jv \<Rightarrow> ui \<Rightarrow> ui" where
  "resetTo f v s = s\<lparr>ui_form := (ui_form s)(f := v), ui_base := (ui_base s)(f := v)\<rparr>"

definition emit :: "effect \<Rightarrow> ui \<Rightarrow> ui" where
  "emit e s = s\<lparr>ui_log := ui_log s @ [e]\<rparr>"

definition set_field :: "string \<Rightarrow> jv \<Rightarrow> jv \<Rightarrow> jv" where
  "set_field k v w = (case w of JObj fs \<Rightarrow> JObj (put_prop k v fs) | _ \<Rightarrow> JObj [(k, v)])"

definition fill :: "string \<Rightarrow> string \<Rightarrow> jv \<Rightarrow> ui \<Rightarrow> ui" where
  "fill f k v s = s\<lparr>ui_form := (ui_form s)(f := set_field k v (ui_form s f))\<rparr>"

text \<open>Statements one after the other.\<close>

definition seq :: "(ui \<Rightarrow> ui) list \<Rightarrow> ui \<Rightarrow> ui" where
  "seq hs s = fold (\<lambda>h. h) hs s"

lemma seq_simps [simp]: "seq [] s = s" "seq (h # hs) s = seq hs (h s)"
  by (simp_all add: seq_def)

lemma cells [simp]:
  "ui_open (setOpen n b s) = (ui_open s)(n := b)" "ui_held (setOpen n b s) = ui_held s" "ui_form (setOpen n b s) = ui_form s"
  "ui_base (setOpen n b s) = ui_base s" "ui_running (setOpen n b s) = ui_running s" "ui_log (setOpen n b s) = ui_log s"
  "ui_open (setHeld n v s) = ui_open s" "ui_held (setHeld n v s) = (ui_held s)(n := v)" "ui_form (setHeld n v s) = ui_form s"
  "ui_base (setHeld n v s) = ui_base s" "ui_running (setHeld n v s) = ui_running s" "ui_log (setHeld n v s) = ui_log s"
  by (simp_all add: setOpen_def setHeld_def)

lemma forms [simp]:
  "ui_open (resetForm f s) = ui_open s" "ui_held (resetForm f s) = ui_held s" "ui_form (resetForm f s) = (ui_form s)(f := ui_base s f)"
  "ui_base (resetForm f s) = ui_base s" "ui_running (resetForm f s) = ui_running s" "ui_log (resetForm f s) = ui_log s"
  "ui_open (resetTo f v s) = ui_open s" "ui_held (resetTo f v s) = ui_held s" "ui_form (resetTo f v s) = (ui_form s)(f := v)"
  "ui_base (resetTo f v s) = (ui_base s)(f := v)" "ui_running (resetTo f v s) = ui_running s" "ui_log (resetTo f v s) = ui_log s"
  "ui_open (fill f k v s) = ui_open s" "ui_held (fill f k v s) = ui_held s"
  "ui_form (fill f k v s) = (ui_form s)(f := set_field k v (ui_form s f))"
  "ui_base (fill f k v s) = ui_base s" "ui_running (fill f k v s) = ui_running s" "ui_log (fill f k v s) = ui_log s"
  by (simp_all add: resetForm_def resetTo_def fill_def)

lemma emitted [simp]:
  "ui_open (emit e s) = ui_open s" "ui_held (emit e s) = ui_held s" "ui_form (emit e s) = ui_form s"
  "ui_base (emit e s) = ui_base s" "ui_running (emit e s) = ui_running s" "ui_log (emit e s) = ui_log s @ [e]"
  by (simp_all add: emit_def)

lemma mounted_cells [simp]:
  "ui_open (mounted d) n = False" "ui_held (mounted d) n = JNull" "ui_running (mounted d) = []" "ui_log (mounted d) = []"
  "ui_form (mounted d) f = (case map_of d f of Some v \<Rightarrow> v | None \<Rightarrow> JUndef)"
  "ui_base (mounted d) f = (case map_of d f of Some v \<Rightarrow> v | None \<Rightarrow> JUndef)"
  by (simp_all add: mounted_def Let_def)

section \<open>Mutations\<close>

text \<open>What a failed call throws: a parsed error body, or an error object with its message and possibly a detail.\<close>

datatype failure = Body jv | Raised "string option" string

fun error_object :: "string \<Rightarrow> api_error \<Rightarrow> failure" where
  "error_object runtime UnauthorizedError = Raised None ''Unauthorized''"
| "error_object runtime (SubscriptionPastDueError d) = Raised (Some d) ''Subscription past due -- payment required''"
| "error_object runtime (SubscriptionSuspendedError d) = Raised (Some d) ''Subscription suspended or cancelled''"
| "error_object runtime (ServerError st rid m) = Raised None m"
| "error_object runtime RuntimeError = Raised None runtime"

fun apiErrorMessage :: "failure \<Rightarrow> string \<Rightarrow> string" where
  "apiErrorMessage (Body v) fallback = (case js_prop v ''detail'' of JStr d \<Rightarrow> if d \<noteq> [] then d else fallback | _ \<Rightarrow> fallback)"
| "apiErrorMessage (Raised detail m) fallback =
     (if truthy_str detail then the detail else if m \<noteq> [] then m else fallback)"

text \<open>
  A mutation of \<open>useTypedMutation\<close>: the call its function makes for its variables (none when the
  function throws before), the query keys it invalidates, and its two callbacks.
\<close>

record mutation =
  mu_name :: string
  mu_call :: "jv \<Rightarrow> operation option"
  mu_invalidates :: "jv list list"
  mu_onSuccess :: "jv \<Rightarrow> jv \<Rightarrow> ui \<Rightarrow> ui"
  mu_onError :: "failure \<Rightarrow> ui \<Rightarrow> ui"

definition isPending :: "mutation \<Rightarrow> ui \<Rightarrow> bool" where
  "isPending m s \<longleftrightarrow> mu_name m \<in> set (map fst (ui_running s))"

definition mutate :: "mutation \<Rightarrow> jv \<Rightarrow> ui \<Rightarrow> ui" where
  "mutate m vars s = (case mu_call m vars of None \<Rightarrow> s | Some p \<Rightarrow> emit (Sent (mu_name m) p) s)
     \<lparr>ui_running := ui_running s @ [(mu_name m, vars)]\<rparr>"

definition finish :: "mutation \<Rightarrow> jv \<Rightarrow> ui \<Rightarrow> ui" where
  "finish m vars s = s\<lparr>ui_running := remove1 (mu_name m, vars) (ui_running s)\<rparr>"

definition succeed :: "mutation \<Rightarrow> jv \<Rightarrow> jv \<Rightarrow> ui \<Rightarrow> ui" where
  "succeed m vars data s = finish m vars (mu_onSuccess m data vars (seq (map (\<lambda>k. emit (Invalidated k)) (mu_invalidates m)) s))"

definition fail :: "mutation \<Rightarrow> jv \<Rightarrow> failure \<Rightarrow> ui \<Rightarrow> ui" where
  "fail m vars e s = finish m vars (mu_onError m e s)"

lemma mutation_cells [simp]:
  "ui_open (mutate m vars s) = ui_open s" "ui_held (mutate m vars s) = ui_held s" "ui_form (mutate m vars s) = ui_form s"
  "ui_base (mutate m vars s) = ui_base s" "ui_running (mutate m vars s) = ui_running s @ [(mu_name m, vars)]"
  "ui_open (finish m vars s) = ui_open s" "ui_held (finish m vars s) = ui_held s" "ui_form (finish m vars s) = ui_form s"
  "ui_base (finish m vars s) = ui_base s" "ui_running (finish m vars s) = remove1 (mu_name m, vars) (ui_running s)"
  "ui_log (finish m vars s) = ui_log s"
  by (cases "mu_call m vars"; simp add: mutate_def finish_def)+

lemma invalidated [simp]:
  "ui_open (seq (map (\<lambda>k. emit (Invalidated k)) ks) s) = ui_open s" "ui_held (seq (map (\<lambda>k. emit (Invalidated k)) ks) s) = ui_held s"
  "ui_form (seq (map (\<lambda>k. emit (Invalidated k)) ks) s) = ui_form s" "ui_base (seq (map (\<lambda>k. emit (Invalidated k)) ks) s) = ui_base s"
  "ui_running (seq (map (\<lambda>k. emit (Invalidated k)) ks) s) = ui_running s"
  "ui_log (seq (map (\<lambda>k. emit (Invalidated k)) ks) s) = ui_log s @ map Invalidated ks"
  by (induction ks arbitrary: s) simp_all

text \<open>The error callback that nearly all components have.\<close>

definition error_toast :: "string \<Rightarrow> failure \<Rightarrow> ui \<Rightarrow> ui" where
  "error_toast title e = emit (Toast_error title (apiErrorMessage e ''Please try again.''))"

section \<open>Controls\<close>

datatype control =
    Press "ui \<Rightarrow> ui"
  | Fill string "string list"
  | Submit string zschema "jv \<Rightarrow> ui \<Rightarrow> ui"
  | Visit string

definition shown :: "bool \<Rightarrow> control list \<Rightarrow> control list" where
  "shown b cs = (if b then cs else [])"

text \<open>\<open>ConfirmDialog\<close>: the confirm and cancel buttons are disabled while busy, Escape and the backdrop are not.\<close>

definition ConfirmDialog :: "bool \<Rightarrow> (bool \<Rightarrow> ui \<Rightarrow> ui) \<Rightarrow> bool \<Rightarrow> (ui \<Rightarrow> ui) \<Rightarrow> control list" where
  "ConfirmDialog opened onOpenChange busy onConfirm =
     shown opened (Press (onOpenChange False) # shown (\<not> busy) [Press (onOpenChange False), Press onConfirm])"

definition MakerCheckerConfirmDialog :: "bool \<Rightarrow> (bool \<Rightarrow> ui \<Rightarrow> ui) \<Rightarrow> bool \<Rightarrow> (ui \<Rightarrow> ui) \<Rightarrow> control list" where
  "MakerCheckerConfirmDialog = ConfirmDialog"

text \<open>\<open>FormDialog\<close>, with the names of the fields it renders and its footer: a submit button, enabled or not, beside one that dismisses.\<close>

definition FormDialog :: "bool \<Rightarrow> (ui \<Rightarrow> ui) \<Rightarrow> string \<Rightarrow> zschema \<Rightarrow> string list \<Rightarrow> bool \<Rightarrow> (jv \<Rightarrow> ui \<Rightarrow> ui) \<Rightarrow> control list" where
  "FormDialog opened onDismiss form schema ks disabled onSubmit =
     shown opened (Press onDismiss # Fill form ks # shown (\<not> disabled) [Submit form schema onSubmit])"

section \<open>Runs\<close>

record 'p screen =
  sc_start :: "'p \<Rightarrow> ui"
  sc_mutations :: "'p \<Rightarrow> mutation list"
  sc_view :: "'p \<Rightarrow> ui \<Rightarrow> control list"

text \<open>\<open>keep\<close> says which props a later render of the same component may have.\<close>

inductive ui_step :: "(zschema \<Rightarrow> jv \<Rightarrow> jv option) \<Rightarrow> 'p screen \<Rightarrow> ('p \<Rightarrow> 'p \<Rightarrow> bool) \<Rightarrow> 'p \<times> ui \<Rightarrow> 'p \<times> ui \<Rightarrow> bool"
  for parse S keep where
  press: "Press h \<in> set (sc_view S p s) \<Longrightarrow> ui_step parse S keep (p, s) (p, h s)"
| fill: "Fill f ks \<in> set (sc_view S p s) \<Longrightarrow> k \<in> set ks \<Longrightarrow> ui_step parse S keep (p, s) (p, fill f k v s)"
| submit: "Submit f z h \<in> set (sc_view S p s) \<Longrightarrow> parse z (ui_form s f) = Some w \<Longrightarrow> ui_step parse S keep (p, s) (p, h w s)"
| succeed: "m \<in> set (sc_mutations S p) \<Longrightarrow> (mu_name m, vars) \<in> set (ui_running s) \<Longrightarrow> mu_call m vars \<noteq> None \<Longrightarrow>
    ui_step parse S keep (p, s) (p, succeed m vars data s)"
| fail: "m \<in> set (sc_mutations S p) \<Longrightarrow> (mu_name m, vars) \<in> set (ui_running s) \<Longrightarrow> ui_step parse S keep (p, s) (p, fail m vars e s)"
| rerender: "keep p q \<Longrightarrow> ui_step parse S keep (p, s) (q, s)"

definition ui_run :: "(zschema \<Rightarrow> jv \<Rightarrow> jv option) \<Rightarrow> 'p screen \<Rightarrow> ('p \<Rightarrow> 'p \<Rightarrow> bool) \<Rightarrow> 'p \<Rightarrow> 'p \<times> ui \<Rightarrow> bool" where
  "ui_run parse S keep p c \<longleftrightarrow> (ui_step parse S keep)\<^sup>*\<^sup>* (p, sc_start S p) c"

lemma ui_runE [consumes 1, case_names start step]:
  assumes "ui_run parse S keep p c" "P (p, sc_start S p)"
    "\<And>c d. ui_run parse S keep p c \<Longrightarrow> ui_step parse S keep c d \<Longrightarrow> P c \<Longrightarrow> P d"
  shows "P c"
  using assms unfolding ui_run_def by (induction rule: rtranclp_induct) auto

lemma run_start: "ui_run parse S keep p (p, sc_start S p)"
  by (simp add: ui_run_def)

lemma run_step: "ui_run parse S keep p c \<Longrightarrow> ui_step parse S keep c d \<Longrightarrow> ui_run parse S keep p d"
  by (simp add: ui_run_def)

lemmas run_press = run_step [OF _ ui_step.press]
lemmas run_fill = run_step [OF _ ui_step.fill]
lemmas run_submit = run_step [OF _ ui_step.submit]
lemmas run_succeed = run_step [OF _ ui_step.succeed]

text \<open>The requests of a component so far, in order.\<close>

fun sent_ops :: "effect \<Rightarrow> operation list" where
  "sent_ops (Sent m p) = [p]"
| "sent_ops _ = []"

definition requests :: "ui \<Rightarrow> operation list" where
  "requests s = concat (map sent_ops (ui_log s))"

lemma requests_emit [simp]: "requests (emit e s) = requests s @ sent_ops e"
  by (simp add: requests_def emit_def)

lemma requests_unchanged [simp]:
  "requests (setOpen n b s) = requests s" "requests (setHeld n v s) = requests s"
  "requests (resetForm f s) = requests s" "requests (resetTo f v s) = requests s"
  "requests (fill f k v s) = requests s" "requests (finish m vars s) = requests s"
  by (simp_all add: requests_def setOpen_def setHeld_def resetForm_def resetTo_def fill_def finish_def)

lemma requests_mutate [simp]: "requests (mutate m vars s) = requests s @ (case mu_call m vars of None \<Rightarrow> [] | Some p \<Rightarrow> [p])"
  by (cases "mu_call m vars")
    (simp_all add: mutate_def requests_def emit_def)

lemma requests_invalidated [simp]: "requests (seq (map (\<lambda>k. emit (Invalidated k)) ks) s) = requests s"
  by (induction ks arbitrary: s) simp_all

lemma requests_mounted [simp]: "requests (mounted d) = []"
  by (simp add: requests_def mounted_def Let_def)


section \<open>Invariants of a component\<close>

text \<open>
  What a component has to show once for everything that holds in all of its runs: the fresh component
  satisfies the invariant, and no handler, answer or re-render breaks it.
\<close>

locale screen_invariant =
  fixes parse :: "zschema \<Rightarrow> jv \<Rightarrow> jv option"
    and S :: "'p screen"
    and keep :: "'p \<Rightarrow> 'p \<Rightarrow> bool"
    and I :: "'p \<Rightarrow> ui \<Rightarrow> bool"
  assumes fresh: "I p (sc_start S p)"
    and on_press: "I p s \<Longrightarrow> Press h \<in> set (sc_view S p s) \<Longrightarrow> I p (h s)"
    and on_fill: "I p s \<Longrightarrow> Fill f ks \<in> set (sc_view S p s) \<Longrightarrow> k \<in> set ks \<Longrightarrow> I p (fill f k v s)"
    and on_submit: "I p s \<Longrightarrow> Submit f z g \<in> set (sc_view S p s) \<Longrightarrow> parse z (ui_form s f) = Some w \<Longrightarrow> I p (g w s)"
    and on_success: "I p s \<Longrightarrow> m \<in> set (sc_mutations S p) \<Longrightarrow> (mu_name m, vars) \<in> set (ui_running s) \<Longrightarrow> I p (succeed m vars data s)"
    and on_failure: "I p s \<Longrightarrow> m \<in> set (sc_mutations S p) \<Longrightarrow> (mu_name m, vars) \<in> set (ui_running s) \<Longrightarrow> I p (fail m vars e s)"
    and on_rerender: "I p s \<Longrightarrow> keep p q \<Longrightarrow> I q s"
begin

lemma step_keeps: "ui_step parse S keep c d \<Longrightarrow> I (fst c) (snd c) \<Longrightarrow> I (fst d) (snd d)"
  by (induction rule: ui_step.induct) (auto intro: on_press on_fill on_submit on_success on_failure on_rerender)

lemma run_keeps: "ui_run parse S keep p0 (p, s) \<Longrightarrow> I p s"
  using ui_runE [of parse S keep p0 "(p, s)" "\<lambda>c. I (fst c) (snd c)"] fresh step_keeps by simp

end

text \<open>No mutation of a component has two requests in flight.\<close>

definition single_flight :: "ui \<Rightarrow> bool" where
  "single_flight s \<longleftrightarrow> distinct (map fst (ui_running s))"

lemma flight_mutate [simp]: "single_flight (mutate m vars s) \<longleftrightarrow> single_flight s \<and> \<not> isPending m s"
  by (auto simp: single_flight_def isPending_def)

lemma flight_same [simp]:
  "single_flight (setOpen n b s) = single_flight s" "single_flight (setHeld n v s) = single_flight s"
  "single_flight (resetForm f s) = single_flight s" "single_flight (resetTo f v s) = single_flight s"
  "single_flight (fill f k v s) = single_flight s" "single_flight (emit e s) = single_flight s"
  "single_flight (seq (map (\<lambda>k. emit (Invalidated k)) ks) s) = single_flight s" "single_flight (mounted d)"
  by (simp_all add: single_flight_def)

lemma distinct_remove1_map: "distinct (map f xs) \<Longrightarrow> distinct (map f (remove1 x xs))"
  by (induction xs) (auto dest: in_set_remove1 [THEN iffD1, rotated] set_remove1_subset [THEN subsetD])

lemma flight_finish [simp]: "single_flight s \<Longrightarrow> single_flight (finish m vars s)"
  by (simp add: single_flight_def distinct_remove1_map)

lemma error_toast_simps [simp]:
  "ui_open (error_toast t e s) = ui_open s" "ui_held (error_toast t e s) = ui_held s" "ui_form (error_toast t e s) = ui_form s"
  "ui_base (error_toast t e s) = ui_base s" "ui_running (error_toast t e s) = ui_running s"
  "requests (error_toast t e s) = requests s" "single_flight (error_toast t e s) = single_flight s"
  by (simp_all add: error_toast_def)

text \<open>The usual shape of a mutation: a toast and some statements on success, an error toast otherwise.\<close>

definition plain_mutation :: "string \<Rightarrow> (jv \<Rightarrow> operation) \<Rightarrow> jv list list \<Rightarrow> string \<Rightarrow> (ui \<Rightarrow> ui) list \<Rightarrow> string \<Rightarrow> mutation" where
  "plain_mutation name call stale title hs problem =
     \<lparr>mu_name = name, mu_call = (\<lambda>vars. Some (call vars)), mu_invalidates = stale,
      mu_onSuccess = (\<lambda>data vars. seq (emit (Toast_success title) # hs)), mu_onError = error_toast problem\<rparr>"

lemma plain_mutation_simps [simp]:
  "mu_name (plain_mutation name call stale title hs problem) = name"
  "mu_call (plain_mutation name call stale title hs problem) vars = Some (call vars)"
  "mu_invalidates (plain_mutation name call stale title hs problem) = stale"
  "mu_onSuccess (plain_mutation name call stale title hs problem) data vars = seq (emit (Toast_success title) # hs)"
  "mu_onError (plain_mutation name call stale title hs problem) = error_toast problem"
  by (simp_all add: plain_mutation_def)

lemmas dialog_defs = shown_def ConfirmDialog_def MakerCheckerConfirmDialog_def FormDialog_def

lemmas settle_defs = succeed_def fail_def

end
