(* ===== verification/Flows.thy ===== *)
theory Flows
  imports Screens
begin

text \<open>
  Nearly every acting component of the portal is put together from the same parts: a button that opens
  a form dialog (or a form that is the page), optionally a maker-checker confirmation after the form, one
  mutation, a toast and a refresh or navigation. A \<open>flow\<close> describes one such sequence, a component is
  its flows, the conditions under which its buttons are offered and the links beside them. Props are
  split into what identifies the record and the session (\<open>'i\<close>, fixed while the component is mounted)
  and what a refresh may change (\<open>'d\<close>); the renders of a run are kept, the latest first. The theorem of
  the locale holds for every component: each request was asked for through a button that was on offer in
  some render, carries values that the form's schema accepted, and leaves the fields the form does not
  render as the defaults had them; and no mutation is sent twice at a time.
\<close>

datatype reset = Leave | Reset | Reset_to jv | Reset_current

fun apply_reset :: "reset \<Rightarrow> string \<Rightarrow> ui \<Rightarrow> ui" where
  "apply_reset Leave f s = s"
| "apply_reset Reset f s = resetForm f s"
| "apply_reset (Reset_to v) f s = resetTo f v s"
| "apply_reset Reset_current f s = resetTo f (ui_form s f) s"

record form =
  fo_schema :: zschema
  fo_rendered :: "string list"
  fo_defaults :: jv

text \<open>
  \<open>fl_opener\<close> is what the opening button does to the form (none for a form that is the page, which
  \<open>fl_leave\<close> leaves); \<open>fl_check\<close> says which accepted values go through the confirmation, \<open>fl_forget\<close>
  whether closing it drops them; \<open>fl_guarded\<close> whether the submit button is disabled while a request runs.
\<close>

record flow =
  fl_name :: string
  fl_form :: "form option"
  fl_opener :: "reset option"
  fl_leave :: "effect list"
  fl_check :: "jv \<Rightarrow> bool"
  fl_forget :: bool
  fl_guarded :: bool
  fl_call :: "jv \<Rightarrow> operation option"
  fl_stale :: "jv list list"
  fl_toast :: "jv \<Rightarrow> jv \<Rightarrow> string"
  fl_after :: reset
  fl_done :: "jv \<Rightarrow> effect list"
  fl_problem :: string

abbreviation open_flag :: "flow \<Rightarrow> string" where
  "open_flag f \<equiv> ''open '' @ fl_name f"

abbreviation confirm_flag :: "flow \<Rightarrow> string" where
  "confirm_flag f \<equiv> ''confirm '' @ fl_name f"

definition flow_mutation :: "flow \<Rightarrow> mutation" where
  "flow_mutation f = \<lparr>mu_name = fl_name f, mu_call = fl_call f, mu_invalidates = fl_stale f,
     mu_onSuccess = (\<lambda>data vars. seq ([emit (Toast_success (fl_toast f data vars)), setOpen (confirm_flag f) False,
        setOpen (open_flag f) False, setHeld (fl_name f) JNull, apply_reset (fl_after f) (fl_name f)] @ map emit (fl_done f data))),
     mu_onError = error_toast (fl_problem f)\<rparr>"

definition flow_opened :: "flow \<Rightarrow> ui \<Rightarrow> bool" where
  "flow_opened f s \<longleftrightarrow> fl_opener f = None \<or> ui_open s (open_flag f)"

definition flow_dismiss :: "flow \<Rightarrow> ui \<Rightarrow> ui" where
  "flow_dismiss f = (if fl_opener f = None then seq (map emit (fl_leave f)) else setOpen (open_flag f) False)"

definition flow_submit :: "flow \<Rightarrow> jv \<Rightarrow> ui \<Rightarrow> ui" where
  "flow_submit f w = (if fl_check f w
     then seq [setHeld (fl_name f) w, setOpen (open_flag f) False, setOpen (confirm_flag f) True]
     else mutate (flow_mutation f) w)"

definition flow_confirm_change :: "flow \<Rightarrow> bool \<Rightarrow> ui \<Rightarrow> ui" where
  "flow_confirm_change f b = (if \<not> b \<and> fl_forget f then seq [setOpen (confirm_flag f) b, setHeld (fl_name f) JNull]
     else setOpen (confirm_flag f) b)"

definition flow_confirm :: "flow \<Rightarrow> ui \<Rightarrow> ui" where
  "flow_confirm f s = (if js_truthy (ui_held s (fl_name f)) then mutate (flow_mutation f) (ui_held s (fl_name f)) s else s)"

definition flow_open :: "flow \<Rightarrow> reset \<Rightarrow> ui \<Rightarrow> ui" where
  "flow_open f r s = setOpen (open_flag f) True (apply_reset r (fl_name f) s)"

definition flow_button :: "flow \<Rightarrow> control list" where
  "flow_button f = (case fl_opener f of None \<Rightarrow> [] | Some r \<Rightarrow> [Press (flow_open f r)])"

definition flow_dialogs :: "flow \<Rightarrow> ui \<Rightarrow> control list" where
  "flow_dialogs f s = (case fl_form f of
     None \<Rightarrow> ConfirmDialog (ui_open s (open_flag f)) (setOpen (open_flag f)) (isPending (flow_mutation f) s)
       (mutate (flow_mutation f) JUndef)
   | Some fo \<Rightarrow> FormDialog (flow_opened f s) (flow_dismiss f) (fl_name f) (fo_schema fo) (fo_rendered fo)
         (fl_guarded f \<and> isPending (flow_mutation f) s) (flow_submit f) @
       MakerCheckerConfirmDialog (ui_open s (confirm_flag f)) (flow_confirm_change f) (isPending (flow_mutation f) s) (flow_confirm f))"

record ('i, 'd) component =
  cp_flows :: "'i \<Rightarrow> flow list"
  cp_visible :: "'i \<Rightarrow> 'd \<Rightarrow> bool"
  cp_gate :: "'i \<Rightarrow> 'd \<Rightarrow> string \<Rightarrow> bool"
  cp_links :: "'i \<Rightarrow> 'd \<Rightarrow> string list"

definition component_view :: "('i, 'd) component \<Rightarrow> 'i \<times> 'd list \<Rightarrow> ui \<Rightarrow> control list" where
  "component_view C p s = (case p of (i, d # ds) \<Rightarrow>
       if cp_visible C i d
       then map Visit (cp_links C i d) @ concat (map flow_button (filter (\<lambda>f. cp_gate C i d (fl_name f)) (cp_flows C i))) @
         concat (map (\<lambda>f. flow_dialogs f s) (cp_flows C i))
       else []
     | (i, []) \<Rightarrow> [])"

definition component_screen :: "('i, 'd) component \<Rightarrow> ('i \<times> 'd list) screen" where
  "component_screen C =
     \<lparr>sc_start = (\<lambda>(i, ds). mounted (concat (map (\<lambda>f. case fl_form f of None \<Rightarrow> [] | Some fo \<Rightarrow> [(fl_name f, fo_defaults fo)]) (cp_flows C i)))),
      sc_mutations = (\<lambda>(i, ds). map flow_mutation (cp_flows C i)),
      sc_view = component_view C\<rparr>"

definition rendered_again :: "'i \<times> 'd list \<Rightarrow> 'i \<times> 'd list \<Rightarrow> bool" where
  "rendered_again p q \<longleftrightarrow> (\<exists>d. q = (fst p, d # snd p))"

section \<open>What justifies a request\<close>

definition untouched :: "string list \<Rightarrow> jv \<Rightarrow> jv \<Rightarrow> bool" where
  "untouched ks a b \<longleftrightarrow> (\<forall>k. k \<notin> set ks \<longrightarrow> js_prop b k = js_prop a k)"

definition accepted :: "(zschema \<Rightarrow> jv \<Rightarrow> jv option) \<Rightarrow> flow \<Rightarrow> jv \<Rightarrow> bool" where
  "accepted parse f w \<longleftrightarrow> (case fl_form f of None \<Rightarrow> w = JUndef
     | Some fo \<Rightarrow> \<exists>v. untouched (fo_rendered fo) (fo_defaults fo) v \<and> parse (fo_schema fo) v = Some w)"

definition offered :: "('i, 'd) component \<Rightarrow> 'i \<Rightarrow> 'd list \<Rightarrow> flow \<Rightarrow> bool" where
  "offered C i ds f \<longleftrightarrow> fl_opener f = None \<or> (\<exists>d\<in>set ds. cp_visible C i d \<and> cp_gate C i d (fl_name f))"

definition justified :: "(zschema \<Rightarrow> jv \<Rightarrow> jv option) \<Rightarrow> ('i, 'd) component \<Rightarrow> 'i \<Rightarrow> 'd list \<Rightarrow> operation \<Rightarrow> bool" where
  "justified parse C i ds x \<longleftrightarrow> (\<exists>f\<in>set (cp_flows C i). offered C i ds f \<and> (\<exists>w. accepted parse f w \<and> fl_call f w = Some x))"

definition flow_inv :: "(zschema \<Rightarrow> jv \<Rightarrow> jv option) \<Rightarrow> ('i, 'd) component \<Rightarrow> 'i \<Rightarrow> 'd list \<Rightarrow> ui \<Rightarrow> flow \<Rightarrow> bool" where
  "flow_inv parse C i ds s f \<longleftrightarrow>
     (case fl_form f of None \<Rightarrow> True | Some fo \<Rightarrow> untouched (fo_rendered fo) (fo_defaults fo) (ui_form s (fl_name f)) \<and>
        untouched (fo_rendered fo) (fo_defaults fo) (ui_base s (fl_name f))) \<and>
     (ui_held s (fl_name f) = JNull \<or> accepted parse f (ui_held s (fl_name f)) \<and> fl_form f \<noteq> None \<and> offered C i ds f) \<and>
     (ui_open s (open_flag f) \<longrightarrow> offered C i ds f)"

definition component_inv :: "(zschema \<Rightarrow> jv \<Rightarrow> jv option) \<Rightarrow> ('i, 'd) component \<Rightarrow> 'i \<times> 'd list \<Rightarrow> ui \<Rightarrow> bool" where
  "component_inv parse C p s \<longleftrightarrow> (case p of (i, ds) \<Rightarrow>
     (\<forall>f\<in>set (cp_flows C i). flow_inv parse C i ds s f) \<and> list_all (justified parse C i ds) (requests s) \<and> single_flight s)"

definition reset_fits :: "form \<Rightarrow> reset \<Rightarrow> bool" where
  "reset_fits fo r \<longleftrightarrow> (case r of Reset_to v \<Rightarrow> untouched (fo_rendered fo) (fo_defaults fo) v | _ \<Rightarrow> True)"

definition flow_ok :: "flow \<Rightarrow> bool" where
  "flow_ok f \<longleftrightarrow> (case fl_form f of None \<Rightarrow> fl_opener f \<noteq> None \<and> fl_after f = Leave
     | Some fo \<Rightarrow> (fl_guarded f \<or> fl_check f = (\<lambda>_. True)) \<and> reset_fits fo (fl_after f) \<and>
         (case fl_opener f of None \<Rightarrow> True | Some r \<Rightarrow> reset_fits fo r))"

definition quiet :: "effect \<Rightarrow> bool" where
  "quiet e \<longleftrightarrow> sent_ops e = []"

lemma untouched_refl [simp]: "untouched ks a a"
  by (simp add: untouched_def)

lemma map_of_put: "map_of (put_prop k v fs) = (map_of fs)(k \<mapsto> v)"
  by (induction fs) auto

lemma prop_set_field: "js_prop (set_field k v w) j = (if j = k then v else js_prop w j)"
  by (cases w) (simp_all add: set_field_def map_of_put)

lemma untouched_fill: "untouched ks a b \<Longrightarrow> k \<in> set ks \<Longrightarrow> untouched ks a (set_field k v b)"
  by (auto simp: untouched_def prop_set_field)

lemma seq_append [simp]: "seq (hs @ gs) s = seq gs (seq hs s)"
  by (simp add: seq_def)

lemma emits [simp]:
  "ui_open (seq (map emit es) s) = ui_open s" "ui_held (seq (map emit es) s) = ui_held s" "ui_form (seq (map emit es) s) = ui_form s"
  "ui_base (seq (map emit es) s) = ui_base s" "ui_running (seq (map emit es) s) = ui_running s"
  "requests (seq (map emit es) s) = requests s @ concat (map sent_ops es)" "single_flight (seq (map emit es) s) = single_flight s"
  by (induction es arbitrary: s) simp_all

lemma resets [simp]:
  "ui_open (apply_reset r f s) = ui_open s" "ui_held (apply_reset r f s) = ui_held s" "ui_running (apply_reset r f s) = ui_running s"
  "requests (apply_reset r f s) = requests s" "single_flight (apply_reset r f s) = single_flight s"
  "g \<noteq> f \<Longrightarrow> ui_form (apply_reset r f s) g = ui_form s g" "g \<noteq> f \<Longrightarrow> ui_base (apply_reset r f s) g = ui_base s g"
  by (cases r; simp)+

lemma reset_form_fits:
  assumes "reset_fits fo r" "untouched (fo_rendered fo) (fo_defaults fo) (ui_form s f)" "untouched (fo_rendered fo) (fo_defaults fo) (ui_base s f)"
  shows "untouched (fo_rendered fo) (fo_defaults fo) (ui_form (apply_reset r f s) f)"
    "untouched (fo_rendered fo) (fo_defaults fo) (ui_base (apply_reset r f s) f)"
  using assms by (cases r; simp add: reset_fits_def)+

section \<open>Every component\<close>

text \<open>The cells of all flows but the one of the given name.\<close>

definition others_same :: "string \<Rightarrow> ui \<Rightarrow> ui \<Rightarrow> bool" where
  "others_same n s t \<longleftrightarrow> (\<forall>m. m \<noteq> n \<longrightarrow> ui_form t m = ui_form s m \<and> ui_base t m = ui_base s m \<and> ui_held t m = ui_held s m \<and>
     ui_open t (''open '' @ m) = ui_open s (''open '' @ m))"

lemma flow_inv_other: "others_same n s t \<Longrightarrow> fl_name f \<noteq> n \<Longrightarrow> flow_inv parse C i ds s f \<Longrightarrow> flow_inv parse C i ds t f"
  by (simp add: others_same_def flow_inv_def cong: option.case_cong)

locale flow_component =
  fixes parse :: "zschema \<Rightarrow> jv \<Rightarrow> jv option"
    and C :: "('i, 'd) component"
  assumes names: "distinct (map fl_name (cp_flows C i))"
    and flows: "f \<in> set (cp_flows C i) \<Longrightarrow> flow_ok f"
    and silent: "f \<in> set (cp_flows C i) \<Longrightarrow> list_all quiet (fl_done f data @ fl_leave f)"
begin

lemma inv_step:
  assumes "component_inv parse C (i, ds) s" "f \<in> set (cp_flows C i)" "others_same (fl_name f) s t"
    "flow_inv parse C i ds s f \<Longrightarrow> flow_inv parse C i ds t f"
    "requests t = requests s @ xs" "list_all (justified parse C i ds) xs" "single_flight t"
  shows "component_inv parse C (i, ds) t"
proof -
  have "flow_inv parse C i ds t g" if "g \<in> set (cp_flows C i)" for g
  proof (cases "g = f")
    case False
    then have "fl_name g \<noteq> fl_name f" using names [of i] assms(2) that by (auto simp: distinct_map dest: inj_onD)
    then show ?thesis using flow_inv_other [OF assms(3), of g parse C i ds] assms(1) that by (simp add: component_inv_def)
  qed (use assms in \<open>simp add: component_inv_def\<close>)
  then show ?thesis using assms by (simp add: component_inv_def)
qed

lemma on_button:
  assumes "component_inv parse C (i, d # ds) s" "f \<in> set (cp_flows C i)" "cp_visible C i d" "cp_gate C i d (fl_name f)"
    "Press h \<in> set (flow_button f)"
  shows "component_inv parse C (i, d # ds) (h s)"
proof -
  obtain r where r: "fl_opener f = Some r" "h s = setOpen (open_flag f) True (apply_reset r (fl_name f) s)"
    using assms(5) by (cases "fl_opener f") (auto simp: flow_button_def flow_open_def)
  show ?thesis
  proof (rule inv_step [OF assms(1,2), where xs = "[]"])
    assume "flow_inv parse C i (d # ds) s f"
    then show "flow_inv parse C i (d # ds) (h s) f" using r assms(3,4) flows [OF assms(2)]
      by (auto simp: flow_inv_def offered_def flow_ok_def split: option.splits intro: reset_form_fits)
  qed (use assms r in \<open>simp_all add: others_same_def component_inv_def\<close>)
qed

lemma silent_sends: "f \<in> set (cp_flows C i) \<Longrightarrow> concat (map sent_ops (fl_done f data)) = []" "f \<in> set (cp_flows C i) \<Longrightarrow> concat (map sent_ops (fl_leave f)) = []"
  using silent [of f i data] by (auto simp: list_all_iff quiet_def)

lemma on_mutate:
  assumes "component_inv parse C (i, ds) s" "f \<in> set (cp_flows C i)" "offered C i ds f" "accepted parse f w" "\<not> isPending (flow_mutation f) s"
  shows "component_inv parse C (i, ds) (mutate (flow_mutation f) w s)"
proof (rule inv_step [OF assms(1,2), where xs = "case fl_call f w of None \<Rightarrow> [] | Some x \<Rightarrow> [x]"])
  show "list_all (justified parse C i ds) (case fl_call f w of None \<Rightarrow> [] | Some x \<Rightarrow> [x])"
    using assms(2-4) by (auto simp: justified_def split: option.split)
  show "requests (mutate (flow_mutation f) w s) = requests s @ (case fl_call f w of None \<Rightarrow> [] | Some x \<Rightarrow> [x])"
    by (simp add: flow_mutation_def)
qed (use assms in \<open>simp_all add: others_same_def component_inv_def flow_inv_def split: option.splits\<close>)

lemma on_dialog:
  assumes "component_inv parse C (i, ds) s" "f \<in> set (cp_flows C i)" "Press h \<in> set (flow_dialogs f s)"
  shows "component_inv parse C (i, ds) (h s)"
proof -
  have f: "flow_inv parse C i ds s f" "single_flight s" using assms(1,2) by (simp_all add: component_inv_def)
  consider (form) "fl_opener f = None" "h s = seq (map emit (fl_leave f)) s" | (close) "h s = setOpen (open_flag f) False s"
    | (change) "h s = flow_confirm_change f False s" | (confirm) "h s = flow_confirm f s" "fl_form f \<noteq> None" "\<not> isPending (flow_mutation f) s"
    | (direct) "h s = mutate (flow_mutation f) JUndef s" "fl_form f = None" "ui_open s (open_flag f)" "\<not> isPending (flow_mutation f) s"
    using assms(3) by (auto simp: flow_dialogs_def dialog_defs flow_dismiss_def split: option.splits if_splits)
  then show ?thesis
  proof cases
    case form
    then show ?thesis using silent_sends(2) [OF assms(2)] f
      by (intro inv_step [OF assms(1,2), where xs = "[]"]) (simp_all add: others_same_def flow_inv_def split: option.splits)
  next
    case close
    then show ?thesis using f by (intro inv_step [OF assms(1,2), where xs = "[]"]) (simp_all add: others_same_def flow_inv_def split: option.splits)
  next
    case change
    then show ?thesis using f
      by (intro inv_step [OF assms(1,2), where xs = "[]"]) (simp_all add: others_same_def flow_inv_def flow_confirm_change_def split: option.splits)
  next
    case confirm
    then show ?thesis using f assms(1) on_mutate [OF assms(1,2)] by (auto simp: flow_confirm_def flow_inv_def)
  next
    case direct
    then show ?thesis using f on_mutate [OF assms(1,2), of JUndef] by (auto simp: accepted_def flow_inv_def)
  qed
qed

lemma on_accept:
  assumes "component_inv parse C (i, ds) s" "f \<in> set (cp_flows C i)" "Submit n z h \<in> set (flow_dialogs f s)" "parse z (ui_form s n) = Some w"
  shows "component_inv parse C (i, ds) (h w s)"
proof -
  have f: "flow_inv parse C i ds s f" "single_flight s" using assms(1,2) by (simp_all add: component_inv_def)
  obtain fo where fo: "fl_form f = Some fo" "n = fl_name f" "z = fo_schema fo" "h w s = flow_submit f w s" "flow_opened f s"
      "\<not> fl_guarded f \<or> \<not> isPending (flow_mutation f) s"
    using assms(3) by (auto simp: flow_dialogs_def dialog_defs split: option.splits if_splits)
  have w: "accepted parse f w" "offered C i ds f" using f assms(4) fo by (auto simp: accepted_def flow_inv_def flow_opened_def offered_def)
  show ?thesis
  proof (cases "fl_check f w")
    case True
    then show ?thesis using f fo w
      by (intro inv_step [OF assms(1,2), where xs = "[]"]) (simp_all add: others_same_def flow_inv_def flow_submit_def split: option.splits)
  next
    case False
    then have "\<not> isPending (flow_mutation f) s" using fo(1,6) flows [OF assms(2)] by (auto simp: flow_ok_def)
    then show ?thesis using on_mutate [OF assms(1,2) w(2,1)] False fo(4) by (simp add: flow_submit_def)
  qed
qed

lemma on_settled:
  assumes "component_inv parse C (i, ds) s" "f \<in> set (cp_flows C i)"
  shows "component_inv parse C (i, ds) (succeed (flow_mutation f) vars data s)" "component_inv parse C (i, ds) (fail (flow_mutation f) vars e s)"
proof -
  have f: "single_flight s" using assms(1) by (simp add: component_inv_def)
  show "component_inv parse C (i, ds) (succeed (flow_mutation f) vars data s)"
  proof (rule inv_step [OF assms, where xs = "[]"])
    assume "flow_inv parse C i ds s f"
    then show "flow_inv parse C i ds (succeed (flow_mutation f) vars data s) f" using flows [OF assms(2)]
      by (auto simp: flow_inv_def flow_mutation_def settle_defs flow_ok_def split: option.splits intro: reset_form_fits)
  qed (use f silent_sends(1) [OF assms(2), of data] in \<open>simp_all add: others_same_def flow_mutation_def settle_defs\<close>)
  show "component_inv parse C (i, ds) (fail (flow_mutation f) vars e s)"
    by (rule inv_step [OF assms, where xs = "[]"]) (use f in \<open>simp_all add: others_same_def flow_mutation_def settle_defs flow_inv_def split: option.splits\<close>)
qed

lemma fill_rendered:
  assumes "component_inv parse C (i, ds) s" "f \<in> set (cp_flows C i)" "Fill n ks \<in> set (flow_dialogs f s)" "k \<in> set ks"
  shows "component_inv parse C (i, ds) (fill n k v s)"
proof -
  obtain fo where fo: "fl_form f = Some fo" "n = fl_name f" "ks = fo_rendered fo"
    using assms(3) by (auto simp: flow_dialogs_def dialog_defs split: option.splits if_splits)
  show ?thesis
  proof (rule inv_step [OF assms(1,2), where xs = "[]"])
    assume "flow_inv parse C i ds s f"
    then show "flow_inv parse C i ds (fill n k v s) f" using fo assms(4) by (simp add: flow_inv_def untouched_fill)
  qed (use assms(1) fo in \<open>simp_all add: others_same_def component_inv_def\<close>)
qed

lemma start_inv: "component_inv parse C p (sc_start (component_screen C) p)"
proof -
  obtain i ds where p: "p = (i, ds)" by (cases p)
  let ?ps = "concat (map (\<lambda>f. case fl_form f of None \<Rightarrow> [] | Some fo \<Rightarrow> [(fl_name f, fo_defaults fo)]) (cp_flows C i))"
  have d: "map_of ?ps (fl_name f) = Some (fo_defaults fo)" if "f \<in> set (cp_flows C i)" "fl_form f = Some fo" for f fo
  proof (rule map_of_is_SomeI)
    have "distinct (map fst (concat (map (\<lambda>f. case fl_form f of None \<Rightarrow> [] | Some fo \<Rightarrow> [(fl_name f, fo_defaults fo)]) fs)))"
      if "distinct (map fl_name fs)" for fs using that by (induction fs) (auto split: option.splits)
    then show "distinct (map fst ?ps)" using names by blast
    show "(fl_name f, fo_defaults fo) \<in> set ?ps" using that by force
  qed
  have "flow_inv parse C i ds (mounted ?ps) f" if "f \<in> set (cp_flows C i)" for f
    using d [OF that] by (simp add: flow_inv_def split: option.splits)
  then show ?thesis by (simp add: p component_inv_def component_screen_def)
qed

lemma rerender_inv: "component_inv parse C p s \<Longrightarrow> rendered_again p q \<Longrightarrow> component_inv parse C q s"
proof -
  assume inv: "component_inv parse C p s" and "rendered_again p q"
  then obtain i ds d where p: "p = (i, ds)" "q = (i, d # ds)" by (cases p) (auto simp: rendered_again_def)
  have more: "offered C i ds f \<Longrightarrow> offered C i (d # ds) f" for f by (auto simp: offered_def)
  then have "flow_inv parse C i ds s f \<Longrightarrow> flow_inv parse C i (d # ds) s f" for f by (auto simp: flow_inv_def)
  moreover have "justified parse C i ds x \<Longrightarrow> justified parse C i (d # ds) x" for x using more by (auto simp: justified_def)
  ultimately show "component_inv parse C q s" using inv by (auto simp: component_inv_def p elim: list.pred_mono_strong)
qed

end

lemma view_control:
  assumes "c \<in> set (sc_view (component_screen C) p s)"
  obtains (link) u where "c = Visit u"
  | (button) i d ds f where "p = (i, d # ds)" "f \<in> set (cp_flows C i)" "cp_visible C i d" "cp_gate C i d (fl_name f)" "c \<in> set (flow_button f)"
  | (dialog) i ds f where "p = (i, ds)" "f \<in> set (cp_flows C i)" "c \<in> set (flow_dialogs f s)"
  using assms by (cases p; cases "snd p") (auto simp: component_screen_def component_view_def split: if_splits)

lemma button_press: "c \<in> set (flow_button f) \<Longrightarrow> \<exists>h. c = Press h"
  by (auto simp: flow_button_def split: option.splits)

sublocale flow_component < screen_invariant parse "component_screen C" rendered_again "component_inv parse C"
proof
  show "component_inv parse C p (sc_start (component_screen C) p)" for p by (rule start_inv)
  show "component_inv parse C p s \<Longrightarrow> rendered_again p q \<Longrightarrow> component_inv parse C q s" for p q s by (rule rerender_inv)
  show "component_inv parse C p (h s)" if "component_inv parse C p s" "Press h \<in> set (sc_view (component_screen C) p s)" for p s h
    using that(2) by (cases rule: view_control) (use that(1) on_button on_dialog in auto)
  show "component_inv parse C p (fill f k v s)"
    if "component_inv parse C p s" "Fill f ks \<in> set (sc_view (component_screen C) p s)" "k \<in> set ks" for p s f ks k v
    using that(2) by (cases rule: view_control) (use that(1,3) fill_rendered button_press in blast)+
  show "component_inv parse C p (h w s)"
    if "component_inv parse C p s" "Submit f z h \<in> set (sc_view (component_screen C) p s)" "parse z (ui_form s f) = Some w" for p s f z h w
    using that(2) by (cases rule: view_control) (use that(1,3) on_accept button_press in blast)+
  show "component_inv parse C p (succeed m vars data s)" "component_inv parse C p (fail m vars e s)"
    if "component_inv parse C p s" "m \<in> set (sc_mutations (component_screen C) p)" for p s m vars data e
    using that on_settled by (cases p; auto simp: component_screen_def)+
qed

context flow_component
begin

lemma requests_justified:
  assumes "ui_run parse (component_screen C) rendered_again (i, [d]) ((j, ds), s)"
  shows "list_all (justified parse C j ds) (requests s)" "single_flight s"
  using run_keeps [OF assms] by (simp_all add: component_inv_def)

end

text \<open>
  A step that sends anything sends one request, from a dialog that is open and a mutation that is not
  running; values that need the confirmation come from the confirmation that shows them.
\<close>

definition from_dialog :: "flow \<Rightarrow> jv \<Rightarrow> ui \<Rightarrow> bool" where
  "from_dialog f w s \<longleftrightarrow> \<not> isPending (flow_mutation f) s \<and> (fl_form f = None \<longrightarrow> ui_open s (open_flag f)) \<and>
     (fl_form f \<noteq> None \<and> fl_check f w \<longrightarrow> ui_open s (confirm_flag f) \<and> ui_held s (fl_name f) = w)"

definition sends_from_dialog :: "('i, 'd) component \<Rightarrow> 'i \<Rightarrow> ui \<Rightarrow> ui \<Rightarrow> bool" where
  "sends_from_dialog C i s t \<longleftrightarrow> requests t = requests s \<or>
     (\<exists>f\<in>set (cp_flows C i). \<exists>w x. from_dialog f w s \<and> fl_call f w = Some x \<and> requests t = requests s @ [x])"

lemma sends_mutate:
  assumes "f \<in> set (cp_flows C i)" "from_dialog f w s"
  shows "sends_from_dialog C i s (mutate (flow_mutation f) w s)"
proof (cases "fl_call f w")
  case None
  then show ?thesis by (simp add: sends_from_dialog_def flow_mutation_def)
next
  case (Some x)
  then have "requests (mutate (flow_mutation f) w s) = requests s @ [x]" by (simp add: flow_mutation_def)
  then show ?thesis using assms Some unfolding sends_from_dialog_def by blast
qed

context flow_component
begin

lemma dialog_sends:
  assumes "f \<in> set (cp_flows C i)"
  shows "Press h \<in> set (flow_dialogs f s) \<Longrightarrow> sends_from_dialog C i s (h s)"
    "Submit n z k \<in> set (flow_dialogs f s) \<Longrightarrow> sends_from_dialog C i s (k w s)"
proof -
  have same: "requests t = requests s \<Longrightarrow> sends_from_dialog C i s t" for t by (simp add: sends_from_dialog_def)
  assume "Press h \<in> set (flow_dialogs f s)"
  then consider (quiet) "requests (h s) = requests s" | (confirm) "h s = flow_confirm f s" "fl_form f \<noteq> None" "ui_open s (confirm_flag f)" "\<not> isPending (flow_mutation f) s"
    | (direct) "h s = mutate (flow_mutation f) JUndef s" "fl_form f = None" "ui_open s (open_flag f)" "\<not> isPending (flow_mutation f) s"
    using silent_sends(2) [OF assms]
    by (auto simp: flow_dialogs_def dialog_defs flow_dismiss_def flow_confirm_change_def split: option.splits if_splits)
  then show "sends_from_dialog C i s (h s)"
    by cases (auto simp: flow_confirm_def from_dialog_def intro: same sends_mutate [OF assms])
next
  assume "Submit n z k \<in> set (flow_dialogs f s)"
  then have k: "k w s = flow_submit f w s" "fl_form f \<noteq> None" "\<not> fl_guarded f \<or> \<not> isPending (flow_mutation f) s"
    by (auto simp: flow_dialogs_def dialog_defs split: option.splits if_splits)
  show "sends_from_dialog C i s (k w s)"
  proof (cases "fl_check f w")
    case True
    then show ?thesis using k by (simp add: sends_from_dialog_def flow_submit_def)
  next
    case False
    then have "from_dialog f w s" using k flows [OF assms] by (auto simp: flow_ok_def from_dialog_def split: option.splits)
    then show ?thesis using False k(1) sends_mutate [OF assms] by (simp add: flow_submit_def)
  qed
qed

lemma step_sends:
  assumes "ui_step parse (component_screen C) rendered_again ((i, ds), s) (q, t)"
  shows "sends_from_dialog C i s t"
  using assms
proof cases
  case (press h)
  from press(3) show ?thesis
  proof (cases rule: view_control)
    case (button j d es f)
    then show ?thesis using press by (auto simp: flow_button_def flow_open_def sends_from_dialog_def split: option.splits)
  next
    case (dialog j es f)
    then show ?thesis using press dialog_sends(1) by blast
  qed simp
next
  case (submit f z h w)
  from submit(3) show ?thesis
  proof (cases rule: view_control)
    case (dialog j es f)
    then show ?thesis using submit dialog_sends(2) by blast
  qed (use button_press in auto)
next
  case (succeed m vars data)
  then obtain f where f: "f \<in> set (cp_flows C i)" "m = flow_mutation f" by (auto simp: component_screen_def)
  then show ?thesis using succeed silent_sends(1) [OF f(1), of data] by (simp add: sends_from_dialog_def flow_mutation_def settle_defs)
next
  case (fail m vars e)
  then show ?thesis by (auto simp: component_screen_def sends_from_dialog_def flow_mutation_def settle_defs)
qed (simp_all add: sends_from_dialog_def)

end

text \<open>The requests that \<open>mc\<close> selects are sent only by an open maker-checker confirmation that shows their values.\<close>

definition confirms :: "(zschema \<Rightarrow> jv \<Rightarrow> jv option) \<Rightarrow> ('i, 'd) component \<Rightarrow> ('i \<Rightarrow> operation \<Rightarrow> bool) \<Rightarrow> bool" where
  "confirms parse C mc \<longleftrightarrow> (\<forall>i ds s q t x. ui_step parse (component_screen C) rendered_again ((i, ds), s) (q, t) \<longrightarrow>
     requests t = requests s @ [x] \<longrightarrow> mc i x \<longrightarrow>
     (\<exists>f\<in>set (cp_flows C i). ui_open s (confirm_flag f) \<and> fl_call f (ui_held s (fl_name f)) = Some x))"

context flow_component
begin

lemma confirmsI:
  assumes "\<And>i f w x. f \<in> set (cp_flows C i) \<Longrightarrow> fl_call f w = Some x \<Longrightarrow> mc i x \<Longrightarrow> fl_form f \<noteq> None \<and> fl_check f w"
  shows "confirms parse C mc"
  unfolding confirms_def
proof (intro allI impI)
  fix i ds s q t x
  assume "ui_step parse (component_screen C) rendered_again ((i, ds), s) (q, t)" "requests t = requests s @ [x]" "mc i x"
  with step_sends [of i ds s q t] obtain f w where f: "f \<in> set (cp_flows C i)" "from_dialog f w s" "fl_call f w = Some x"
    unfolding sends_from_dialog_def by auto
  then have "fl_form f \<noteq> None \<and> fl_check f w" using assms \<open>mc i x\<close> by blast
  then show "\<exists>f\<in>set (cp_flows C i). ui_open s (confirm_flag f) \<and> fl_call f (ui_held s (fl_name f)) = Some x"
    using f by (intro bexI [of _ f]) (auto simp: from_dialog_def)
qed

end

text \<open>The identifying props never change in a run.\<close>

lemma run_same_record:
  assumes "ui_run parse (component_screen C) rendered_again (i, [d]) c"
  shows "fst (fst c) = i"
  using assms
proof (induction rule: ui_runE)
  case (step c d)
  from step(2,3) show ?case by cases (auto simp: rendered_again_def)
qed simp


section \<open>The shapes in use\<close>

text \<open>A button that opens a form whose submission sends the request.\<close>

definition dialog_flow :: "string \<Rightarrow> form \<Rightarrow> reset \<Rightarrow> (jv \<Rightarrow> operation option) \<Rightarrow> jv list list \<Rightarrow> (jv \<Rightarrow> jv \<Rightarrow> string) \<Rightarrow> reset \<Rightarrow> (jv \<Rightarrow> effect list) \<Rightarrow> string \<Rightarrow> flow" where
  "dialog_flow n fo opener call stale title after end_with problem =
     \<lparr>fl_name = n, fl_form = Some fo, fl_opener = Some opener, fl_leave = [], fl_check = (\<lambda>_. False), fl_forget = False, fl_guarded = True,
      fl_call = call, fl_stale = stale, fl_toast = title, fl_after = after, fl_done = end_with, fl_problem = problem\<rparr>"

text \<open>A button that opens a form whose accepted values go through the maker-checker confirmation.\<close>

definition checked_flow :: "string \<Rightarrow> form \<Rightarrow> reset \<Rightarrow> bool \<Rightarrow> (jv \<Rightarrow> operation option) \<Rightarrow> jv list list \<Rightarrow> string \<Rightarrow> reset \<Rightarrow> effect list \<Rightarrow> string \<Rightarrow> flow" where
  "checked_flow n fo opener forget call stale title after end_with problem =
     \<lparr>fl_name = n, fl_form = Some fo, fl_opener = Some opener, fl_leave = [], fl_check = (\<lambda>_. True), fl_forget = forget, fl_guarded = False,
      fl_call = call, fl_stale = stale, fl_toast = (\<lambda>_ _. title), fl_after = after, fl_done = (\<lambda>_. end_with), fl_problem = problem\<rparr>"

text \<open>A button that only asks for confirmation.\<close>

definition confirm_flow :: "string \<Rightarrow> operation \<Rightarrow> jv list list \<Rightarrow> string \<Rightarrow> (jv \<Rightarrow> effect list) \<Rightarrow> string \<Rightarrow> flow" where
  "confirm_flow n x stale title end_with problem =
     \<lparr>fl_name = n, fl_form = None, fl_opener = Some Leave, fl_leave = [], fl_check = (\<lambda>_. False), fl_forget = False, fl_guarded = True,
      fl_call = (\<lambda>_. Some x), fl_stale = stale, fl_toast = (\<lambda>_ _. title), fl_after = Leave, fl_done = end_with, fl_problem = problem\<rparr>"

text \<open>A form that is the page; some of its values may go through the confirmation.\<close>

definition page_flow :: "string \<Rightarrow> form \<Rightarrow> effect list \<Rightarrow> (jv \<Rightarrow> bool) \<Rightarrow> (jv \<Rightarrow> operation option) \<Rightarrow> jv list list \<Rightarrow> (jv \<Rightarrow> jv \<Rightarrow> string) \<Rightarrow> (jv \<Rightarrow> effect list) \<Rightarrow> string \<Rightarrow> flow" where
  "page_flow n fo leave check call stale title end_with problem =
     \<lparr>fl_name = n, fl_form = Some fo, fl_opener = None, fl_leave = leave, fl_check = check, fl_forget = False, fl_guarded = True,
      fl_call = call, fl_stale = stale, fl_toast = title, fl_after = Leave, fl_done = end_with, fl_problem = problem\<rparr>"

lemmas flow_shapes = dialog_flow_def checked_flow_def confirm_flow_def page_flow_def

lemmas flow_checks = flow_shapes flow_ok_def reset_fits_def quiet_def

text \<open>A component without conditions.\<close>

definition always :: "('i \<Rightarrow> flow list) \<Rightarrow> ('i, unit) component" where
  "always fs = \<lparr>cp_flows = fs, cp_visible = (\<lambda>_ _. True), cp_gate = (\<lambda>_ _ _. True), cp_links = (\<lambda>_ _. [])\<rparr>"

lemma always_simps [simp]:
  "cp_flows (always fs) = fs" "cp_visible (always fs) i d" "cp_gate (always fs) i d n" "cp_links (always fs) i d = []"
  by (simp_all add: always_def)

text \<open>The text of a field of an answer, as a template string puts it into a path.\<close>

abbreviation id_of :: "jv \<Rightarrow> string" where
  "id_of data \<equiv> js_str (js_prop data ''id'')"

text \<open>\<open>if (!body[k]) delete body[k]\<close> for some keys of a copy of the values.\<close>

definition drop_blank :: "string list \<Rightarrow> jv \<Rightarrow> jv" where
  "drop_blank ks v = (case v of JObj fs \<Rightarrow> JObj (filter (\<lambda>(k, x). \<not> (k \<in> set ks \<and> \<not> js_truthy x)) fs) | _ \<Rightarrow> v)"


section \<open>Driving a component\<close>

text \<open>What a user does with one flow, as functions on the state, for runs that exist.\<close>

lemma press_button:
  assumes "ui_run parse (component_screen C) rendered_again p ((i, d # ds), s)" "f \<in> set (cp_flows C i)"
    "cp_visible C i d" "cp_gate C i d (fl_name f)" "fl_opener f = Some r"
  shows "ui_run parse (component_screen C) rendered_again p ((i, d # ds), flow_open f r s)"
proof -
  have "Press (flow_open f r) \<in> set (flow_button f)" using assms(5) by (simp add: flow_button_def)
  then have "Press (flow_open f r) \<in> set (sc_view (component_screen C) (i, d # ds) s)"
    using assms(2-4) by (auto simp: component_screen_def component_view_def)
  from run_press [OF assms(1) this] show ?thesis .
qed

lemma dialog_in_view:
  assumes "f \<in> set (cp_flows C i)" "cp_visible C i d" "x \<in> set (flow_dialogs f s)"
  shows "x \<in> set (sc_view (component_screen C) (i, d # ds) s)"
  using assms by (auto simp: component_screen_def component_view_def)

lemma fill_field:
  assumes "ui_run parse (component_screen C) rendered_again p ((i, d # ds), s)" "f \<in> set (cp_flows C i)"
    "cp_visible C i d" "fl_form f = Some fo" "flow_opened f s" "k \<in> set (fo_rendered fo)"
  shows "ui_run parse (component_screen C) rendered_again p ((i, d # ds), fill (fl_name f) k v s)"
  using assms by (intro run_fill [OF assms(1) dialog_in_view [OF assms(2,3)]]) (auto simp: flow_dialogs_def dialog_defs)

lemma submit_form:
  assumes "ui_run parse (component_screen C) rendered_again p ((i, d # ds), s)" "f \<in> set (cp_flows C i)"
    "cp_visible C i d" "fl_form f = Some fo" "flow_opened f s" "\<not> isPending (flow_mutation f) s"
    "parse (fo_schema fo) (ui_form s (fl_name f)) = Some w"
  shows "ui_run parse (component_screen C) rendered_again p ((i, d # ds), flow_submit f w s)"
  using assms by (intro run_submit [OF assms(1) dialog_in_view [OF assms(2,3)]]) (auto simp: flow_dialogs_def dialog_defs)

lemma confirm_held:
  assumes "ui_run parse (component_screen C) rendered_again p ((i, d # ds), s)" "f \<in> set (cp_flows C i)"
    "cp_visible C i d" "fl_form f = Some fo" "ui_open s (confirm_flag f)" "\<not> isPending (flow_mutation f) s"
  shows "ui_run parse (component_screen C) rendered_again p ((i, d # ds), flow_confirm f s)"
  using assms by (intro run_press [OF assms(1) dialog_in_view [OF assms(2,3)]]) (auto simp: flow_dialogs_def dialog_defs)

lemma confirm_direct:
  assumes "ui_run parse (component_screen C) rendered_again p ((i, d # ds), s)" "f \<in> set (cp_flows C i)"
    "cp_visible C i d" "fl_form f = None" "ui_open s (open_flag f)" "\<not> isPending (flow_mutation f) s"
  shows "ui_run parse (component_screen C) rendered_again p ((i, d # ds), mutate (flow_mutation f) JUndef s)"
  using assms by (intro run_press [OF assms(1) dialog_in_view [OF assms(2,3)]]) (auto simp: flow_dialogs_def dialog_defs)

lemma answer:
  assumes "ui_run parse (component_screen C) rendered_again p ((i, ds), s)" "f \<in> set (cp_flows C i)"
    "(fl_name f, vars) \<in> set (ui_running s)" "fl_call f vars \<noteq> None"
  shows "ui_run parse (component_screen C) rendered_again p ((i, ds), succeed (flow_mutation f) vars data s)"
  by (rule run_succeed [OF assms(1)]) (use assms(2-4) in \<open>auto simp: component_screen_def flow_mutation_def\<close>)


lemma filled [simp]:
  "ui_open (fold (\<lambda>(k, v). fill n k v) kvs s) = ui_open s" "ui_running (fold (\<lambda>(k, v). fill n k v) kvs s) = ui_running s"
  "requests (fold (\<lambda>(k, v). fill n k v) kvs s) = requests s" "ui_log (fold (\<lambda>(k, v). fill n k v) kvs s) = ui_log s"
  "ui_form (fold (\<lambda>(k, v). fill n k v) kvs s) n = fold (\<lambda>(k, v). set_field k v) kvs (ui_form s n)"
  by (induction kvs arbitrary: s) auto

lemma fill_fields:
  assumes "f \<in> set (cp_flows C i)" "cp_visible C i d" "fl_form f = Some fo"
  shows "ui_run parse (component_screen C) rendered_again p ((i, d # ds), s) \<Longrightarrow> flow_opened f s \<Longrightarrow>
    set (map fst kvs) \<subseteq> set (fo_rendered fo) \<Longrightarrow>
    ui_run parse (component_screen C) rendered_again p ((i, d # ds), fold (\<lambda>(k, v). fill (fl_name f) k v) kvs s)"
proof (induction kvs arbitrary: s)
  case (Cons kv kvs)
  obtain k v where kv: "kv = (k, v)" by (cases kv)
  have "ui_run parse (component_screen C) rendered_again p ((i, d # ds), fill (fl_name f) k v s)"
    using Cons.prems by (intro fill_field [OF _ assms]) (simp_all add: kv)
  from Cons.IH [OF this] Cons.prems show ?case by (simp add: kv flow_opened_def)
qed simp

text \<open>Opening a form, filling it and submitting it.\<close>

definition enter :: "flow \<Rightarrow> reset \<Rightarrow> (string \<times> jv) list \<Rightarrow> jv \<Rightarrow> ui \<Rightarrow> ui" where
  "enter f r kvs w s = flow_submit f w (fold (\<lambda>(k, v). fill (fl_name f) k v) kvs (flow_open f r s))"

lemma enter_form:
  assumes "ui_run parse (component_screen C) rendered_again p ((i, d # ds), s)" "f \<in> set (cp_flows C i)" "cp_visible C i d"
    "cp_gate C i d (fl_name f)" "fl_opener f = Some r" "fl_form f = Some fo" "ui_running s = []" "set (map fst kvs) \<subseteq> set (fo_rendered fo)"
    "parse (fo_schema fo) (fold (\<lambda>(k, v). set_field k v) kvs (ui_form (apply_reset r (fl_name f) s) (fl_name f))) = Some w"
  shows "ui_run parse (component_screen C) rendered_again p ((i, d # ds), enter f r kvs w s)"
proof -
  have o: "flow_opened f (flow_open f r s)" "ui_running (flow_open f r s) = []"
    using assms(7) by (simp_all add: flow_opened_def flow_open_def)
  note run = fill_fields [OF assms(2,3,6) press_button [OF assms(1-5)] o(1) assms(8)]
  show ?thesis unfolding enter_def
    by (rule submit_form [OF run assms(2,3,6)]) (use o assms(9) in \<open>simp_all add: flow_opened_def isPending_def flow_open_def\<close>)
qed

end
