(* ===== verification/Approval_Actions.thy ===== *)
theory Approval_Actions
  imports Flows
begin

text \<open>
  The maker-checker buttons of an approval request, of the platform
  (\<open>app/platform/(authed)/approvals/[id]/_components/ApprovalActions.tsx\<close>) and of a tenant
  (\<open>app/(tenant-authed)/approvals/[id]/_components/ApprovalActions.tsx\<close>): approving and rejecting with a
  form, withdrawing with a confirmation. A refresh may change the status, the only dynamic property.
\<close>

record approval_props =
  ap_requestId :: string
  ap_requestedBy :: string
  ap_currentUserId :: string
  ap_canApprove :: bool

definition isOwnRequest :: "approval_props \<Rightarrow> bool" where
  "isOwnRequest p \<longleftrightarrow> ap_currentUserId p = ap_requestedBy p"

definition approveForm :: form where
  "approveForm = \<lparr>fo_schema = approveActionSchema, fo_rendered = [''comment''], fo_defaults = JObj [(''comment'', JStr [])]\<rparr>"

definition rejectForm :: form where
  "rejectForm = \<lparr>fo_schema = rejectActionSchema, fo_rendered = [''reason''], fo_defaults = JObj [(''reason'', JStr [])]\<rparr>"

definition platform_approval_flows :: "approval_props \<Rightarrow> flow list" where
  "platform_approval_flows p = (let i = ap_requestId p;
       invalidates = [approvalsKeys (K_approvals_platform None), approvalsKeys (K_approvals_detail i)] in
     [dialog_flow ''approve'' approveForm Reset (\<lambda>vars. Some (Op_makerChecker (MakerChecker_approvePlatform i vars))) invalidates
        (\<lambda>_ _. ''Request approved'') Reset (\<lambda>_. [Refreshed]) ''The request was not approved'',
      dialog_flow ''reject'' rejectForm Reset (\<lambda>vars. Some (Op_makerChecker (MakerChecker_rejectPlatform i vars))) invalidates
        (\<lambda>_ _. ''Request rejected'') Reset (\<lambda>_. [Refreshed]) ''The request was not rejected'',
      confirm_flow ''cancel'' (Op_makerChecker (MakerChecker_cancelPlatform i (JObj []))) invalidates
        ''Request cancelled'' (\<lambda>_. [Refreshed]) ''The request was not cancelled''])"

definition platform_ApprovalActions :: "(approval_props, string) component" where
  "platform_ApprovalActions =
     \<lparr>cp_flows = platform_approval_flows,
      cp_visible = (\<lambda>p status. status = ''pending''),
      cp_gate = (\<lambda>p status n. if isOwnRequest p then n = ''cancel'' else ap_canApprove p \<and> n \<in> {''approve'', ''reject''}),
      cp_links = (\<lambda>_ _. [])\<rparr>"

definition tenant_approval_flows :: "approval_props \<Rightarrow> flow list" where
  "tenant_approval_flows p = (let i = ap_requestId p;
       invalidates = [approvalsKeys (K_approvals_tenant None), approvalsKeys (K_approvals_detail i)] in
     [dialog_flow ''approve'' approveForm Reset (\<lambda>vars. Some (Op_makerChecker (MakerChecker_approveTenant i vars))) invalidates
        (\<lambda>_ _. ''Request approved'') Reset (\<lambda>_. [Refreshed]) ''The request was not approved'',
      dialog_flow ''reject'' rejectForm Reset (\<lambda>vars. Some (Op_makerChecker (MakerChecker_rejectTenant i vars))) invalidates
        (\<lambda>_ _. ''Request rejected'') Reset (\<lambda>_. [Refreshed]) ''The request was not rejected'',
      confirm_flow ''cancel'' (Op_makerChecker (MakerChecker_cancelTenant i (JObj []))) invalidates
        ''Request cancelled'' (\<lambda>_. [Refreshed]) ''The request was not cancelled''])"

definition tenant_ApprovalActions :: "(approval_props, string) component" where
  "tenant_ApprovalActions =
     \<lparr>cp_flows = tenant_approval_flows,
      cp_visible = (\<lambda>p status. status = ''pending''),
      cp_gate = (\<lambda>p status n. if isOwnRequest p then n = ''cancel'' else n \<in> {''approve'', ''reject''}),
      cp_links = (\<lambda>_ _. [])\<rparr>"

lemmas approval_defs = platform_ApprovalActions_def tenant_ApprovalActions_def platform_approval_flows_def tenant_approval_flows_def
  approveForm_def rejectForm_def Let_def

interpretation platform_approvals: flow_component parse platform_ApprovalActions for parse
  by unfold_locales (auto simp: approval_defs flow_checks)

interpretation tenant_approvals: flow_component parse tenant_ApprovalActions for parse
  by unfold_locales (auto simp: approval_defs flow_checks)

section \<open>Four eyes\<close>

text \<open>A reason of at least ten characters.\<close>

definition reasoned :: "jv \<Rightarrow> bool" where
  "reasoned b \<longleftrightarrow> (case js_prop b ''reason'' of JStr r \<Rightarrow> 10 \<le> length r | _ \<Rightarrow> False)"

lemma reject_reasoned: "zod fmt parse \<Longrightarrow> parse rejectActionSchema v = Some w \<Longrightarrow> reasoned w"
  using zod.parse_zref [of fmt parse rejectActionSchema v]
  by (auto simp: rejectActionSchema_def reasoned_def out_field_def split: jv.splits if_splits)

text \<open>The decisions a user may send: approvals and reasoned rejections of another user's request, the withdrawal of the own one.\<close>

fun decision_ok :: "bool \<Rightarrow> approval_props \<Rightarrow> operation \<Rightarrow> bool" where
  "decision_ok may p (Op_makerChecker (MakerChecker_approvePlatform i b)) \<longleftrightarrow> i = ap_requestId p \<and> \<not> isOwnRequest p \<and> may"
| "decision_ok may p (Op_makerChecker (MakerChecker_rejectPlatform i b)) \<longleftrightarrow> i = ap_requestId p \<and> \<not> isOwnRequest p \<and> may \<and> reasoned b"
| "decision_ok may p (Op_makerChecker (MakerChecker_cancelPlatform i b)) \<longleftrightarrow> i = ap_requestId p \<and> isOwnRequest p \<and> b = JObj []"
| "decision_ok may p (Op_makerChecker (MakerChecker_approveTenant i b)) \<longleftrightarrow> i = ap_requestId p \<and> \<not> isOwnRequest p \<and> may"
| "decision_ok may p (Op_makerChecker (MakerChecker_rejectTenant i b)) \<longleftrightarrow> i = ap_requestId p \<and> \<not> isOwnRequest p \<and> may \<and> reasoned b"
| "decision_ok may p (Op_makerChecker (MakerChecker_cancelTenant i b)) \<longleftrightarrow> i = ap_requestId p \<and> isOwnRequest p \<and> b = JObj []"
| "decision_ok may p _ \<longleftrightarrow> False"

lemma platform_decision:
  "zod fmt parse \<Longrightarrow> justified parse platform_ApprovalActions p ds x \<Longrightarrow> decision_ok (ap_canApprove p) p x"
  by (auto simp: justified_def offered_def accepted_def approval_defs flow_shapes dest: reject_reasoned split: if_splits)

lemma tenant_decision: "zod fmt parse \<Longrightarrow> justified parse tenant_ApprovalActions p ds x \<Longrightarrow> decision_ok True p x"
  by (auto simp: justified_def offered_def accepted_def approval_defs flow_shapes dest: reject_reasoned split: if_splits)

text \<open>
  C5. Four eyes: whatever the user does and however answers and refreshes interleave, an approval page
  decides only about the request it shows. Approvals and rejections come only from a user who did not
  submit it (on the platform with the permission), rejections always with a reason of at least ten
  characters, and only the submitter withdraws it. No button sends a second request while its
  first is under way, and a request that is no longer pending offers no control.
\<close>

theorem approvals_four_eyes:
  assumes "zod fmt parse"
    "ui_run parse (component_screen platform_ApprovalActions) rendered_again (p, [d]) ((p', ds), s)"
    "ui_run parse (component_screen tenant_ApprovalActions) rendered_again (q, [e]) ((q', es), t)"
  shows "list_all (decision_ok (ap_canApprove p) p) (requests s) \<and> list_all (decision_ok True q) (requests t) \<and>
    single_flight s \<and> single_flight t \<and>
    (hd ds \<noteq> ''pending'' \<longrightarrow> sc_view (component_screen platform_ApprovalActions) (p', ds) s = []) \<and>
    (hd es \<noteq> ''pending'' \<longrightarrow> sc_view (component_screen tenant_ApprovalActions) (q', es) t = [])"
proof -
  have "p' = p" "q' = q" using run_same_record [OF assms(2)] run_same_record [OF assms(3)] by simp_all
  then show ?thesis
    using platform_approvals.requests_justified [OF assms(2)] tenant_approvals.requests_justified [OF assms(3)]
      platform_decision [OF assms(1)] tenant_decision [OF assms(1)]
    by (auto simp: list_all_iff component_screen_def component_view_def platform_ApprovalActions_def tenant_ApprovalActions_def split: list.split)
qed


definition demo_approval :: approval_props where
  "demo_approval = \<lparr>ap_requestId = ''r1'', ap_requestedBy = ''maker'', ap_currentUserId = ''checker'', ap_canApprove = True\<rparr>"

definition demo_reason :: jv where
  "demo_reason = JObj [(''reason'', JStr ''Not plausible'')]"

lemma demo_rejection:
  "\<exists>ds s. ui_run (zref demo_formats) (component_screen platform_ApprovalActions) rendered_again (demo_approval, [''pending'']) ((demo_approval, ds), s) \<and>
     requests s = [Op_makerChecker (MakerChecker_rejectPlatform ''r1'' demo_reason)]"
proof -
  let ?C = platform_ApprovalActions
  define f where "f = platform_approval_flows demo_approval ! 1"
  have f: "f \<in> set (cp_flows ?C demo_approval)" "fl_name f = ''reject''" "fl_opener f = Some Reset" "fl_form f = Some rejectForm"
      "fl_check f = (\<lambda>_. False)" "fl_call f = (\<lambda>vars. Some (Op_makerChecker (MakerChecker_rejectPlatform ''r1'' vars)))"
    by (simp_all add: f_def approval_defs flow_shapes demo_approval_def)
  have v: "cp_visible ?C demo_approval ''pending''" "cp_gate ?C demo_approval ''pending'' (fl_name f)"
    by (simp_all add: approval_defs f demo_approval_def isOwnRequest_def)
  define s1 where "s1 = flow_open f Reset (sc_start (component_screen ?C) (demo_approval, [''pending'']))"
  define s2 where "s2 = fill (fl_name f) ''reason'' (JStr ''Not plausible'') s1"
  have s1: "flow_opened f s1" "ui_running s1 = []" "requests s1 = []" "ui_form s1 ''reject'' = JObj [(''reason'', JStr [])]"
    by (simp_all add: s1_def flow_open_def flow_opened_def f(2,3) component_screen_def approval_defs flow_shapes)
  have s2: "flow_opened f s2" "\<not> isPending (flow_mutation f) s2" "requests s2 = []" "ui_form s2 (fl_name f) = demo_reason"
    using s1 by (simp_all add: s2_def flow_opened_def isPending_def f(2) set_field_def demo_reason_def)
  have w: "zref demo_formats (fo_schema rejectForm) (ui_form s2 (fl_name f)) = Some demo_reason"
    by (simp add: s2 rejectForm_def rejectActionSchema_def demo_reason_def out_field_def)
  have "ui_run (zref demo_formats) (component_screen ?C) rendered_again (demo_approval, [''pending'']) ((demo_approval, [''pending'']), s1)"
    unfolding s1_def by (rule press_button [OF run_start f(1) v f(3)])
  then have "ui_run (zref demo_formats) (component_screen ?C) rendered_again (demo_approval, [''pending'']) ((demo_approval, [''pending'']), s2)"
    unfolding s2_def by (rule fill_field [OF _ f(1) v(1) f(4) s1(1)]) (simp add: rejectForm_def)
  from submit_form [OF this f(1) v(1) f(4) s2(1,2) w]
  show ?thesis by (rule_tac x = "[''pending'']" in exI, rule_tac x = "flow_submit f demo_reason s2" in exI)
    (simp add: flow_submit_def f s2(3) flow_mutation_def)
qed

theorem approvals_four_eyes_witness:
  "\<exists>s. requests s = [Op_makerChecker (MakerChecker_rejectPlatform ''r1'' demo_reason)] \<and>
     list_all (decision_ok (ap_canApprove demo_approval) demo_approval) (requests s)"
proof -
  obtain ds s where r: "ui_run (zref demo_formats) (component_screen platform_ApprovalActions) rendered_again (demo_approval, [''pending'']) ((demo_approval, ds), s)"
    "requests s = [Op_makerChecker (MakerChecker_rejectPlatform ''r1'' demo_reason)]"
    using demo_rejection by blast
  show ?thesis using approvals_four_eyes [OF zref.zod_axioms r(1) run_start [of _ _ _ "(demo_approval, [''pending''])"]] r(2) by blast
qed

end
