(* ===== verification/Posting_Actions.thy ===== *)
theory Posting_Actions
  imports Flows
begin

text \<open>
  The components of a tenant's portal that move money or change a record's state: deposits and withdrawals
  (\<open>savings/accounts/[id]\<close>), share purchases and redemptions (\<open>shares/accounts/[id]\<close>), repayments,
  write-offs, restructurings and recoveries of loans, disbursement, loan application decisions, fee
  collections, payroll batches, member status changes and KYC reviews, and the platform's invoice
  payments and voids. Each draws its idempotency keys once when it is mounted (\<open>useState(() => crypto.randomUUID())\<close>),
  so they are props of the model. The options of the selects are not modelled: a select's field can be
  filled with anything, as can every rendered field.
\<close>

section \<open>Savings accounts\<close>

record account_props =
  sa_accountId :: string
  sa_inKey :: string
  sa_outKey :: string

definition transaction_values :: "string \<Rightarrow> jv" where
  "transaction_values key = JObj [(''amount'', JStr []), (''payment_account_id'', JStr []), (''idempotency_key'', JStr key), (''narration'', JStr [])]"

definition savings_flows :: "account_props \<Rightarrow> flow list" where
  "savings_flows p = (let d = transaction_values (sa_inKey p); w = transaction_values (sa_outKey p); ks = [''amount'', ''payment_account_id'', ''narration''] in
     [dialog_flow ''deposit'' \<lparr>fo_schema = depositSchema, fo_rendered = ks, fo_defaults = d\<rparr> (Reset_to d)
        (\<lambda>vars. Some (Op_savings (Savings_deposit (sa_accountId p) vars))) []
        (\<lambda>_ _. ''Deposit posted'') (Reset_to d) (\<lambda>_. [Refreshed]) ''The deposit was not posted'',
      checked_flow ''withdraw'' \<lparr>fo_schema = withdrawSchema, fo_rendered = ks, fo_defaults = w\<rparr> (Reset_to w) True
        (\<lambda>vars. Some (Op_savings (Savings_withdraw (sa_accountId p) vars))) []
        ''Withdrawal requested -- pending approval'' (Reset_to w) [Refreshed] ''The withdrawal was not requested''])"

definition savings_AccountActions :: "(account_props, unit) component" where
  "savings_AccountActions = always savings_flows"

section \<open>Share accounts\<close>

definition shares_flows :: "account_props \<Rightarrow> flow list" where
  "shares_flows p =
     (let b = JObj [(''quantity'', JStr []), (''payment_account_id'', JStr []), (''idempotency_key'', JStr (sa_inKey p))];
          r = JObj [(''quantity'', JStr []), (''payment_account_id'', JStr []), (''reason'', JStr []), (''idempotency_key'', JStr (sa_outKey p))] in
     [dialog_flow ''purchase'' \<lparr>fo_schema = purchaseSharesSchema, fo_rendered = [''quantity'', ''payment_account_id''], fo_defaults = b\<rparr> (Reset_to b)
        (\<lambda>vars. Some (Op_shares (Shares_purchase (sa_accountId p) vars))) []
        (\<lambda>_ _. ''Shares purchased'') (Reset_to b) (\<lambda>_. [Refreshed]) ''The purchase was not posted'',
      checked_flow ''redeem'' \<lparr>fo_schema = redeemSharesSchema, fo_rendered = [''quantity'', ''payment_account_id'', ''reason''], fo_defaults = r\<rparr> (Reset_to r) True
        (\<lambda>vars. Some (Op_shares (Shares_redeem (sa_accountId p) vars))) []
        ''Redemption requested -- pending approval'' (Reset_to r) [Refreshed] ''The redemption was not requested''])"

definition shares_AccountActions :: "(account_props, unit) component" where
  "shares_AccountActions = always shares_flows"

section \<open>Loans\<close>

text \<open>The props of a component with one record and one key.\<close>

record keyed_props =
  kp_id :: string
  kp_key :: string

definition repayment_flow :: "keyed_props \<Rightarrow> flow" where
  "repayment_flow p =
     (let d = JObj [(''amount'', JStr []), (''payment_account_id'', JStr []), (''narration'', JStr []), (''idempotency_key'', JStr (kp_key p))] in
      dialog_flow ''repayment'' \<lparr>fo_schema = loanRepaymentSchema, fo_rendered = [''amount'', ''payment_account_id'', ''narration''], fo_defaults = d\<rparr> Leave
        (\<lambda>vars. Some (Op_credit (Credit_recordRepayment (kp_id p) vars))) []
        (\<lambda>_ _. ''Repayment recorded'') (Reset_to d) (\<lambda>_. [Refreshed]) ''The repayment was not recorded'')"

definition RecordRepaymentButton :: "(keyed_props, unit) component" where
  "RecordRepaymentButton = always (\<lambda>p. [repayment_flow p])"

record workout_props =
  wo_loanId :: string
  wo_writeOffKey :: string
  wo_restructureKey :: string
  wo_recoverKey :: string

definition writeOff_flow :: "workout_props \<Rightarrow> flow" where
  "writeOff_flow p = dialog_flow ''writeOff''
     \<lparr>fo_schema = loanWriteOffSchema, fo_rendered = [''amount'', ''reason'', ''loan_loss_account_code''],
      fo_defaults = JObj [(''amount'', JStr []), (''reason'', JStr []), (''loan_loss_account_code'', JStr []), (''idempotency_key'', JStr (wo_writeOffKey p))]\<rparr> Leave
     (\<lambda>vars. Some (Op_credit (Credit_writeOff (wo_loanId p) (drop_blank [''loan_loss_account_code''] vars)))) []
     (\<lambda>data _. if js_truthy (js_prop data ''direct'') then ''Loan written off'' else ''Write-off requested -- pending approval (2 required)'')
     Leave (\<lambda>_. [Refreshed]) ''The write-off failed''"

definition restructure_flow :: "workout_props \<Rightarrow> flow" where
  "restructure_flow p = dialog_flow ''restructure''
     \<lparr>fo_schema = loanRestructureSchema, fo_rendered = [''restructuring_type'', ''periods_added'', ''reason''],
      fo_defaults = JObj [(''restructuring_type'', JStr ''term_extension''), (''periods_added'', JStr []), (''reason'', JStr []),
        (''idempotency_key'', JStr (wo_restructureKey p))]\<rparr> Leave
     (\<lambda>vars. Some (Op_credit (Credit_restructure (wo_loanId p) vars))) []
     (\<lambda>_ _. ''Restructuring requested -- pending approval (2 required)'') Leave (\<lambda>_. [Refreshed]) ''The restructuring failed''"

definition recover_flow :: "workout_props \<Rightarrow> flow" where
  "recover_flow p = dialog_flow ''recover''
     \<lparr>fo_schema = loanRecoverySchema, fo_rendered = [''amount'', ''reason''],
      fo_defaults = JObj [(''amount'', JStr []), (''reason'', JStr []), (''idempotency_key'', JStr (wo_recoverKey p))]\<rparr> Leave
     (\<lambda>vars. Some (Op_credit (Credit_recover (wo_loanId p) vars))) []
     (\<lambda>_ _. ''Recovery posted'') Leave (\<lambda>_. [Refreshed]) ''The recovery failed''"

definition LoanWorkoutActions :: "(workout_props, string) component" where
  "LoanWorkoutActions =
     \<lparr>cp_flows = (\<lambda>p. [writeOff_flow p, restructure_flow p, recover_flow p]),
      cp_visible = (\<lambda>_ _. True),
      cp_gate = (\<lambda>p status n. if status = ''written_off'' then n = ''recover'' else n \<in> {''writeOff'', ''restructure''}),
      cp_links = (\<lambda>_ _. [])\<rparr>"

definition DisburseButton :: "(keyed_props, unit) component" where
  "DisburseButton = always (\<lambda>p. [confirm_flow ''disburse'' (Op_credit (Credit_disburse (kp_id p) (JObj [(''idempotency_key'', JStr (kp_key p))]))) []
     ''Loan disbursed'' (\<lambda>data. [Pushed (''/credit/loans/'' @ id_of data)]) ''The loan was not disbursed''])"

definition ApplicationActions :: "(string, unit) component" where
  "ApplicationActions = always (\<lambda>applicationId.
     [confirm_flow ''approve'' (Op_credit (Credit_approveApplication applicationId (JObj []))) []
        ''Application approved'' (\<lambda>_. [Refreshed]) ''The application was not approved'',
      dialog_flow ''reject'' \<lparr>fo_schema = loanApplicationRejectSchema, fo_rendered = [''reason''], fo_defaults = JObj [(''reason'', JStr [])]\<rparr> Leave
        (\<lambda>vars. Some (Op_credit (Credit_rejectApplication applicationId vars))) []
        (\<lambda>_ _. ''Application rejected'') (Reset_to (JObj [(''reason'', JStr [])])) (\<lambda>_. [Refreshed]) ''The application was not rejected'',
      confirm_flow ''withdraw'' (Op_credit (Credit_withdrawApplication applicationId (JObj []))) []
        ''Application withdrawn'' (\<lambda>_. [Refreshed]) ''The application was not withdrawn''])"

definition RejectPayrollBatchButton :: "(string, string) component" where
  "RejectPayrollBatchButton =
     \<lparr>cp_flows = (\<lambda>batchId. [confirm_flow ''reject'' (Op_credit (Credit_rejectPayrollBatch batchId (JObj []))) []
        ''Batch rejected'' (\<lambda>_. [Refreshed]) ''The batch was not rejected'']),
      cp_visible = (\<lambda>_ status. status = ''pending_review''), cp_gate = (\<lambda>_ _ _. True), cp_links = (\<lambda>_ _. [])\<rparr>"

section \<open>Fees\<close>

definition TERMINAL :: "string list" where
  "TERMINAL = [''paid'', ''waived'', ''cancelled'']"

definition RecordCollectionButton :: "(keyed_props, string) component" where
  "RecordCollectionButton =
     \<lparr>cp_flows = (\<lambda>p. let d = JObj [(''fee_assessment_id'', JStr (kp_id p)), (''amount'', JStr []), (''method'', JStr ''cash''),
          (''contra_account_id'', JStr []), (''idempotency_key'', JStr (kp_key p))] in
        [dialog_flow ''collection'' \<lparr>fo_schema = feeCollectionSchema, fo_rendered = [''amount'', ''method'', ''contra_account_id''], fo_defaults = d\<rparr> Leave
          (\<lambda>vars. Some (Op_fees (Fees_recordCollection vars))) []
          (\<lambda>_ _. ''Collection recorded'') (Reset_to d) (\<lambda>_. [Refreshed]) ''The collection was not recorded'']),
      cp_visible = (\<lambda>_ status. status \<notin> set TERMINAL), cp_gate = (\<lambda>_ _ _. True), cp_links = (\<lambda>_ _. [])\<rparr>"

section \<open>Members\<close>

definition ChangeMemberStatusButton :: "(keyed_props, unit) component" where
  "ChangeMemberStatusButton = always (\<lambda>p.
     let d = JObj [(''new_status'', JStr ''active''), (''reason'', JStr []), (''idempotency_key'', JStr (kp_key p))] in
     [checked_flow ''status'' \<lparr>fo_schema = memberStatusChangeSchema, fo_rendered = [''new_status'', ''reason''], fo_defaults = d\<rparr> (Reset_to d) True
        (\<lambda>vars. Some (Op_members (Members_changeStatus (kp_id p) vars))) []
        ''Status change requested -- pending approval'' (Reset_to d) [Refreshed] ''The status change was not requested''])"

definition kyc_rejectSchema :: zschema where
  "kyc_rejectSchema = ZObject False [(''reason'', ZString [Trim, MinLen 3])]"

definition KycReviewActions :: "(string, string) component" where
  "KycReviewActions =
     \<lparr>cp_flows = (\<lambda>i. let invalidates = [membersKeys K_members_kycSubmissions, membersKeys (K_members_kycSubmission i), membersKeys K_members_root] in
        [confirm_flow ''approve'' (Op_members (Members_approveKycSubmission i)) invalidates
           ''KYC approved'' (\<lambda>_. [Refreshed]) ''The submission was not approved'',
         dialog_flow ''reject'' \<lparr>fo_schema = kyc_rejectSchema, fo_rendered = [''reason''], fo_defaults = JObj [(''reason'', JStr [])]\<rparr> Leave
           (\<lambda>vars. Some (Op_members (Members_rejectKycSubmission i (JObj [(''reason'', js_prop vars ''reason'')])))) invalidates
           (\<lambda>_ _. ''KYC rejected'') Reset (\<lambda>_. [Refreshed]) ''The submission was not rejected'']),
      cp_visible = (\<lambda>_ status. status = ''pending''), cp_gate = (\<lambda>_ _ _. True), cp_links = (\<lambda>_ _. [])\<rparr>"

section \<open>Invoices\<close>

record invoice_props =
  in_id :: string
  in_currency :: string
  in_canRecord :: bool
  in_canVoid :: bool
  in_key :: string

record invoice_state =
  in_status :: string
  in_amountPaid :: string

definition payable :: "invoice_state \<Rightarrow> bool" where
  "payable d \<longleftrightarrow> in_status d \<in> {''issued'', ''partial'', ''overdue''}"

definition voidable :: "invoice_state \<Rightarrow> bool" where
  "voidable d \<longleftrightarrow> toNumber (in_amountPaid d) = Fin 0 \<and> in_status d \<noteq> ''void'' \<and> in_status d \<noteq> ''paid''"

definition pay_flow :: "invoice_props \<Rightarrow> flow" where
  "pay_flow p = checked_flow ''pay''
     \<lparr>fo_schema = recordPaymentSchema, fo_rendered = [''amount'', ''payment_method'', ''external_reference'', ''notes''],
      fo_defaults = JObj [(''amount'', JStr []), (''currency'', JStr (in_currency p)), (''payment_method'', JStr ''bank_transfer''),
        (''external_reference'', JStr []), (''notes'', JStr []), (''idempotency_key'', JStr (in_key p))]\<rparr> Reset_current True
     (\<lambda>vars. Some (Op_billing (Billing_recordPayment (in_id p) vars)))
     [billingKeys (K_billing_invoices None), billingKeys (K_billing_invoice (in_id p))]
     ''Payment recorded'' Reset [Refreshed] ''The payment was not recorded''"

definition void_flow :: "invoice_props \<Rightarrow> flow" where
  "void_flow p = checked_flow ''void''
     \<lparr>fo_schema = invoiceVoidSchema, fo_rendered = [''reason''], fo_defaults = JObj [(''reason'', JStr [])]\<rparr> Reset True
     (\<lambda>vars. Some (Op_billing (Billing_voidInvoice (in_id p) vars)))
     [billingKeys (K_billing_invoices None), billingKeys (K_billing_invoice (in_id p))]
     ''Void requested'' Reset [Refreshed] ''The void was not requested''"

definition InvoiceActions :: "(invoice_props, invoice_state) component" where
  "InvoiceActions =
     \<lparr>cp_flows = (\<lambda>p. [pay_flow p, void_flow p]),
      cp_visible = (\<lambda>_ _. True),
      cp_gate = (\<lambda>p d n. if n = ''pay'' then in_canRecord p \<and> payable d else in_canVoid p \<and> voidable d),
      cp_links = (\<lambda>p _. [''/api/billing/invoices/'' @ in_id p @ ''/pdf''])\<rparr>"

lemmas posting_component_defs = savings_AccountActions_def savings_flows_def transaction_values_def shares_AccountActions_def shares_flows_def
  RecordRepaymentButton_def repayment_flow_def LoanWorkoutActions_def writeOff_flow_def restructure_flow_def recover_flow_def
  DisburseButton_def ApplicationActions_def RejectPayrollBatchButton_def RecordCollectionButton_def ChangeMemberStatusButton_def
  KycReviewActions_def InvoiceActions_def pay_flow_def void_flow_def Let_def

interpretation savings: flow_component parse savings_AccountActions for parse
  by unfold_locales (auto simp: posting_component_defs flow_checks)

interpretation shares: flow_component parse shares_AccountActions for parse
  by unfold_locales (auto simp: posting_component_defs flow_checks)

interpretation repayment: flow_component parse RecordRepaymentButton for parse
  by unfold_locales (auto simp: posting_component_defs flow_checks)

interpretation workout: flow_component parse LoanWorkoutActions for parse
  by unfold_locales (auto simp: posting_component_defs flow_checks)

interpretation disburse: flow_component parse DisburseButton for parse
  by unfold_locales (auto simp: posting_component_defs flow_checks)

interpretation application: flow_component parse ApplicationActions for parse
  by unfold_locales (auto simp: posting_component_defs flow_checks)

interpretation payroll: flow_component parse RejectPayrollBatchButton for parse
  by unfold_locales (auto simp: posting_component_defs flow_checks)

interpretation collection: flow_component parse RecordCollectionButton for parse
  by unfold_locales (auto simp: posting_component_defs flow_checks)

interpretation member_status: flow_component parse ChangeMemberStatusButton for parse
  by unfold_locales (auto simp: posting_component_defs flow_checks)

interpretation kyc_review: flow_component parse KycReviewActions for parse
  by unfold_locales (auto simp: posting_component_defs flow_checks)

interpretation invoice: flow_component parse InvoiceActions for parse
  by unfold_locales (auto simp: posting_component_defs flow_checks)


section \<open>What a posting carries\<close>

lemma key_kept:
  assumes "zod fmt parse" "s \<in> set posting_schemas" "parse s v = Some w"
  shows "js_prop w ''idempotency_key'' = js_prop v ''idempotency_key''"
proof -
  have "zref fmt s v = Some w" using assms(3) zod.parse_zref [OF assms(1) posting_coerce_free [OF assms(2)]] by simp
  then obtain fs where "zref fmt (ZObject False fs) v = Some w" "distinct (map fst fs)" "(''idempotency_key'', idempotencyKey) \<in> set fs"
    using posting_shape [OF assms(2)] by blast
  from zref_field [OF this] show ?thesis by (auto simp: zref_idempotencyKey)
qed

lemma posting_accepted:
  assumes "zod fmt parse" "s \<in> set posting_schemas" "parse s v = Some w"
  shows "posting_ok w"
  using posting_shape [OF assms(2)] assms(3) zod.parse_zref [OF assms(1) posting_coerce_free [OF assms(2)]] posting_object_ok by fastforce

lemma map_of_filter_other: "k \<notin> set ks \<Longrightarrow> map_of (filter (\<lambda>(k, x). k \<in> set ks \<longrightarrow> js_truthy x) fs) k = map_of fs k"
  by (induction fs) auto

lemma drop_blank_prop: "k \<notin> set ks \<Longrightarrow> js_prop (drop_blank ks v) k = js_prop v k"
  unfolding drop_blank_def by (cases v) (simp_all add: map_of_filter_other)

text \<open>An acceptable posting under the given key.\<close>

definition posted_under :: "string \<Rightarrow> jv \<Rightarrow> bool" where
  "posted_under key b \<longleftrightarrow> posting_ok b \<and> js_prop b ''idempotency_key'' = JStr key"

lemma posted_underI:
  assumes "zod fmt parse" "s \<in> set posting_schemas" "''idempotency_key'' \<notin> set ks" "js_prop d ''idempotency_key'' = JStr key"
    "untouched ks d v" "parse s v = Some w"
  shows "posted_under key w"
  using posting_accepted [OF assms(1,2,6)] key_kept [OF assms(1,2,6)] assms(3-5) by (simp add: posted_under_def untouched_def)

lemma posted_drop_blank: "posted_under key w \<Longrightarrow> posted_under key (drop_blank [''loan_loss_account_code''] w)"
  by (auto simp: posted_under_def posting_ok_def drop_blank_prop)

text \<open>The money-moving requests of a record with the keys of its component.\<close>

fun posting_of :: "string \<Rightarrow> (string \<Rightarrow> string) \<Rightarrow> operation \<Rightarrow> bool" where
  "posting_of i key (Op_savings (Savings_deposit j b)) \<longleftrightarrow> j = i \<and> posted_under (key ''deposit'') b"
| "posting_of i key (Op_savings (Savings_withdraw j b)) \<longleftrightarrow> j = i \<and> posted_under (key ''withdraw'') b"
| "posting_of i key (Op_credit (Credit_recordRepayment j b)) \<longleftrightarrow> j = i \<and> posted_under (key ''repayment'') b"
| "posting_of i key (Op_credit (Credit_writeOff j b)) \<longleftrightarrow> j = i \<and> posted_under (key ''writeOff'') b"
| "posting_of i key (Op_credit (Credit_recover j b)) \<longleftrightarrow> j = i \<and> posted_under (key ''recover'') b"
| "posting_of i key (Op_credit (Credit_restructure j b)) \<longleftrightarrow> j = i"
| "posting_of i key (Op_fees (Fees_recordCollection b)) \<longleftrightarrow> posted_under (key ''collection'') b"
| "posting_of i key _ \<longleftrightarrow> False"

lemmas justify = justified_def offered_def accepted_def

lemma savings_posting:
  "zod fmt parse \<Longrightarrow> justified parse savings_AccountActions p ds x \<Longrightarrow>
   posting_of (sa_accountId p) (\<lambda>n. if n = ''deposit'' then sa_inKey p else sa_outKey p) x"
  by (auto simp: justify posting_component_defs flow_shapes posting_schemas_def)
    (rule posted_underI; (assumption | simp add: posting_schemas_def))+

lemma repayment_posting:
  "zod fmt parse \<Longrightarrow> justified parse RecordRepaymentButton p ds x \<Longrightarrow> posting_of (kp_id p) (\<lambda>_. kp_key p) x"
  by (auto simp: justify posting_component_defs flow_shapes posting_schemas_def)
    (rule posted_underI; (assumption | simp add: posting_schemas_def))+

lemma collection_posting:
  "zod fmt parse \<Longrightarrow> justified parse RecordCollectionButton p ds x \<Longrightarrow> posting_of (kp_id p) (\<lambda>_. kp_key p) x"
  by (auto simp: justify posting_component_defs flow_shapes posting_schemas_def)
    (rule posted_underI; (assumption | simp add: posting_schemas_def))+

lemma workout_posting:
  "zod fmt parse \<Longrightarrow> justified parse LoanWorkoutActions p ds x \<Longrightarrow>
   posting_of (wo_loanId p) (\<lambda>n. if n = ''writeOff'' then wo_writeOffKey p else wo_recoverKey p) x"
  by (auto simp: justify posting_component_defs flow_shapes posting_schemas_def split: if_splits intro!: posted_drop_blank)
    (rule posted_underI; (assumption | simp add: posting_schemas_def))+




section \<open>One key for every deposit of a page\<close>

definition demo_account :: account_props where
  "demo_account = \<lparr>sa_accountId = ''acc'', sa_inKey = ''0190a1b2c3'', sa_outKey = ''0190a1b2c4''\<rparr>"

definition demo_body :: "string \<Rightarrow> jv" where
  "demo_body amount = JObj [(''amount'', JStr amount), (''payment_account_id'', JStr (replicate 36 CHR ''a'')),
     (''idempotency_key'', JStr ''0190a1b2c3''), (''narration'', JStr [])]"

definition demo_fields :: "string \<Rightarrow> (string \<times> jv) list" where
  "demo_fields amount = [(''amount'', JStr amount), (''payment_account_id'', JStr (replicate 36 CHR ''a''))]"

lemma demo_second_amount [simp]: "zref fmt amountField (JStr ''100'') = Some (JStr ''100'')"
proof -
  have "is_decimal 4 ''100''" by (subst decimal_re_iff [symmetric]) (simp, code_simp)
  moreover have "js_trim ''100'' = ''100''" by code_simp
  moreover have "dec_val ''100'' = 100" by (simp add: dec_val_def digits_val_def digit_val_def is_digit_code)
  ultimately show ?thesis by (simp add: zref_amount)
qed

lemma demo_accepted:
  assumes "amount \<in> {''2500'', ''100''}"
  shows "zref demo_formats depositSchema (fold (\<lambda>(k, v). set_field k v) (demo_fields amount) (transaction_values ''0190a1b2c3'')) = Some (demo_body amount)"
  using assms by (auto simp: posting_defs demo_fields_def transaction_values_def set_field_def uuid_def idempotencyKey_def demo_formats_def
      out_field_def demo_body_def js_trim_def js_trimStart_def)

definition demo_deposit_flow :: flow where
  "demo_deposit_flow = hd (savings_flows demo_account)"

lemma demo_flow:
  "demo_deposit_flow \<in> set (cp_flows savings_AccountActions demo_account)" "fl_name demo_deposit_flow = ''deposit''"
  "fl_opener demo_deposit_flow = Some (Reset_to (transaction_values ''0190a1b2c3''))" "fl_check demo_deposit_flow w = False"
  "fl_form demo_deposit_flow = Some \<lparr>fo_schema = depositSchema, fo_rendered = [''amount'', ''payment_account_id'', ''narration''],
     fo_defaults = transaction_values ''0190a1b2c3''\<rparr>"
  "fl_call demo_deposit_flow b = Some (Op_savings (Savings_deposit ''acc'' b))" "fl_stale demo_deposit_flow = []"
  "fl_toast demo_deposit_flow x y = ''Deposit posted''" "fl_after demo_deposit_flow = Reset_to (transaction_values ''0190a1b2c3'')"
  "fl_done demo_deposit_flow x = [Refreshed]"
  by (simp_all add: demo_deposit_flow_def savings_AccountActions_def savings_flows_def demo_account_def Let_def flow_shapes)

definition deposit_once :: "string \<Rightarrow> ui \<Rightarrow> ui" where
  "deposit_once amount = enter demo_deposit_flow (Reset_to (transaction_values ''0190a1b2c3'')) (demo_fields amount) (demo_body amount)"

lemma deposit_once_run:
  assumes "ui_run (zref demo_formats) (component_screen savings_AccountActions) rendered_again p ((demo_account, [()]), s)"
    "ui_running s = []" "amount \<in> {''2500'', ''100''}"
  shows "ui_run (zref demo_formats) (component_screen savings_AccountActions) rendered_again p ((demo_account, [()]), deposit_once amount s)"
  unfolding deposit_once_def
  by (rule enter_form [OF assms(1) demo_flow(1) _ _ demo_flow(3,5) assms(2)])
    (use demo_accepted [OF assms(3)] in \<open>simp_all add: demo_flow savings_AccountActions_def demo_fields_def\<close>)

lemma deposit_once_effect:
  "requests (deposit_once amount s) = requests s @ [Op_savings (Savings_deposit ''acc'' (demo_body amount))]"
  "ui_running (deposit_once amount s) = ui_running s @ [(''deposit'', demo_body amount)]"
  by (simp_all add: deposit_once_def enter_def flow_submit_def demo_flow flow_mutation_def flow_open_def)





end
