(* ===== verification/Platform_Actions.thy ===== *)
theory Platform_Actions
  imports Approval_Actions
begin

text \<open>
  The acting components of the platform's tenant and user pages
  (\<open>app/platform/(authed)/tenants/[id]\<close>, \<open>users/[id]/edit\<close>): offboarding, suspension and reactivation,
  provisioning retries, impersonation requests and edits of platform users. The children of
  \<open>OffboardingSection\<close> are mounted and unmounted with the state of the tenant; a mounting is a run all of
  whose renders show the child.
\<close>

definition reason_form :: "zschema \<Rightarrow> form" where
  "reason_form z = \<lparr>fo_schema = z, fo_rendered = [''reason''], fo_defaults = JObj [(''reason'', JStr [])]\<rparr>"

definition tenant_stale :: "string \<Rightarrow> jv list list" where
  "tenant_stale i = [tenantsKeys K_tenants_root, tenantsKeys (K_tenants_detail i)]"

section \<open>Offboarding\<close>

record tenant_state =
  ts_lifecycle_state :: string
  ts_cancelled_at :: "string option"
  ts_read_only_at :: "string option"
  ts_archived_at :: "string option"
  ts_retention_hold_until :: "string option"
  ts_archive_checksum :: "string option"
  ts_archive_size_bytes :: "nat option"
  ts_archive_storage_key :: "string option"
  ts_canOffboard :: bool

definition RESTORABLE :: "string list" where
  "RESTORABLE = [''cancelled'', ''read_only'', ''archived'']"

definition isPhysicallyArchived :: "tenant_state \<Rightarrow> bool" where
  "isPhysicallyArchived d \<longleftrightarrow> ts_archive_checksum d \<noteq> None"

definition canRestore :: "tenant_state \<Rightarrow> bool" where
  "canRestore d \<longleftrightarrow> ts_canOffboard d \<and> ts_lifecycle_state d \<in> set RESTORABLE \<and> \<not> isPhysicallyArchived d"

text \<open>The children that the section mounts.\<close>

definition OffboardingSection :: "tenant_state \<Rightarrow> string list" where
  "OffboardingSection d = (if ts_canOffboard d then
     (if ts_lifecycle_state d = ''active'' then [''cancel''] else []) @ (if canRestore d then [''restore''] else []) @
     (if ts_lifecycle_state d \<noteq> ''active'' then [''extend''] else []) else [])"

definition offboarding_child :: "string \<Rightarrow> (string \<Rightarrow> flow) \<Rightarrow> (string, tenant_state) component" where
  "offboarding_child n f = \<lparr>cp_flows = (\<lambda>i. [f i]), cp_visible = (\<lambda>_ d. n \<in> set (OffboardingSection d)), cp_gate = (\<lambda>_ _ _. True), cp_links = (\<lambda>_ _. [])\<rparr>"

definition CancelTenantDialog :: "(string, tenant_state) component" where
  "CancelTenantDialog = offboarding_child ''cancel'' (\<lambda>i.
     checked_flow ''cancel'' (reason_form tenantCancelSchema) Leave False (\<lambda>vars. Some (Op_tenants (Tenants_cancel i vars))) (tenant_stale i)
       ''Approval request created'' Reset [Refreshed] ''The cancellation was not requested'')"

definition RestoreButton :: "(string, tenant_state) component" where
  "RestoreButton = offboarding_child ''restore'' (\<lambda>i.
     confirm_flow ''restore'' (Op_tenants (Tenants_restore i)) (tenant_stale i)
       ''Tenant restored to active'' (\<lambda>_. [Refreshed]) ''The tenant was not restored'')"

text \<open>
  \<open>toISOString\<close> stands for \<open>new Date(text).toISOString()\<close>, which throws (none) when the text is not a date;
  which texts outside the standard's format are dates depends on the browser.
\<close>

definition ExtendRetentionDialog :: "(string \<Rightarrow> string option) \<Rightarrow> (string, tenant_state) component" where
  "ExtendRetentionDialog toISOString = offboarding_child ''extend'' (\<lambda>i.
     dialog_flow ''extend''
       \<lparr>fo_schema = extendRetentionSchema, fo_rendered = [''hold_until''], fo_defaults = JObj [(''hold_until'', JStr [])]\<rparr> Leave
       (\<lambda>vars. case toISOString (js_str (js_prop vars ''hold_until'') @ ''T00:00:00Z'') of None \<Rightarrow> None
          | Some hold_until \<Rightarrow> Some (Op_tenants (Tenants_extendRetention i (JObj [(''hold_until'', JStr hold_until)]))))
       (tenant_stale i) (\<lambda>_ _. ''Retention extended'') Reset (\<lambda>_. [Refreshed]) ''Retention was not extended'')"

text \<open>The timeline lists the latest event first; an event without a reason has none shown.\<close>

record lifecycle_event =
  le_to_state :: string
  le_from_state :: string
  le_occurred_at :: string
  le_reason :: "string option"

definition LifecycleTimeline :: "lifecycle_event list \<Rightarrow> (string \<times> string \<times> string \<times> string option) list option" where
  "LifecycleTimeline events = (if events = [] then None
     else Some (map (\<lambda>e. (le_to_state e, le_from_state e, le_occurred_at e, if truthy_str (le_reason e) then le_reason e else None)) (rev events)))"

section \<open>Suspension, provisioning and impersonation\<close>

record tenant_actions_props =
  ta_id :: string
  ta_canWrite :: bool
  ta_canImpersonate :: bool
  ta_canAssignPlan :: bool

definition tenant_page :: "string \<Rightarrow> string" where
  "tenant_page i = ''/platform/tenants/'' @ i"

definition TenantActions :: "(tenant_actions_props, string) component" where
  "TenantActions =
     \<lparr>cp_flows = (\<lambda>p. [confirm_flow ''reactivate'' (Op_tenants (Tenants_reactivate (ta_id p))) (tenant_stale (ta_id p))
        ''Tenant reactivated'' (\<lambda>_. [Refreshed]) ''The tenant was not reactivated'']),
      cp_visible = (\<lambda>_ _. True),
      cp_gate = (\<lambda>p status _. ta_canWrite p \<and> status = ''suspended''),
      cp_links = (\<lambda>p status.
        (if ta_canImpersonate p then [tenant_page (ta_id p) @ ''/impersonate''] else []) @
        (if ta_canAssignPlan p then [tenant_page (ta_id p) @ ''/assign-plan''] else []) @
        (if ta_canWrite p \<and> status \<noteq> ''suspended'' then [tenant_page (ta_id p) @ ''/edit'', tenant_page (ta_id p) @ ''/suspend''] else []))\<rparr>"

definition RetryProvisioningButton :: "(string, unit) component" where
  "RetryProvisioningButton = always (\<lambda>i. [confirm_flow ''retry'' (Op_tenants (Tenants_retryProvisioning i)) (tenant_stale i)
     ''Approval request created'' (\<lambda>_. []) ''The retry was not requested''])"

definition SuspendTenantForm :: "(string, unit) component" where
  "SuspendTenantForm = always (\<lambda>i. [page_flow ''suspend'' (reason_form tenantSuspendSchema) [Pushed (tenant_page i)] (\<lambda>_. True)
     (\<lambda>vars. Some (Op_tenants (Tenants_suspend i vars))) (tenant_stale i)
     (\<lambda>_ _. ''Approval request created'') (\<lambda>_. [Pushed (tenant_page i)]) ''The suspension was not requested''])"

text \<open>The request part of \<open>ImpersonateTenantPanel\<close>.\<close>

definition ImpersonateTenantPanel :: "(string, unit) component" where
  "ImpersonateTenantPanel = always (\<lambda>i. [(page_flow ''impersonate'' (reason_form impersonationRequestSchema) [] (\<lambda>_. True)
     (\<lambda>vars. Some (Op_impersonations (Impersonations_request (JObj [(''tenant_id'', JStr i), (''reason'', js_prop vars ''reason'')])))) []
     (\<lambda>_ _. ''Approval request created'') (\<lambda>_. []) ''The impersonation was not requested'')\<lparr>fl_after := Reset\<rparr>])"

section \<open>Platform users\<close>

record platform_user =
  pu_id :: string
  pu_full_name :: string
  pu_is_active :: bool
  pu_role :: string

definition isSensitiveChange :: "platform_user \<Rightarrow> jv \<Rightarrow> bool" where
  "isSensitiveChange user values \<longleftrightarrow> js_prop values ''is_active'' \<noteq> JBool (pu_is_active user) \<or> js_prop values ''role'' \<noteq> JStr (pu_role user)"

definition user_page :: "string \<Rightarrow> string" where
  "user_page i = ''/platform/users/'' @ i"

definition EditUserForm :: "(platform_user, unit) component" where
  "EditUserForm = always (\<lambda>u. [page_flow ''edit''
     \<lparr>fo_schema = updatePlatformUserSchema, fo_rendered = [''full_name'', ''role'', ''is_active''],
      fo_defaults = JObj [(''full_name'', JStr (pu_full_name u)), (''is_active'', JBool (pu_is_active u)), (''role'', JStr (pu_role u))]\<rparr>
     [Pushed (user_page (pu_id u))] (isSensitiveChange u)
     (\<lambda>vars. Some (Op_admin (Admin_patchUser (pu_id u) vars)))
     [platformUsersKeys K_platformUsers_root, platformUsersKeys (K_platformUsers_detail (pu_id u))]
     (\<lambda>_ vars. if isSensitiveChange u vars then ''Approval request created'' else ''Changes saved'')
     (\<lambda>_. [Pushed (user_page (pu_id u))]) ''The change was not saved''])"

lemmas platform_component_defs = CancelTenantDialog_def RestoreButton_def ExtendRetentionDialog_def offboarding_child_def reason_form_def
  TenantActions_def RetryProvisioningButton_def SuspendTenantForm_def ImpersonateTenantPanel_def EditUserForm_def

interpretation cancel_tenant: flow_component parse CancelTenantDialog for parse
  by unfold_locales (auto simp: platform_component_defs flow_checks)

interpretation restore_tenant: flow_component parse RestoreButton for parse
  by unfold_locales (auto simp: platform_component_defs flow_checks)

interpretation extend_retention: flow_component parse "ExtendRetentionDialog toISOString" for parse toISOString
  by unfold_locales (auto simp: platform_component_defs flow_checks)

interpretation tenant_actions: flow_component parse TenantActions for parse
  by unfold_locales (auto simp: platform_component_defs flow_checks)

interpretation retry_provisioning: flow_component parse RetryProvisioningButton for parse
  by unfold_locales (auto simp: platform_component_defs flow_checks)

interpretation suspend_tenant: flow_component parse SuspendTenantForm for parse
  by unfold_locales (auto simp: platform_component_defs flow_checks)

interpretation impersonate_tenant: flow_component parse ImpersonateTenantPanel for parse
  by unfold_locales (auto simp: platform_component_defs flow_checks)

interpretation edit_user: flow_component parse EditUserForm for parse
  by unfold_locales (auto simp: platform_component_defs flow_checks)

section \<open>Offboarding is guarded\<close>

lemma reasoned_field:
  assumes "zod fmt parse" "parse (ZObject False [(''reason'', reasonField)]) v = Some w"
  shows "reasoned w"
  using zod.parse_zref [OF assms(1), of "ZObject False [(''reason'', reasonField)]" v] assms(2)
  by (auto simp: reasoned_def out_field_def split: jv.splits if_splits)

text \<open>What a tenant page may ask for, given the states of the tenant it has shown.\<close>

fun offboarding_ok :: "(string \<Rightarrow> string option) \<Rightarrow> string \<Rightarrow> tenant_state list \<Rightarrow> operation \<Rightarrow> bool" where
  "offboarding_ok toISO i ds (Op_tenants (Tenants_cancel j b)) \<longleftrightarrow>
     j = i \<and> reasoned b \<and> (\<exists>d\<in>set ds. ts_canOffboard d \<and> ts_lifecycle_state d = ''active'')"
| "offboarding_ok toISO i ds (Op_tenants (Tenants_restore j)) \<longleftrightarrow>
     j = i \<and> (\<exists>d\<in>set ds. ts_canOffboard d \<and> ts_lifecycle_state d \<in> {''cancelled'', ''read_only'', ''archived''} \<and> ts_archive_checksum d = None)"
| "offboarding_ok toISO i ds (Op_tenants (Tenants_extendRetention j b)) \<longleftrightarrow>
     j = i \<and> (\<exists>day until. day \<noteq> [] \<and> toISO (day @ ''T00:00:00Z'') = Some until \<and> b = JObj [(''hold_until'', JStr until)]) \<and>
     (\<exists>d\<in>set ds. ts_canOffboard d \<and> ts_lifecycle_state d \<noteq> ''active'')"
| "offboarding_ok toISO i ds _ \<longleftrightarrow> False"

lemmas offboarding_defs = platform_component_defs flow_shapes justified_def offered_def accepted_def OffboardingSection_def canRestore_def
  RESTORABLE_def isPhysicallyArchived_def

lemma cancel_ok: "zod fmt parse \<Longrightarrow> justified parse CancelTenantDialog i ds x \<Longrightarrow> offboarding_ok toISO i ds x"
  by (auto simp: offboarding_defs tenantCancelSchema_def dest: reasoned_field split: if_splits)

lemma restore_ok: "justified parse RestoreButton i ds x \<Longrightarrow> offboarding_ok toISO i ds x"
  by (auto simp: offboarding_defs split: if_splits)

lemma hold_until_text:
  assumes "zod fmt parse" "parse extendRetentionSchema v = Some w"
  shows "\<exists>d. js_prop w ''hold_until'' = JStr d \<and> d \<noteq> []"
  using zod.parse_zref [OF assms(1), of extendRetentionSchema v] assms(2)
  by (auto simp: extendRetentionSchema_def out_field_def split: jv.splits if_splits)

lemma extend_ok:
  assumes "zod fmt parse" "justified parse (ExtendRetentionDialog toISO) i ds x"
  shows "offboarding_ok toISO i ds x"
proof -
  obtain v w until d where w: "parse extendRetentionSchema v = Some w" "toISO (js_str (js_prop w ''hold_until'') @ ''T00:00:00Z'') = Some until"
    "x = Op_tenants (Tenants_extendRetention i (JObj [(''hold_until'', JStr until)]))"
    and d: "d \<in> set ds" "ts_canOffboard d" "ts_lifecycle_state d \<noteq> ''active''"
    using assms(2) by (auto simp: offboarding_defs split: if_splits option.splits)
  then show ?thesis using hold_until_text [OF assms(1) w(1)] by auto
qed


text \<open>
  C8. Offboarding is guarded: whatever the user does on a tenant's page, the page asks for a cancellation only
  with a reason of at least ten characters and if it has shown the tenant as active, for a restoration only if
  it has shown it as cancelled, read-only or archived and its data still in place, and for a longer retention only
  if it has shown it as no longer active and with a day that is a date, sent as an instant. Each only for
  this tenant, only for users who may offboard, and never twice at a time. No state offers a cancellation
  beside a restoration or an extension.
\<close>

theorem offboarding_guarded:
  assumes "zod fmt parse"
    "ui_run parse (component_screen CancelTenantDialog) rendered_again (i, [d1]) ((i1, ds1), s1)"
    "ui_run parse (component_screen RestoreButton) rendered_again (i, [d2]) ((i2, ds2), s2)"
    "ui_run parse (component_screen (ExtendRetentionDialog toISO)) rendered_again (i, [d3]) ((i3, ds3), s3)"
  shows "list_all (offboarding_ok toISO i ds1) (requests s1) \<and> single_flight s1 \<and>
    list_all (offboarding_ok toISO i ds2) (requests s2) \<and> single_flight s2 \<and>
    list_all (offboarding_ok toISO i ds3) (requests s3) \<and> single_flight s3 \<and>
    (''cancel'' \<in> set (OffboardingSection d) \<longrightarrow> OffboardingSection d = [''cancel''])"
proof -
  have p: "i1 = i" "i2 = i" "i3 = i"
    using run_same_record [OF assms(2)] run_same_record [OF assms(3)] run_same_record [OF assms(4)] by simp_all
  show ?thesis
    using cancel_tenant.requests_justified [OF assms(2)] restore_tenant.requests_justified [OF assms(3)]
      extend_retention.requests_justified [OF assms(4)] cancel_ok [OF assms(1)] restore_ok extend_ok [OF assms(1)]
    unfolding p list_all_iff by (auto simp: OffboardingSection_def canRestore_def RESTORABLE_def split: if_splits)
qed

definition demo_tenant :: tenant_state where
  "demo_tenant = \<lparr>ts_lifecycle_state = ''cancelled'', ts_cancelled_at = Some ''2026-01-01T00:00:00Z'', ts_read_only_at = None, ts_archived_at = None,
     ts_retention_hold_until = None, ts_archive_checksum = None, ts_archive_size_bytes = None, ts_archive_storage_key = None, ts_canOffboard = True\<rparr>"

lemma demo_restore:
  "\<exists>s. ui_run (zref demo_formats) (component_screen RestoreButton) rendered_again (''t1'', [demo_tenant]) ((''t1'', [demo_tenant]), s) \<and>
     requests s = [Op_tenants (Tenants_restore ''t1'')]"
proof -
  define f where "f = hd (cp_flows RestoreButton ''t1'')"
  have f: "f \<in> set (cp_flows RestoreButton ''t1'')" "fl_opener f = Some Leave" "fl_form f = None" "fl_call f = (\<lambda>_. Some (Op_tenants (Tenants_restore ''t1'')))"
    by (simp_all add: f_def platform_component_defs flow_shapes)
  have v: "cp_visible RestoreButton ''t1'' demo_tenant" "cp_gate RestoreButton ''t1'' demo_tenant (fl_name f)"
    by (simp_all add: platform_component_defs OffboardingSection_def demo_tenant_def canRestore_def RESTORABLE_def isPhysicallyArchived_def)
  have run: "ui_run (zref demo_formats) (component_screen RestoreButton) rendered_again (''t1'', [demo_tenant])
      ((''t1'', [demo_tenant]), flow_open f Leave (sc_start (component_screen RestoreButton) (''t1'', [demo_tenant])))"
    by (rule press_button [OF run_start f(1) v f(2)])
  show ?thesis
    by (rule exI, rule conjI, rule confirm_direct [OF run f(1) v(1) f(3)])
      (simp_all add: flow_open_def isPending_def flow_mutation_def f(4) component_screen_def)
qed

theorem offboarding_guarded_witness:
  "\<exists>s. requests s = [Op_tenants (Tenants_restore ''t1'')] \<and> list_all (offboarding_ok Some ''t1'' [demo_tenant]) (requests s)"
proof -
  obtain s where r: "ui_run (zref demo_formats) (component_screen RestoreButton) rendered_again (''t1'', [demo_tenant]) ((''t1'', [demo_tenant]), s)"
    "requests s = [Op_tenants (Tenants_restore ''t1'')]" using demo_restore by blast
  show ?thesis using offboarding_guarded [OF zref.zod_axioms run_start [of _ _ _ "(''t1'', [demo_tenant])"] r(1) run_start [of _ _ _ "(''t1'', [demo_tenant])"], of Some] r(2)
    by blast
qed

end
