(* ===== verification/Billing_Actions.thy ===== *)
theory Billing_Actions
  imports Platform_Actions
begin

text \<open>
  Components whose dialogs share state and that are therefore not a list of flows: the cancellation and
  reactivation of a subscription (\<open>app/platform/(authed)/billing/subscriptions/[id]\<close>), where one form serves
  two modes, the rejection of pending payments (\<open>billing/payments\<close>), the verification of a tenant's KYC
  (\<open>tenants/[id]\<close>) and the guarantors of a loan application (\<open>app/(tenant-authed)/credit/applications/[id]\<close>).
\<close>

section \<open>Subscriptions\<close>

record subscription_props =
  su_id :: string
  su_canWrite :: bool

definition cancellable :: "string \<Rightarrow> bool" where
  "cancellable status \<longleftrightarrow> status = ''active'' \<or> status = ''trialing'' \<or> status = ''past_due''"

definition reactivatable :: "string \<Rightarrow> bool" where
  "reactivatable status \<longleftrightarrow> status = ''suspended'' \<or> status = ''past_due''"

definition subscription_stale :: "string \<Rightarrow> jv list list" where
  "subscription_stale i = [billingKeys (K_billing_subscriptions None), billingKeys (K_billing_subscription i)]"

definition cancelMutation :: "subscription_props \<Rightarrow> mutation" where
  "cancelMutation p =
     \<lparr>mu_name = ''cancel'',
      mu_call = (\<lambda>vars. Some (Op_billing (Billing_cancelSubscription (su_id p) (JObj [(''reason'', js_prop vars ''reason'')])
        (Some (JObj [(''mode'', js_prop vars ''mode'')]))))),
      mu_invalidates = subscription_stale (su_id p),
      mu_onSuccess = (\<lambda>_ vars. seq [emit (Toast_success (if js_prop vars ''mode'' = JStr ''immediate'' then ''Approval request created'' else ''Cancellation scheduled'')),
        setHeld ''reasonMode'' JNull, setOpen ''confirm'' False, setHeld ''pendingReason'' JNull, resetForm ''form'', emit Refreshed]),
      mu_onError = error_toast ''The cancellation was not processed''\<rparr>"

definition reactivation :: "subscription_props \<Rightarrow> mutation" where
  "reactivation p = plain_mutation ''reactivate'' (\<lambda>_. Op_billing (Billing_reactivateSubscription (su_id p))) (subscription_stale (su_id p))
     ''Subscription reactivated'' [setOpen ''reactivate'' False, emit Refreshed] ''The subscription was not reactivated''"

definition cancel_vars :: "jv \<Rightarrow> string \<Rightarrow> jv" where
  "cancel_vars reason mode = JObj [(''reason'', reason), (''mode'', JStr mode)]"

definition subscription_submit :: "subscription_props \<Rightarrow> jv \<Rightarrow> ui \<Rightarrow> ui" where
  "subscription_submit p w s = (let reason = js_prop w ''reason'' in
     if ui_held s ''reasonMode'' = JStr ''immediate''
     then seq [setHeld ''pendingReason'' reason, setHeld ''reasonMode'' JNull, setOpen ''confirm'' True] s
     else mutate (cancelMutation p) (cancel_vars reason ''at_period_end'') s)"

definition subscription_confirm_change :: "bool \<Rightarrow> ui \<Rightarrow> ui" where
  "subscription_confirm_change b = (if b then setOpen ''confirm'' b else seq [setOpen ''confirm'' b, setHeld ''pendingReason'' JNull])"

definition subscription_confirm :: "subscription_props \<Rightarrow> ui \<Rightarrow> ui" where
  "subscription_confirm p s = (if js_truthy (ui_held s ''pendingReason'') then mutate (cancelMutation p) (cancel_vars (ui_held s ''pendingReason'') ''immediate'') s else s)"

definition ask_reason :: "string \<Rightarrow> ui \<Rightarrow> ui" where
  "ask_reason mode = seq [resetForm ''form'', setHeld ''reasonMode'' (JStr mode)]"

definition subscription_view :: "subscription_props \<Rightarrow> string \<Rightarrow> ui \<Rightarrow> control list" where
  "subscription_view p status s = shown (su_canWrite p)
     (shown (cancellable status) [Press (ask_reason ''at_period_end''), Press (ask_reason ''immediate'')] @
      shown (reactivatable status) [Press (setOpen ''reactivate'' True)] @
      FormDialog (ui_held s ''reasonMode'' \<noteq> JNull) (setHeld ''reasonMode'' JNull) ''form'' subscriptionCancelSchema [''reason'']
        (isPending (cancelMutation p) s) (subscription_submit p) @
      MakerCheckerConfirmDialog (ui_open s ''confirm'') subscription_confirm_change (isPending (cancelMutation p) s) (subscription_confirm p) @
      ConfirmDialog (ui_open s ''reactivate'') (setOpen ''reactivate'') (isPending (reactivation p) s) (mutate (reactivation p) JUndef))"

definition SubscriptionActions :: "(subscription_props \<times> string list) screen" where
  "SubscriptionActions =
     \<lparr>sc_start = (\<lambda>_. mounted [(''form'', JObj [(''reason'', JStr [])])]),
      sc_mutations = (\<lambda>(p, ds). [cancelMutation p, reactivation p]),
      sc_view = (\<lambda>(p, ds) s. case ds of d # _ \<Rightarrow> subscription_view p d s | [] \<Rightarrow> [])\<rparr>"

text \<open>What a subscription page may ask for, given the states it has shown.\<close>

definition subscription_ok :: "subscription_props \<Rightarrow> string list \<Rightarrow> operation \<Rightarrow> bool" where
  "subscription_ok p ds x \<longleftrightarrow> su_canWrite p \<and>
     ((\<exists>b mode. x = Op_billing (Billing_cancelSubscription (su_id p) b (Some (JObj [(''mode'', JStr mode)]))) \<and> reasoned b \<and>
        mode \<in> {''at_period_end'', ''immediate''} \<and> (\<exists>d\<in>set ds. cancellable d)) \<or>
      x = Op_billing (Billing_reactivateSubscription (su_id p)) \<and> (\<exists>d\<in>set ds. reactivatable d))"

definition long_reason :: "jv \<Rightarrow> bool" where
  "long_reason v \<longleftrightarrow> (case v of JStr r \<Rightarrow> 10 \<le> length r | _ \<Rightarrow> False)"

lemma reasoned_long [simp]: "reasoned (JObj [(''reason'', v)]) = long_reason v"
  by (simp add: reasoned_def long_reason_def split: jv.split)

lemma long_reason_prop: "reasoned w \<Longrightarrow> long_reason (js_prop w ''reason'')"
  by (simp add: reasoned_def long_reason_def split: jv.split)

definition subscription_inv :: "subscription_props \<times> string list \<Rightarrow> ui \<Rightarrow> bool" where
  "subscription_inv q s \<longleftrightarrow> (case q of (p, ds) \<Rightarrow>
     (ui_held s ''reasonMode'' = JNull \<or> su_canWrite p \<and> (\<exists>d\<in>set ds. cancellable d)) \<and>
     (ui_held s ''pendingReason'' = JNull \<or> long_reason (ui_held s ''pendingReason'') \<and> su_canWrite p \<and> (\<exists>d\<in>set ds. cancellable d)) \<and>
     (ui_open s ''reactivate'' \<longrightarrow> su_canWrite p \<and> (\<exists>d\<in>set ds. reactivatable d)) \<and>
     list_all (subscription_ok p ds) (requests s) \<and> single_flight s)"

lemmas subscription_defs = subscription_inv_def SubscriptionActions_def subscription_view_def dialog_defs ask_reason_def
  subscription_submit_def subscription_confirm_def subscription_confirm_change_def cancel_vars_def subscription_ok_def

lemma subscription_names [simp]: "mu_name (cancelMutation p) = ''cancel''" "mu_name (reactivation p) = ''reactivate''"
  by (simp_all add: cancelMutation_def reactivation_def)

lemma subscription_press_cases:
  assumes "Press h \<in> set (sc_view SubscriptionActions (a, d # ds) s)"
  obtains (ask) mode where "h s = ask_reason mode s" "cancellable d" | (react) "h s = setOpen ''reactivate'' True s" "reactivatable d"
    | (dismiss) "h s = setHeld ''reasonMode'' JNull s" | (change) "h s = subscription_confirm_change False s" | (close) "h s = setOpen ''reactivate'' False s"
    | (confirm) "h s = subscription_confirm a s" "\<not> isPending (cancelMutation a) s" "ui_open s ''confirm''"
    | (direct) "h s = mutate (reactivation a) JUndef s" "ui_open s ''reactivate''" "\<not> isPending (reactivation a) s"
  using assms by (auto simp: SubscriptionActions_def subscription_view_def dialog_defs split: if_splits)

lemma subscription_press:
  assumes "subscription_inv p s" "Press h \<in> set (sc_view SubscriptionActions p s)"
  shows "subscription_inv p (h s)"
proof -
  obtain a d ds where p: "p = (a, d # ds)" "su_canWrite a" using assms(2) by (cases p; cases "snd p") (auto simp: SubscriptionActions_def subscription_view_def shown_def split: if_splits)
  have inv: "subscription_inv (a, d # ds) s" using assms(1) p by simp
  from assms(2) [unfolded p(1)]
  have "subscription_inv (a, d # ds) (h s)"
  proof (cases rule: subscription_press_cases)
    case ask
    then show ?thesis using inv p(2) by (simp add: subscription_inv_def ask_reason_def)
  next
    case change
    then show ?thesis using inv by (simp add: subscription_inv_def subscription_confirm_change_def)
  next
    case confirm
    then show ?thesis using inv by (cases "ui_held s ''pendingReason'' = JNull")
      (simp_all add: subscription_inv_def subscription_confirm_def cancelMutation_def cancel_vars_def subscription_ok_def)
  next
    case direct
    then show ?thesis using inv by (simp add: subscription_inv_def reactivation_def subscription_ok_def) blast
  qed (use inv p(2) in \<open>simp_all add: subscription_inv_def\<close>)
  then show ?thesis by (simp add: p(1))
qed

lemma subscription_settled:
  assumes "subscription_inv p s" "m \<in> set (sc_mutations SubscriptionActions p)"
  shows "subscription_inv p (succeed m vars data s)" "subscription_inv p (fail m vars e s)"
proof -
  obtain a ds where p: "p = (a, ds)" "m = cancelMutation a \<or> m = reactivation a" using assms(2) by (cases p) (auto simp: SubscriptionActions_def)
  then show "subscription_inv p (succeed m vars data s)" "subscription_inv p (fail m vars e s)"
    using assms(1) by (elim disjE; simp add: subscription_inv_def settle_defs cancelMutation_def reactivation_def)+
qed

sublocale zod < subscription: screen_invariant parse SubscriptionActions rendered_again subscription_inv
proof unfold_locales
  fix p q s f ks k v z g w m vars data e
  show "subscription_inv p (sc_start SubscriptionActions p)" by (simp add: subscription_defs split: prod.split)
  show "subscription_inv p (fill f k v s)" if "subscription_inv p s" using that by (simp add: subscription_inv_def split: prod.splits)
  show "subscription_inv p (g w s)"
    if S: "subscription_inv p s" "Submit f z g \<in> set (sc_view SubscriptionActions p s)" "parse z (ui_form s f) = Some w"
  proof -
    obtain a d ds where p: "p = (a, d # ds)" "z = subscriptionCancelSchema" "g = subscription_submit a" "su_canWrite a"
        "ui_held s ''reasonMode'' \<noteq> JNull" "\<not> isPending (cancelMutation a) s"
      using S(2) by (cases p; cases "snd p") (auto simp: subscription_defs split: if_splits)
    define r where "r = js_prop w ''reason''"
    have "long_reason r" unfolding r_def
      using reasoned_field [OF zod_axioms] S(3) p(2) by (auto simp: subscriptionCancelSchema_def intro: long_reason_prop)
    moreover have "g w s = (if ui_held s ''reasonMode'' = JStr ''immediate''
        then seq [setHeld ''pendingReason'' r, setHeld ''reasonMode'' JNull, setOpen ''confirm'' True] s
        else mutate (cancelMutation a) (cancel_vars r ''at_period_end'') s)"
      by (simp add: p(3) subscription_submit_def r_def Let_def)
    ultimately show ?thesis using S(1) p(4-6) unfolding p(1)
      by (auto simp: subscription_inv_def cancelMutation_def cancel_vars_def subscription_ok_def)
  qed
  show "subscription_inv q s" if "subscription_inv p s" "rendered_again p q"
  proof -
    have "subscription_ok a ds x \<Longrightarrow> subscription_ok a (d # ds) x" for a ds d x by (auto simp: subscription_ok_def)
    then show ?thesis using that by (cases p) (auto simp: rendered_again_def subscription_inv_def list_all_iff)
  qed
qed (fact subscription_press, (erule (1) subscription_settled)+)

section \<open>Pending payments\<close>

record payment_row =
  pp_id :: string
  pp_invoice_id :: string
  pp_invoice_number :: string

text \<open>The rows of the current page.\<close>

definition pageRows :: "'a list \<Rightarrow> nat \<Rightarrow> nat \<Rightarrow> 'a list" where
  "pageRows rows page pageSize = take pageSize (drop ((page - 1) * pageSize) rows)"

definition rejectMutation :: mutation where
  "rejectMutation = plain_mutation ''reject'' (\<lambda>vars. Op_billing (Billing_rejectPayment (js_str (js_prop vars ''id'')) (JObj [(''reason'', js_prop vars ''reason'')])))
     [billingKeys K_billing_pendingPayments] ''Payment rejected'' [setHeld ''rejecting'' JNull, resetForm ''form'', emit Refreshed] ''The payment was not rejected''"

definition row_json :: "payment_row \<Rightarrow> jv" where
  "row_json r = JObj [(''id'', JStr (pp_id r)), (''invoice_id'', JStr (pp_invoice_id r)), (''invoice_number'', JStr (pp_invoice_number r))]"

definition pick_row :: "payment_row \<Rightarrow> ui \<Rightarrow> ui" where
  "pick_row r = seq [resetForm ''form'', setHeld ''rejecting'' (row_json r)]"

definition reject_submit :: "jv \<Rightarrow> ui \<Rightarrow> ui" where
  "reject_submit w s = mutate rejectMutation (JObj [(''id'', js_prop (ui_held s ''rejecting'') ''id''), (''reason'', js_prop w ''reason'')]) s"

text \<open>The renders differ in the rows and in the page of the address bar.\<close>

definition payments_view :: "bool \<Rightarrow> payment_row list \<times> nat \<times> nat \<Rightarrow> ui \<Rightarrow> control list" where
  "payments_view canReject d s = (case d of (rows, page, pageSize) \<Rightarrow>
     concat (map (\<lambda>r. Visit (''/platform/billing/invoices/'' @ pp_invoice_id r) # shown canReject [Press (pick_row r)]) (pageRows rows page pageSize)) @
     FormDialog (ui_held s ''rejecting'' \<noteq> JNull) (setHeld ''rejecting'' JNull) ''form'' paymentRejectSchema [''reason'']
       (isPending rejectMutation s) reject_submit)"

definition PendingPaymentsTable :: "(bool \<times> (payment_row list \<times> nat \<times> nat) list) screen" where
  "PendingPaymentsTable =
     \<lparr>sc_start = (\<lambda>_. mounted [(''form'', JObj [(''reason'', JStr [])])]),
      sc_mutations = (\<lambda>_. [rejectMutation]),
      sc_view = (\<lambda>(c, ds) s. case ds of d # _ \<Rightarrow> payments_view c d s | [] \<Rightarrow> [])\<rparr>"

definition listed :: "(payment_row list \<times> nat \<times> nat) list \<Rightarrow> string \<Rightarrow> bool" where
  "listed ds i \<longleftrightarrow> (\<exists>(rows, page, n)\<in>set ds. i \<in> pp_id ` set rows)"

definition rejection_ok :: "bool \<Rightarrow> (payment_row list \<times> nat \<times> nat) list \<Rightarrow> operation \<Rightarrow> bool" where
  "rejection_ok canReject ds x \<longleftrightarrow> canReject \<and> (\<exists>i b. x = Op_billing (Billing_rejectPayment i b) \<and> reasoned b \<and> listed ds i)"

definition payments_inv :: "bool \<times> (payment_row list \<times> nat \<times> nat) list \<Rightarrow> ui \<Rightarrow> bool" where
  "payments_inv p s \<longleftrightarrow> (case p of (c, ds) \<Rightarrow>
     (ui_held s ''rejecting'' = JNull \<or> c \<and> (\<exists>r. ui_held s ''rejecting'' = row_json r \<and> listed ds (pp_id r))) \<and>
     list_all (rejection_ok c ds) (requests s) \<and> single_flight s)"

lemma rejectMutation_name [simp]: "mu_name rejectMutation = ''reject''"
  by (simp add: rejectMutation_def)

lemma pageRows_subset: "r \<in> set (pageRows rows page n) \<Longrightarrow> r \<in> set rows"
  by (auto simp: pageRows_def dest: in_set_takeD in_set_dropD)

lemma payments_press:
  assumes "payments_inv p s" "Press h \<in> set (sc_view PendingPaymentsTable p s)"
  shows "payments_inv p (h s)"
proof -
  obtain c rows page n ds where p: "p = (c, (rows, page, n) # ds)"
    using assms(2) by (cases p; cases "snd p") (auto simp: PendingPaymentsTable_def)
  consider (pick) r where "h = pick_row r" "c" "r \<in> set rows" | (dismiss) "h = setHeld ''rejecting'' JNull"
    using assms(2) unfolding p by (auto simp: PendingPaymentsTable_def payments_view_def dialog_defs dest: pageRows_subset split: if_splits)
  then show ?thesis using assms(1) by cases (auto simp: p payments_inv_def pick_row_def listed_def)
qed

lemma payments_submit:
  assumes "zod fmt parse" "payments_inv p s" "Submit f z g \<in> set (sc_view PendingPaymentsTable p s)" "parse z (ui_form s f) = Some w"
  shows "payments_inv p (g w s)"
proof -
  obtain c ds where p: "p = (c, ds)" "g = reject_submit" "z = paymentRejectSchema" "ui_held s ''rejecting'' \<noteq> JNull" "\<not> isPending rejectMutation s"
    using assms(3) by (cases p; cases "snd p") (auto simp: PendingPaymentsTable_def payments_view_def dialog_defs split: if_splits)
  then have "long_reason (js_prop w ''reason'')"
    using reasoned_field [OF assms(1)] assms(4) by (auto simp: paymentRejectSchema_def intro: long_reason_prop)
  moreover obtain r where "ui_held s ''rejecting'' = row_json r" "listed ds (pp_id r)" "c" using assms(2) p by (auto simp: payments_inv_def)
  ultimately show ?thesis using assms(2) p
    by (simp add: payments_inv_def reject_submit_def) (simp add: rejectMutation_def rejection_ok_def row_json_def)
qed

sublocale zod < payments: screen_invariant parse PendingPaymentsTable rendered_again payments_inv
proof unfold_locales
  fix p q s f ks k v z g w m vars data e
  show "payments_inv p (sc_start PendingPaymentsTable p)" by (simp add: payments_inv_def PendingPaymentsTable_def split: prod.split)
  show "payments_inv p (fill f k v s)" if "payments_inv p s" using that by (simp add: payments_inv_def split: prod.splits)
  show "payments_inv p (succeed m vars data s)" "payments_inv p (fail m vars e s)" if "payments_inv p s" "m \<in> set (sc_mutations PendingPaymentsTable p)"
    using that by (auto simp: PendingPaymentsTable_def payments_inv_def settle_defs rejectMutation_def)
  show "payments_inv q s" if "payments_inv p s" "rendered_again p q"
  proof -
    have "listed ds i \<Longrightarrow> listed (d # ds) i" for ds d i by (auto simp: listed_def)
    then have "rejection_ok c ds x \<Longrightarrow> rejection_ok c (d # ds) x" for c ds d x unfolding rejection_ok_def by blast
    with \<open>\<And>i ds d. listed ds i \<Longrightarrow> listed (d # ds) i\<close> show ?thesis
      using that by (cases p) (auto simp: rendered_again_def payments_inv_def list_all_iff)
  qed
qed (fact payments_press payments_submit [OF zod_axioms])+

section \<open>Guarantors\<close>

record guarantor =
  gu_id :: string
  gu_guarantor_member_id :: string
  gu_status :: string

record guarantor_page =
  gp_guarantors :: "guarantor list"
  gp_members :: "string list"

definition nominatable :: "guarantor_page \<Rightarrow> string list" where
  "nominatable d = filter (\<lambda>m. \<not> list_ex (\<lambda>g. gu_guarantor_member_id g = m) (gp_guarantors d)) (gp_members d)"

definition addMutation :: "string \<Rightarrow> mutation" where
  "addMutation applicationId = plain_mutation ''add'' (\<lambda>vars. Op_credit (Credit_addGuarantor applicationId vars)) []
     ''Guarantors added'' [setOpen ''nominate'' False, resetTo ''nominate'' (JObj [(''guarantor_member_ids'', JArr [])]), emit Refreshed]
     ''The guarantors were not added''"

definition consentMutation :: mutation where
  "consentMutation =
     \<lparr>mu_name = ''consent'',
      mu_call = (\<lambda>vars. Some (Op_credit ((if js_prop vars ''action'' = JStr ''accept'' then Credit_acceptGuarantor else Credit_declineGuarantor)
        (js_str (js_prop vars ''guarantorId'')) (JObj [(''guarantor_member_id'', js_prop vars ''memberId'')])))),
      mu_invalidates = [],
      mu_onSuccess = (\<lambda>_ vars. seq [emit (Toast_success (if js_prop vars ''action'' = JStr ''accept'' then ''Guarantor accepted'' else ''Guarantor declined'')),
        setHeld ''consent'' JNull, emit Refreshed]),
      mu_onError = error_toast ''The action failed''\<rparr>"

definition consent_json :: "guarantor \<Rightarrow> string \<Rightarrow> jv" where
  "consent_json g action = JObj [(''guarantorId'', JStr (gu_id g)), (''memberId'', JStr (gu_guarantor_member_id g)), (''action'', JStr action)]"

definition setConsent :: "guarantor \<Rightarrow> string \<Rightarrow> ui \<Rightarrow> ui" where
  "setConsent g action = setHeld ''consent'' (consent_json g action)"

text \<open>A checkbox of the nomination form: the list as a set, with the member added at the end or removed.\<close>

definition toggle_member :: "string \<Rightarrow> string list \<Rightarrow> string list" where
  "toggle_member m current = (let next = rev (remdups (rev current)) in if m \<in> set current then filter (\<lambda>x. x \<noteq> m) next else next @ [m])"

definition chosen :: "ui \<Rightarrow> string list" where
  "chosen s = (case js_prop (ui_form s ''nominate'') ''guarantor_member_ids'' of JArr vs \<Rightarrow> map js_str vs | _ \<Rightarrow> [])"

definition toggle :: "string \<Rightarrow> ui \<Rightarrow> ui" where
  "toggle m s = fill ''nominate'' ''guarantor_member_ids'' (JArr (map JStr (toggle_member m (chosen s)))) s"

definition confirm_consent :: "ui \<Rightarrow> ui" where
  "confirm_consent s = (if js_truthy (ui_held s ''consent'') then mutate consentMutation (ui_held s ''consent'') s else s)"

definition guarantors_view :: "string \<Rightarrow> guarantor_page \<Rightarrow> ui \<Rightarrow> control list" where
  "guarantors_view applicationId d s =
     shown (nominatable d \<noteq> []) [Press (setOpen ''nominate'' True)] @
     concat (map (\<lambda>g. shown (gu_status g = ''pending'') [Press (setConsent g ''accept''), Press (setConsent g ''decline'')]) (gp_guarantors d)) @
     ConfirmDialog (ui_held s ''consent'' \<noteq> JNull) (\<lambda>b. if b then (\<lambda>s. s) else setHeld ''consent'' JNull) (isPending consentMutation s) confirm_consent @
     FormDialog (ui_open s ''nominate'') (setOpen ''nominate'' False) ''nominate'' guarantorNominateSchema [] (isPending (addMutation applicationId) s)
       (mutate (addMutation applicationId)) @
     shown (ui_open s ''nominate'') (map (\<lambda>m. Press (toggle m)) (nominatable d))"

definition GuarantorsSection :: "(string \<times> guarantor_page list) screen" where
  "GuarantorsSection =
     \<lparr>sc_start = (\<lambda>_. mounted [(''nominate'', JObj [(''guarantor_member_ids'', JArr [])])]),
      sc_mutations = (\<lambda>(i, _). [addMutation i, consentMutation]),
      sc_view = (\<lambda>(i, ds) s. case ds of d # _ \<Rightarrow> guarantors_view i d s | [] \<Rightarrow> [])\<rparr>"

text \<open>Members that some render offered for nomination, and guarantors that some render showed as pending.\<close>

definition offered_members :: "guarantor_page list \<Rightarrow> string set" where
  "offered_members ds = (\<Union>d\<in>set ds. set (nominatable d))"

definition pending_shown :: "guarantor_page list \<Rightarrow> guarantor \<Rightarrow> bool" where
  "pending_shown ds g \<longleftrightarrow> (\<exists>d\<in>set ds. g \<in> set (gp_guarantors d)) \<and> gu_status g = ''pending''"

definition nomination :: "guarantor_page list \<Rightarrow> jv \<Rightarrow> bool" where
  "nomination ds v \<longleftrightarrow> (\<exists>ms. js_prop v ''guarantor_member_ids'' = JArr (map JStr ms) \<and> set ms \<subseteq> offered_members ds)"

definition guarantor_ok :: "string \<Rightarrow> guarantor_page list \<Rightarrow> operation \<Rightarrow> bool" where
  "guarantor_ok i ds x \<longleftrightarrow> (\<exists>b. x = Op_credit (Credit_addGuarantor i b) \<and> nomination ds b) \<or>
     (\<exists>g. pending_shown ds g \<and> (\<exists>call\<in>{Credit_acceptGuarantor, Credit_declineGuarantor}.
        x = Op_credit (call (gu_id g) (JObj [(''guarantor_member_id'', JStr (gu_guarantor_member_id g))]))))"

definition guarantors_inv :: "string \<times> guarantor_page list \<Rightarrow> ui \<Rightarrow> bool" where
  "guarantors_inv p s \<longleftrightarrow> (case p of (i, ds) \<Rightarrow>
     (ui_held s ''consent'' = JNull \<or> (\<exists>g action. ui_held s ''consent'' = consent_json g action \<and> pending_shown ds g)) \<and>
     nomination ds (ui_form s ''nominate'') \<and> nomination ds (ui_base s ''nominate'') \<and> list_all (guarantor_ok i ds) (requests s) \<and> single_flight s)"

lemma guarantor_names [simp]: "mu_name (addMutation i) = ''add''" "mu_name consentMutation = ''consent''"
  by (simp_all add: addMutation_def consentMutation_def)

lemma toggle_member_set: "set (toggle_member m xs) \<subseteq> insert m (set xs)"
  by (auto simp: toggle_member_def Let_def)

lemma nomination_empty [simp]: "nomination ds (JObj [(''guarantor_member_ids'', JArr [])])"
  by (auto simp: nomination_def intro: exI [of _ "[]"])

lemma toggle_nomination:
  assumes "nomination ds (ui_form s ''nominate'')" "m \<in> offered_members ds"
  shows "nomination ds (ui_form (toggle m s) ''nominate'')"
proof -
  obtain ms where ms: "js_prop (ui_form s ''nominate'') ''guarantor_member_ids'' = JArr (map JStr ms)" "set ms \<subseteq> offered_members ds"
    using assms(1) by (auto simp: nomination_def)
  have "set (toggle_member m (chosen s)) \<subseteq> offered_members ds"
    using toggle_member_set [of m "chosen s"] ms assms(2) by (auto simp: chosen_def comp_def)
  then show ?thesis by (auto simp: nomination_def toggle_def prop_set_field)
qed

lemma sequence_uuid: "sequence (map (zref fmt uuid) (map JStr ms)) = Some ws \<Longrightarrow> ws = map JStr ms"
  by (induction ms arbitrary: ws) (auto simp: uuid_def split: option.splits if_splits)

lemma nomination_accepted:
  assumes "zod fmt parse" "nomination ds v" "parse guarantorNominateSchema v = Some w"
  shows "nomination ds w"
proof -
  have z: "zref fmt guarantorNominateSchema v = Some w"
    using assms(3) zod.parse_zref [OF assms(1), of guarantorNominateSchema v] by (simp add: guarantorNominateSchema_def uuid_def)
  obtain ms where ms: "js_prop v ''guarantor_member_ids'' = JArr (map JStr ms)" "set ms \<subseteq> offered_members ds"
    using assms(2) by (auto simp: nomination_def)
  have "zref fmt (ZArray 1 uuid) (JArr (map JStr ms)) = Some (js_prop w ''guarantor_member_ids'')"
    using zref_field [OF z [unfolded guarantorNominateSchema_def], of "''guarantor_member_ids''" "ZArray 1 uuid"] ms(1) by simp
  then have "js_prop w ''guarantor_member_ids'' = JArr (map JStr ms)" using sequence_uuid [of fmt ms]
    by (auto simp: comp_def split: if_splits option.splits)
  then show ?thesis using ms(2) by (auto simp: nomination_def)
qed

lemma guarantors_press:
  assumes "guarantors_inv p s" "Press h \<in> set (sc_view GuarantorsSection p s)"
  shows "guarantors_inv p (h s)"
proof -
  obtain i d ds where p: "p = (i, d # ds)" using assms(2) by (cases p; cases "snd p") (auto simp: GuarantorsSection_def)
  have inv: "guarantors_inv (i, d # ds) s" using assms(1) p by simp
  consider (nominate) b where "h s = setOpen ''nominate'' b s" | (consent) g action where "h s = setConsent g action s" "g \<in> set (gp_guarantors d)" "gu_status g = ''pending''"
    | (close) "h s = setHeld ''consent'' JNull s" | (confirm) "h s = confirm_consent s" "\<not> isPending consentMutation s"
    | (toggle) m where "h s = toggle m s" "m \<in> set (nominatable d)"
    using assms(2) unfolding p by (auto simp: GuarantorsSection_def guarantors_view_def dialog_defs split: if_splits)
  then have "guarantors_inv (i, d # ds) (h s)"
  proof cases
    case consent
    then have "pending_shown (d # ds) g" by (simp add: pending_shown_def)
    then show ?thesis using inv consent(1) by (auto simp: guarantors_inv_def setConsent_def)
  next
    case confirm
    show ?thesis
    proof (cases "ui_held s ''consent'' = JNull")
      case False
      then obtain g action where "ui_held s ''consent'' = consent_json g action" "pending_shown (d # ds) g"
        using inv by (auto simp: guarantors_inv_def)
      then have "guarantor_ok i (d # ds) (the (mu_call consentMutation (ui_held s ''consent'')))"
        by (auto simp: guarantor_ok_def consentMutation_def consent_json_def)
      then show ?thesis using inv confirm by (simp add: guarantors_inv_def confirm_consent_def consentMutation_def)
    qed (use inv confirm in \<open>simp add: confirm_consent_def\<close>)
  next
    case toggle
    then have "m \<in> offered_members (d # ds)" by (auto simp: offered_members_def)
    then show ?thesis using inv toggle toggle_nomination [of "d # ds" s m] by (simp add: guarantors_inv_def) (simp add: toggle_def)
  qed (use inv in \<open>simp_all add: guarantors_inv_def\<close>)
  then show ?thesis by (simp add: p)
qed

sublocale zod < guarantors: screen_invariant parse GuarantorsSection rendered_again guarantors_inv
proof unfold_locales
  fix p q s f ks k v z g w m vars data e
  show "guarantors_inv p (sc_start GuarantorsSection p)" by (simp add: guarantors_inv_def GuarantorsSection_def split: prod.split)
  show "guarantors_inv p (fill f k v s)" if "Fill f ks \<in> set (sc_view GuarantorsSection p s)" "k \<in> set ks"
    using that by (cases p; cases "snd p") (auto simp: GuarantorsSection_def guarantors_view_def dialog_defs split: if_splits)
  show "guarantors_inv p (g w s)"
    if S: "guarantors_inv p s" "Submit f z g \<in> set (sc_view GuarantorsSection p s)" "parse z (ui_form s f) = Some w"
  proof -
    obtain i ds where p: "p = (i, ds)" "z = guarantorNominateSchema" "f = ''nominate''" "g = mutate (addMutation i)" "\<not> isPending (addMutation i) s"
      using S(2) by (cases p; cases "snd p") (auto simp: GuarantorsSection_def guarantors_view_def dialog_defs split: if_splits)
    then have "nomination ds w" using nomination_accepted [OF zod_axioms] S(1,3) by (auto simp: guarantors_inv_def)
    then show ?thesis using S(1) p by (simp add: guarantors_inv_def) (simp add: addMutation_def guarantor_ok_def)
  qed
  show "guarantors_inv p (succeed m vars data s)" "guarantors_inv p (fail m vars e s)" if "guarantors_inv p s" "m \<in> set (sc_mutations GuarantorsSection p)"
    using that by (cases p; auto simp: GuarantorsSection_def guarantors_inv_def settle_defs addMutation_def consentMutation_def)+
  show "guarantors_inv q s" if "guarantors_inv p s" "rendered_again p q"
  proof -
    have n: "nomination ds v \<Longrightarrow> nomination (d # ds) v" for ds d v by (auto simp: nomination_def offered_members_def)
    have c: "pending_shown ds g \<Longrightarrow> pending_shown (d # ds) g" for ds d g by (auto simp: pending_shown_def)
    have "guarantor_ok i ds x \<Longrightarrow> guarantor_ok i (d # ds) x" for i ds d x using n c unfolding guarantor_ok_def by blast
    then show ?thesis using that n c by (cases p) (auto simp: rendered_again_def guarantors_inv_def list_all_iff)
  qed
qed (fact guarantors_press)

section \<open>Shared dialogs keep their promises\<close>

text \<open>A step that asks for an immediate cancellation confirms the held reason.\<close>

lemma immediate_confirmed:
  assumes "ui_step parse SubscriptionActions rendered_again ((a, ds), s) (q, t)"
    "requests t = requests s @ [Op_billing (Billing_cancelSubscription i b (Some (JObj [(''mode'', JStr ''immediate'')])))]"
  shows "ui_open s ''confirm'' \<and> b = JObj [(''reason'', ui_held s ''pendingReason'')]"
  using assms(1)
proof cases
  case (press h)
  then obtain d es where ds: "ds = d # es" by (cases ds) (auto simp: SubscriptionActions_def)
  from press(3) [unfolded ds] show ?thesis
    by (cases rule: subscription_press_cases)
      (use press assms(2) in \<open>auto simp: ask_reason_def subscription_confirm_change_def subscription_confirm_def cancelMutation_def reactivation_def cancel_vars_def split: if_splits\<close>)
next
  case (submit f z h w)
  then have "h = subscription_submit a"
    by (cases ds) (auto simp: SubscriptionActions_def subscription_view_def dialog_defs split: if_splits)
  then show ?thesis using submit assms(2) by (auto simp: subscription_submit_def cancelMutation_def cancel_vars_def Let_def split: if_splits)
qed (use assms(2) in \<open>auto simp: SubscriptionActions_def settle_defs cancelMutation_def reactivation_def\<close>)

context zod
begin

lemma subscription_runs: "ui_run parse SubscriptionActions rendered_again p (q, s) \<Longrightarrow> subscription_inv q s"
  by (rule subscription.run_keeps)

lemma payments_runs: "ui_run parse PendingPaymentsTable rendered_again p (q, s) \<Longrightarrow> payments_inv q s"
  by (rule payments.run_keeps)

lemma guarantors_runs: "ui_run parse GuarantorsSection rendered_again p (q, s) \<Longrightarrow> guarantors_inv q s"
  by (rule guarantors.run_keeps)

end


definition demo_subscription :: subscription_props where
  "demo_subscription = \<lparr>su_id = ''s1'', su_canWrite = True\<rparr>"

lemma demo_cancellation:
  "\<exists>s. ui_run (zref demo_formats) SubscriptionActions rendered_again (demo_subscription, [''active'']) ((demo_subscription, [''active'']), s) \<and>
     requests s = [Op_billing (Billing_cancelSubscription ''s1'' demo_reason (Some (JObj [(''mode'', JStr ''at_period_end'')])))]"
proof -
  let ?p = "(demo_subscription, [''active''])"
  define s1 where "s1 = ask_reason ''at_period_end'' (sc_start SubscriptionActions ?p)"
  define s2 where "s2 = fill ''form'' ''reason'' (JStr ''Not plausible'') s1"
  have s2: "ui_form s2 ''form'' = demo_reason" "ui_held s2 ''reasonMode'' = JStr ''at_period_end''" "ui_running s2 = []" "requests s2 = []"
    by (simp_all add: s2_def s1_def ask_reason_def SubscriptionActions_def set_field_def demo_reason_def)
  have r1: "ui_run (zref demo_formats) SubscriptionActions rendered_again ?p (?p, s1)" unfolding s1_def
    by (rule run_press [OF run_start]) (simp add: SubscriptionActions_def subscription_view_def demo_subscription_def shown_def cancellable_def)
  have r2: "ui_run (zref demo_formats) SubscriptionActions rendered_again ?p (?p, s2)" unfolding s2_def
    by (rule run_fill [OF r1, of _ "[''reason'']"])
      (simp_all add: SubscriptionActions_def subscription_view_def demo_subscription_def dialog_defs s1_def ask_reason_def)
  have "Submit ''form'' subscriptionCancelSchema (subscription_submit demo_subscription) \<in> set (sc_view SubscriptionActions ?p s2)"
    using s2 by (simp add: SubscriptionActions_def subscription_view_def demo_subscription_def dialog_defs isPending_def)
  then have r3: "ui_run (zref demo_formats) SubscriptionActions rendered_again ?p (?p, subscription_submit demo_subscription demo_reason s2)"
    by (rule run_submit [OF r2]) (use s2 in \<open>simp add: subscriptionCancelSchema_def demo_reason_def out_field_def, code_simp\<close>)
  show ?thesis
    by (rule exI, rule conjI, rule r3) (use s2 in \<open>simp add: subscription_submit_def cancelMutation_def cancel_vars_def demo_subscription_def demo_reason_def\<close>)
qed


end
