(* ===== verification/Form_Pages.thy ===== *)
theory Form_Pages
  imports Flows Form_Logic
begin

text \<open>
  The pages of the portal that are one form: creating products, members, fees, accounts, loan applications,
  journal entries, payroll batches, plans and users, and editing them. Each validates with its schema, sends one
  request, reports and navigates. Records that a page edits are the JSON values its props carry. The rows of the
  journal entry and payroll forms are one field of the model that can be filled with anything, as is
  every rendered field.
\<close>

definition text_defaults :: "string list \<Rightarrow> (string \<times> jv) list" where
  "text_defaults ks = map (\<lambda>k. (k, JStr [])) ks"

text \<open>A form whose dismissal goes back in the history.\<close>

definition create_page :: "string \<Rightarrow> form \<Rightarrow> (jv \<Rightarrow> operation) \<Rightarrow> jv list list \<Rightarrow> string \<Rightarrow> (jv \<Rightarrow> effect list) \<Rightarrow> string \<Rightarrow> flow" where
  "create_page n fo call stale title end_with problem =
     page_flow n fo [Went_back] (\<lambda>_. False) (\<lambda>vars. Some (call vars)) stale (\<lambda>_ _. title) end_with problem"

section \<open>Savings and shares\<close>

definition savings_CreateProductForm :: "(unit, unit) component" where
  "savings_CreateProductForm = always (\<lambda>_. [create_page ''product''
     \<lparr>fo_schema = savingsProductSchema, fo_rendered = [''name'', ''interest_rate'', ''minimum_balance'', ''liability_account_id''],
      fo_defaults = JObj (text_defaults [''name'', ''interest_rate'', ''minimum_balance'', ''liability_account_id''])\<rparr>
     (\<lambda>vars. Op_savings (Savings_createProduct vars)) [] ''Product created'' (\<lambda>_. [Pushed ''/savings'']) ''The product was not created''])"

definition shares_CreateProductForm :: "(unit, unit) component" where
  "shares_CreateProductForm = always (\<lambda>_. [create_page ''product''
     \<lparr>fo_schema = shareProductSchema, fo_rendered = [''name'', ''par_value'', ''minimum_shares'', ''maximum_shares'', ''share_capital_account_id''],
      fo_defaults = JObj [(''name'', JStr []), (''par_value'', JStr []), (''minimum_shares'', JStr ''1''), (''maximum_shares'', JStr []),
        (''share_capital_account_id'', JStr [])]\<rparr>
     (\<lambda>vars. Op_shares (Shares_createProduct (drop_blank [''maximum_shares''] vars))) [] ''Product created'' (\<lambda>_. [Pushed ''/shares''])
     ''The product was not created''])"

text \<open>The member is chosen by the page that links here, when there is one.\<close>

definition savings_OpenAccountForm :: "(string option, unit) component" where
  "savings_OpenAccountForm = always (\<lambda>defaultMemberId. [create_page ''account''
     \<lparr>fo_schema = openAccountSchema, fo_rendered = [''member_id'', ''savings_product_id''],
      fo_defaults = JObj [(''member_id'', JStr (nullish defaultMemberId [])), (''savings_product_id'', JStr [])]\<rparr>
     (\<lambda>vars. Op_savings (Savings_createAccount vars)) [] ''Account opened'' (\<lambda>data. [Pushed (''/savings/accounts/'' @ id_of data)])
     ''The account was not opened''])"

definition shares_OpenAccountForm :: "(string option, unit) component" where
  "shares_OpenAccountForm = always (\<lambda>defaultMemberId. [create_page ''account''
     \<lparr>fo_schema = openShareAccountSchema, fo_rendered = [''member_id'', ''share_product_id''],
      fo_defaults = JObj [(''member_id'', JStr (nullish defaultMemberId [])), (''share_product_id'', JStr [])]\<rparr>
     (\<lambda>vars. Op_shares (Shares_openAccount vars)) [] ''Account opened'' (\<lambda>data. [Pushed (''/shares/accounts/'' @ id_of data)])
     ''The account was not opened''])"

section \<open>Credit\<close>

definition loan_product_defaults :: jv where
  "loan_product_defaults = JObj [(''name'', JStr []), (''description'', JStr []), (''interest_method'', JStr ''reducing_balance''),
     (''annual_interest_rate'', JStr []), (''repayment_frequency'', JStr ''monthly''), (''max_term_periods'', JStr []), (''min_amount'', JStr []),
     (''max_amount'', JStr []), (''required_approvals'', JStr ''1''), (''repayment_allocation'', JStr ''INTEREST_PRINCIPAL''),
     (''disbursement_destinations'', JArr []), (''gl_principal_receivable_code'', JStr []), (''gl_interest_receivable_code'', JStr []),
     (''gl_interest_income_code'', JStr []), (''gl_loan_loss_expense_code'', JStr []), (''penalty_fee_type_code'', JStr []), (''write_off_threshold'', JStr [])]"

definition credit_CreateProductForm :: "(unit, unit) component" where
  "credit_CreateProductForm = always (\<lambda>_. [create_page ''product''
     \<lparr>fo_schema = loanProductSchema, fo_rendered = js_keys loan_product_defaults, fo_defaults = loan_product_defaults\<rparr>
     (\<lambda>vars. Op_credit (Credit_createProduct
        (drop_blank [''description'', ''gl_loan_loss_expense_code'', ''penalty_fee_type_code'', ''write_off_threshold''] vars)))
     [] ''Product created'' (\<lambda>_. [Pushed ''/credit'']) ''The product was not created''])"

definition credit_EditProductForm :: "(jv, unit) component" where
  "credit_EditProductForm = always (\<lambda>product. [page_flow ''product''
     \<lparr>fo_schema = loanProductPatchSchema, fo_rendered = [''name'', ''description'', ''penalty_fee_type_code'', ''write_off_threshold''],
      fo_defaults = JObj [(''name'', js_prop product ''name''), (''description'', js_nullish (js_prop product ''description'') (JStr [])),
        (''penalty_fee_type_code'', js_nullish (js_prop product ''penalty_fee_type_code'') (JStr [])), (''write_off_threshold'', js_prop product ''write_off_threshold'')]\<rparr>
     [] (\<lambda>_. False) (\<lambda>vars. Some (Op_credit (Credit_patchProduct (id_of product) (drop_blank [''description'', ''penalty_fee_type_code''] vars))))
     [] (\<lambda>_ _. ''Product updated'') (\<lambda>_. [Refreshed]) ''The product was not updated''])"

record keyed_member =
  km_key :: string
  km_member :: "string option"

definition CreateApplicationForm :: "(keyed_member, unit) component" where
  "CreateApplicationForm = always (\<lambda>p. [create_page ''application''
     \<lparr>fo_schema = loanApplicationSchema,
      fo_rendered = [''loan_product_id'', ''member_id'', ''requested_amount'', ''requested_term_periods'', ''purpose'', ''disbursement_destination'', ''disbursement_account_id''],
      fo_defaults = JObj [(''loan_product_id'', JStr []), (''member_id'', JStr (nullish (km_member p) [])), (''requested_amount'', JStr []),
        (''requested_term_periods'', JStr []), (''purpose'', JStr []), (''disbursement_destination'', JStr ''cash''), (''disbursement_account_id'', JStr []),
        (''idempotency_key'', JStr (km_key p))]\<rparr>
     (\<lambda>vars. Op_credit (Credit_createApplication vars)) [] ''Application submitted'' (\<lambda>data. [Pushed (''/credit/applications/'' @ id_of data)])
     ''The application was not submitted''])"

definition CreatePayrollBatchForm :: "(string, unit) component" where
  "CreatePayrollBatchForm = always (\<lambda>idemKey. [create_page ''batch''
     \<lparr>fo_schema = payrollBatchSchema, fo_rendered = [''rows'', ''clearing_account_id''],
      fo_defaults = JObj [(''rows'', JArr [JObj (text_defaults [''member_id'', ''amount''])]), (''clearing_account_id'', JStr []), (''idempotency_key'', JStr idemKey)]\<rparr>
     (\<lambda>vars. Op_credit (Credit_createPayrollBatch vars)) [] ''Batch created'' (\<lambda>data. [Pushed (''/credit/payroll/'' @ id_of data)])
     ''The batch was not created''])"

text \<open>The member's own application; the section is not shown when there is nothing to apply for.\<close>

definition MemberApplySection :: "(unit, jv list) component" where
  "MemberApplySection =
     \<lparr>cp_flows = (\<lambda>_. [dialog_flow ''apply''
        \<lparr>fo_schema = memberLoanApplySchema, fo_rendered = [''loan_product_id'', ''requested_amount'', ''requested_term_periods'', ''purpose''],
         fo_defaults = JObj (text_defaults [''loan_product_id'', ''requested_amount'', ''requested_term_periods'', ''purpose''])\<rparr>
        Leave (\<lambda>vars. Some (Op_member (Member_applyForLoan vars))) [memberKeys K_member_loanApplications]
        (\<lambda>_ _. ''Application submitted'') Reset (\<lambda>_. [Refreshed]) ''Your application was not submitted'']),
      cp_visible = (\<lambda>_ products. products \<noteq> []), cp_gate = (\<lambda>_ _ _. True), cp_links = (\<lambda>_ _. [])\<rparr>"

section \<open>Members, fees and ledger\<close>

definition CreateMemberForm :: "(unit, unit) component" where
  "CreateMemberForm = always (\<lambda>_. [create_page ''member''
     \<lparr>fo_schema = memberRegistrationSchema,
      fo_rendered = [''full_name'', ''date_of_birth'', ''gender'', ''phone'', ''email'', ''physical_address'', ''national_id_number'', ''id_document_type'',
        ''id_document_number'', ''id_issued_date'', ''id_expiry_date''],
      fo_defaults = JObj (text_defaults [''full_name'', ''date_of_birth'', ''phone'', ''email'', ''physical_address'', ''national_id_number'', ''id_document_number''])\<rparr>
     (\<lambda>vars. Op_members (Members_create vars)) [] ''Member registered'' (\<lambda>data. [Pushed (''/members/'' @ id_of data)]) ''The member was not registered''])"

text \<open>Choosing another kind of target also clears the target; the model lets it be filled with anything.\<close>

definition CreateAssessmentForm :: "(unit, unit) component" where
  "CreateAssessmentForm = always (\<lambda>_. [create_page ''assessment''
     \<lparr>fo_schema = feeAssessmentSchema, fo_rendered = [''fee_type_id'', ''target_type'', ''target_id'', ''period_start'', ''period_end''],
      fo_defaults = JObj [(''fee_type_id'', JStr []), (''target_type'', JStr ''member''), (''target_id'', JStr []), (''period_start'', JStr []), (''period_end'', JStr [])]\<rparr>
     (\<lambda>vars. Op_fees (Fees_createAssessment (drop_blank [''period_end''] vars))) [] ''Assessment created''
     (\<lambda>data. [Pushed (''/fees/assessments/'' @ id_of data)]) ''The assessment was not created''])"

definition fee_type_defaults :: jv where
  "fee_type_defaults = JObj [(''code'', JStr []), (''name'', JStr []), (''description'', JStr []), (''applicable_to'', JStr ''member''), (''amount_kind'', JStr ''fixed''),
     (''amount'', JStr []), (''currency'', JStr ''UGX''), (''trigger_kind'', JStr ''manual''), (''event_name'', JStr []), (''gl_income_account_code'', JStr []),
     (''gl_receivable_account_code'', JStr []), (''requires_collection'', JBool False)]"

definition CreateFeeTypeForm :: "(unit, unit) component" where
  "CreateFeeTypeForm = always (\<lambda>_. [create_page ''feeType''
     \<lparr>fo_schema = feeTypeSchema, fo_rendered = js_keys fee_type_defaults, fo_defaults = fee_type_defaults\<rparr>
     (\<lambda>vars. Op_fees (Fees_createType (drop_blank [''description'', ''event_name''] vars))) [] ''Fee type created''
     (\<lambda>_. [Pushed ''/fees/types'']) ''The fee type was not created''])"

definition EditFeeTypeForm :: "(jv, unit) component" where
  "EditFeeTypeForm = always (\<lambda>feeType. [page_flow ''feeType''
     \<lparr>fo_schema = feeTypePatchSchema, fo_rendered = [''name'', ''description'', ''amount'', ''is_active'', ''requires_collection''],
      fo_defaults = JObj [(''name'', js_prop feeType ''name''), (''description'', js_nullish (js_prop feeType ''description'') (JStr [])),
        (''amount'', js_prop feeType ''amount''), (''is_active'', js_prop feeType ''is_active''), (''requires_collection'', js_prop feeType ''requires_collection'')]\<rparr>
     [] (\<lambda>_. False) (\<lambda>vars. Some (Op_fees (Fees_patchType (id_of feeType) (drop_blank [''description''] vars)))) []
     (\<lambda>_ _. ''Fee type updated'') (\<lambda>_. [Refreshed]) ''The fee type was not updated''])"

definition account_body :: "jv \<Rightarrow> jv" where
  "account_body vars = (let body = drop_blank [''description'', ''parent_id''] vars in
     case body of JObj fs \<Rightarrow> JObj (filter (\<lambda>(k, x). \<not> (k = ''parent_id'' \<and> x = JStr ''none'')) fs) | _ \<Rightarrow> body)"

definition ledger_CreateAccountForm :: "(unit, unit) component" where
  "ledger_CreateAccountForm = always (\<lambda>_. [create_page ''account''
     \<lparr>fo_schema = accountSchema, fo_rendered = [''code'', ''name'', ''account_type'', ''parent_id'', ''description''],
      fo_defaults = JObj [(''code'', JStr []), (''name'', JStr []), (''account_type'', JStr ''asset''), (''parent_id'', JUndef), (''description'', JStr [])]\<rparr>
     (\<lambda>vars. Op_ledger (Ledger_createAccount (account_body vars))) [] ''Account created'' (\<lambda>_. [Pushed ''/ledger/accounts'']) ''The account was not created''])"

definition emptyLine :: jv where
  "emptyLine = JObj [(''account_id'', JStr []), (''debit_amount'', JStr ''0''), (''credit_amount'', JStr ''0''), (''description'', JStr [])]"

definition ManualGLForm :: "(string, unit) component" where
  "ManualGLForm = always (\<lambda>idemKey. [create_page ''entry''
     \<lparr>fo_schema = manualJournalEntrySchema, fo_rendered = [''reference'', ''description'', ''lines''],
      fo_defaults = JObj [(''reference'', JStr []), (''description'', JStr []), (''idempotency_key'', JStr idemKey), (''lines'', JArr [emptyLine, emptyLine])]\<rparr>
     (\<lambda>vars. Op_ledger (Ledger_submitJournalEntry vars)) [] ''GL entry submitted -- pending approval'' (\<lambda>_. [Pushed ''/ledger/journal-entries''])
     ''The GL entry was not submitted''])"

section \<open>Platform\<close>

definition plan_defaults :: jv where
  "plan_defaults = JObj [(''code'', JStr []), (''name'', JStr []), (''description'', JStr []), (''currency'', JStr ''UGX''), (''base_price'', JStr []),
     (''per_user_price'', JStr ''0''), (''per_member_price'', JStr ''0''), (''billing_period'', JStr ''monthly''), (''features'', JObj []),
     (''trial_period_days'', JNum (Fin 0)), (''grace_period_days'', JNum (Fin 30))]"

definition PlanForm :: "(unit, unit) component" where
  "PlanForm = always (\<lambda>_. [create_page ''plan''
     \<lparr>fo_schema = subscriptionPlanSchema, fo_rendered = filter (\<lambda>k. k \<noteq> ''features'') (js_keys plan_defaults), fo_defaults = plan_defaults\<rparr>
     (\<lambda>vars. Op_billing (Billing_createPlan vars)) [billingKeys (K_billing_plans None)] ''Plan created''
     (\<lambda>data. [Pushed (''/platform/billing/plans/'' @ id_of data)]) ''The plan was not created''])"

definition plan_fields :: "string list" where
  "plan_fields = [''base_price'', ''per_user_price'', ''per_member_price'', ''trial_period_days'', ''grace_period_days'', ''is_active'']"

definition EditPlanForm :: "(jv, unit) component" where
  "EditPlanForm = always (\<lambda>plan. [page_flow ''plan''
     \<lparr>fo_schema = subscriptionPlanPatchSchema, fo_rendered = [''name'', ''description''] @ plan_fields,
      fo_defaults = JObj ([(''name'', js_prop plan ''name''), (''description'', js_nullish (js_prop plan ''description'') (JStr []))] @
        map (\<lambda>k. (k, js_prop plan k)) plan_fields)\<rparr>
     [Pushed (''/platform/billing/plans/'' @ id_of plan)] (\<lambda>_. False) (\<lambda>vars. Some (Op_billing (Billing_patchPlan (id_of plan) vars)))
     [billingKeys (K_billing_plans None), billingKeys (K_billing_plan (id_of plan))] (\<lambda>_ _. ''Changes saved'')
     (\<lambda>_. [Pushed (''/platform/billing/plans/'' @ id_of plan)]) ''The plan was not updated''])"

definition EditTenantForm :: "(jv, unit) component" where
  "EditTenantForm = always (\<lambda>tenant. [page_flow ''tenant''
     \<lparr>fo_schema = tenantPatchSchema, fo_rendered = [''name''], fo_defaults = JObj [(''name'', js_prop tenant ''name'')]\<rparr>
     [Pushed (''/platform/tenants/'' @ id_of tenant)] (\<lambda>_. False) (\<lambda>vars. Some (Op_tenants (Tenants_patch (id_of tenant) vars)))
     [tenantsKeys K_tenants_root, tenantsKeys (K_tenants_detail (id_of tenant))] (\<lambda>_ _. ''Changes saved'')
     (\<lambda>_. [Pushed (''/platform/tenants/'' @ id_of tenant)]) ''The tenant was not updated''])"

definition AssignPlanForm :: "(string, unit) component" where
  "AssignPlanForm = always (\<lambda>tenantId. [page_flow ''assign''
     \<lparr>fo_schema = assignPlanSchema, fo_rendered = [''plan_id'', ''start_date''], fo_defaults = JObj [(''plan_id'', JStr [])]\<rparr>
     [Pushed (''/platform/tenants/'' @ tenantId)] (\<lambda>_. False)
     (\<lambda>vars. Some (Op_tenants (Tenants_assignPlan tenantId (JObj ((''plan_id'', js_prop vars ''plan_id'') #
        (if js_truthy (js_prop vars ''start_date'') then [(''start_date'', js_prop vars ''start_date'')] else []))))))
     [billingKeys (K_billing_subscriptions None), tenantsKeys (K_tenants_detail tenantId)] (\<lambda>_ _. ''Plan assigned'')
     (\<lambda>data. [Pushed (''/platform/billing/subscriptions/'' @ id_of data)]) ''The plan was not assigned''])"

definition CreateUserForm :: "(unit, unit) component" where
  "CreateUserForm = always (\<lambda>_. [create_page ''user''
     \<lparr>fo_schema = createPlatformUserSchema, fo_rendered = [''email'', ''full_name'', ''role''],
      fo_defaults = JObj [(''email'', JStr []), (''full_name'', JStr []), (''role'', JStr ''support'')]\<rparr>
     (\<lambda>vars. Op_admin (Admin_createUser vars)) [platformUsersKeys K_platformUsers_root] ''Platform user created''
     (\<lambda>_. [Pushed ''/platform/users'']) ''The user was not created''])"

definition EditTenantUserForm :: "(string \<times> jv, unit) component" where
  "EditTenantUserForm = always (\<lambda>(tenantId, user). let detailHref = ''/platform/tenants/'' @ tenantId @ ''/users/'' @ id_of user in [page_flow ''user''
     \<lparr>fo_schema = tenantUserPatchSchema, fo_rendered = [''full_name'', ''is_active'', ''is_admin''],
      fo_defaults = JObj (map (\<lambda>k. (k, js_prop user k)) [''full_name'', ''is_active'', ''is_admin''])\<rparr>
     [Pushed detailHref] (\<lambda>_. False) (\<lambda>vars. Some (Op_tenants (Tenants_patchUser tenantId (id_of user) vars)))
     [tenantsKeys (K_tenants_users tenantId)] (\<lambda>_ _. ''Tenant user updated'') (\<lambda>_. [Pushed detailHref]) ''The user was not updated''])"


lemmas page_defs = create_page_def Let_def
  savings_CreateProductForm_def shares_CreateProductForm_def savings_OpenAccountForm_def shares_OpenAccountForm_def
  credit_CreateProductForm_def credit_EditProductForm_def CreateApplicationForm_def CreatePayrollBatchForm_def
  MemberApplySection_def CreateMemberForm_def CreateAssessmentForm_def CreateFeeTypeForm_def EditFeeTypeForm_def
  ledger_CreateAccountForm_def ManualGLForm_def PlanForm_def EditPlanForm_def EditTenantForm_def AssignPlanForm_def
  CreateUserForm_def EditTenantUserForm_def

section \<open>Every page is a flow component\<close>

interpretation savings_product_page: flow_component parse savings_CreateProductForm for parse
  by unfold_locales (auto simp: page_defs flow_checks)

interpretation shares_product_page: flow_component parse shares_CreateProductForm for parse
  by unfold_locales (auto simp: page_defs flow_checks)

interpretation savings_account_page: flow_component parse savings_OpenAccountForm for parse
  by unfold_locales (auto simp: page_defs flow_checks)

interpretation shares_account_page: flow_component parse shares_OpenAccountForm for parse
  by unfold_locales (auto simp: page_defs flow_checks)

interpretation loan_product_page: flow_component parse credit_CreateProductForm for parse
  by unfold_locales (auto simp: page_defs flow_checks)

interpretation loan_product_edit_page: flow_component parse credit_EditProductForm for parse
  by unfold_locales (auto simp: page_defs flow_checks)

interpretation loan_application_page: flow_component parse CreateApplicationForm for parse
  by unfold_locales (auto simp: page_defs flow_checks)

interpretation payroll_batch_page: flow_component parse CreatePayrollBatchForm for parse
  by unfold_locales (auto simp: page_defs flow_checks)

interpretation member_apply_page: flow_component parse MemberApplySection for parse
  by unfold_locales (auto simp: page_defs flow_checks)

interpretation member_create_page: flow_component parse CreateMemberForm for parse
  by unfold_locales (auto simp: page_defs flow_checks)

interpretation assessment_page: flow_component parse CreateAssessmentForm for parse
  by unfold_locales (auto simp: page_defs flow_checks)

interpretation fee_type_page: flow_component parse CreateFeeTypeForm for parse
  by unfold_locales (auto simp: page_defs flow_checks)

interpretation fee_type_edit_page: flow_component parse EditFeeTypeForm for parse
  by unfold_locales (auto simp: page_defs flow_checks)

interpretation ledger_account_page: flow_component parse ledger_CreateAccountForm for parse
  by unfold_locales (auto simp: page_defs flow_checks)

interpretation manual_entry_page: flow_component parse ManualGLForm for parse
  by unfold_locales (auto simp: page_defs flow_checks)

interpretation plan_page: flow_component parse PlanForm for parse
  by unfold_locales (auto simp: page_defs flow_checks)

interpretation plan_edit_page: flow_component parse EditPlanForm for parse
  by unfold_locales (auto simp: page_defs flow_checks)

interpretation tenant_edit_page: flow_component parse EditTenantForm for parse
  by unfold_locales (auto simp: page_defs flow_checks)

interpretation assign_plan_page: flow_component parse AssignPlanForm for parse
  by unfold_locales (auto simp: page_defs flow_checks)

interpretation user_create_page: flow_component parse CreateUserForm for parse
  by unfold_locales (auto simp: page_defs flow_checks)

interpretation tenant_user_edit_page: flow_component parse EditTenantUserForm for parse
  by unfold_locales (auto simp: page_defs flow_checks)

section \<open>What the pages send is valid\<close>

lemma map_of_filter_distinct:
  "distinct (map fst ws) \<Longrightarrow> map_of (filter P ws) k = (case map_of ws k of None \<Rightarrow> None | Some x \<Rightarrow> if P (k, x) then Some x else None)"
proof (induction ws)
  case (Cons w ws)
  then show ?case by (cases w) (auto split: option.splits simp: map_of_eq_None_iff dest: map_of_SomeD)
qed simp

lemma out_field_self: "out_field v k (js_prop v k) = (if k \<in> set (js_keys v) then [(k, js_prop v k)] else [])"
proof (cases "\<exists>kvs. v = JObj kvs \<and> k \<in> fst ` set kvs")
  case False
  then have "js_prop v k = JUndef" "k \<notin> set (js_keys v)" by (cases v; auto simp: map_of_eq_None_iff [THEN iffD2])+
  then show ?thesis by (simp add: out_field_def)
next
  case True
  then obtain kvs where "v = JObj kvs" "k \<in> fst ` set kvs" by blast
  then have "k \<in> set (js_keys v)" by simp
  then show ?thesis by (simp add: out_field_def)
qed

lemma sequence_map_Some: "sequence (map (\<lambda>x. Some (f x)) xs) = Some (map f xs)"
  by (induction xs) simp_all

lemma zref_Object_fields:
  assumes "\<And>f. f \<in> set fs \<Longrightarrow> zref fmt (snd f) (js_prop (JObj kvs) (fst f)) = Some (h f)"
  shows "zref fmt (ZObject strict fs) (JObj kvs) = (if strict \<and> \<not> set (map fst kvs) \<subseteq> set (map fst fs) then None
    else Some (JObj (concat (map (\<lambda>f. out_field (JObj kvs) (fst f) (h f)) fs))))"
proof -
  have "map (\<lambda>f. map_option (out_field (JObj kvs) (fst f)) (zref fmt (snd f) (js_prop (JObj kvs) (fst f)))) fs =
    map (\<lambda>f. Some (out_field (JObj kvs) (fst f) (h f))) fs" using assms by simp
  then show ?thesis by (simp only: zref.simps jv.case sequence_map_Some option.map)
qed

text \<open>Leaving out fields that may be missing keeps an accepted object accepted.\<close>

lemma zref_drop:
  assumes "zref fmt (ZObject strict fs) (JObj ws) = Some (JObj ws)" "distinct (map fst fs)"
    "\<And>k s. (k, s) \<in> set fs \<Longrightarrow> \<not> P (k, js_prop (JObj ws) k) \<Longrightarrow> zref fmt s JUndef = Some JUndef"
  shows "zref fmt (ZObject strict fs) (JObj (filter P ws)) = Some (JObj (filter P ws))"
proof -
  let ?w = "JObj ws" and ?v = "JObj (filter P ws)"
  have field: "zref fmt s (js_prop ?w k) = Some (js_prop ?w k)" if "(k, s) \<in> set fs" for k s
    by (rule zref_field [OF assms(1,2) that])
  have "concat (map (\<lambda>f. out_field ?w (fst f) (js_prop ?w (fst f))) fs) = ws" "strict \<longrightarrow> set (map fst ws) \<subseteq> set (map fst fs)"
    using assms(1) zref_Object_fields [of fs fmt ws "\<lambda>f. js_prop ?w (fst f)" strict] field by (auto simp del: js_prop.simps zref.simps split: if_splits)
  note st = this(2)
  from \<open>concat _ = ws\<close> have ws: "ws = concat (map (\<lambda>f. if fst f \<in> fst ` set ws then [(fst f, js_prop ?w (fst f))] else []) fs)"
    by (simp add: out_field_self del: js_prop.simps)
  have "distinct (map fst (concat (map (\<lambda>f. if fst f \<in> A then [(fst f, g (fst f))] else []) fs)))" for A :: "string set" and g :: "string \<Rightarrow> jv"
    using assms(2) by (induction fs) (auto split: if_splits intro: rev_image_eqI)
  then have d: "distinct (map fst ws)" by (subst ws) blast
  have p: "js_prop ?v k = (if P (k, js_prop ?w k) then js_prop ?w k else JUndef)" for k
    using map_of_filter_distinct [OF d, of P k] by (auto split: option.splits)
  have z: "zref fmt s (js_prop ?v k) = Some (js_prop ?v k)" if "(k, s) \<in> set fs" for k s
    using field [OF that] assms(3) [OF that] by (simp only: p split: if_splits) auto
  have "filter P ws = concat (map (\<lambda>f. filter P (if fst f \<in> fst ` set ws then [(fst f, js_prop ?w (fst f))] else [])) fs)"
    by (subst ws) (simp add: filter_concat comp_def)
  also have "\<dots> = concat (map (\<lambda>f. out_field ?v (fst f) (js_prop ?v (fst f))) fs)"
  proof -
    have key: "k \<in> set (js_keys (JObj xs)) \<longleftrightarrow> map_of xs k \<noteq> None" for k xs by (simp add: map_of_eq_None_iff)
    have "k \<in> fst ` set ws \<longleftrightarrow> map_of ws k \<noteq> None" for k by (simp add: map_of_eq_None_iff)
    then have "k \<in> set (js_keys ?v) \<longleftrightarrow> k \<in> fst ` set ws \<and> P (k, js_prop ?w k)" for k
      unfolding key using map_of_filter_distinct [OF d, of P k] by (auto split: option.splits)
    then show ?thesis unfolding out_field_self unfolding p by (intro arg_cong [where f = concat] map_cong) (simp_all del: js_prop.simps js_keys.simps)
  qed
  finally have r: "filter P ws = concat (map (\<lambda>f. out_field ?v (fst f) (js_prop ?v (fst f))) fs)" .
  show ?thesis using zref_Object_fields [of fs fmt "filter P ws" "\<lambda>f. js_prop ?v (fst f)" strict] z r st
    by (auto simp del: js_prop.simps zref.simps)
qed

lemma drop_blank_accepted:
  assumes "zref fmt (ZObject strict fs) w = Some w" "distinct (map fst fs)"
    "list_all (\<lambda>(k, s). k \<in> set ks \<longrightarrow> zref fmt s JUndef = Some JUndef) fs"
  shows "zref fmt (ZObject strict fs) (drop_blank ks w) = Some (drop_blank ks w)"
proof -
  obtain ws where w: "w = JObj ws" using assms(1) by (cases w) auto
  show ?thesis unfolding w drop_blank_def jv.case
    by (rule zref_drop [OF assms(1) [unfolded w] assms(2)]) (use assms(3) in \<open>auto simp: list_all_iff split: prod.splits\<close>)
qed

lemma settled_again: "zod fmt parse \<Longrightarrow> s \<in> set portal_schemas \<Longrightarrow> parse s v = Some w \<Longrightarrow> parse s w = Some w"
  using zod.parse_settled [of fmt parse s v w] operation_schemas_settled [of fmt] admin_schemas_settled [of fmt]
  by (auto simp: portal_schemas_def list_all_iff)

text \<open>The schema and the body of a form's request.\<close>

definition form_body :: "operation \<Rightarrow> (zschema \<times> jv) option" where
  "form_body x = (case x of
     Op_savings (Savings_createProduct b) \<Rightarrow> Some (savingsProductSchema, b)
   | Op_savings (Savings_createAccount b) \<Rightarrow> Some (openAccountSchema, b)
   | Op_shares (Shares_createProduct b) \<Rightarrow> Some (shareProductSchema, b)
   | Op_shares (Shares_openAccount b) \<Rightarrow> Some (openShareAccountSchema, b)
   | Op_credit (Credit_createProduct b) \<Rightarrow> Some (loanProductSchema, b)
   | Op_credit (Credit_patchProduct i b) \<Rightarrow> Some (loanProductPatchSchema, b)
   | Op_credit (Credit_createApplication b) \<Rightarrow> Some (loanApplicationSchema, b)
   | Op_credit (Credit_createPayrollBatch b) \<Rightarrow> Some (payrollBatchSchema, b)
   | Op_member (Member_applyForLoan b) \<Rightarrow> Some (memberLoanApplySchema, b)
   | Op_members (Members_create b) \<Rightarrow> Some (memberRegistrationSchema, b)
   | Op_fees (Fees_createAssessment b) \<Rightarrow> Some (feeAssessmentSchema, b)
   | Op_fees (Fees_createType b) \<Rightarrow> Some (feeTypeSchema, b)
   | Op_fees (Fees_patchType i b) \<Rightarrow> Some (feeTypePatchSchema, b)
   | Op_ledger (Ledger_createAccount b) \<Rightarrow> Some (accountSchema, b)
   | Op_ledger (Ledger_submitJournalEntry b) \<Rightarrow> Some (manualJournalEntrySchema, b)
   | Op_billing (Billing_createPlan b) \<Rightarrow> Some (subscriptionPlanSchema, b)
   | Op_billing (Billing_patchPlan i b) \<Rightarrow> Some (subscriptionPlanPatchSchema, b)
   | Op_tenants (Tenants_patch i b) \<Rightarrow> Some (tenantPatchSchema, b)
   | Op_tenants (Tenants_assignPlan i b) \<Rightarrow> Some (assignPlanSchema, b)
   | Op_admin (Admin_createUser b) \<Rightarrow> Some (createPlatformUserSchema, b)
   | Op_tenants (Tenants_patchUser i j b) \<Rightarrow> Some (tenantUserPatchSchema, b)
   | _ \<Rightarrow> None)"

text \<open>Every request of every run of the page carries a body its schema accepts as it is, one at a time.\<close>

definition valid_body :: "(zschema \<Rightarrow> jv \<Rightarrow> jv option) \<Rightarrow> operation \<Rightarrow> bool" where
  "valid_body parse x \<longleftrightarrow> (case form_body x of Some (z, b) \<Rightarrow> parse z b = Some b | None \<Rightarrow> False)"

definition sends_valid :: "(zschema \<Rightarrow> jv \<Rightarrow> jv option) \<Rightarrow> ('i, 'd) component \<Rightarrow> bool" where
  "sends_valid parse C \<longleftrightarrow> (\<forall>i d p s. ui_run parse (component_screen C) rendered_again (i, [d]) (p, s) \<longrightarrow>
     single_flight s \<and> list_all (valid_body parse) (requests s))"

context flow_component
begin

lemma sends_validI:
  assumes "\<And>i f w x. f \<in> set (cp_flows C i) \<Longrightarrow> accepted parse f w \<Longrightarrow> fl_call f w = Some x \<Longrightarrow> valid_body parse x"
  shows "sends_valid parse C"
  unfolding sends_valid_def
proof (intro allI impI)
  fix i d p s
  assume run: "ui_run parse (component_screen C) rendered_again (i, [d]) (p, s)"
  obtain j ds where p: "p = (j, ds)" by (cases p)
  show "single_flight s \<and> list_all (valid_body parse) (requests s)"
    using requests_justified [OF run [unfolded p]] assms by (auto simp: list_all_iff justified_def)
qed

end


lemma plain_body:
  assumes "zod fmt parse" "z \<in> set portal_schemas" "parse z v = Some w" "form_body x = Some (z, w)"
  shows "valid_body parse x"
  using settled_again [OF assms(1-3)] assms(4) by (simp add: valid_body_def)

lemmas page_forms = page_defs flow_shapes accepted_def

lemma plain_pages:
  assumes "zod fmt parse"
  shows "sends_valid parse savings_CreateProductForm" "sends_valid parse savings_OpenAccountForm" "sends_valid parse shares_OpenAccountForm"
    "sends_valid parse CreateApplicationForm" "sends_valid parse CreatePayrollBatchForm" "sends_valid parse MemberApplySection"
    "sends_valid parse CreateMemberForm" "sends_valid parse ManualGLForm" "sends_valid parse PlanForm" "sends_valid parse EditPlanForm"
    "sends_valid parse EditTenantForm" "sends_valid parse CreateUserForm" "sends_valid parse EditTenantUserForm"
  by (rule savings_product_page.sends_validI savings_account_page.sends_validI shares_account_page.sends_validI
      loan_application_page.sends_validI payroll_batch_page.sends_validI member_apply_page.sends_validI member_create_page.sends_validI
      manual_entry_page.sends_validI plan_page.sends_validI plan_edit_page.sends_validI tenant_edit_page.sends_validI
      user_create_page.sends_validI tenant_user_edit_page.sends_validI,
      (auto simp: page_forms form_body_def portal_schemas_def operation_schemas_def admin_schemas_def elim!: plain_body [OF assms, rotated])[1])+


text \<open>A schema in which the listed fields may be missing.\<close>

definition prunable :: "zformats \<Rightarrow> zschema \<Rightarrow> string list \<Rightarrow> bool" where
  "prunable fmt z ks \<longleftrightarrow> z \<in> set portal_schemas \<and> coerce_free z \<and>
     (case z of ZObject strict fs \<Rightarrow> distinct (map fst fs) \<and> list_all (\<lambda>(k, s). k \<in> set ks \<longrightarrow> zref fmt s JUndef = Some JUndef) fs | _ \<Rightarrow> False)"

lemma pruned_body:
  assumes "zod fmt parse" "parse z v = Some w" "prunable fmt z ks" "form_body x = Some (z, drop_blank ks w)"
  shows "valid_body parse x"
proof -
  obtain strict fs where z: "z \<in> set portal_schemas" "coerce_free z" "z = ZObject strict fs" "distinct (map fst fs)"
    "list_all (\<lambda>(k, s). k \<in> set ks \<longrightarrow> zref fmt s JUndef = Some JUndef) fs"
    using assms(3) by (auto simp: prunable_def split: zschema.splits)
  note p = zod.parse_zref [OF assms(1) z(2)]
  have "zref fmt z w = Some w" using settled_again [OF assms(1) z(1) assms(2)] p by simp
  then show ?thesis using drop_blank_accepted [of fmt strict fs w ks] z(3-5) assms(4) p by (simp add: valid_body_def)
qed

lemma prunableI:
  assumes "z \<in> set portal_schemas" "z = ZObject strict fs" "coerce_free (ZObject strict fs)" "distinct (map fst fs)"
    "list_all (\<lambda>(k, s). k \<in> set ks \<longrightarrow> zref fmt s JUndef = Some JUndef) fs"
  shows "prunable fmt z ks"
  using assms by (simp add: prunable_def)

lemmas field_defs = moneyString_def intString_def percentageString_def uuid_def isoDate_def currencyCode_def disbursementDestinationSchema_def
  feeApplicableToSchema_def feeAmountKindSchema_def feeTriggerKindSchema_def accountTypeSchema_def

lemma prunable_schemas [simp]:
  "prunable fmt shareProductSchema [''maximum_shares'']"
  "prunable fmt loanProductSchema [''description'', ''gl_loan_loss_expense_code'', ''penalty_fee_type_code'', ''write_off_threshold'']"
  "prunable fmt loanProductPatchSchema [''description'', ''penalty_fee_type_code'']"
  "prunable fmt feeAssessmentSchema [''period_end'']"
  "prunable fmt feeTypeSchema [''description'', ''event_name'']"
  "prunable fmt feeTypePatchSchema [''description'']"
  "prunable fmt accountSchema [''description'', ''parent_id'']"
  by (rule prunableI [OF _ shareProductSchema_def] prunableI [OF _ loanProductSchema_def] prunableI [OF _ loanProductPatchSchema_def] prunableI [OF _ feeAssessmentSchema_def] prunableI [OF _ feeTypeSchema_def] prunableI [OF _ feeTypePatchSchema_def] prunableI [OF _ accountSchema_def],
      simp add: portal_schemas_def operation_schemas_def, simp add: field_defs no_opts_def, simp, simp)+


lemma pruned_pages:
  assumes "zod fmt parse"
  shows "sends_valid parse shares_CreateProductForm" "sends_valid parse credit_CreateProductForm" "sends_valid parse credit_EditProductForm"
    "sends_valid parse CreateAssessmentForm" "sends_valid parse CreateFeeTypeForm" "sends_valid parse EditFeeTypeForm"
  by (rule shares_product_page.sends_validI loan_product_page.sends_validI loan_product_edit_page.sends_validI assessment_page.sends_validI
      fee_type_page.sends_validI fee_type_edit_page.sends_validI,
      (auto simp: page_forms form_body_def elim!: pruned_body [OF assms])[1])+

lemma account_page_valid:
  assumes "zod fmt parse"
  shows "sends_valid parse ledger_CreateAccountForm"
proof (rule ledger_account_page.sends_validI)
  fix i f w x
  assume "f \<in> set (cp_flows ledger_CreateAccountForm i)" "accepted parse f w" "fl_call f w = Some x"
  then obtain v where v: "parse accountSchema v = Some w" "x = Op_ledger (Ledger_createAccount (account_body w))" by (auto simp: page_forms)
  have cf: "coerce_free accountSchema" by (simp add: accountSchema_def field_defs)
  note p = zod.parse_zref [OF assms cf]
  have "accountSchema \<in> set portal_schemas" by (simp add: portal_schemas_def operation_schemas_def)
  then have w: "zref fmt accountSchema w = Some w" using settled_again [OF assms _ v(1)] p by simp
  let ?b = "drop_blank [''description'', ''parent_id''] w"
  have b: "zref fmt accountSchema ?b = Some ?b"
    using w drop_blank_accepted [of fmt False _ w "[''description'', ''parent_id'']"] by (simp add: accountSchema_def del: zref.simps) (simp add: field_defs)
  then obtain bs where bs: "?b = JObj bs" by (cases ?b) (auto simp: accountSchema_def)
  have "zref fmt accountSchema (account_body w) = Some (account_body w)"
    unfolding account_body_def Let_def bs jv.case accountSchema_def
    by (rule zref_drop [OF b [unfolded bs accountSchema_def]]) (auto split: prod.splits simp: field_defs)
  then show "valid_body parse x" by (simp add: v(2) valid_body_def form_body_def p)
qed

lemma assign_page_valid:
  assumes "zod fmt parse"
  shows "sends_valid parse AssignPlanForm"
proof (rule assign_plan_page.sends_validI)
  fix i f w x
  assume "f \<in> set (cp_flows AssignPlanForm i)" "accepted parse f w" "fl_call f w = Some x"
  then obtain v where v: "parse assignPlanSchema v = Some w" "x = Op_tenants (Tenants_assignPlan i (JObj ((''plan_id'', js_prop w ''plan_id'') #
      (if js_truthy (js_prop w ''start_date'') then [(''start_date'', js_prop w ''start_date'')] else []))))" by (auto simp: page_forms simp del: js_prop.simps)
  have cf: "coerce_free assignPlanSchema" by (simp add: assignPlanSchema_def field_defs)
  note p = zod.parse_zref [OF assms cf]
  have "assignPlanSchema \<in> set portal_schemas" by (simp add: portal_schemas_def admin_schemas_def)
  then have "zref fmt assignPlanSchema w = Some w" using settled_again [OF assms _ v(1)] p by simp
  then have z: "zref fmt (ZString [Uuid]) (js_prop w ''plan_id'') = Some (js_prop w ''plan_id'')"
    "zref fmt (ZOptional isoDate) (js_prop w ''start_date'') = Some (js_prop w ''start_date'')"
    unfolding assignPlanSchema_def by (rule zref_field; simp)+
  have "zref fmt assignPlanSchema (JObj ((''plan_id'', js_prop w ''plan_id'') #
      (if js_truthy (js_prop w ''start_date'') then [(''start_date'', js_prop w ''start_date'')] else []))) =
    Some (JObj ((''plan_id'', js_prop w ''plan_id'') # (if js_truthy (js_prop w ''start_date'') then [(''start_date'', js_prop w ''start_date'')] else [])))"
  proof -
    define a b where "a = js_prop w ''plan_id''" "b = js_prop w ''start_date''"
    then show ?thesis using z unfolding assignPlanSchema_def a_b_def [symmetric] by (cases "b = JUndef") (auto simp: out_field_def)
  qed
  then show "valid_body parse x" by (simp add: v(2) valid_body_def form_body_def p)
qed



section \<open>A cleared description\<close>

definition demo_fee_type :: jv where
  "demo_fee_type = JObj [(''id'', JStr ''f1''), (''name'', JStr ''Entry fee''), (''description'', JStr ''Old text''), (''amount'', JStr ''2500''),
     (''is_active'', JBool True), (''requires_collection'', JBool True)]"

definition demo_fee_body :: jv where
  "demo_fee_body = JObj [(''name'', JStr ''Entry fee''), (''amount'', JStr ''2500''), (''is_active'', JBool True), (''requires_collection'', JBool True)]"

definition demo_fee_values :: jv where
  "demo_fee_values = JObj [(''name'', JStr ''Entry fee''), (''description'', JStr []), (''amount'', JStr ''2500''),
     (''is_active'', JBool True), (''requires_collection'', JBool True)]"

definition fee_flow :: flow where
  "fee_flow = hd (cp_flows EditFeeTypeForm demo_fee_type)"

lemma fee_flow:
  "fee_flow \<in> set (cp_flows EditFeeTypeForm demo_fee_type)" "fl_name fee_flow = ''feeType''" "fl_opener fee_flow = None"
  "fl_form fee_flow = Some \<lparr>fo_schema = feeTypePatchSchema, fo_rendered = [''name'', ''description'', ''amount'', ''is_active'', ''requires_collection''],
     fo_defaults = JObj [(''name'', JStr ''Entry fee''), (''description'', JStr ''Old text''), (''amount'', JStr ''2500''), (''is_active'', JBool True), (''requires_collection'', JBool True)]\<rparr>"
  "fl_check fee_flow w = False" "fl_call fee_flow w = Some (Op_fees (Fees_patchType ''f1'' (drop_blank [''description''] w)))"
  "fl_stale fee_flow = []" "fl_toast fee_flow d w = ''Fee type updated''" "fl_after fee_flow = Leave" "fl_done fee_flow d = [Refreshed]"
  by (simp_all add: fee_flow_def page_defs flow_shapes demo_fee_type_def)

lemma demo_fee_accepted: "zref fmt feeTypePatchSchema demo_fee_values = Some demo_fee_values"
proof -
  have "zref fmt priceField (JStr ''2500'') = Some (JStr ''2500'')"
  proof -
    have "is_decimal 4 ''2500''" by (subst decimal_re_iff [symmetric]) (simp, code_simp)
    moreover have "js_trim ''2500'' = ''2500''" by code_simp
    ultimately show ?thesis by (simp add: zref_price)
  qed
  moreover have "js_trim ''Entry fee'' = ''Entry fee''" by code_simp
  ultimately show ?thesis by (simp add: feeTypePatchSchema_def demo_fee_values_def out_field_def js_trim_def js_trimStart_def)
qed


lemma drop_blank_truthy:
  assumes "k \<in> set ks" "k \<in> set (js_keys (drop_blank ks w))"
  shows "js_truthy (js_prop (drop_blank ks w) k)"
proof -
  obtain ws where w: "w = JObj ws" using assms(2) by (cases w) (simp_all add: drop_blank_def)
  let ?ws = "filter (\<lambda>(k, x). \<not> (k \<in> set ks \<and> \<not> js_truthy x)) ws"
  have "map_of ?ws k \<noteq> None" using assms(2) unfolding w drop_blank_def jv.case js_keys.simps by (simp only: map_of_eq_None_iff set_map) simp
  then obtain x where x: "map_of ?ws k = Some x" by blast
  then have "(k, x) \<in> set ?ws" by (rule map_of_SomeD)
  then have "js_truthy x" using assms(1) by simp
  then show ?thesis unfolding w drop_blank_def jv.case js_prop.simps x by simp
qed

text \<open>
  A description cannot be cleared: whatever a user does on the page of a fee type or of a loan product, no
  change it sends has a blank description, so one that has been emptied is not sent at all; the page reports
  the change as made all the same.
\<close>

theorem description_not_clearable:
  assumes "zod fmt parse"
    "ui_run parse (component_screen EditFeeTypeForm) rendered_again (f, [()]) ((f', us), s)"
    "ui_run parse (component_screen credit_EditProductForm) rendered_again (p, [()]) ((p', vs), t)"
  shows "(\<forall>b. Op_fees (Fees_patchType (id_of f) b) \<in> set (requests s) \<and> ''description'' \<in> set (js_keys b) \<longrightarrow> js_truthy (js_prop b ''description'')) \<and>
    (\<forall>b. Op_credit (Credit_patchProduct (id_of p) b) \<in> set (requests t) \<and> ''description'' \<in> set (js_keys b) \<longrightarrow> js_truthy (js_prop b ''description''))"
proof -
  have "\<exists>w. b = drop_blank [''description''] w" if "Op_fees (Fees_patchType (id_of f) b) \<in> set (requests s)" for b
    using fee_type_edit_page.requests_justified(1) [OF assms(2)] that by (auto simp: list_all_iff justified_def page_forms)
  moreover have "\<exists>w. b = drop_blank [''description'', ''penalty_fee_type_code''] w" if "Op_credit (Credit_patchProduct (id_of p) b) \<in> set (requests t)" for b
    using loan_product_edit_page.requests_justified(1) [OF assms(3)] that by (auto simp: list_all_iff justified_def page_forms)
  ultimately show ?thesis using drop_blank_truthy [of "''description''"] by fastforce
qed

text \<open>Emptying the description of a fee type and saving: the request has none, the page says the fee type was updated.\<close>

lemma demo_fee_run:
  "\<exists>s. ui_run (zref demo_formats) (component_screen EditFeeTypeForm) rendered_again (demo_fee_type, [()]) ((demo_fee_type, [()]), s) \<and>
     requests s = [Op_fees (Fees_patchType ''f1'' demo_fee_body)] \<and> Toast_success ''Fee type updated'' \<in> set (ui_log s)"
proof -
  let ?run = "\<lambda>s. ui_run (zref demo_formats) (component_screen EditFeeTypeForm) rendered_again (demo_fee_type, [()]) ((demo_fee_type, [()]), s)"
  define s0 where "s0 = sc_start (component_screen EditFeeTypeForm) (demo_fee_type, [()])"
  define s1 where "s1 = fill ''feeType'' ''description'' (JStr []) s0"
  define s2 where "s2 = flow_submit fee_flow demo_fee_values s1"
  have s1: "ui_form s1 ''feeType'' = demo_fee_values" "ui_running s1 = []" "requests s1 = []"
    by (simp_all add: s1_def s0_def component_screen_def page_defs flow_shapes demo_fee_type_def set_field_def demo_fee_values_def)
  have r0: "?run s0" unfolding s0_def by (rule run_start)
  have r1: "?run s1" unfolding s1_def
    using fill_field [OF r0 fee_flow(1) _ fee_flow(4), where k = "''description''" and v = "JStr []"] by (simp add: EditFeeTypeForm_def flow_opened_def fee_flow)
  have r2: "?run s2" unfolding s2_def
    by (rule submit_form [OF r1 fee_flow(1) _ fee_flow(4)]) (use s1 in \<open>simp_all add: EditFeeTypeForm_def flow_opened_def fee_flow isPending_def demo_fee_accepted\<close>)
  have b: "drop_blank [''description''] demo_fee_values = demo_fee_body" by (simp add: drop_blank_def demo_fee_values_def demo_fee_body_def)
  have s2: "requests s2 = [Op_fees (Fees_patchType ''f1'' demo_fee_body)]" "ui_running s2 = [(''feeType'', demo_fee_values)]"
    by (simp_all add: s2_def flow_submit_def fee_flow flow_mutation_def s1 b)
  have "?run (succeed (flow_mutation fee_flow) demo_fee_values JNull s2)"
    by (rule answer [OF r2 fee_flow(1)]) (simp_all add: s2 fee_flow)
  moreover have "requests (succeed (flow_mutation fee_flow) demo_fee_values JNull s2) = [Op_fees (Fees_patchType ''f1'' demo_fee_body)]"
    "Toast_success ''Fee type updated'' \<in> set (ui_log (succeed (flow_mutation fee_flow) demo_fee_values JNull s2))"
    by (simp_all add: settle_defs flow_mutation_def fee_flow s2)
  ultimately show ?thesis by blast
qed

theorem description_not_clearable_witness:
  "\<exists>s. requests s = [Op_fees (Fees_patchType ''f1'' demo_fee_body)] \<and> Toast_success ''Fee type updated'' \<in> set (ui_log s) \<and>
     (\<forall>b. Op_fees (Fees_patchType (id_of demo_fee_type) b) \<in> set (requests s) \<and> ''description'' \<in> set (js_keys b) \<longrightarrow> js_truthy (js_prop b ''description''))"
proof -
  obtain s where r: "ui_run (zref demo_formats) (component_screen EditFeeTypeForm) rendered_again (demo_fee_type, [()]) ((demo_fee_type, [()]), s)"
    "requests s = [Op_fees (Fees_patchType ''f1'' demo_fee_body)]" "Toast_success ''Fee type updated'' \<in> set (ui_log s)" using demo_fee_run by blast
  show ?thesis using description_not_clearable [OF zref.zod_axioms r(1) run_start [of _ _ _ "(JNull, [()])"]] r(2,3) by blast
qed


end
