(* ===== verification/Date_Input.thy ===== *)
theory Date_Input
  imports Form_Pages Money_Input
begin

text \<open>
  The date field (\<open>packages/ui/src/components/DateInput\<close>): a text that is read when the field is left, in the forms
  \<open>YYYY-MM-DD\<close> or \<open>DD/MM/YYYY\<close>, and a calendar. \<open>parse\<close> of the date-fns package is a parameter:
  the year, month and day of the date it reads, or none when its result is not valid.
\<close>

definition padStart :: "nat \<Rightarrow> string \<Rightarrow> string" where
  "padStart n s = replicate (n - length s) CHR ''0'' @ s"

definition iso_text :: "nat \<times> nat \<times> nat \<Rightarrow> string" where
  "iso_text date = (case date of (y, m, d) \<Rightarrow> padStart 4 (show_nat y) @ CHR ''-'' # padStart 2 (show_nat m) @ CHR ''-'' # padStart 2 (show_nat d))"

type_synonym date_parser = "string \<Rightarrow> string \<Rightarrow> (nat \<times> nat \<times> nat) option"

definition parseTypedDate :: "date_parser \<Rightarrow> string \<Rightarrow> string option" where
  "parseTypedDate dparse raw = (let trimmed = js_trim raw in
     if trimmed = [] then None
     else case dparse trimmed ''yyyy-MM-dd'' of Some date \<Rightarrow> Some (iso_text date)
       | None \<Rightarrow> map_option iso_text (dparse trimmed ''dd/MM/yyyy''))"

definition formatDateForInput :: "string \<Rightarrow> string" where
  "formatDateForInput text = (case js_split CHR ''-'' text of
     yyyy # mm # dd # _ \<Rightarrow> if yyyy = [] \<or> mm = [] \<or> dd = [] then [] else dd @ CHR ''/'' # mm @ CHR ''/'' # yyyy
   | _ \<Rightarrow> [])"

section \<open>The field\<close>

text \<open>The value the form holds, the typed text and the value the text was last written for.\<close>

record date_field =
  df_value :: string
  df_typed :: string
  df_last :: string

definition mount :: "string \<Rightarrow> date_field" where
  "mount v = \<lparr>df_value = v, df_typed = formatDateForInput v, df_last = v\<rparr>"

text \<open>A render with a new value rewrites the text.\<close>

definition date_render :: "date_field \<Rightarrow> date_field" where
  "date_render s = (if df_last s \<noteq> df_value s then s\<lparr>df_last := df_value s, df_typed := formatDateForInput (df_value s)\<rparr> else s)"

definition onTypedChange :: "string \<Rightarrow> date_field \<Rightarrow> date_field" where
  "onTypedChange t s = s\<lparr>df_typed := t\<rparr>"

text \<open>What leaving the field hands on, if anything, and the state after the render that follows.\<close>

definition blur_value :: "date_parser \<Rightarrow> date_field \<Rightarrow> string option" where
  "blur_value dparse s = (case parseTypedDate dparse (df_typed s) of Some p \<Rightarrow> Some p
     | None \<Rightarrow> if js_trim (df_typed s) = [] then Some [] else None)"

definition date_handleBlur :: "date_parser \<Rightarrow> date_field \<Rightarrow> date_field" where
  "date_handleBlur dparse s = date_render
     (case parseTypedDate dparse (df_typed s) of
        Some p \<Rightarrow> s\<lparr>df_value := p, df_typed := formatDateForInput p\<rparr>
      | None \<Rightarrow> if js_trim (df_typed s) = [] then s\<lparr>df_value := []\<rparr> else s\<lparr>df_typed := formatDateForInput (df_value s)\<rparr>)"

text \<open>A day picked from the calendar.\<close>

definition onSelect :: "nat \<times> nat \<times> nat \<Rightarrow> date_field \<Rightarrow> date_field" where
  "onSelect date s = date_render (s\<lparr>df_value := iso_text date, df_typed := formatDateForInput (iso_text date)\<rparr>)"

section \<open>Reading and writing dates\<close>

text \<open>
  What the field relies on: a valid date of the four-digit years, and that a date written in the second form
  is read back in that form, not in the first.
\<close>

definition plausible :: "nat \<times> nat \<times> nat \<Rightarrow> bool" where
  "plausible date \<longleftrightarrow> (case date of (y, m, d) \<Rightarrow> y < 10000 \<and> 1 \<le> m \<and> m \<le> 12 \<and> 1 \<le> d \<and> d \<le> 31)"

locale date_fns =
  fixes dparse :: date_parser
  assumes plausible_dates: "dparse t f = Some date \<Longrightarrow> plausible date"
    and written_dates: "dparse t f = Some (y, m, d) \<Longrightarrow>
      dparse (padStart 2 (show_nat d) @ CHR ''/'' # padStart 2 (show_nat m) @ CHR ''/'' # padStart 4 (show_nat y)) ''dd/MM/yyyy'' = Some (y, m, d)"
    and other_form: "dparse (a @ CHR ''/'' # b @ CHR ''/'' # c) ''yyyy-MM-dd'' = None"

lemma show_nat_length: "n < 10 ^ Suc k \<Longrightarrow> length (show_nat n) \<le> Suc k"
proof (induction k arbitrary: n)
  case 0
  then show ?case by (subst show_nat.simps) simp
next
  case (Suc k)
  have "length (show_nat (n div 10)) \<le> Suc k" using Suc by (intro Suc.IH) auto
  then show ?case by (subst show_nat.simps) simp
qed

lemma padded: "length s \<le> n \<Longrightarrow> length (padStart n s) = n" "list_all is_digit s \<Longrightarrow> list_all is_digit (padStart n s)" "s \<noteq> [] \<Longrightarrow> padStart n s \<noteq> []"
  by (auto simp: padStart_def list_all_iff is_digit_def)

lemma split_digits: "list_all is_digit a \<Longrightarrow> js_split CHR ''-'' (a @ CHR ''-'' # t) = a # js_split CHR ''-'' t" "list_all is_digit a \<Longrightarrow> js_split CHR ''-'' a = [a]"
  by (induction a) (auto simp: is_digit_def)

lemma iso_text_iso:
  assumes "plausible date"
  shows "is_iso_date (iso_text date)"
proof -
  obtain y m d where date: "date = (y, m, d)" by (cases date)
  have len: "length (show_nat y) \<le> 4" "length (show_nat m) \<le> 2" "length (show_nat d) \<le> 2"
    using assms show_nat_length [of y 3] show_nat_length [of m 1] show_nat_length [of d 1] by (simp_all add: plausible_def date numeral_2_eq_2)
  show ?thesis unfolding date iso_text_def prod.case is_iso_date_def
    by (rule exI [of _ "padStart 4 (show_nat y)"], rule exI [of _ "padStart 2 (show_nat m)"], rule exI [of _ "padStart 2 (show_nat d)"])
      (use len show_nat_digits in \<open>simp add: padded\<close>)
qed

lemma format_iso_text: "formatDateForInput (iso_text (y, m, d)) =
    padStart 2 (show_nat d) @ CHR ''/'' # padStart 2 (show_nat m) @ CHR ''/'' # padStart 4 (show_nat y)"
  using show_nat_digits by (simp add: formatDateForInput_def iso_text_def split_digits padded)

lemma digits_trim: "a \<noteq> [] \<Longrightarrow> list_all is_digit a \<Longrightarrow> b \<noteq> [] \<Longrightarrow> list_all is_digit b \<Longrightarrow> js_trim (a @ t @ b) = a @ t @ b"
proof -
  assume "a \<noteq> []" "list_all is_digit a" "b \<noteq> []" "list_all is_digit b"
  then obtain x as y bs where "a = x # as" "b = bs @ [y]" "is_digit x" "is_digit y" by (cases a; cases b rule: rev_cases) auto
  moreover have "is_digit c \<Longrightarrow> \<not> js_ws c" for c by (auto simp: is_digit_code js_ws_def)
  ultimately show ?thesis by (simp add: js_trim_def)
qed

text \<open>A value the field can show: none, or a date that is read back from its own text.\<close>

definition readable :: "date_parser \<Rightarrow> string \<Rightarrow> bool" where
  "readable dparse v \<longleftrightarrow> v = [] \<or> is_iso_date v \<and> parseTypedDate dparse (formatDateForInput v) = Some v"

lemma readable_blank: "readable dparse []"
  by (simp add: readable_def)

context date_fns
begin

lemma written_back:
  assumes "dparse t f = Some date"
  shows "readable dparse (iso_text date)"
proof -
  obtain y m d where date: "date = (y, m, d)" by (cases date)
  let ?t = "padStart 2 (show_nat d) @ CHR ''/'' # padStart 2 (show_nat m) @ CHR ''/'' # padStart 4 (show_nat y)"
  have "js_trim ?t = ?t" using digits_trim [of "padStart 2 (show_nat d)" "padStart 4 (show_nat y)" "CHR ''/'' # padStart 2 (show_nat m) @ [CHR ''/'']"]
      show_nat_digits by (simp add: padded)
  moreover have "dparse ?t ''dd/MM/yyyy'' = Some (y, m, d)" using written_dates assms date by blast
  ultimately have "parseTypedDate dparse ?t = Some (iso_text (y, m, d))" using other_form by (simp add: parseTypedDate_def Let_def)
  then show ?thesis using iso_text_iso plausible_dates [OF assms] by (simp add: readable_def date format_iso_text)
qed

lemma typed_readable: "parseTypedDate dparse raw = Some v \<Longrightarrow> readable dparse v"
  by (auto simp: parseTypedDate_def Let_def split: if_splits option.splits intro: written_back)

end

text \<open>What can happen to a field: typing, leaving it, picking a date the parser knows, a new value from the form.\<close>

datatype date_event = Typed string | Left | Picked "nat \<times> nat \<times> nat" | Given string

fun date_step :: "date_parser \<Rightarrow> date_event \<Rightarrow> date_field \<Rightarrow> date_field" where
  "date_step dparse (Typed t) s = onTypedChange t s"
| "date_step dparse Left s = date_handleBlur dparse s"
| "date_step dparse (Picked date) s = onSelect date s"
| "date_step dparse (Given v) s = date_render (s\<lparr>df_value := v\<rparr>)"

fun possible :: "date_parser \<Rightarrow> date_event \<Rightarrow> bool" where
  "possible dparse (Picked date) \<longleftrightarrow> (\<exists>t f. dparse t f = Some date)"
| "possible dparse (Given v) \<longleftrightarrow> readable dparse v"
| "possible dparse _ \<longleftrightarrow> True"

definition date_inv :: "date_parser \<Rightarrow> date_field \<Rightarrow> bool" where
  "date_inv dparse s \<longleftrightarrow> df_last s = df_value s \<and> readable dparse (df_value s)"

context date_fns
begin

lemma date_step_inv:
  assumes "date_inv dparse s" "possible dparse e"
  shows "date_inv dparse (date_step dparse e s)"
proof (cases e)
  case Left
  then show ?thesis using assms(1) typed_readable
    by (cases "parseTypedDate dparse (df_typed s)") (auto simp: date_inv_def date_handleBlur_def date_render_def readable_blank)
next
  case (Picked date)
  then have "readable dparse (iso_text date)" using assms(2) by (auto intro: written_back)
  then show ?thesis using assms(1) Picked by (simp add: date_inv_def onSelect_def date_render_def)
qed (use assms in \<open>simp_all add: date_inv_def onTypedChange_def date_render_def\<close>)

lemma date_run_inv: "date_inv dparse s \<Longrightarrow> list_all (possible dparse) es \<Longrightarrow> date_inv dparse (fold (date_step dparse) es s)"
  by (induction es arbitrary: s) (simp_all add: date_step_inv)

lemma blur_shows:
  assumes "date_inv dparse s"
  defines "t \<equiv> date_handleBlur dparse s"
  shows "df_typed t = formatDateForInput (df_value t) \<or> df_value t = [] \<and> js_trim (df_typed t) = []"
  using assms by (auto simp: t_def date_inv_def date_handleBlur_def date_render_def split: option.splits)

lemma blur_again:
  assumes "date_inv dparse s" "df_typed s = formatDateForInput (df_value s) \<or> df_value s = [] \<and> js_trim (df_typed s) = []"
  shows "date_handleBlur dparse s = s" "blur_value dparse s = Some (df_value s)"
proof -
  have none: "js_trim t = [] \<Longrightarrow> parseTypedDate dparse t = None" for t by (simp add: parseTypedDate_def)
  have "formatDateForInput [] = []" "js_trim [] = []" by (simp_all add: formatDateForInput_def js_trim_def)
  then have c: "df_value s = [] \<and> js_trim (df_typed s) = [] \<or> df_typed s = formatDateForInput (df_value s) \<and> parseTypedDate dparse (df_typed s) = Some (df_value s)"
    using assms by (auto simp: date_inv_def readable_def)
  then show "date_handleBlur dparse s = s" "blur_value dparse s = Some (df_value s)"
    using assms(1) none by (auto simp: date_inv_def date_handleBlur_def date_render_def blur_value_def)
qed

end

text \<open>
  C33. A date field is settled when it is left: whatever is typed, picked or given before, the value it holds is
  blank or a date \<open>YYYY-MM-DD\<close> that is read back from its own text; after the field is left, its text is that
  of the value (or blank), and leaving it again hands on the same value and changes nothing. A text that is no date changes nothing of the value.
\<close>

theorem date_field_settled:
  assumes "date_fns dparse" "readable dparse v" "list_all (possible dparse) es"
  shows "let s = fold (date_step dparse) es (mount v); t = date_handleBlur dparse s in
    readable dparse (df_value s) \<and> readable dparse (df_value t) \<and>
    (df_typed t = formatDateForInput (df_value t) \<or> df_value t = [] \<and> js_trim (df_typed t) = []) \<and>
    date_handleBlur dparse t = t \<and> blur_value dparse t = Some (df_value t) \<and>
    df_value t = (case blur_value dparse s of Some p \<Rightarrow> p | None \<Rightarrow> df_value s)"
proof -
  define s where "s = fold (date_step dparse) es (mount v)"
  define t where "t = date_handleBlur dparse s"
  have s: "date_inv dparse s" unfolding s_def
    by (rule date_fns.date_run_inv [OF assms(1) _ assms(3)]) (simp add: date_inv_def mount_def assms(2))
  have t: "date_inv dparse t" using date_fns.date_step_inv [OF assms(1) s, of Left] by (simp add: t_def)
  note shows_t = date_fns.blur_shows [OF assms(1) s, folded t_def]
  have "df_value t = (case blur_value dparse s of Some p \<Rightarrow> p | None \<Rightarrow> df_value s)"
    by (auto simp: t_def date_handleBlur_def date_render_def blur_value_def split: option.splits)
  then show ?thesis unfolding Let_def s_def [symmetric] t_def [symmetric]
    using s t shows_t date_fns.blur_again [OF assms(1) t shows_t] by (simp add: date_inv_def)
qed

text \<open>A parser that has these properties: both forms, on the days of the calendar.\<close>

definition days_in_month :: "nat \<Rightarrow> nat \<Rightarrow> nat" where
  "days_in_month y m = (if m \<in> {4, 6, 9, 11} then 30 else if m \<noteq> 2 then 31
     else if y mod 4 = 0 \<and> (y mod 100 \<noteq> 0 \<or> y mod 400 = 0) then 29 else 28)"

definition calendar_date :: "string \<Rightarrow> string \<Rightarrow> string \<Rightarrow> (nat \<times> nat \<times> nat) option" where
  "calendar_date y m d =
     (if list_all is_digit (y @ m @ d) \<and> y \<noteq> [] \<and> length y \<le> 4 \<and> m \<noteq> [] \<and> length m \<le> 2 \<and> d \<noteq> [] \<and> length d \<le> 2 \<and>
        1 \<le> digits_val m \<and> digits_val m \<le> 12 \<and> 1 \<le> digits_val d \<and> digits_val d \<le> days_in_month (digits_val y) (digits_val m)
      then Some (digits_val y, digits_val m, digits_val d) else None)"

definition calendar_parse :: date_parser where
  "calendar_parse t f =
     (if f = ''yyyy-MM-dd'' then case js_split CHR ''-'' t of [y, m, d] \<Rightarrow> calendar_date y m d | _ \<Rightarrow> None
      else if f = ''dd/MM/yyyy'' then case js_split CHR ''/'' t of [d, m, y] \<Rightarrow> calendar_date y m d | _ \<Rightarrow> None
      else None)"

lemma calendar_plausible: "calendar_date a b c = Some date \<Longrightarrow> plausible date"
  using digits_val_less [of a] power_increasing [of "length a" 4 "10 :: nat"]
  by (auto simp: calendar_date_def plausible_def days_in_month_def split: if_splits)

lemma calendar_written:
  assumes "calendar_date a b c = Some (y, m, d)"
  shows "calendar_date (padStart 4 (show_nat y)) (padStart 2 (show_nat m)) (padStart 2 (show_nat d)) = Some (y, m, d)"
proof -
  have p: "y < 10000" "1 \<le> m" "m \<le> 12" "1 \<le> d" "d \<le> 31" using calendar_plausible [OF assms] by (simp_all add: plausible_def)
  have "d \<le> days_in_month y m" using assms by (auto simp: calendar_date_def split: if_splits)
  moreover have "length (show_nat y) \<le> 4" "length (show_nat m) \<le> 2" "length (show_nat d) \<le> 2"
    using p show_nat_length [of y 3] show_nat_length [of m 1] show_nat_length [of d 1] by (simp_all add: numeral_2_eq_2)
  moreover have "digits_val (padStart k (show_nat n)) = n" for k n using show_nat_digits [of n] by (simp add: padStart_def digits_val_zeros)
  ultimately show ?thesis using p show_nat_digits by (simp add: calendar_date_def padded)
qed

lemma split_slash: "list_all is_digit a \<Longrightarrow> js_split CHR ''/'' (a @ CHR ''/'' # t) = a # js_split CHR ''/'' t" "list_all is_digit a \<Longrightarrow> js_split CHR ''/'' a = [a]"
  by (induction a) (auto simp: is_digit_def)

lemma split_parts: "x \<in> set t \<Longrightarrow> x \<noteq> c \<Longrightarrow> \<exists>p\<in>set (js_split c t). x \<in> set p"
  by (induction t) (auto split: list.splits)

interpretation calendar: date_fns calendar_parse
proof
  show "calendar_parse t f = Some date \<Longrightarrow> plausible date" for t f date
    by (auto simp: calendar_parse_def split: if_splits list.splits intro: calendar_plausible)
  fix t f y m d
  assume "calendar_parse t f = Some (y, m, d)"
  then obtain a b c where "calendar_date a b c = Some (y, m, d)" by (auto simp: calendar_parse_def split: if_splits list.splits)
  from calendar_written [OF this]
  show "calendar_parse (padStart 2 (show_nat d) @ CHR ''/'' # padStart 2 (show_nat m) @ CHR ''/'' # padStart 4 (show_nat y)) ''dd/MM/yyyy'' = Some (y, m, d)"
    using show_nat_digits by (simp add: calendar_parse_def split_slash padded)
next
  fix a b c
  have "calendar_date y m d = None" if "js_split CHR ''-'' (a @ CHR ''/'' # b @ CHR ''/'' # c) = [y, m, d]" for y m d
  proof -
    have "CHR ''/'' \<in> set (y @ m @ d)" using split_parts [of "CHR ''/''" "a @ CHR ''/'' # b @ CHR ''/'' # c" "CHR ''-''"] that by auto
    moreover have "\<not> is_digit CHR ''/''" by (simp add: is_digit_def)
    ultimately have "\<not> list_all is_digit (y @ m @ d)" unfolding list_all_iff by blast
    then show ?thesis unfolding calendar_date_def by (subst if_not_P) blast+
  qed
  then show "calendar_parse (a @ CHR ''/'' # b @ CHR ''/'' # c) ''yyyy-MM-dd'' = None"
    by (auto simp: calendar_parse_def split: list.splits)
qed

theorem date_field_settled_witness:
  "readable calendar_parse [] \<and>
   df_value (date_handleBlur calendar_parse (fold (date_step calendar_parse) [Typed ''28/05/2026''] (mount []))) = ''2026-05-28'' \<and>
   readable calendar_parse ''2026-05-28''"
proof -
  have v: "blur_value calendar_parse (onTypedChange ''28/05/2026'' (mount [])) = Some ''2026-05-28''" by code_simp
  show ?thesis using date_field_settled [OF calendar.date_fns_axioms, of "[]" "[Typed ''28/05/2026'']"] v
    by (auto simp: readable_def Let_def)
qed

section \<open>Optional dates\<close>

lemma blank_no_date: "\<not> is_iso_date []"
  by (simp add: is_iso_date_def)

lemma blank_optional_date: "zref fmt (ZOptional isoDate) (JStr []) = None"
  using blank_no_date iso_date_re_iff [of "[]"] by (simp add: isoDate_def)

lemma blank_date_rejected:
  assumes "zod fmt parse" "coerce_free z" "z = ZObject strict fs" "distinct (map fst fs)" "(k, ZOptional isoDate) \<in> set fs" "js_prop v k = JStr []"
  shows "parse z v = None"
proof (rule ccontr)
  assume "parse z v \<noteq> None"
  then obtain w where "zref fmt (ZObject strict fs) v = Some w" using zod.parse_zref [OF assms(1,2)] assms(3) by auto
  from zref_field [OF this assms(4,5)] show False using blank_optional_date [of fmt] by (simp only: assms(6)) simp
qed

text \<open>
  An optional date that was visited cannot be left out: leaving an untouched date field hands on a blank text, and
  with a blank text in the start date of a plan assignment, or in the issue or expiry date of a new member's document, the form
  is refused, although each of them is optional and is accepted when the field was never visited.
\<close>

theorem visited_date_required:
  assumes "zod fmt parse"
  shows "blur_value dparse (mount []) = Some [] \<and> df_value (date_handleBlur dparse (mount [])) = [] \<and>
    (js_prop v ''start_date'' = JStr [] \<longrightarrow> parse assignPlanSchema v = None) \<and>
    (js_prop v ''id_issued_date'' = JStr [] \<or> js_prop v ''id_expiry_date'' = JStr [] \<longrightarrow> parse memberRegistrationSchema v = None)"
proof -
  have m: "mount [] = \<lparr>df_value = [], df_typed = [], df_last = []\<rparr>" by (simp add: mount_def formatDateForInput_def)
  have "parseTypedDate dparse [] = None" "js_trim [] = []" by (simp_all add: parseTypedDate_def js_trim_def)
  then have "blur_value dparse (mount []) = Some []" "df_value (date_handleBlur dparse (mount [])) = []"
    by (simp_all add: m blur_value_def date_handleBlur_def date_render_def)
  moreover have "parse assignPlanSchema v = None" if "js_prop v ''start_date'' = JStr []"
    by (rule blank_date_rejected [OF assms _ assignPlanSchema_def _ _ that]) (simp_all add: assignPlanSchema_def isoDate_def)
  moreover have "parse memberRegistrationSchema v = None" if "js_prop v k = JStr []" "k \<in> {''id_issued_date'', ''id_expiry_date''}" for k
    by (rule blank_date_rejected [OF assms _ memberRegistrationSchema_def _ _ that(1)])
      (use that(2) in \<open>auto simp: memberRegistrationSchema_def isoDate_def memberGenderSchema_def idDocumentTypeSchema_def\<close>)
  ultimately show ?thesis by blast
qed

theorem visited_date_required_witness:
  "zref demo_formats assignPlanSchema (JObj [(''plan_id'', JStr (replicate 36 CHR ''a'')), (''start_date'', JStr [])]) = None \<and>
   zref demo_formats assignPlanSchema (JObj [(''plan_id'', JStr (replicate 36 CHR ''a''))]) \<noteq> None"
proof -
  have "zref demo_formats assignPlanSchema (JObj [(''plan_id'', JStr (replicate 36 CHR ''a'')), (''start_date'', JStr [])]) = None"
    using visited_date_required [OF zref.zod_axioms, of _ "JObj [(''plan_id'', JStr (replicate 36 CHR ''a'')), (''start_date'', JStr [])]"] by simp
  then show ?thesis by (simp add: assignPlanSchema_def demo_formats_def out_field_def)
qed

text \<open>Going back to no parent account leaves the word the select uses for it, which is no identifier.\<close>

lemma none_parent_rejected:
  assumes "zod fmt parse" "\<not> uuid_ok fmt ''none''" "js_prop v ''parent_id'' = JStr ''none''"
  shows "parse accountSchema v = None"
proof (rule ccontr)
  assume "parse accountSchema v \<noteq> None"
  then obtain w where "zref fmt accountSchema v = Some w" using zod.parse_zref [OF assms(1), of accountSchema v] by (auto simp: accountSchema_def field_defs)
  then have "zref fmt (ZOptional uuid) (js_prop v ''parent_id'') = Some (js_prop w ''parent_id'')" unfolding accountSchema_def by (rule zref_field) simp_all
  then show False using assms(2,3) by (simp add: uuid_def)
qed

end
