(* ===== verification/Provisioning.thy ===== *)
theory Provisioning
  imports Flows Form_Logic
begin

text \<open>
  Creating a tenant (\<open>app/platform/(authed)/tenants/new/_components/NewTenantWizard.tsx\<close>) and following its
  provisioning (\<open>src/hooks/use-tenant-provisioning.ts\<close>): the suggested slug, the request, and the polling loop, which
  may run for ever and is therefore a partial function. The answers of the backend to the successive
  polls are a parameter; a failed poll leaves what the query holds.
\<close>

section \<open>The form\<close>

record wizard =
  wz_slug :: string
  wz_name :: string
  wz_admin_email :: string
  wz_slugEdited :: bool

definition wizard_start :: wizard where
  "wizard_start = \<lparr>wz_slug = [], wz_name = [], wz_admin_email = [], wz_slugEdited = False\<rparr>"

datatype wizard_event = Name_typed string | Slug_typed string | Email_typed string

definition onNameChange :: "string \<Rightarrow> wizard \<Rightarrow> wizard" where
  "onNameChange name s = (if \<not> wz_slugEdited s then s\<lparr>wz_slug := suggestSlug name\<rparr> else s)"

fun wizard_step :: "wizard_event \<Rightarrow> wizard \<Rightarrow> wizard" where
  "wizard_step (Name_typed n) s = onNameChange n (s\<lparr>wz_name := n\<rparr>)"
| "wizard_step (Slug_typed t) s = s\<lparr>wz_slugEdited := True, wz_slug := t\<rparr>"
| "wizard_step (Email_typed e) s = s\<lparr>wz_admin_email := e\<rparr>"

definition create_body :: "jv \<Rightarrow> jv" where
  "create_body vars = JObj ([(''slug'', js_prop vars ''slug''), (''name'', js_prop vars ''name'')] @
     (if js_truthy (js_prop vars ''admin_email'') then [(''admin_email'', js_prop vars ''admin_email'')] else []))"

text \<open>The tenant the wizard follows is that of the answer; an answer without one is an error.\<close>

definition create_mutation :: mutation where
  "create_mutation =
     \<lparr>mu_name = ''create'', mu_call = (\<lambda>vars. Some (Op_tenants (Tenants_create (create_body vars)))), mu_invalidates = [tenantsKeys K_tenants_root],
      mu_onSuccess = (\<lambda>data _. if js_truthy data then setHeld ''provisioningTenant'' (js_prop data ''tenant'')
        else error_toast ''The tenant was not created'' (Raised None ''Empty provisioning response'')),
      mu_onError = error_toast ''The tenant was not created''\<rparr>"

fun typed_slugs :: "wizard_event list \<Rightarrow> string list" where
  "typed_slugs [] = []"
| "typed_slugs (Slug_typed t # es) = t # typed_slugs es"
| "typed_slugs (_ # es) = typed_slugs es"

fun typed_names :: "wizard_event list \<Rightarrow> string list" where
  "typed_names [] = []"
| "typed_names (Name_typed n # es) = n # typed_names es"
| "typed_names (_ # es) = typed_names es"

section \<open>The polling loop\<close>

definition IN_FLIGHT_STATUSES :: "string list" where
  "IN_FLIGHT_STATUSES = [''pending'', ''provisioning'']"

definition isProvisioningSettled :: "string \<Rightarrow> bool" where
  "isProvisioningSettled status \<longleftrightarrow> status \<notin> set IN_FLIGHT_STATUSES"

definition POLL_INTERVAL_MS :: nat where
  "POLL_INTERVAL_MS = 2000"

record tenant_out =
  to_id :: string
  to_status :: string
  to_failed_step :: "string option"
  to_failure_reason :: "string option"
  to_provisioning_state :: "string option"

text \<open>The interval after which the query is fetched again (none: no more).\<close>

definition refetchInterval :: "tenant_out option \<Rightarrow> nat option" where
  "refetchInterval data = (let status = map_option to_status data in
     if \<not> truthy_str status then Some POLL_INTERVAL_MS else if isProvisioningSettled (the status) then None else Some POLL_INTERVAL_MS)"

definition fetched :: "tenant_out option \<Rightarrow> tenant_out option \<Rightarrow> tenant_out option" where
  "fetched answer data = (case answer of Some t \<Rightarrow> Some t | None \<Rightarrow> data)"

text \<open>What the query holds and how many polls there were when the polling stops.\<close>

partial_function (option) poll :: "(nat \<Rightarrow> tenant_out option) \<Rightarrow> nat \<Rightarrow> tenant_out option \<Rightarrow> (tenant_out option \<times> nat) option" where
  "poll answers k data = (case refetchInterval data of
     None \<Rightarrow> Some (data, k)
   | Some ms \<Rightarrow> poll answers (Suc k) (fetched (answers k) data))"

datatype progress = Done string | Failed "string option" "string option" string | In_progress "string option"

definition ProvisioningProgress :: "tenant_out \<Rightarrow> tenant_out option \<Rightarrow> string \<times> progress" where
  "ProvisioningProgress tenant data = (let current = nullish data tenant; page = ''/platform/tenants/'' @ to_id current;
       shown_text = (\<lambda>t. if truthy_str t then t else None) in
     (if to_status current = ''active'' then ''done'' else ''provisioning'',
      if to_status current = ''active'' then Done page
      else if to_status current = ''failed'' then Failed (shown_text (to_failed_step current)) (shown_text (to_failure_reason current)) page
      else In_progress (shown_text (to_provisioning_state current))))"

section \<open>The slug\<close>

lemma wizard_slug_after:
  "wz_slug (fold wizard_step es s) = (if typed_slugs es \<noteq> [] then last (typed_slugs es)
     else if wz_slugEdited s \<or> typed_names es = [] then wz_slug s else suggestSlug (last (typed_names es)))"
  by (induction es arbitrary: s rule: typed_slugs.induct) (auto simp: onNameChange_def)

text \<open>
  The wizard suggests a slug for the last name typed until the slug is edited; from then on it is what was
  typed last into the slug, whatever happens to the name, even when it was cleared.
\<close>

theorem wizard_slug:
  "wz_slug (fold wizard_step es wizard_start) = (if typed_slugs es \<noteq> [] then last (typed_slugs es)
     else if typed_names es = [] then [] else suggestSlug (last (typed_names es)))"
  using wizard_slug_after [of es wizard_start] by (simp add: wizard_start_def)

section \<open>When the polling stops\<close>

definition settles :: "tenant_out option \<Rightarrow> bool" where
  "settles data \<longleftrightarrow> (\<exists>t. data = Some t \<and> to_status t \<noteq> [] \<and> to_status t \<notin> {''pending'', ''provisioning''})"

lemma refetch_None: "refetchInterval data = None \<longleftrightarrow> settles data"
  by (cases data) (auto simp: refetchInterval_def settles_def Let_def isProvisioningSettled_def IN_FLIGHT_STATUSES_def)

lemma poll_step: "poll answers k data = (if settles data then Some (data, k) else poll answers (Suc k) (fetched (answers k) data))"
  using refetch_None [of data] by (subst poll.simps) (auto split: option.splits)

lemma fetched_settles: "\<not> settles data \<Longrightarrow> settles (fetched a data) \<longleftrightarrow> settles a"
  by (cases a) (auto simp: fetched_def settles_def)

lemma poll_stops:
  assumes "poll answers k data = Some r"
  shows "settles (fst r) \<and> (settles data \<or> (\<exists>j\<ge>k. settles (answers j)))"
proof (rule poll.raw_induct [where P = "\<lambda>a k e r. settles (fst r) \<and> (settles e \<or> (\<exists>j\<ge>k. settles (a j)))", OF _ assms])
  fix poll :: "(nat \<Rightarrow> tenant_out option) \<Rightarrow> nat \<Rightarrow> tenant_out option \<Rightarrow> (tenant_out option \<times> nat) option" and a k e r
  assume step: "\<And>a k e r. poll a k e = Some r \<Longrightarrow> settles (fst r) \<and> (settles e \<or> (\<exists>j\<ge>k. settles (a j)))"
    "(case refetchInterval e of None \<Rightarrow> Some (e, k) | Some ms \<Rightarrow> poll a (Suc k) (fetched (a k) e)) = Some r"
  show "settles (fst r) \<and> (settles e \<or> (\<exists>j\<ge>k. settles (a j)))"
  proof (cases "settles e")
    case True
    then show ?thesis using step(2) refetch_None [of e] by (auto split: option.splits)
  next
    case False
    then have "poll a (Suc k) (fetched (a k) e) = Some r" using step(2) refetch_None [of e] by (auto split: option.splits)
    from step(1) [OF this] show ?thesis using fetched_settles [OF False, of "a k"] by (auto intro: Suc_leD)
  qed
qed

lemma poll_first:
  assumes "settles (answers k)" "\<forall>i<k. j \<le> i \<longrightarrow> \<not> settles (answers i)" "j \<le> k" "\<not> settles data"
  shows "poll answers j data = Some (answers k, Suc k)"
  using assms(2-4)
proof (induction "k - j" arbitrary: j data)
  case 0
  then have j: "j = k" by simp
  then have "fetched (answers k) data = answers k" using assms(1) by (auto simp: fetched_def settles_def)
  then show ?case using 0(4) assms(1) j poll_step [of answers k data] poll_step [of answers "Suc k" "answers k"] by simp
next
  case (Suc n)
  then have "\<not> settles (fetched (answers j) data)" using fetched_settles [OF Suc.prems(3)] by simp
  then have "poll answers (Suc j) (fetched (answers j) data) = Some (answers k, Suc k)" using Suc.hyps(2) Suc.prems by (intro Suc.hyps(1)) simp_all
  then show ?case using Suc.prems(3) poll_step [of answers j data] by simp
qed

text \<open>
  C11. The polling of a new tenant stops exactly if the backend ever answers with a status other than pending and
  provisioning, namely right after the first such answer, and with that answer; failed polls and answers
  without a status never stop it. The page then reports the tenant as ready or failed if it is.
\<close>

theorem provisioning_poll_stops:
  "((\<exists>r. poll answers 0 None = Some r) \<longleftrightarrow> (\<exists>k. settles (answers k))) \<and>
   (settles (answers k) \<and> (\<forall>j<k. \<not> settles (answers j)) \<longrightarrow> poll answers 0 None = Some (answers k, Suc k) \<and>
     (\<exists>t. answers k = Some t \<and> ProvisioningProgress tenant (answers k) =
        (if to_status t = ''active'' then (''done'', Done (''/platform/tenants/'' @ to_id t))
         else (''provisioning'', if to_status t = ''failed''
           then Failed (if truthy_str (to_failed_step t) then to_failed_step t else None) (if truthy_str (to_failure_reason t) then to_failure_reason t else None)
             (''/platform/tenants/'' @ to_id t)
           else In_progress (if truthy_str (to_provisioning_state t) then to_provisioning_state t else None)))))"
proof -
  have none: "\<not> settles None" by (simp add: settles_def)
  have first: "settles (answers k) \<Longrightarrow> \<forall>j<k. \<not> settles (answers j) \<Longrightarrow> poll answers 0 None = Some (answers k, Suc k)" for k
    using poll_first [of answers k 0 None] none by simp
  have "\<exists>r. poll answers 0 None = Some r" if "settles (answers k)" for k
    using first [OF LeastI [of "\<lambda>k. settles (answers k)", OF that]] not_less_Least by blast
  moreover have "\<exists>k. settles (answers k)" if "poll answers 0 None = Some r" for r
    using poll_stops [OF that] none by blast
  moreover have "(\<exists>t. answers k = Some t \<and> ProvisioningProgress tenant (answers k) =
        (if to_status t = ''active'' then (''done'', Done (''/platform/tenants/'' @ to_id t))
         else (''provisioning'', if to_status t = ''failed''
           then Failed (if truthy_str (to_failed_step t) then to_failed_step t else None) (if truthy_str (to_failure_reason t) then to_failure_reason t else None)
             (''/platform/tenants/'' @ to_id t)
           else In_progress (if truthy_str (to_provisioning_state t) then to_provisioning_state t else None))))" if "settles (answers k)"
    using that by (cases "answers k") (simp_all add: settles_def ProvisioningProgress_def Let_def)
  ultimately show ?thesis using first [of k] by blast
qed

definition demo_tenant_out :: "string \<Rightarrow> tenant_out" where
  "demo_tenant_out status = \<lparr>to_id = ''t1'', to_status = status, to_failed_step = None, to_failure_reason = None, to_provisioning_state = None\<rparr>"

text \<open>A poll that fails, one that finds the provisioning under way and one that finds it done.\<close>

definition demo_answers :: "nat \<Rightarrow> tenant_out option" where
  "demo_answers k = (if k = 0 then None else if k = 1 then Some (demo_tenant_out ''provisioning'') else Some (demo_tenant_out ''active''))"

theorem provisioning_poll_stops_witness: "poll demo_answers 0 None = Some (Some (demo_tenant_out ''active''), 3)"
proof -
  have "settles (demo_answers 2) \<and> (\<forall>j<2. \<not> settles (demo_answers j))"
    by (auto simp: settles_def demo_answers_def demo_tenant_out_def less_2_cases_iff)
  then have "poll demo_answers 0 None = Some (demo_answers 2, Suc 2)" using provisioning_poll_stops [of demo_answers 2] by blast
  then show ?thesis by (simp add: demo_answers_def)
qed

end
