(* ===== verification/Preferences.thy ===== *)
theory Preferences
  imports JSON Money_Input "HOL-Library.Sublist"
begin

text \<open>
  What the browser remembers of a user's preferences: the theme (\<open>packages/schemas/src/theme.ts\<close>,
  \<open>apps/portal/src/theme\<close>) and the columns of a table (\<open>packages/ui/src/components/DataTable/table-prefs.ts\<close>), both
  JSON in a cookie that scripts read and write through \<open>document.cookie\<close>. The cookies of the page are a list of names and
  values in the order of that text. Characters are those with codes below 256; an escape of any other character is
  refused by the decoder of the model.
\<close>

section \<open>Percent encoding\<close>

definition HEX :: "nat \<Rightarrow> char" where
  "HEX d = (if d < 10 then char_of (48 + d) else char_of (55 + d))"

definition pct :: "nat \<Rightarrow> string" where
  "pct b = [CHR ''%'', HEX (b div 16), HEX (b mod 16)]"

definition unescaped :: "char \<Rightarrow> bool" where
  "unescaped c \<longleftrightarrow> (let n = of_char c :: nat in 48 \<le> n \<and> n \<le> 57 \<or> 65 \<le> n \<and> n \<le> 90 \<or> 97 \<le> n \<and> n \<le> 122) \<or>
     c \<in> set ''-_.!~*()'' \<or> of_char c = (39 :: nat)"

definition encode_char :: "char \<Rightarrow> string" where
  "encode_char c = (let n = of_char c :: nat in
     if unescaped c then [c] else if n < 128 then pct n else pct (192 + n div 64) @ pct (128 + n mod 64))"

definition encodeURIComponent :: "string \<Rightarrow> string" where
  "encodeURIComponent s = concat (map encode_char s)"

definition hex_byte :: "char \<Rightarrow> char \<Rightarrow> nat option" where
  "hex_byte a b = (case (hex_val a, hex_val b) of (Some x, Some y) \<Rightarrow> Some (16 * x + y) | _ \<Rightarrow> None)"

text \<open>None where it throws.\<close>

fun decodeURIComponent :: "string \<Rightarrow> string option" where
  "decodeURIComponent [] = Some []"
| "decodeURIComponent (c # s) = (if c \<noteq> CHR ''%'' then map_option ((#) c) (decodeURIComponent s)
     else case s of
       a # b # t \<Rightarrow>
         (case hex_byte a b of None \<Rightarrow> None
          | Some n \<Rightarrow> if n < 128 then map_option ((#) (char_of n)) (decodeURIComponent t)
              else if n = 194 \<or> n = 195 then
                (case t of p # d # e # u \<Rightarrow>
                   (case hex_byte d e of None \<Rightarrow> None
                    | Some m \<Rightarrow> if p = CHR ''%'' \<and> 128 \<le> m \<and> m < 192 then map_option ((#) (char_of ((n - 192) * 64 + (m - 128)))) (decodeURIComponent u)
                        else None)
                 | _ \<Rightarrow> None)
              else None)
     | _ \<Rightarrow> None)"

lemma hex_val_HEX: "d < 16 \<Longrightarrow> hex_val (HEX d) = Some d"
  by (auto simp: hex_val_def HEX_def Let_def)

lemma hex_byte_pct: "n < 256 \<Longrightarrow> hex_byte (HEX (n div 16)) (HEX (n mod 16)) = Some n"
  by (simp add: hex_byte_def hex_val_HEX)

lemma decode_encoded: "decodeURIComponent (encode_char c @ t) = map_option ((#) c) (decodeURIComponent t)"
proof -
  define n where "n = (of_char c :: nat)"
  have n: "n < 256" "char_of n = c" by (simp_all add: n_def)
  consider (plain) "unescaped c" | (ascii) "\<not> unescaped c" "n < 128" | (high) "\<not> unescaped c" "128 \<le> n" by linarith
  then show ?thesis
  proof cases
    case plain
    then have "c \<noteq> CHR ''%''" by (auto simp: unescaped_def Let_def)
    then show ?thesis using plain by (simp add: encode_char_def)
  next
    case ascii
    then show ?thesis using hex_byte_pct [of n] n by (simp add: encode_char_def pct_def n_def [symmetric] Let_def)
  next
    case high
    have "192 + n div 64 = 194 \<or> 192 + n div 64 = 195" "n div 64 * 64 + n mod 64 = n" using high(2) n(1) by simp_all linarith
    then show ?thesis using high hex_byte_pct [of "192 + n div 64"] hex_byte_pct [of "128 + n mod 64"] n
      by (simp add: encode_char_def pct_def n_def [symmetric] Let_def)
  qed
qed

lemma decode_encode: "decodeURIComponent (encodeURIComponent s) = Some s"
  by (induction s) (simp_all add: encodeURIComponent_def decode_encoded del: decodeURIComponent.simps(2))

section \<open>The cookie text\<close>

type_synonym cookies = "(string \<times> string) list"

definition cookie_pair :: "string \<times> string \<Rightarrow> string" where
  "cookie_pair c = fst c @ CHR ''='' # snd c"

fun cookie_text :: "cookies \<Rightarrow> string" where
  "cookie_text [] = []"
| "cookie_text [c] = cookie_pair c"
| "cookie_text (c # d # cs) = cookie_pair c @ '';'' @ CHR '' '' # cookie_text (d # cs)"

text \<open>An assignment to \<open>document.cookie\<close> replaces the value of a cookie or adds one.\<close>

fun put_cookie :: "string \<Rightarrow> string \<Rightarrow> cookies \<Rightarrow> cookies" where
  "put_cookie n v [] = [(n, v)]"
| "put_cookie n v ((m, u) # cs) = (if m = n then (n, v) # cs else (m, u) # put_cookie n v cs)"

definition wf_cookies :: "cookies \<Rightarrow> bool" where
  "wf_cookies cs \<longleftrightarrow> list_all (\<lambda>(n, v). CHR '';'' \<notin> set (n @ v) \<and> CHR ''='' \<notin> set n) cs"

text \<open>The match of \<open>(?:^|; )name=([^;]*)\<close>.\<close>

definition cookie_at :: "string \<Rightarrow> string \<Rightarrow> string option" where
  "cookie_at n s = (if prefix (n @ ''='') s then Some (takeWhile (\<lambda>c. c \<noteq> CHR '';'') (drop (Suc (length n)) s)) else None)"

fun cookie_after :: "string \<Rightarrow> string \<Rightarrow> string option" where
  "cookie_after n (a # b # s) = (if a = CHR '';'' \<and> b = CHR '' '' \<and> cookie_at n s \<noteq> None then cookie_at n s else cookie_after n (b # s))"
| "cookie_after n _ = None"

definition cookie_match :: "string \<Rightarrow> string \<Rightarrow> string option" where
  "cookie_match n s = (case cookie_at n s of Some v \<Rightarrow> Some v | None \<Rightarrow> cookie_after n s)"

text \<open>\<open>text.split("; ")\<close>.\<close>

fun split_cookies :: "string \<Rightarrow> string list" where
  "split_cookies (a # b # s) = (if a = CHR '';'' \<and> b = CHR '' '' then [] # split_cookies s
     else case split_cookies (b # s) of p # ps \<Rightarrow> (a # p) # ps | [] \<Rightarrow> [])"
| "split_cookies s = [s]"

lemma cookie_at_pair:
  assumes "CHR '';'' \<notin> set v" "CHR ''='' \<notin> set m" "CHR ''='' \<notin> set n" "rest = [] \<or> hd rest = CHR '';''"
  shows "cookie_at n (cookie_pair (m, v) @ rest) = (if m = n then Some v else None)"
proof -
  have "prefix (n @ ''='') (m @ CHR ''='' # w) \<longleftrightarrow> m = n" for w
    using assms(2,3) by (induction n arbitrary: m) (auto simp: prefix_Cons Cons_eq_append_conv split: list.splits, (case_tac m; auto)+)
  moreover have "takeWhile (\<lambda>c. c \<noteq> CHR '';'') (v @ rest) = v"
  proof -
    have "takeWhile (\<lambda>c. c \<noteq> CHR '';'') (v @ rest) = v @ takeWhile (\<lambda>c. c \<noteq> CHR '';'') rest"
      using assms(1) by (intro takeWhile_append2) auto
    then show ?thesis using assms(4) by (cases rest) simp_all
  qed
  ultimately show ?thesis by (simp add: cookie_at_def cookie_pair_def)
qed

lemma cookie_after_skip: "CHR '';'' \<notin> set p \<Longrightarrow> cookie_after n (p @ s) = cookie_after n s"
proof (induction p)
  case (Cons a p)
  then show ?case by (cases "p @ s") auto
qed simp

lemma cookie_text_Cons: "cookie_text (c # cs) = cookie_pair c @ (if cs = [] then [] else CHR '';'' # CHR '' '' # cookie_text cs)"
  by (cases cs) simp_all

lemma cookie_match_text:
  assumes "wf_cookies cs" "CHR ''='' \<notin> set n"
  shows "cookie_match n (cookie_text cs) = map_of cs n"
proof (cases cs)
  case Nil
  then show ?thesis by (simp add: cookie_match_def cookie_at_def)
next
  case (Cons c ds)
  have after: "cookie_after n (if ds = [] then [] else CHR '';'' # CHR '' '' # cookie_text ds) = map_of ds n" if "wf_cookies ds" for ds
    using that
  proof (induction ds)
    case (Cons d ds)
    obtain m v where d: "d = (m, v)" by (cases d)
    have w: "CHR '';'' \<notin> set (m @ v)" "CHR ''='' \<notin> set m" "wf_cookies ds" using Cons.prems by (auto simp: d wf_cookies_def)
    let ?rest = "if ds = [] then [] else CHR '';'' # CHR '' '' # cookie_text ds"
    have at: "cookie_at n (cookie_text (d # ds)) = (if m = n then Some v else None)"
      using cookie_at_pair [of v m n ?rest] w assms(2) by (simp add: cookie_text_Cons d)
    have "cookie_after n (CHR '' '' # cookie_text (d # ds)) = cookie_after n ?rest"
      using cookie_after_skip [of "CHR '' '' # cookie_pair d" n ?rest] w by (simp add: cookie_text_Cons d cookie_pair_def)
    then show ?case using at Cons.IH [OF w(3)] by (cases "m = n") (simp_all add: d del: cookie_text.simps)
  qed simp
  obtain m v where c: "c = (m, v)" by (cases c)
  have w: "CHR '';'' \<notin> set (m @ v)" "CHR ''='' \<notin> set m" "wf_cookies ds" using assms(1) by (auto simp: Cons c wf_cookies_def)
  let ?rest = "if ds = [] then [] else CHR '';'' # CHR '' '' # cookie_text ds"
  have "cookie_at n (cookie_text cs) = (if m = n then Some v else None)"
    using cookie_at_pair [of v m n ?rest] w assms(2) by (simp add: Cons cookie_text_Cons c)
  moreover have "cookie_after n (cookie_text cs) = map_of ds n"
    using cookie_after_skip [of "cookie_pair c" n ?rest] after [OF w(3)] w by (simp add: Cons cookie_text_Cons c cookie_pair_def)
  ultimately show ?thesis by (simp add: cookie_match_def Cons c)
qed

lemma split_cookies_text:
  assumes "wf_cookies cs"
  shows "split_cookies (cookie_text cs) = (if cs = [] then [[]] else map cookie_pair cs)"
proof -
  have skip_part: "CHR '';'' \<notin> set p \<Longrightarrow> split_cookies (p @ CHR '';'' # CHR '' '' # s) = p # split_cookies s" for p s
  proof (induction p)
    case (Cons a p)
    then show ?case by (cases "p @ CHR '';'' # CHR '' '' # s") auto
  qed simp
  have one: "CHR '';'' \<notin> set p \<Longrightarrow> split_cookies p = [p]" for p
  proof (induction p)
    case (Cons a p)
    then show ?case by (cases p) auto
  qed simp
  show ?thesis using assms
  proof (induction cs)
    case (Cons c cs)
    then have "CHR '';'' \<notin> set (cookie_pair c)" "wf_cookies cs" by (auto simp: wf_cookies_def cookie_pair_def split: prod.splits)
    then show ?case using Cons.IH skip_part one by (simp add: cookie_text_Cons)
  qed simp
qed

lemma map_of_put_cookie: "map_of (put_cookie n v cs) = (map_of cs)(n \<mapsto> v)"
  by (induction n v cs rule: put_cookie.induct) (auto simp: fun_eq_iff)

lemma wf_put_cookie: "wf_cookies cs \<Longrightarrow> CHR '';'' \<notin> set (n @ v) \<Longrightarrow> CHR ''='' \<notin> set n \<Longrightarrow> wf_cookies (put_cookie n v cs)"
  by (induction n v cs rule: put_cookie.induct) (auto simp: wf_cookies_def)

lemma encoded_no_semicolon: "CHR '';'' \<notin> set (encodeURIComponent s)"
proof -
  have "CHR '';'' \<notin> set (encode_char c)" for c
  proof -
    have "HEX d \<noteq> CHR '';''" if "d < 16" for d
    proof
      assume "HEX d = CHR '';''"
      then show False using hex_val_HEX [OF that] by (simp add: hex_val_def)
    qed
    then have "CHR '';'' \<notin> set (pct b)" if "b < 256" for b using that by (auto simp: pct_def dest: sym)
    moreover have "of_char c < (256 :: nat)" by simp
    moreover from this have "192 + of_char c div 64 < (256 :: nat)" using less_mult_imp_div_less [of "of_char c" 64 64] by linarith
    moreover have "128 + of_char c mod 64 < (256 :: nat)" using mod_less_divisor [of 64 "of_char c :: nat"] by linarith
    ultimately show ?thesis by (auto simp: encode_char_def Let_def unescaped_def)
  qed
  then show ?thesis by (auto simp: encodeURIComponent_def)
qed

section \<open>The theme\<close>

record theme =
  th_mode :: string
  th_accent :: string
  th_fontSize :: string

definition THEME_ACCENTS :: "string list" where
  "THEME_ACCENTS = [''default'', ''blue'', ''green'', ''amber'', ''slate'']"

definition THEME_FONT_SIZES :: "string list" where
  "THEME_FONT_SIZES = [''compact'', ''default'', ''large'', ''xl'']"

definition THEME_DEFAULTS :: theme where
  "THEME_DEFAULTS = \<lparr>th_mode = ''system'', th_accent = ''default'', th_fontSize = ''default''\<rparr>"

definition themePrefsSchema :: zschema where
  "themePrefsSchema = ZObject False
     [(''mode'', ZCatch (ZEnum [''light'', ''dark'', ''system'']) (JStr (th_mode THEME_DEFAULTS))),
      (''accent'', ZCatch (ZEnum THEME_ACCENTS) (JStr (th_accent THEME_DEFAULTS))),
      (''fontSize'', ZCatch (ZEnum THEME_FONT_SIZES) (JStr (th_fontSize THEME_DEFAULTS)))]"

definition theme_of :: "jv \<Rightarrow> theme" where
  "theme_of v = \<lparr>th_mode = js_str (js_prop v ''mode''), th_accent = js_str (js_prop v ''accent''), th_fontSize = js_str (js_prop v ''fontSize'')\<rparr>"

definition theme_json :: "theme \<Rightarrow> jv" where
  "theme_json p = JObj [(''mode'', JStr (th_mode p)), (''accent'', JStr (th_accent p)), (''fontSize'', JStr (th_fontSize p))]"

definition parseThemeCookie :: "(zschema \<Rightarrow> jv \<Rightarrow> jv option) \<Rightarrow> string option \<Rightarrow> theme" where
  "parseThemeCookie parse raw = (if raw = None \<or> raw = Some [] then THEME_DEFAULTS
     else case json_parse (the raw) of None \<Rightarrow> THEME_DEFAULTS
       | Some v \<Rightarrow> (case parse themePrefsSchema v of None \<Rightarrow> THEME_DEFAULTS | Some w \<Rightarrow> theme_of w))"

definition serializeThemePrefs :: "theme \<Rightarrow> string" where
  "serializeThemePrefs p = stringify (\<lambda>_. []) (theme_json p)"

definition THEME_COOKIE :: string where
  "THEME_COOKIE = ''sacco_theme''"

text \<open>The server's cookie jar decodes values; one that cannot be decoded is left out.\<close>

definition getServerThemePrefs :: "(zschema \<Rightarrow> jv \<Rightarrow> jv option) \<Rightarrow> cookies \<Rightarrow> theme" where
  "getServerThemePrefs parse cs = parseThemeCookie parse (case map_of cs THEME_COOKIE of None \<Rightarrow> None | Some v \<Rightarrow> decodeURIComponent v)"

definition writeThemeCookieClient :: "theme \<Rightarrow> cookies \<Rightarrow> cookies" where
  "writeThemeCookieClient p = put_cookie THEME_COOKIE (encodeURIComponent (serializeThemePrefs p))"

text \<open>The attributes of the document element.\<close>

record theme_attributes =
  data_theme :: string
  data_accent :: "string option"
  data_font_size :: "string option"

definition resolved_theme :: "string \<Rightarrow> bool \<Rightarrow> string" where
  "resolved_theme mode systemDark = (if mode = ''system'' then if systemDark then ''dark'' else ''light'' else mode)"

definition applyThemeAttributes :: "theme \<Rightarrow> bool \<Rightarrow> theme_attributes" where
  "applyThemeAttributes p systemDark =
     \<lparr>data_theme = resolved_theme (th_mode p) systemDark,
      data_accent = (if th_accent p \<noteq> ''default'' then Some (th_accent p) else None),
      data_font_size = (if th_fontSize p \<noteq> ''default'' then Some (th_fontSize p) else None)\<rparr>"

text \<open>The script that runs before the first paint: what it reads of the cookie text and what it stamps.\<close>

definition script_prefs :: "string \<Rightarrow> theme" where
  "script_prefs text =
     (case cookie_match ''sacco_theme'' text of None \<Rightarrow> \<lparr>th_mode = ''system'', th_accent = ''default'', th_fontSize = ''default''\<rparr>
      | Some raw \<Rightarrow> (case Option.bind (decodeURIComponent raw) json_parse of
          None \<Rightarrow> \<lparr>th_mode = ''system'', th_accent = ''default'', th_fontSize = ''default''\<rparr>
        | Some parsed \<Rightarrow>
            \<lparr>th_mode = (if js_prop parsed ''mode'' \<in> {JStr ''light'', JStr ''dark'', JStr ''system''} then js_str (js_prop parsed ''mode'') else ''system''),
             th_accent = (if js_prop parsed ''accent'' \<in> {JStr ''default'', JStr ''blue'', JStr ''green'', JStr ''amber'', JStr ''slate''}
               then js_str (js_prop parsed ''accent'') else ''default''),
             th_fontSize = (if js_prop parsed ''fontSize'' \<in> {JStr ''compact'', JStr ''default'', JStr ''large'', JStr ''xl''}
               then js_str (js_prop parsed ''fontSize'') else ''default'')\<rparr>))"

definition THEME_SCRIPT :: "string \<Rightarrow> bool \<Rightarrow> theme_attributes" where
  "THEME_SCRIPT text systemDark = (let p = script_prefs text in
     \<lparr>data_theme = resolved_theme (th_mode p) systemDark,
      data_accent = (if th_accent p \<noteq> [] \<and> th_accent p \<noteq> ''default'' then Some (th_accent p) else None),
      data_font_size = (if th_fontSize p \<noteq> [] \<and> th_fontSize p \<noteq> ''default'' then Some (th_fontSize p) else None)\<rparr>)"

section \<open>The columns of a table\<close>

definition COOKIE_NAME :: string where
  "COOKIE_NAME = ''sacco_table_prefs''"

definition readCookie :: "cookies \<Rightarrow> jv" where
  "readCookie cs = (case find (prefix (COOKIE_NAME @ ''='')) (split_cookies (cookie_text cs)) of None \<Rightarrow> JObj []
     | Some raw \<Rightarrow> (case Option.bind (decodeURIComponent (drop (length COOKIE_NAME + 1) raw)) json_parse of None \<Rightarrow> JObj [] | Some v \<Rightarrow> v))"

definition writeCookie :: "jv \<Rightarrow> cookies \<Rightarrow> cookies" where
  "writeCookie prefs = put_cookie COOKIE_NAME (encodeURIComponent (stringify (\<lambda>_. []) prefs))"

text \<open>\<open>entry?.name\<close> on an entry that may be missing; none where reading the entry throws.\<close>

record table_prefs =
  tp_hiddenColumns :: jv
  tp_density :: "jv option"

definition getTablePrefs :: "string \<Rightarrow> cookies \<Rightarrow> table_prefs option" where
  "getTablePrefs tableId cs = (let all = readCookie cs in
     if all = JNull then None
     else let entry = js_prop all tableId in
       Some \<lparr>tp_hiddenColumns = js_nullish (js_prop entry ''hiddenColumns'') (JArr []),
         tp_density = (if js_truthy (js_prop entry ''density'') then Some (js_prop entry ''density'') else None)\<rparr>)"

text \<open>
  \<open>{ ...all[tableId], key: value }\<close>: spreading an array or a string gives its elements under their
  indices, spreading any other value that is no object gives nothing.
\<close>

fun spread_fields :: "jv \<Rightarrow> (string \<times> jv) list" where
  "spread_fields (JObj fs) = fs"
| "spread_fields (JArr vs) = map (\<lambda>(i, v). (show_nat i, v)) (enumerate 0 vs)"
| "spread_fields (JStr s) = map (\<lambda>(i, c). (show_nat i, JStr [c])) (enumerate 0 s)"
| "spread_fields _ = []"

text \<open>
  The assignment \<open>all[tableId] = \<dots>\<close>: on an array it adds a property that \<open>JSON.stringify\<close> leaves out, on
  any other value that is no object it throws (none). Table names are no array indices.
\<close>

fun set_entry :: "string \<Rightarrow> string \<Rightarrow> jv \<Rightarrow> jv \<Rightarrow> jv option" where
  "set_entry tableId k v (JObj fs) = Some (JObj (put_prop tableId (JObj (put_prop k v (spread_fields (js_prop (JObj fs) tableId)))) fs))"
| "set_entry tableId k v (JArr vs) = Some (JArr vs)"
| "set_entry tableId k v _ = None"

text \<open>Where the assignment throws, nothing is written.\<close>

definition setTableHiddenColumns :: "string \<Rightarrow> string list \<Rightarrow> cookies \<Rightarrow> cookies" where
  "setTableHiddenColumns tableId hiddenColumns cs =
     (case set_entry tableId ''hiddenColumns'' (JArr (map JStr hiddenColumns)) (readCookie cs) of
        None \<Rightarrow> cs | Some prefs \<Rightarrow> writeCookie prefs cs)"

definition setTableDensity :: "string \<Rightarrow> string \<Rightarrow> cookies \<Rightarrow> cookies" where
  "setTableDensity tableId d cs = (case set_entry tableId ''density'' (JStr d) (readCookie cs) of None \<Rightarrow> cs | Some prefs \<Rightarrow> writeCookie prefs cs)"

section \<open>One theme for the server, the script and the client\<close>

definition valid_theme :: "theme \<Rightarrow> bool" where
  "valid_theme p \<longleftrightarrow> th_mode p \<in> {''light'', ''dark'', ''system''} \<and> th_accent p \<in> set THEME_ACCENTS \<and> th_fontSize p \<in> set THEME_FONT_SIZES"

lemma enum_catch: "zref fmt (ZCatch (ZEnum xs) (JStr d)) v = Some (JStr (if is_JStr v \<and> js_str v \<in> set xs then js_str v else d))"
  by (cases v) simp_all

lemma json_parse_Nil: "json_parse [] = None"
  by (simp add: json_parse_def)

lemma theme_parse:
  assumes "zod fmt parse"
  shows "(case parse themePrefsSchema v of None \<Rightarrow> THEME_DEFAULTS | Some w \<Rightarrow> theme_of w) =
     \<lparr>th_mode = (if js_prop v ''mode'' \<in> {JStr ''light'', JStr ''dark'', JStr ''system''} then js_str (js_prop v ''mode'') else ''system''),
      th_accent = (if js_prop v ''accent'' \<in> {JStr ''default'', JStr ''blue'', JStr ''green'', JStr ''amber'', JStr ''slate''} then js_str (js_prop v ''accent'') else ''default''),
      th_fontSize = (if js_prop v ''fontSize'' \<in> {JStr ''compact'', JStr ''default'', JStr ''large'', JStr ''xl''} then js_str (js_prop v ''fontSize'') else ''default'')\<rparr>"
    (is "_ = ?R")
proof -
  have p: "parse themePrefsSchema v = zref fmt themePrefsSchema v" using zod.parse_zref [OF assms, of themePrefsSchema] by (simp add: themePrefsSchema_def)
  have str: "JStr (if is_JStr x \<and> js_str x \<in> set xs then js_str x else d) = JStr (if x \<in> JStr ` set xs then js_str x else d)" for x xs d by (cases x) auto
  have "(case zref fmt themePrefsSchema v of None \<Rightarrow> THEME_DEFAULTS | Some w \<Rightarrow> theme_of w) = ?R"
  proof (cases v)
    case (JObj kvs)
    define a b c where abc: "a = js_prop v ''mode''" "b = js_prop v ''accent''" "c = js_prop v ''fontSize''"
    have "zref fmt themePrefsSchema v = Some (JObj
       [(''mode'', JStr (if a \<in> JStr ` set [''light'', ''dark'', ''system''] then js_str a else ''system'')),
        (''accent'', JStr (if b \<in> JStr ` set THEME_ACCENTS then js_str b else ''default'')),
        (''fontSize'', JStr (if c \<in> JStr ` set THEME_FONT_SIZES then js_str c else ''default''))])"
      unfolding themePrefsSchema_def zref.simps(14) JObj jv.case
      unfolding JObj [symmetric] by (cases a) (simp_all add: abc [symmetric] enum_catch str out_field_def THEME_DEFAULTS_def del: zref.simps(11))
    then show ?thesis by (simp add: abc [symmetric] theme_of_def THEME_ACCENTS_def THEME_FONT_SIZES_def)
  qed (simp_all add: themePrefsSchema_def THEME_DEFAULTS_def)
  then show ?thesis by (simp only: p)
qed

lemma script_is_server:
  assumes "zod fmt parse" "wf_cookies cs"
  shows "script_prefs (cookie_text cs) = getServerThemePrefs parse cs"
proof -
  have m: "cookie_match ''sacco_theme'' (cookie_text cs) = map_of cs THEME_COOKIE"
    using cookie_match_text [OF assms(2), of "''sacco_theme''"] by (simp add: THEME_COOKIE_def)
  show ?thesis
    by (cases "map_of cs THEME_COOKIE"; cases "Option.bind (map_of cs THEME_COOKIE) decodeURIComponent")
      (auto simp: script_prefs_def m getServerThemePrefs_def parseThemeCookie_def theme_parse [OF assms(1)] THEME_DEFAULTS_def json_parse_Nil split: option.splits)
qed

lemma script_theme:
  assumes "zod fmt parse" "wf_cookies cs"
  shows "THEME_SCRIPT (cookie_text cs) systemDark = applyThemeAttributes (getServerThemePrefs parse cs) systemDark" "valid_theme (getServerThemePrefs parse cs)"
proof -
  have valid: "valid_theme (script_prefs t)" for t
    by (auto simp: script_prefs_def valid_theme_def THEME_ACCENTS_def THEME_FONT_SIZES_def split: option.splits)
  have "th_accent (script_prefs t) \<noteq> []" "th_fontSize (script_prefs t) \<noteq> []" for t
    using valid [of t] by (auto simp: valid_theme_def THEME_ACCENTS_def THEME_FONT_SIZES_def)
  then show "THEME_SCRIPT (cookie_text cs) systemDark = applyThemeAttributes (getServerThemePrefs parse cs) systemDark"
    by (simp add: THEME_SCRIPT_def applyThemeAttributes_def Let_def script_is_server [OF assms, symmetric])
  show "valid_theme (getServerThemePrefs parse cs)" using valid [of "cookie_text cs"] script_is_server [OF assms] by simp
qed

lemma stored_theme:
  assumes "zod fmt parse" "wf_cookies cs"
  shows "valid_theme p \<Longrightarrow> getServerThemePrefs parse (writeThemeCookieClient p cs) = p" "wf_cookies (writeThemeCookieClient p cs)"
proof -
  show "getServerThemePrefs parse (writeThemeCookieClient p cs) = p" if "valid_theme p"
  proof -
    have "serializeThemePrefs p \<noteq> []" by (simp add: serializeThemePrefs_def theme_json_def)
    moreover have "json_parse (serializeThemePrefs p) = Some (theme_json p)" unfolding serializeThemePrefs_def by (rule json_round_trip) (simp add: theme_json_def)
    ultimately show ?thesis using that
      by (simp add: getServerThemePrefs_def writeThemeCookieClient_def map_of_put_cookie decode_encode parseThemeCookie_def theme_parse [OF assms(1)])
        (auto simp: theme_json_def valid_theme_def THEME_ACCENTS_def THEME_FONT_SIZES_def)
  qed
  show "wf_cookies (writeThemeCookieClient p cs)"
    unfolding writeThemeCookieClient_def by (rule wf_put_cookie [OF assms(2)]) (use encoded_no_semicolon in \<open>simp_all add: THEME_COOKIE_def\<close>)
qed


definition demo_theme :: theme where
  "demo_theme = \<lparr>th_mode = ''dark'', th_accent = ''blue'', th_fontSize = ''large''\<rparr>"


section \<open>Column preferences round trip\<close>

lemma find_cookie_pair:
  assumes "wf_cookies cs" "CHR ''='' \<notin> set n"
  shows "find (prefix (n @ ''='')) (map cookie_pair cs) = map_option (\<lambda>v. cookie_pair (n, v)) (map_of cs n)"
  using assms(1)
proof (induction cs)
  case (Cons c cs)
  obtain m v where c: "c = (m, v)" by (cases c)
  have "CHR '';'' \<notin> set v" "CHR ''='' \<notin> set m" "wf_cookies cs" using Cons.prems by (auto simp: c wf_cookies_def)
  then show ?case using Cons.IH cookie_at_pair [of v m n "[]"] assms(2) by (auto simp: c cookie_at_def split: if_splits)
qed simp

lemma readCookie_map: "wf_cookies cs \<Longrightarrow> readCookie cs = (case Option.bind (Option.bind (map_of cs COOKIE_NAME) decodeURIComponent) json_parse of None \<Rightarrow> JObj [] | Some v \<Rightarrow> v)"
proof -
  assume wf: "wf_cookies cs"
  have "find (prefix (COOKIE_NAME @ ''='')) (split_cookies (cookie_text cs)) = map_option (\<lambda>v. cookie_pair (COOKIE_NAME, v)) (map_of cs COOKIE_NAME)"
    using split_cookies_text [OF wf] find_cookie_pair [OF wf, of COOKIE_NAME] by (auto simp: COOKIE_NAME_def)
  then show ?thesis by (cases "map_of cs COOKIE_NAME") (simp_all add: readCookie_def cookie_pair_def)
qed

lemma read_written: "wf_cookies cs \<Longrightarrow> plain v \<Longrightarrow> readCookie (writeCookie v cs) = v \<and> wf_cookies (writeCookie v cs)"
proof -
  assume wf: "wf_cookies cs" and v: "plain v"
  have w: "wf_cookies (writeCookie v cs)" unfolding writeCookie_def
    by (rule wf_put_cookie [OF wf]) (use encoded_no_semicolon in \<open>simp_all add: COOKIE_NAME_def\<close>)
  then show ?thesis using readCookie_map [OF w] json_round_trip [OF v] by (simp add: writeCookie_def map_of_put_cookie decode_encode)
qed

lemma put_prop_map: "map_of (put_prop k v fs) = (map_of fs)(k \<mapsto> v)"
  by (induction fs) auto

lemma put_prop_keys: "fst ` set (put_prop k v fs) = insert k (fst ` set fs)"
  by (metis put_prop_map dom_map_of_conv_image_fst dom_fun_upd option.distinct(1))

lemma put_prop_distinct: "distinct (map fst fs) \<Longrightarrow> distinct (map fst (put_prop k v fs))"
proof (induction fs)
  case (Cons f fs)
  obtain a b where f: "f = (a, b)" by (cases f)
  show ?case
  proof (cases "a = k")
    case False
    then have "a \<notin> fst ` set (put_prop k v fs)" using Cons.prems put_prop_keys [of k v fs] by (simp add: f)
    then show ?thesis using Cons False by (simp add: f)
  qed (use Cons.prems in \<open>simp add: f\<close>)
qed simp

lemma put_prop_all: "list_all P fs \<Longrightarrow> P (k, v) \<Longrightarrow> list_all P (put_prop k v fs)"
  by (induction fs) auto

lemma put_prop_plain: "plain (JObj fs) \<Longrightarrow> plain v \<Longrightarrow> plain (JObj (put_prop k v fs))"
  by (simp add: put_prop_distinct put_prop_all)

lemma plain_prop: "plain (JObj fs) \<Longrightarrow> map_of fs k = Some v \<Longrightarrow> plain v"
  by (auto simp: list_all_iff dest: map_of_SomeD)

lemma show_nat_inj: "show_nat m = show_nat n \<Longrightarrow> m = n"
  by (metis show_nat_digits)

lemma distinct_indices: "distinct (map fst (map (\<lambda>(i, v). (show_nat i, f v)) (enumerate n vs)))"
proof -
  have "map fst (map (\<lambda>(i, v). (show_nat i, f v)) (enumerate n vs)) = map show_nat [n..<n + length vs]"
    by (rule nth_equalityI) (auto simp: nth_enumerate_eq)
  then show ?thesis using show_nat_inj by (simp add: distinct_map inj_on_def)
qed

lemma spread_plain: "plain v \<Longrightarrow> plain (JObj (spread_fields v))"
proof (cases v)
  case (JArr vs)
  assume "plain v"
  then show ?thesis using distinct_indices [of "\<lambda>v. v" 0 vs] by (auto simp: JArr list_all_iff in_set_enumerate_eq)
next
  case (JStr s)
  then show ?thesis using distinct_indices [of "\<lambda>c. JStr [c]" 0 s] by (auto simp: list_all_iff)
qed simp_all

lemma set_entry_plain:
  assumes "plain (JObj fs)" "plain v"
  shows "\<exists>p. set_entry t k v (JObj fs) = Some p \<and> plain p \<and>
    (\<forall>u j. js_prop (js_prop p u) j = (if u = t then if j = k then v else js_prop (JObj (spread_fields (js_prop (JObj fs) t))) j
       else js_prop (js_prop (JObj fs) u) j)) \<and> p \<noteq> JNull"
proof -
  let ?old = "spread_fields (js_prop (JObj fs) t)"
  have "plain (JObj ?old)"
    using spread_plain plain_prop [OF assms(1), of t] by (cases "map_of fs t") (simp_all del: plain.simps(7), simp)
  then have "plain (JObj (put_prop t (JObj (put_prop k v ?old)) fs))" using assms by (intro put_prop_plain)
  then show ?thesis by (simp add: put_prop_map del: plain.simps)
qed

text \<open>
  The columns a user hides and the density a user chooses for a table are the ones the table reads
  next; setting one keeps the other where the table had an entry or none, and the preferences of every
  other table and all other cookies.
\<close>

theorem table_prefs_kept:
  assumes "wf_cookies cs" "readCookie cs = JObj fs" "plain (JObj fs)" "map_of fs t = None \<or> map_of fs t = Some (JObj es)"
  shows "getTablePrefs t (setTableHiddenColumns t hidden cs) =
      map_option (\<lambda>p. p\<lparr>tp_hiddenColumns := JArr (map JStr hidden)\<rparr>) (getTablePrefs t cs) \<and>
    getTablePrefs t (setTableDensity t d cs) = map_option (\<lambda>p. p\<lparr>tp_density := if d = [] then None else Some (JStr d)\<rparr>) (getTablePrefs t cs) \<and>
    (u \<noteq> t \<longrightarrow> getTablePrefs u (setTableHiddenColumns t hidden cs) = getTablePrefs u cs \<and> getTablePrefs u (setTableDensity t d cs) = getTablePrefs u cs) \<and>
    (n \<noteq> COOKIE_NAME \<longrightarrow> map_of (setTableHiddenColumns t hidden cs) n = map_of cs n \<and> map_of (setTableDensity t d cs) n = map_of cs n)"
proof -
  have old: "js_prop (JObj (spread_fields (js_prop (JObj fs) t))) j = js_prop (js_prop (JObj fs) t) j" for j
    using assms(4) by auto
  obtain p where p: "set_entry t ''hiddenColumns'' (JArr (map JStr hidden)) (JObj fs) = Some p" "plain p" "p \<noteq> JNull"
      "\<And>u j. js_prop (js_prop p u) j = (if u = t \<and> j = ''hiddenColumns'' then JArr (map JStr hidden) else js_prop (js_prop (JObj fs) u) j)"
    using set_entry_plain [OF assms(3), of "JArr (map JStr hidden)" t "''hiddenColumns''"] old by (auto simp: list_all_iff simp del: js_prop.simps set_entry.simps)
  obtain q where q: "set_entry t ''density'' (JStr d) (JObj fs) = Some q" "plain q" "q \<noteq> JNull"
      "\<And>u j. js_prop (js_prop q u) j = (if u = t \<and> j = ''density'' then JStr d else js_prop (js_prop (JObj fs) u) j)"
    using set_entry_plain [OF assms(3), of "JStr d" t "''density''"] old by (auto simp del: js_prop.simps set_entry.simps)
  have h: "setTableHiddenColumns t hidden cs = writeCookie p cs" "readCookie (writeCookie p cs) = p"
    using p read_written [OF assms(1)] by (simp_all add: setTableHiddenColumns_def assms(2) del: set_entry.simps)
  have e: "setTableDensity t d cs = writeCookie q cs" "readCookie (writeCookie q cs) = q"
    using q read_written [OF assms(1)] by (simp_all add: setTableDensity_def assms(2) del: set_entry.simps)
  show ?thesis
    by (simp add: getTablePrefs_def h e assms(2) p(3,4) q(3,4) Let_def del: js_prop.simps)
      (simp add: writeCookie_def map_of_put_cookie)
qed

theorem table_prefs_kept_witness:
  "getTablePrefs ''members'' (setTableHiddenColumns ''members'' [''phone''] []) = Some \<lparr>tp_hiddenColumns = JArr [JStr ''phone''], tp_density = None\<rparr>"
proof -
  have "readCookie [] = JObj []" by (simp add: readCookie_def COOKIE_NAME_def)
  then show ?thesis using table_prefs_kept [of "[]" "[]" "''members''" "[]" "[''phone'']"] by (simp add: wf_cookies_def getTablePrefs_def Let_def)
qed


section \<open>Choosing a theme\<close>

text \<open>
  The provider (\<open>ThemeProvider.tsx\<close>): the preferences it holds, the attributes on the document, the
  browser's cookies and the colour scheme of the operating system.
\<close>

record theme_page =
  tg_prefs :: theme
  tg_attributes :: theme_attributes
  tg_cookies :: cookies
  tg_dark :: bool

definition ThemeProvider :: "theme \<Rightarrow> cookies \<Rightarrow> bool \<Rightarrow> theme_page" where
  "ThemeProvider initial cs dark = \<lparr>tg_prefs = initial, tg_attributes = applyThemeAttributes initial dark, tg_cookies = cs, tg_dark = dark\<rparr>"

definition setPrefs :: "theme \<Rightarrow> theme_page \<Rightarrow> theme_page" where
  "setPrefs p s = s\<lparr>tg_prefs := p, tg_cookies := writeThemeCookieClient p (tg_cookies s), tg_attributes := applyThemeAttributes p (tg_dark s)\<rparr>"

definition scheme_listener :: "bool \<Rightarrow> theme_page \<Rightarrow> theme_page" where
  "scheme_listener dark s = (let s = s\<lparr>tg_dark := dark\<rparr> in
     if th_mode (tg_prefs s) \<noteq> ''system'' then s else s\<lparr>tg_attributes := applyThemeAttributes (tg_prefs s) dark\<rparr>)"

datatype theme_event = Chose theme | Scheme bool

fun theme_step :: "theme_event \<Rightarrow> theme_page \<Rightarrow> theme_page" where
  "theme_step (Chose p) s = setPrefs p s"
| "theme_step (Scheme dark) s = scheme_listener dark s"

definition theme_inv :: "(zschema \<Rightarrow> jv \<Rightarrow> jv option) \<Rightarrow> theme_page \<Rightarrow> bool" where
  "theme_inv parse s \<longleftrightarrow> wf_cookies (tg_cookies s) \<and> tg_attributes s = applyThemeAttributes (tg_prefs s) (tg_dark s) \<and>
     getServerThemePrefs parse (tg_cookies s) = tg_prefs s"

lemma scheme_irrelevant: "th_mode p \<noteq> ''system'' \<Longrightarrow> applyThemeAttributes p d = applyThemeAttributes p d'"
  by (simp add: applyThemeAttributes_def resolved_theme_def)

lemma theme_step_inv:
  assumes "zod fmt parse" "theme_inv parse s" "case ev of Chose p \<Rightarrow> valid_theme p | Scheme _ \<Rightarrow> True"
  shows "theme_inv parse (theme_step ev s)"
proof (cases ev)
  case (Chose p)
  then show ?thesis using assms stored_theme [OF assms(1), of "tg_cookies s" p] by (simp add: theme_inv_def setPrefs_def)
next
  case (Scheme d)
  then show ?thesis using assms(2) scheme_irrelevant [of "tg_prefs s" "tg_dark s" d] by (auto simp: theme_inv_def scheme_listener_def Let_def)
qed

text \<open>
  A theme that is on stays on: whatever themes the user chooses and however the scheme of the operating
  system changes, the attributes on the document are those the script would stamp at that moment after a
  reload, and those of the theme the user chose last.
\<close>

theorem theme_live:
  assumes "zod fmt parse" "wf_cookies cs" "list_all (\<lambda>ev. case ev of Chose p \<Rightarrow> valid_theme p | Scheme _ \<Rightarrow> True) evs"
  shows "let s = fold theme_step evs (ThemeProvider (getServerThemePrefs parse cs) cs dark) in
    tg_attributes s = THEME_SCRIPT (cookie_text (tg_cookies s)) (tg_dark s) \<and> tg_attributes s = applyThemeAttributes (tg_prefs s) (tg_dark s)"
proof -
  have "theme_inv parse s \<Longrightarrow> list_all (\<lambda>ev. case ev of Chose p \<Rightarrow> valid_theme p | Scheme _ \<Rightarrow> True) evs \<Longrightarrow> theme_inv parse (fold theme_step evs s)" for s
    using theme_step_inv [OF assms(1)] by (induction evs arbitrary: s) auto
  moreover have "theme_inv parse (ThemeProvider (getServerThemePrefs parse cs) cs dark)" using assms(2) by (simp add: theme_inv_def ThemeProvider_def)
  ultimately have "theme_inv parse (fold theme_step evs (ThemeProvider (getServerThemePrefs parse cs) cs dark))" using assms(3) by blast
  then show ?thesis using script_theme(1) [OF assms(1)] by (simp add: theme_inv_def Let_def)
qed

end
