(* ===== verification/Dashboard.thy ===== *)
theory Dashboard
  imports Ledger_Balance Money_Input Platform_Actions
begin

text \<open>
  The figures of the dashboards: the member's totals
  (\<open>app/member/(authed)/dashboard/_components/summary.ts\<close>), the trend series
  (\<open>src/components/dashboard/trend.ts\<close>), the rows that need attention
  (\<open>src/components/dashboard/NeedsAttention.tsx\<close>), the composition charts
  (\<open>packages/ui/src/components/Chart/chart-data.ts\<close>) and the open approval of a record
  (\<open>src/lib/approval-subjects.ts\<close>). Amounts are summed as doubles: the totals are exact for up to 100
  rows of whole cents up to \<open>2^32\<close>.
\<close>

section \<open>The member's totals\<close>

record savings_row =
  sr_available_balance :: "string option"
  sr_balance :: "string option"

record share_row =
  sh_shares_held :: "num option"
  sh_total_value :: "string option"

record fee_row =
  fe_status :: string
  fe_amount :: string

record member_summary_input =
  mi_savings :: "savings_row list"
  mi_shares :: "share_row list"
  mi_loans :: "string list"
  mi_fees :: "fee_row list"

record member_summary =
  ms_savingsTotal :: string
  ms_sharesHeld :: num
  ms_sharesValue :: string
  ms_activeLoans :: nat
  ms_loansInArrears :: nat
  ms_feesOutstanding :: string

definition ACTIVE_LOAN_STATUSES :: "string list" where
  "ACTIVE_LOAN_STATUSES = [''disbursed'', ''in_arrears'']"

definition SETTLED_FEE_STATUSES :: "string list" where
  "SETTLED_FEE_STATUSES = [''paid'', ''waived'', ''cancelled'']"

definition sum_text :: "(num \<Rightarrow> string) \<Rightarrow> string list \<Rightarrow> string" where
  "sum_text big vs = toFixed big (foldl (\<lambda>acc v. js_add acc (toNumber (if v = [] then ''0'' else v))) (Fin 0) vs) 2"

definition savings_amount :: "savings_row \<Rightarrow> string" where
  "savings_amount a = nullish (case sr_available_balance a of None \<Rightarrow> sr_balance a | Some b \<Rightarrow> Some b) ''0''"

definition outstanding :: "fee_row list \<Rightarrow> string list" where
  "outstanding fs = map fe_amount (filter (\<lambda>f. fe_status f \<notin> set SETTLED_FEE_STATUSES) fs)"

definition computeMemberSummary :: "(num \<Rightarrow> string) \<Rightarrow> member_summary_input \<Rightarrow> member_summary" where
  "computeMemberSummary big i =
     \<lparr>ms_savingsTotal = sum_text big (map savings_amount (mi_savings i)),
      ms_sharesHeld = foldl (\<lambda>acc s. js_add acc (nullish (sh_shares_held s) (Fin 0))) (Fin 0) (mi_shares i),
      ms_sharesValue = sum_text big (map (\<lambda>s. nullish (sh_total_value s) ''0'') (mi_shares i)),
      ms_activeLoans = length (filter (\<lambda>l. l \<in> set ACTIVE_LOAN_STATUSES) (mi_loans i)),
      ms_loansInArrears = length (filter (\<lambda>l. l = ''in_arrears'') (mi_loans i)),
      ms_feesOutstanding = sum_text big (outstanding (mi_fees i))\<rparr>"

section \<open>Rows that need attention\<close>

record attention_item =
  at_label :: string
  at_href :: string
  at_count :: num

definition NeedsAttention :: "attention_item list \<Rightarrow> attention_item list" where
  "NeedsAttention items = filter (\<lambda>item. js_less (Fin 0) (at_count item)) items"

definition MemberDashboard :: "member_summary \<Rightarrow> attention_item list" where
  "MemberDashboard s = NeedsAttention
     [\<lparr>at_label = ''Fees outstanding'', at_href = ''/member/fees'', at_count = toNumber (ms_feesOutstanding s)\<rparr>,
      \<lparr>at_label = ''Loans in arrears'', at_href = ''/member/loans'', at_count = Fin (of_nat (ms_loansInArrears s))\<rparr>]"

section \<open>Trends and shares of a whole\<close>

text \<open>Division and the multiplication by a hundred; the callers never divide by zero.\<close>

fun js_div :: "num \<Rightarrow> num \<Rightarrow> num" where
  "js_div (Fin x) (Fin y) = to_num (x / y)"
| "js_div (Fin x) PosInf = Fin 0"
| "js_div (Fin x) NegInf = Fin 0"
| "js_div PosInf (Fin y) = (if 0 < y then PosInf else NegInf)"
| "js_div NegInf (Fin y) = (if 0 < y then NegInf else PosInf)"
| "js_div _ _ = NaN"

fun times100 :: "num \<Rightarrow> num" where
  "times100 (Fin x) = to_num (x * 100)"
| "times100 v = v"

type_synonym month_point = "string \<times> string"

definition deltaPct :: "month_point list option \<Rightarrow> num option" where
  "deltaPct series = (case series of None \<Rightarrow> None
     | Some ps \<Rightarrow>
         if length ps < 2 then None
         else let prev = toNumber (snd (ps ! (length ps - 2))); last = toNumber (snd (ps ! (length ps - 1))) in
           if prev = Fin 0 then None else Some (times100 (js_div (js_sub last prev) prev)))"

definition DeltaChip :: "(num \<Rightarrow> string) \<Rightarrow> num \<Rightarrow> string" where
  "DeltaChip big delta = (if js_le (Fin 0) delta then ''+'' else '''') @ toFixed big delta 1 @ ''%''"

definition MONTH_NAMES :: "string list" where
  "MONTH_NAMES = [''Jan'', ''Feb'', ''Mar'', ''Apr'', ''May'', ''Jun'', ''Jul'', ''Aug'', ''Sep'', ''Oct'', ''Nov'', ''Dec'']"

text \<open>\<open>MONTH_NAMES[i]\<close>: undefined unless \<open>i\<close> is an index of the list.\<close>

definition month_name :: "num \<Rightarrow> string option" where
  "month_name v = (case v of Fin x \<Rightarrow>
       if x = of_int \<lfloor>x\<rfloor> \<and> 0 \<le> x \<and> x < 12 then Some (MONTH_NAMES ! nat \<lfloor>x\<rfloor>) else None
     | _ \<Rightarrow> None)"

definition toChartData :: "month_point list option \<Rightarrow> (string \<times> num) list" where
  "toChartData series = map (\<lambda>(month, val).
     (nullish (month_name (js_sub (toNumber (take 2 (drop 5 month))) (Fin 1))) month, toNumber val)) (nullish series [])"

definition CHART_SERIES :: "string list" where
  "CHART_SERIES = [''var(--chart-1)'', ''var(--chart-2)'', ''var(--chart-3)'', ''var(--chart-4)'', ''var(--chart-5)'', ''var(--chart-6)'']"

record segment =
  sg_label :: string
  sg_value :: num
  sg_color :: string
  sg_percentage :: num

definition resolveSegments :: "(string \<times> num) list \<Rightarrow> segment list" where
  "resolveSegments data = (let whole = foldl (\<lambda>acc s. js_add acc (snd s)) (Fin 0) data in
     map (\<lambda>(i, l, v). \<lparr>sg_label = l, sg_value = v, sg_color = CHART_SERIES ! (i mod length CHART_SERIES),
        sg_percentage = (if whole = Fin 0 then Fin 0 else times100 (js_div v whole))\<rparr>) (enumerate 0 data))"

section \<open>The open approval of a record\<close>

definition APPROVAL_SUBJECTS :: "(string \<times> (string \<times> string) list) list" where
  "APPROVAL_SUBJECTS =
    [(''invoice'', [(''billing.void_invoice'', ''invoice_id'')]),
     (''subscription'', [(''billing.cancel_subscription'', ''subscription_id'')]),
     (''tenant'', [(''tenant.suspend'', ''tenant_id''), (''tenant.retry_provisioning'', ''tenant_id'')]),
     (''platform_user'', [(''platform_user.update_sensitive'', ''user_id'')])]"

record approval_request =
  ar_id :: string
  ar_status :: string
  ar_operation_type :: string
  ar_payload :: jv

definition concerns :: "(string \<times> string) list \<Rightarrow> string \<Rightarrow> approval_request \<Rightarrow> bool" where
  "concerns rules recordId r \<longleftrightarrow> ar_status r = ''pending'' \<and>
     (case find (\<lambda>x. fst x = ar_operation_type r) rules of None \<Rightarrow> False
      | Some rule \<Rightarrow> js_prop (ar_payload r) (snd rule) = JStr recordId)"

definition findOpenApproval :: "string \<Rightarrow> string \<Rightarrow> approval_request list \<Rightarrow> approval_request option" where
  "findOpenApproval entityType recordId pending = (case map_of APPROVAL_SUBJECTS entityType of None \<Rightarrow> None
     | Some rules \<Rightarrow> find (concerns rules recordId) pending)"


section \<open>The totals are exact\<close>

lemma decimal_prefix_all: "is_decimal k s \<Longrightarrow> decimal_prefix s = Some (to_num (dec_val s), []) \<and> js_trim s = s \<and> s \<noteq> []"
proof -
  assume d: "is_decimal k s"
  then obtain ds fs where ds: "ds \<noteq> []" "list_all is_digit ds" "list_all is_digit fs"
    and s: "s = ds \<and> fs = [] \<or> s = ds @ CHR ''.'' # fs \<and> fs \<noteq> []"
    unfolding is_decimal_def by (metis One_nat_def list.size(3) not_one_le_zero)
  then have e: "is_digit (hd s)" "is_digit (last s)" "s \<noteq> []" by (auto simp: list_all_iff)
  then have "\<not> js_ws (hd s)" "\<not> js_ws (last s)" using digit_starts(1) by blast+
  then have trim: "js_trim s = s" using e(3) dropWhile_eq_self_iff [of js_ws s] dropWhile_eq_self_iff [of js_ws "rev s"] by (simp add: js_trim_def hd_rev)
  have start: "js_trimStart s = s" using \<open>\<not> js_ws (hd s)\<close> dropWhile_eq_self_iff [of js_ws s] by (simp add: js_trimStart_def)
  have "take_sign s = (1, s)" "\<not> prefix ''Infinity'' s" using e(1,3) digit_starts by (cases s; simp)+
  then obtain v where "decimal_prefix s = Some (v, [])"
    using s ds(2,3) ds(1) by (auto simp: decimal_prefix_def decimal_parts take_exp_def Let_def)
  then show ?thesis using parseFloat_decimal [OF d] trim start e(3) by (simp add: parseFloat_def)
qed

lemma toNumber_decimal: "is_decimal k s \<Longrightarrow> toNumber s = to_num (dec_val s)"
  using decimal_prefix_all [of k s] by (simp add: toNumber_def)

definition cents :: "string \<Rightarrow> bool" where
  "cents s \<longleftrightarrow> is_decimal 4 s \<and> (\<exists>n::nat. dec_val s = of_nat n / 100)"

lemma cents_sum: "list_all cents vs \<Longrightarrow> \<exists>n::nat. sum_list (map dec_val vs) = of_nat n / 100"
proof (induction vs)
  case (Cons v vs)
  then obtain k n :: nat where "dec_val v = of_nat k / 100" "sum_list (map dec_val vs) = of_nat n / 100" by (auto simp: cents_def)
  then have "sum_list (map dec_val (v # vs)) = of_nat (k + n) / 100" by (simp add: add_divide_distrib)
  then show ?case by blast
qed (auto intro: exI [of _ 0])

lemma foldl_amounts:
  "list_all cents vs \<Longrightarrow> foldl (\<lambda>acc v. js_add acc (toNumber (if v = [] then ''0'' else v))) s vs = foldl (\<lambda>s x. js_add s (to_num x)) s (map dec_val vs)"
proof (induction vs arbitrary: s)
  case (Cons v vs)
  then have d: "is_decimal 4 v" by (simp add: cents_def)
  then have "toNumber (if v = [] then ''0'' else v) = to_num (dec_val v)" using toNumber_decimal [OF d] decimal_prefix_all [OF d] by simp
  then show ?case using Cons by simp
qed simp

fun nonneg_num :: "num \<Rightarrow> bool" where
  "nonneg_num (Fin x) = (0 \<le> x)"
| "nonneg_num PosInf = True"
| "nonneg_num _ = False"

lemma to_num_nonneg: "0 \<le> x \<Longrightarrow> nonneg_num (to_num x)"
  using to_num_cases [of x] rnd_nonneg [of x] by auto

lemma js_add_nonneg: "nonneg_num a \<Longrightarrow> nonneg_num b \<Longrightarrow> nonneg_num (js_add a b)"
  by (cases a; cases b) (auto intro: to_num_nonneg)

lemma sum_nonneg_num: "nonneg_num s \<Longrightarrow> list_all (\<lambda>x. nonneg_num (f x)) xs \<Longrightarrow> nonneg_num (foldl (\<lambda>s x. js_add s (f x)) s xs)"
  by (induction xs arbitrary: s) (auto intro: js_add_nonneg)

lemma sum_text_exact:
  assumes "list_all cents vs" "length vs \<le> 100" "sum_list (map dec_val vs) \<le> 2 ^ 32"
  shows "is_decimal 2 (sum_text big vs) \<and> dec_val (sum_text big vs) = sum_list (map dec_val vs)"
proof -
  let ?S = "sum_list (map dec_val vs)"
  obtain n :: nat where n: "?S = of_nat n / 10 ^ 2" using cents_sum [OF assms(1)] by auto
  obtain t where t: "foldl (\<lambda>s x. js_add s (to_num x)) (Fin 0) (map dec_val vs) = Fin t" "\<bar>t - ?S\<bar> \<le> of_nat (length vs) / 1048576"
    using fold_err [of "map dec_val vs" 0 0 0] assms(2,3) by (auto simp: list_all_iff)
  have "(of_nat (length vs) :: rat) \<le> of_nat 100" using assms(2) by (simp only: of_nat_le_iff)
  then have e: "\<bar>t - ?S\<bar> < 1 / (2 * 10 ^ 2)" using t(2) by simp
  have "nonneg_num (Fin t)" unfolding t(1) [symmetric] by (rule sum_nonneg_num) (auto simp: list_all_iff intro: to_num_nonneg)
  then have "0 \<le> t" by simp
  moreover have "t < 10 ^ 21"
  proof -
    have "t - ?S < 1" using e by (rule order_le_less_trans [OF abs_ge_self, THEN order_less_trans]) simp
    then have "t < 2 ^ 32 + 1" using assms(3) by linarith
    also have "\<dots> < 10 ^ 21" by simp
    finally show ?thesis .
  qed
  moreover have "fixed_int 2 t = n" using e \<open>0 \<le> t\<close> unfolding n by (rule fixed_int_near)
  ultimately have "sum_text big vs = fixed_digits 2 n" by (simp add: sum_text_def foldl_amounts [OF assms(1)] t(1) toFixed_def)
  then show ?thesis using fixed_digits_decimal [of 2 n] n by simp
qed

definition addable :: "string list \<Rightarrow> bool" where
  "addable vs \<longleftrightarrow> list_all cents vs \<and> length vs \<le> 100 \<and> sum_list (map dec_val vs) \<le> 2 ^ 32"

lemma loans_counted: "length (filter (\<lambda>l. l = ''in_arrears'') ls) \<le> length (filter (\<lambda>l. l \<in> set [''disbursed'', ''in_arrears'']) ls)"
  by (induction ls) auto

lemma positive_total:
  assumes "is_decimal 2 s" "dec_val s \<le> 2 ^ 32"
  shows "js_less (Fin 0) (toNumber s) \<longleftrightarrow> 0 < dec_val s"
proof -
  obtain n :: nat where "dec_val s = of_nat n / 10 ^ 2" using dec_val_units [OF assms(1)] by blast
  then have n: "dec_val s = of_nat (n * 100) / 10 ^ 4" by simp
  have small: "dec_val s < 2 ^ 33" using assms(2) by (rule order_le_less_trans) simp
  have "toNumber s = Fin (rnd (dec_val s))" using toNumber_decimal [OF assms(1)] small by (simp add: to_num_small)
  moreover have "rnd (dec_val s) \<le> rnd 0 \<longleftrightarrow> dec_val s \<le> 0"
    using order_less_trans [OF small, of "2 ^ 39"] by (intro rnd_decimals [OF n, of 0 0]) simp_all
  ultimately show ?thesis by (simp add: not_le [symmetric] del: not_le)
qed


definition demo_member :: member_summary_input where
  "demo_member = \<lparr>mi_savings = [], mi_shares = [], mi_loans = [],
     mi_fees = [\<lparr>fe_status = ''partially_paid'', fe_amount = ''0.3''\<rparr>, \<lparr>fe_status = ''paid'', fe_amount = ''5''\<rparr>,
       \<lparr>fe_status = ''assessed'', fe_amount = ''0.3''\<rparr>]\<rparr>"

lemma demo_outstanding: "outstanding (mi_fees demo_member) = [''0.3'', ''0.3'']"
  by (simp add: demo_member_def outstanding_def SETTLED_FEE_STATUSES_def)

lemma demo_cents: "cents ''0.3''"
  unfolding cents_def by (rule conjI [OF demo_decimals(1)], rule exI [of _ 30]) simp


section \<open>A record's open approval\<close>

lemma concerns_rule:
  assumes "distinct (map fst rules)"
  shows "concerns rules recordId r \<longleftrightarrow> ar_status r = ''pending'' \<and>
    (\<exists>key. (ar_operation_type r, key) \<in> set rules \<and> js_prop (ar_payload r) key = JStr recordId)"
proof (cases "find (\<lambda>x. fst x = ar_operation_type r) rules")
  case None
  then have "\<nexists>x. x \<in> set rules \<and> fst x = ar_operation_type r" by (simp only: find_None_iff) simp
  then show ?thesis by (auto simp: concerns_def None)
next
  case (Some x)
  then have "x \<in> set rules" "fst x = ar_operation_type r" by (auto simp: find_Some_iff)
  then have "(ar_operation_type r, key) \<in> set rules \<longleftrightarrow> key = snd x" for key
    using assms by (metis eq_key_imp_eq_value prod.collapse)
  then show ?thesis by (simp add: concerns_def Some)
qed

definition subject_key :: "string \<Rightarrow> string \<Rightarrow> string option" where
  "subject_key entityType operation = Option.bind (map_of APPROVAL_SUBJECTS entityType) (\<lambda>rules. map_of rules operation)"

definition subject_operations :: "string list" where
  "subject_operations = [''billing.void_invoice'', ''billing.cancel_subscription'', ''tenant.suspend'',
     ''tenant.retry_provisioning'', ''platform_user.update_sensitive'']"

lemma subject_operation: "subject_key e op = Some key \<Longrightarrow> op \<in> set subject_operations"
proof -
  assume "subject_key e op = Some key"
  then obtain rules where "(e, rules) \<in> set APPROVAL_SUBJECTS" "(op, key) \<in> set rules"
    by (auto simp: subject_key_def bind_eq_Some_conv dest: map_of_SomeD)
  then have "op \<in> set (concat (map (map fst \<circ> snd) APPROVAL_SUBJECTS))" by force
  also have "concat (map (map fst \<circ> snd) APPROVAL_SUBJECTS) = subject_operations" by (simp add: APPROVAL_SUBJECTS_def subject_operations_def)
  finally show ?thesis .
qed

lemma concerns_subject:
  "map_of APPROVAL_SUBJECTS e = Some rules \<Longrightarrow> concerns rules recordId r \<longleftrightarrow> ar_status r = ''pending'' \<and>
     (\<exists>key. subject_key e (ar_operation_type r) = Some key \<and> js_prop (ar_payload r) key = JStr recordId)"
proof -
  assume e: "map_of APPROVAL_SUBJECTS e = Some rules"
  have "distinct (map fst rules)" using map_of_SomeD [OF e] by (auto simp: APPROVAL_SUBJECTS_def)
  then show ?thesis using concerns_rule by (simp add: subject_key_def e map_of_eq_Some_iff)
qed

definition other_operations :: "string list" where
  "other_operations = [''tenant.cancel'', ''billing.confirm_payment'', ''platform.start_impersonation'']"

lemma other_operation: "op \<in> set other_operations \<Longrightarrow> subject_key e op = None"
proof (rule ccontr)
  assume "op \<in> set other_operations" "subject_key e op \<noteq> None"
  then have "op \<in> set other_operations \<inter> set subject_operations" using subject_operation by auto
  also have "\<dots> = {}" by (simp add: other_operations_def subject_operations_def)
  finally show False by simp
qed

definition open_for :: "string \<Rightarrow> string \<Rightarrow> approval_request \<Rightarrow> bool" where
  "open_for e recordId r \<longleftrightarrow> ar_status r = ''pending'' \<and>
     (\<exists>key. subject_key e (ar_operation_type r) = Some key \<and> js_prop (ar_payload r) key = JStr recordId)"

lemma findOpenApproval_find: "findOpenApproval e recordId rs = find (open_for e recordId) rs"
proof (cases "map_of APPROVAL_SUBJECTS e")
  case None
  then have "\<not> open_for e recordId r" for r by (simp add: open_for_def subject_key_def)
  then have "find (open_for e recordId) rs = None" by (simp add: find_None_iff)
  then show ?thesis by (simp add: findOpenApproval_def None)
next
  case (Some rules)
  then have "concerns rules recordId = open_for e recordId" using concerns_subject [OF Some] by (intro ext) (simp add: open_for_def)
  then show ?thesis by (simp add: findOpenApproval_def Some)
qed

text \<open>
  The banner of a record's page shows the first pending request whose operation is one of the
  record's kind and whose payload names the record; a tenant whose cancellation is awaiting approval, a
  payment awaiting confirmation and a requested impersonation are shown on no page, whatever is pending.
\<close>

theorem open_approval_shown:
  "findOpenApproval e recordId pending = find (\<lambda>r. ar_status r = ''pending'' \<and>
      (\<exists>key. subject_key e (ar_operation_type r) = Some key \<and> js_prop (ar_payload r) key = JStr recordId)) pending \<and>
    findOpenApproval e recordId (filter (\<lambda>r. ar_operation_type r \<in> set other_operations) pending) = None"
proof
  show "findOpenApproval e recordId pending = find (\<lambda>r. ar_status r = ''pending'' \<and>
      (\<exists>key. subject_key e (ar_operation_type r) = Some key \<and> js_prop (ar_payload r) key = JStr recordId)) pending"
    unfolding findOpenApproval_find open_for_def [abs_def] by (rule refl)
  show "findOpenApproval e recordId (filter (\<lambda>r. ar_operation_type r \<in> set other_operations) pending) = None"
    unfolding findOpenApproval_find find_None_iff using other_operation [of _ e] by (auto simp: open_for_def)
qed

section \<open>Shares of a whole\<close>

lemma rnd_rnd: "rnd (rnd x) = rnd x"
proof (cases "x = 0")
  case False
  let ?e = "ulp_exp x"
  have "\<bar>x\<bar> < 2 powi (ilog2 \<bar>x\<bar> + 1)" using ilog2_bounds(2) [of "\<bar>x\<bar>"] False by simp
  also have "\<dots> \<le> 2 powi (53 + ?e)" by (simp only: powi_le_iff) (simp add: ulp_exp_def)
  finally have "\<bar>x / 2 powi ?e\<bar> \<le> of_int (2 ^ 53)" by (simp add: abs_divide power_int_add field_simps)
  then have "x / 2 powi ?e \<le> of_int (2 ^ 53)" "of_int (- (2 ^ 53)) \<le> x / 2 powi ?e"
    by (metis abs_le_iff, metis abs_le_iff minus_le_iff of_int_minus)
  then have "\<bar>round_even (x / 2 powi ?e)\<bar> \<le> 2 ^ 53" 
    using round_even_le_int [of "x / 2 powi ?e" "2 ^ 53"] round_even_ge_int [of "- (2 ^ 53)" "x / 2 powi ?e"] unfolding abs_le_iff by linarith
  moreover have "- 1074 \<le> ?e" by (simp add: ulp_exp_def)
  ultimately show ?thesis using rnd_exact False by (simp add: rnd_def [of x])
qed simp

text \<open>A sum of doubles that are not negative is at least the first term and at least each of the others.\<close>

definition double :: "num \<Rightarrow> bool" where
  "double v \<longleftrightarrow> (\<exists>x. v = Fin x \<and> 0 \<le> x \<and> rnd x = x)"

lemma js_add_double:
  assumes "0 \<le> s" "rnd s = s" "0 \<le> x" "rnd x = x" "js_add (Fin s) (Fin x) \<noteq> PosInf"
  shows "\<exists>t. js_add (Fin s) (Fin x) = Fin t \<and> s \<le> t \<and> x \<le> t \<and> rnd t = t"
proof -
  have "js_add (Fin s) (Fin x) = Fin (rnd (s + x))" using to_num_cases [of "s + x"] assms by auto
  moreover have "s \<le> rnd (s + x)" "x \<le> rnd (s + x)" using rnd_mono [of s "s + x"] rnd_mono [of x "s + x"] assms by auto
  ultimately show ?thesis using rnd_rnd by blast
qed

lemma foldl_inf: "list_all double (map f xs) \<Longrightarrow> foldl (\<lambda>acc s. js_add acc (f s)) PosInf xs = PosInf"
  by (induction xs) (auto simp: double_def)

lemma foldl_double:
  assumes "list_all double (map f xs)" "0 \<le> s" "rnd s = s" "foldl (\<lambda>acc s. js_add acc (f s)) (Fin s) xs = Fin t"
  shows "s \<le> t \<and> (\<forall>x\<in>set xs. \<exists>v. f x = Fin v \<and> 0 \<le> v \<and> v \<le> t)"
  using assms
proof (induction xs arbitrary: s)
  case (Cons x xs)
  obtain v where v: "f x = Fin v" "0 \<le> v" "rnd v = v" using Cons.prems(1) by (auto simp: double_def)
  have ds: "list_all double (map f xs)" using Cons.prems(1) by simp
  have "js_add (Fin s) (Fin v) \<noteq> PosInf" using Cons.prems(4) foldl_inf [OF ds] by (auto simp: v(1))
  then obtain r where r: "js_add (Fin s) (Fin v) = Fin r" "s \<le> r" "v \<le> r" "rnd r = r" using js_add_double Cons.prems(2,3) v by blast
  then have "r \<le> t \<and> (\<forall>x\<in>set xs. \<exists>v. f x = Fin v \<and> 0 \<le> v \<and> v \<le> t)"
    using Cons.IH [of r] Cons.prems(2,4) ds by (auto simp: v(1) simp del: js_add.simps)
  then show ?case using r v by auto
qed simp

lemma share_bounds:
  assumes "0 \<le> v" "v \<le> t" "0 < t"
  shows "\<exists>p. times100 (js_div (Fin v) (Fin t)) = Fin p \<and> 0 \<le> p \<and> p \<le> 100"
proof -
  have q: "0 \<le> v / t" "v / t \<le> 1" using assms by simp_all
  have one: "rnd 1 = 1" "rnd 100 = 100" using rnd_of_int [of 1] rnd_of_int [of 100] by simp_all
  have r: "0 \<le> rnd (v / t)" "rnd (v / t) \<le> 1" using rnd_nonneg [OF q(1)] rnd_mono [OF q(2)] one by auto
  then have b: "0 \<le> rnd (rnd (v / t) * 100)" "rnd (rnd (v / t) * 100) \<le> 100"
    using rnd_nonneg [of "rnd (v / t) * 100"] rnd_mono [of "rnd (v / t) * 100" 100] one by auto
  have "to_num (v / t) = Fin (rnd (v / t))" "to_num (rnd (v / t) * 100) = Fin (rnd (rnd (v / t) * 100))"
    using q r by (auto intro!: to_num_small)
  then show ?thesis using b by simp
qed

lemma finite_total:
  assumes "list_all double (map snd data)" "foldl (\<lambda>acc s. js_add acc (snd s)) (Fin 0) data \<noteq> PosInf"
  obtains t where "foldl (\<lambda>acc s. js_add acc (snd s)) (Fin 0) data = Fin t" "0 \<le> t"
proof -
  define whole where "whole = foldl (\<lambda>acc s. js_add acc (snd s)) (Fin 0) data"
  have "nonneg_num whole" unfolding whole_def using assms(1) by (intro sum_nonneg_num) (auto simp: list_all_iff double_def)
  moreover have "whole \<noteq> PosInf" using assms(2) by (simp add: whole_def)
  ultimately obtain t where "whole = Fin t" "0 \<le> t" by (cases whole) simp_all
  then show thesis using that by (simp add: whole_def)
qed

lemma segments_nth:
  assumes "foldl (\<lambda>acc s. js_add acc (snd s)) (Fin 0) data = Fin t" "k < length data"
  shows "resolveSegments data ! k = \<lparr>sg_label = fst (data ! k), sg_value = snd (data ! k), sg_color = CHART_SERIES ! (k mod 6),
    sg_percentage = (if t = 0 then Fin 0 else times100 (js_div (snd (data ! k)) (Fin t)))\<rparr>"
  using assms(2) by (simp add: resolveSegments_def nth_enumerate_eq case_prod_beta assms(1) CHART_SERIES_def del: js_div.simps times100.simps)

lemma segments_length: "length (resolveSegments data) = length data"
  by (simp add: resolveSegments_def Let_def)

lemma next_colour: "CHART_SERIES ! (i mod 6) \<noteq> CHART_SERIES ! (Suc i mod 6)"
proof -
  have d: "distinct CHART_SERIES" "length CHART_SERIES = 6" by (simp_all add: CHART_SERIES_def)
  have "i mod 6 \<noteq> Suc i mod 6" by (simp add: mod_Suc)
  then show ?thesis using d by (simp add: nth_eq_iff_index_eq)
qed

text \<open>
  Every share a composition chart draws lies between 0 and 100 and is a number, whatever amounts make
  up the whole (all zero included), provided their sum is finite; the segments keep their order, labels
  and values, and neighbouring segments never share a colour.
\<close>

theorem segments_bounded:
  assumes "list_all double (map snd data)" "foldl (\<lambda>acc s. js_add acc (snd s)) (Fin 0) data \<noteq> PosInf"
  shows "(\<forall>g\<in>set (resolveSegments data). \<exists>p. sg_percentage g = Fin p \<and> 0 \<le> p \<and> p \<le> 100) \<and>
    map (\<lambda>g. (sg_label g, sg_value g)) (resolveSegments data) = data \<and>
    (\<forall>i. Suc i < length data \<longrightarrow> sg_color (resolveSegments data ! i) \<noteq> sg_color (resolveSegments data ! Suc i))"
proof -
  obtain t where t: "foldl (\<lambda>acc s. js_add acc (snd s)) (Fin 0) data = Fin t" "0 \<le> t" using finite_total [OF assms] .
  note seg = segments_nth [OF t(1)]
  have vs: "\<forall>x\<in>set data. \<exists>v. snd x = Fin v \<and> 0 \<le> v \<and> v \<le> t" using foldl_double [OF assms(1) _ _ t(1)] by simp
  have "\<exists>p. sg_percentage g = Fin p \<and> 0 \<le> p \<and> p \<le> 100" if g: "g \<in> set (resolveSegments data)" for g
  proof -
    obtain k where k: "k < length data" "g = resolveSegments data ! k" using g segments_length by (metis in_set_conv_nth)
    obtain v where v: "snd (data ! k) = Fin v" "0 \<le> v" "v \<le> t" using vs k(1) nth_mem by blast
    have p: "sg_percentage g = (if t = 0 then Fin 0 else times100 (js_div (Fin v) (Fin t)))"
      unfolding k(2) seg [OF k(1)] v(1) by (simp only: segment.simps)
    show ?thesis
    proof (cases "t = 0")
      case True
      then show ?thesis by (simp add: p del: js_div.simps times100.simps)
    next
      case False
      then have "0 < t" using t(2) by simp
      from share_bounds [OF v(2,3) this] False show ?thesis by (simp only: p if_False)
    qed
  qed
  moreover have "map (\<lambda>g. (sg_label g, sg_value g)) (resolveSegments data) = data"
    by (rule nth_equalityI) (simp_all add: segments_length seg del: js_div.simps times100.simps)
  moreover have "sg_color (resolveSegments data ! i) \<noteq> sg_color (resolveSegments data ! Suc i)" if i: "Suc i < length data" for i
    using i next_colour [of i] by (simp add: seg del: js_div.simps times100.simps)
  ultimately show ?thesis by (intro conjI ballI allI impI)
qed

theorem segments_bounded_witness:
  "map sg_percentage (resolveSegments [(''idle'', Fin 0)]) = [Fin 0] \<and> length (resolveSegments [(''idle'', Fin 0)]) = 1"
proof -
  have z: "to_num 0 = Fin 0" using to_num_small [of 0] by simp
  have "list_all double (map snd [(''idle'', Fin 0)])" by (simp add: double_def)
  moreover have "foldl (\<lambda>acc s. js_add acc (snd s)) (Fin 0) [(''idle'', Fin 0)] \<noteq> PosInf" by (simp add: z)
  ultimately have "map (\<lambda>g. (sg_label g, sg_value g)) (resolveSegments [(''idle'', Fin 0)]) = [(''idle'', Fin 0)]"
    using segments_bounded by blast
  from arg_cong [OF this, of length] have "length (resolveSegments [(''idle'', Fin 0)]) = 1" by simp
  then show ?thesis by (simp add: resolveSegments_def z Let_def)
qed

end
