(* ===== verification/Settings.thy ===== *)
theory Settings
  imports Form_Logic Resources Screens
begin

text \<open>
  The settings a user edits in place and saves as a whole or as a difference: the required KYC fields of a
  SACCO and of its members (\<open>MemberKycRequirementsForm.tsx\<close>, \<open>SaccoKycRequirementsForm.tsx\<close> and their
  \<open>KycRequirementsToggles.tsx\<close>), the notification preferences (\<open>NotificationPreferencesForm.tsx\<close>) and
  a notification template (\<open>EditTemplateDialog\<close> of \<open>TemplatesTable.tsx\<close>). Each theorem compares what is
  sent with what the user did, in any order and however often.
\<close>

section \<open>Required KYC fields\<close>

record requirement =
  kr_key :: string
  kr_label :: string
  kr_required :: bool
  kr_locked :: bool

definition toggle_requirement :: "string \<Rightarrow> bool \<Rightarrow> requirement list \<Rightarrow> requirement list" where
  "toggle_requirement key b items = map (\<lambda>item. if kr_key item = key then item\<lparr>kr_required := b\<rparr> else item) items"

text \<open>The checkbox of a locked item is disabled.\<close>

definition KycRequirementsToggles :: "requirement list \<Rightarrow> string list" where
  "KycRequirementsToggles items = map kr_key (filter (\<lambda>item. \<not> kr_locked item) items)"

definition requirement_click :: "string \<times> bool \<Rightarrow> requirement list \<Rightarrow> requirement list" where
  "requirement_click c items = (if fst c \<in> set (KycRequirementsToggles items) then toggle_requirement (fst c) (snd c) items else items)"

text \<open>\<open>Object.fromEntries\<close>: a later entry replaces the value of an earlier one in its place.\<close>

definition fromEntries :: "(string \<times> jv) list \<Rightarrow> jv" where
  "fromEntries kvs = JObj (fold (\<lambda>(k, v). put_prop k v) kvs [])"

definition required_entries :: "requirement list \<Rightarrow> jv" where
  "required_entries items = fromEntries (map (\<lambda>item. (kr_key item, JBool (kr_required item))) (filter (\<lambda>item. \<not> kr_locked item) items))"

definition MemberKycRequirementsForm :: "requirement list \<Rightarrow> operation" where
  "MemberKycRequirementsForm items = Op_members (Members_putKycRequirements (JObj [(''required'', required_entries items)]))"

definition SaccoKycRequirementsForm :: "requirement list \<Rightarrow> operation" where
  "SaccoKycRequirementsForm items = Op_kyc (Kyc_putSaccoRequirements (JObj [(''required'', required_entries items)]))"

section \<open>Notification preferences\<close>

fun channel_text :: "channel \<Rightarrow> string" where
  "channel_text Email_Channel = ''email''"
| "channel_text In_App_Channel = ''in_app''"

fun own_audience :: "audience \<Rightarrow> notification_audience" where
  "own_audience Platform_Audience = Audience_platform"
| "own_audience Tenant_Audience = Audience_tenant"
| "own_audience Member_Audience = Audience_member"

definition prefKey :: "string \<Rightarrow> string \<Rightarrow> string" where
  "prefKey eventCode c = eventCode @ CHR '':'' # c"

type_synonym stored_preference = "(string \<times> string) \<times> bool"

definition stored_prefs :: "stored_preference list \<Rightarrow> string \<rightharpoonup> bool" where
  "stored_prefs initial = map_of (rev (map (\<lambda>((code, c), enabled). (prefKey code c, enabled)) initial))"

definition isEnabled :: "(string \<rightharpoonup> bool) \<Rightarrow> string \<Rightarrow> string \<Rightarrow> bool" where
  "isEnabled prefs code c = nullish (prefs (prefKey code c)) True"

definition check_preference :: "(string \<times> channel) \<times> bool \<Rightarrow> (string \<rightharpoonup> bool) \<Rightarrow> string \<rightharpoonup> bool" where
  "check_preference c prefs = (case c of ((code, ch), checked) \<Rightarrow> prefs(prefKey code (channel_text ch) \<mapsto> checked))"

definition preference_entry :: "string \<Rightarrow> channel \<Rightarrow> bool \<Rightarrow> jv" where
  "preference_entry code ch b = JObj [(''event_code'', JStr code), (''channel'', JStr (channel_text ch)), (''enabled'', JBool b)]"

definition NotificationPreferencesForm :: "audience \<Rightarrow> (string \<rightharpoonup> bool) \<Rightarrow> operation" where
  "NotificationPreferencesForm a prefs = Op_notifications (Notifications_putPreferences (own_audience a)
     (JArr (concat (map (\<lambda>row. map (\<lambda>ch. preference_entry (row_code row) ch (isEnabled prefs (row_code row) (channel_text ch))) (row_channels row))
        (catalogForAudience a)))))"

section \<open>A notification template\<close>

record template =
  te_id :: string
  te_subject_template :: "string option"
  te_body_text :: "string option"
  te_body_html :: "string option"
  te_sms_body :: "string option"
  te_is_active :: bool

definition template_texts :: "template \<Rightarrow> (string \<times> string) list" where
  "template_texts t = [(''subject_template'', nullish (te_subject_template t) []), (''body_text'', nullish (te_body_text t) []),
     (''body_html'', nullish (te_body_html t) []), (''sms_body'', nullish (te_sms_body t) [])]"

definition template_defaults :: "template \<Rightarrow> jv" where
  "template_defaults t = JObj (map (\<lambda>(k, s). (k, JStr s)) (template_texts t) @ [(''is_active'', JBool (te_is_active t))])"

definition template_patch :: "template \<Rightarrow> jv \<Rightarrow> (string \<times> jv) list" where
  "template_patch t v =
     concat (map (\<lambda>(k, s). if js_prop v k \<noteq> JStr s then [(k, js_nullish (js_prop v k) (JStr []))] else []) (template_texts t)) @
     (if js_prop v ''is_active'' \<noteq> JUndef \<and> js_prop v ''is_active'' \<noteq> JBool (te_is_active t) then [(''is_active'', js_prop v ''is_active'')] else [])"

text \<open>Saving without a change only closes the dialog.\<close>

definition EditTemplateDialog :: "template \<Rightarrow> jv \<Rightarrow> operation option" where
  "EditTemplateDialog t v = (let patch = template_patch t v in
     if patch = [] then None else Some (Op_notifications (Notifications_patchTemplate (te_id t) (JObj patch))))"


section \<open>What saving sends\<close>

definition clicked :: "(string \<times> bool) list \<Rightarrow> requirement \<Rightarrow> requirement" where
  "clicked es item = (if kr_locked item then item else item\<lparr>kr_required := nullish (map_of (rev es) (kr_key item)) (kr_required item)\<rparr>)"

lemma clicked_simps [simp]: "kr_key (clicked es i) = kr_key i" "kr_locked (clicked es i) = kr_locked i"
  by (simp_all add: clicked_def)

lemma toggles_clicked: "KycRequirementsToggles (map (clicked es) items) = KycRequirementsToggles items"
  by (simp add: KycRequirementsToggles_def filter_map comp_def)

lemma clicks:
  assumes "distinct (map kr_key items)"
  shows "fold requirement_click es items = map (clicked es) items"
proof (induction es rule: rev_induct)
  case Nil
  show ?case by (simp add: clicked_def map_idI)
next
  case (snoc e es)
  have unlocked: "\<not> kr_locked i" if "i \<in> set items" "kr_key i \<in> set (KycRequirementsToggles items)" for i
    using that assms by (auto simp: KycRequirementsToggles_def distinct_map inj_on_def)
  have "requirement_click e (map (clicked es) items) = map (clicked (es @ [e])) items"
  proof (cases "fst e \<in> set (KycRequirementsToggles items)")
    case True
    then show ?thesis using unlocked
      by (auto simp: requirement_click_def toggles_clicked toggle_requirement_def clicked_def nullish_def)
  next
    case False
    then have "map_of (rev (es @ [e])) (kr_key i) = map_of (rev es) (kr_key i)" if "i \<in> set items" "\<not> kr_locked i" for i
      using that by (cases e) (auto simp: KycRequirementsToggles_def)
    then show ?thesis using False by (auto simp: requirement_click_def toggles_clicked clicked_def)
  qed
  then show ?case using snoc by simp
qed

lemma fold_put_new: "distinct (map fst kvs) \<Longrightarrow> fst ` set kvs \<inter> fst ` set acc = {} \<Longrightarrow> fold (\<lambda>(k, v). put_prop k v) kvs acc = acc @ kvs"
proof (induction kvs arbitrary: acc)
  case (Cons kv kvs)
  obtain k v where kv: "kv = (k, v)" by (cases kv)
  have "put_prop k v acc = acc @ [(k, v)]" using Cons.prems(2) put_prop_new [of k acc v] by (simp add: kv)
  then show ?case using Cons.IH [of "acc @ [(k, v)]"] Cons.prems by (simp add: kv)
qed simp

lemma required_entries_distinct:
  assumes "distinct (map kr_key items)"
  shows "required_entries items = JObj (map (\<lambda>item. (kr_key item, JBool (kr_required item))) (filter (\<lambda>item. \<not> kr_locked item) items))"
proof -
  have "distinct (map kr_key (filter (\<lambda>item. \<not> kr_locked item) items))" using assms by (rule distinct_map_filter)
  then show ?thesis unfolding required_entries_def fromEntries_def by (subst fold_put_new) (simp_all add: comp_def)
qed

lemma pref_key_inj:
  assumes "prefKey code c = prefKey code' c'" "CHR '':'' \<notin> set code" "CHR '':'' \<notin> set c"
  shows "code = code' \<and> c = c'"
proof -
  have "count_list (prefKey code c) CHR '':'' = 1" using assms(2,3) by (simp add: prefKey_def count_list_0_iff)
  then have "count_list code' CHR '':'' = 0" unfolding assms(1) by (simp add: prefKey_def)
  then have "CHR '':'' \<notin> set code'" by (simp add: count_list_0_iff)
  then show ?thesis using colon_split [OF assms(1) [unfolded prefKey_def] assms(2)] by simp
qed

lemma channel_plain: "CHR '':'' \<notin> set (channel_text ch)" "channel_text ch = channel_text d \<longleftrightarrow> ch = d"
  by (cases ch; simp) (cases ch; cases d; simp)

lemma stored_lookup: "CHR '':'' \<notin> set code \<Longrightarrow> stored_prefs initial (prefKey code (channel_text ch)) = map_of (rev initial) (code, channel_text ch)"
proof (induction initial rule: rev_induct)
  case (snoc p ps)
  obtain c d b where p: "p = ((c, d), b)" by (metis surj_pair)
  have "prefKey c d = prefKey code (channel_text ch) \<longleftrightarrow> c = code \<and> d = channel_text ch"
    using pref_key_inj [of code "channel_text ch" c d] snoc.prems channel_plain(1) by metis
  then show ?case using snoc by (auto simp: stored_prefs_def p)
qed (simp add: stored_prefs_def)

lemma checked_lookup:
  "CHR '':'' \<notin> set code \<Longrightarrow> fold check_preference es prefs (prefKey code (channel_text ch)) =
     (case map_of (rev es) (code, ch) of Some b \<Rightarrow> Some b | None \<Rightarrow> prefs (prefKey code (channel_text ch)))"
proof (induction es rule: rev_induct)
  case (snoc e es)
  obtain c d b where e: "e = ((c, d), b)" by (metis surj_pair)
  have "prefKey c (channel_text d) = prefKey code (channel_text ch) \<longleftrightarrow> c = code \<and> d = ch"
    using pref_key_inj [of code "channel_text ch" c "channel_text d"] snoc.prems channel_plain by metis
  then show ?case using snoc by (auto simp: check_preference_def e)
qed simp

lemma catalogue_codes: "row \<in> set (catalogForAudience a) \<Longrightarrow> CHR '':'' \<notin> set (row_code row)"
proof -
  have "list_all (\<lambda>row. CHR '':'' \<notin> set (row_code row)) PORTAL_NOTIFICATION_CATALOG" by (simp add: PORTAL_NOTIFICATION_CATALOG_def)
  then show "row \<in> set (catalogForAudience a) \<Longrightarrow> CHR '':'' \<notin> set (row_code row)" by (simp add: catalogForAudience_def list_all_iff)
qed

text \<open>
  C30. What the settings pages send is what the user chose, whatever was clicked in between. The KYC
  requirements carry every field that is not locked with its last choice (or the stored one) and no locked
  field; the notification preferences carry every pair of an event and a channel of the audience's
  catalogue exactly once, in order, each with its own last choice, else the stored one, else on.
\<close>

theorem settings_saved:
  assumes "distinct (map kr_key items)"
  shows "required_entries (fold requirement_click es items) =
      JObj (map (\<lambda>i. (kr_key i, JBool (nullish (map_of (rev es) (kr_key i)) (kr_required i)))) (filter (\<lambda>i. \<not> kr_locked i) items)) \<and>
    filter kr_locked (fold requirement_click es items) = filter kr_locked items \<and>
    NotificationPreferencesForm a (fold check_preference cs (stored_prefs initial)) = Op_notifications (Notifications_putPreferences (own_audience a)
      (JArr (map (\<lambda>(code, ch). preference_entry code ch (case map_of (rev cs) (code, ch) of Some b \<Rightarrow> b
          | None \<Rightarrow> (case map_of (rev initial) (code, channel_text ch) of Some b \<Rightarrow> b | None \<Rightarrow> True)))
        (concat (map (\<lambda>row. map (Pair (row_code row)) (row_channels row)) (catalogForAudience a))))))"
proof (intro conjI)
  note now = clicks [OF assms, of es]
  have "distinct (map kr_key (map (clicked es) items))" using assms by (simp add: comp_def)
  then show "required_entries (fold requirement_click es items) =
      JObj (map (\<lambda>i. (kr_key i, JBool (nullish (map_of (rev es) (kr_key i)) (kr_required i)))) (filter (\<lambda>i. \<not> kr_locked i) items))"
    unfolding now by (subst required_entries_distinct) (auto simp: filter_map comp_def clicked_def)
  show "filter kr_locked (fold requirement_click es items) = filter kr_locked items"
    unfolding now by (auto simp: filter_map comp_def clicked_def intro: map_idI)
  have "isEnabled (fold check_preference cs (stored_prefs initial)) (row_code row) (channel_text ch) =
      (case map_of (rev cs) (row_code row, ch) of Some b \<Rightarrow> b
        | None \<Rightarrow> (case map_of (rev initial) (row_code row, channel_text ch) of Some b \<Rightarrow> b | None \<Rightarrow> True))"
    if "row \<in> set (catalogForAudience a)" for row ch
    using catalogue_codes [OF that] by (simp add: isEnabled_def checked_lookup stored_lookup nullish_def split: option.split)
  then show "NotificationPreferencesForm a (fold check_preference cs (stored_prefs initial)) = Op_notifications (Notifications_putPreferences (own_audience a)
      (JArr (map (\<lambda>(code, ch). preference_entry code ch (case map_of (rev cs) (code, ch) of Some b \<Rightarrow> b
          | None \<Rightarrow> (case map_of (rev initial) (code, channel_text ch) of Some b \<Rightarrow> b | None \<Rightarrow> True)))
        (concat (map (\<lambda>row. map (Pair (row_code row)) (row_channels row)) (catalogForAudience a))))))"
    by (simp add: NotificationPreferencesForm_def map_concat comp_def cong: map_cong)
qed

definition demo_requirements :: "requirement list" where
  "demo_requirements = [\<lparr>kr_key = ''full_name'', kr_label = ''Full name'', kr_required = True, kr_locked = True\<rparr>,
     \<lparr>kr_key = ''phone'', kr_label = ''Phone'', kr_required = False, kr_locked = False\<rparr>]"

theorem settings_saved_witness:
  "required_entries (fold requirement_click [(''phone'', True), (''full_name'', False)] demo_requirements) = JObj [(''phone'', JBool True)]"
proof -
  have "distinct (map kr_key demo_requirements)" by (simp add: demo_requirements_def)
  from settings_saved [OF this, of "[(''phone'', True), (''full_name'', False)]"] show ?thesis by (simp add: demo_requirements_def nullish_def)
qed

section \<open>A patch is the difference\<close>

text \<open>The row after a patch, as the form would show it: a field that is in the patch has its new value.\<close>

definition patched :: "jv \<Rightarrow> (string \<times> jv) list \<Rightarrow> string \<Rightarrow> jv" where
  "patched row patch k = (case map_of patch k of Some v \<Rightarrow> v | None \<Rightarrow> js_prop row k)"

definition template_fields :: "string list" where
  "template_fields = [''subject_template'', ''body_text'', ''body_html'', ''sms_body'', ''is_active'']"

text \<open>The form renders all its fields, so its values have a text or a choice in each of them.\<close>

definition template_values :: "jv \<Rightarrow> bool" where
  "template_values v \<longleftrightarrow> (\<forall>k\<in>set (butlast template_fields). \<exists>s. js_prop v k = JStr s) \<and> (\<exists>b. js_prop v ''is_active'' = JBool b)"

text \<open>
  Saving a notification template sends exactly the difference: the row changed by the patch shows what
  the form showed, every field of the patch differs from the row, and nothing is sent exactly when nothing
  was changed; a text that the row does not have counts as empty.
\<close>

theorem template_patch_exact:
  assumes "template_values v"
  shows "(\<forall>k\<in>set template_fields. patched (template_defaults t) (template_patch t v) k = js_prop v k) \<and>
    (\<forall>(k, w)\<in>set (template_patch t v). k \<in> set template_fields \<and> w = js_prop v k \<and> w \<noteq> js_prop (template_defaults t) k) \<and>
    (EditTemplateDialog t v = None \<longleftrightarrow> (\<forall>k\<in>set template_fields. js_prop v k = js_prop (template_defaults t) k))"
proof -
  obtain a b c d e where v: "js_prop v ''subject_template'' = JStr a" "js_prop v ''body_text'' = JStr b" "js_prop v ''body_html'' = JStr c"
      "js_prop v ''sms_body'' = JStr d" "js_prop v ''is_active'' = JBool e"
    using assms by (auto simp: template_values_def template_fields_def)
  show ?thesis
    by (auto simp: template_patch_def template_texts_def template_defaults_def template_fields_def EditTemplateDialog_def patched_def v split: if_splits)
qed


definition demo_template :: template where
  "demo_template = \<lparr>te_id = ''t1'', te_subject_template = Some ''Hello'', te_body_text = None, te_body_html = None, te_sms_body = None, te_is_active = True\<rparr>"

theorem template_patch_exact_witness:
  "EditTemplateDialog demo_template (template_defaults demo_template) = None \<and>
   patched (template_defaults demo_template) (template_patch demo_template (set_field ''body_text'' (JStr ''Hi'') (template_defaults demo_template))) ''body_text'' = JStr ''Hi''"
proof -
  have a: "template_values (template_defaults demo_template)"
    by (simp add: template_values_def template_fields_def template_defaults_def template_texts_def)
  have b: "template_values (set_field ''body_text'' (JStr ''Hi'') (template_defaults demo_template))"
    by (simp add: template_values_def template_fields_def template_defaults_def template_texts_def set_field_def)
  have "''body_text'' \<in> set template_fields" by (simp add: template_fields_def)
  then have "patched (template_defaults demo_template) (template_patch demo_template (set_field ''body_text'' (JStr ''Hi'') (template_defaults demo_template))) ''body_text''
      = js_prop (set_field ''body_text'' (JStr ''Hi'') (template_defaults demo_template)) ''body_text''"
    using template_patch_exact [OF b, of demo_template] by blast
  also have "\<dots> = JStr ''Hi''" by (simp add: set_field_def template_defaults_def template_texts_def)
  finally show ?thesis using template_patch_exact [OF a, of demo_template] by blast
qed

end
