(* ===== verification/Service_Screens.thy ===== *)
theory Service_Screens
  imports Flows
begin

text \<open>
  Three screens of the platform that keep what the backend last told them: the verification of a SACCO's
  KYC (\<open>TenantKycSection.tsx\<close>), the notification events that can be sent again (\<open>EventsTable.tsx\<close>) and
  the form that creates a tenant's user and shows the one-time token (\<open>CreateTenantUserForm.tsx\<close> with
  \<open>OneTimeModal.tsx\<close>). An answer without data, which the code treats as an error, is taken for an answer
  like any other, so the model has all runs of the code and some more.
\<close>

section \<open>Verifying a SACCO\<close>

definition kycMutation :: "string \<Rightarrow> mutation" where
  "kycMutation tenantId =
     \<lparr>mu_name = ''kyc'',
      mu_call = (\<lambda>action. Some (Op_kyc (if action = JStr ''verify'' then Kyc_verifyTenant tenantId else Kyc_unverifyTenant tenantId))),
      mu_invalidates = [tenantsKeys (K_tenants_kyc tenantId)],
      mu_onSuccess = (\<lambda>data action. seq [setHeld ''latest'' data, setHeld ''confirming'' JNull,
        emit (Toast_success (if action = JStr ''verify'' then ''Organization KYC verified'' else ''Verification removed''))]),
      mu_onError = (\<lambda>e. seq [setHeld ''confirming'' JNull, error_toast ''The verification change failed'' e])\<rparr>"

definition kyc_verified :: "ui \<Rightarrow> bool" where
  "kyc_verified s \<longleftrightarrow> js_truthy (js_prop (ui_held s ''latest'') ''verified'')"

definition kyc_complete :: "ui \<Rightarrow> bool" where
  "kyc_complete s \<longleftrightarrow> js_truthy (js_prop (js_prop (ui_held s ''latest'') ''completion'') ''is_complete'')"

definition kyc_dialog :: "string \<Rightarrow> string \<Rightarrow> ui \<Rightarrow> control list" where
  "kyc_dialog tenantId action s = ConfirmDialog (ui_held s ''confirming'' = JStr action)
     (\<lambda>b. setHeld ''confirming'' (if b then JStr action else JNull)) (isPending (kycMutation tenantId) s) (mutate (kycMutation tenantId) (JStr action))"

definition tenant_kyc_view :: "string \<Rightarrow> bool \<Rightarrow> ui \<Rightarrow> control list" where
  "tenant_kyc_view tenantId canVerify s =
     shown canVerify (if kyc_verified s then [Press (setHeld ''confirming'' (JStr ''unverify''))]
       else shown (kyc_complete s) [Press (setHeld ''confirming'' (JStr ''verify''))]) @
     kyc_dialog tenantId ''verify'' s @ kyc_dialog tenantId ''unverify'' s"

definition TenantKycSection :: "((string \<times> jv) \<times> bool list) screen" where
  "TenantKycSection =
     \<lparr>sc_start = (\<lambda>((tenantId, initial), _). setHeld ''latest'' initial (mounted [])),
      sc_mutations = (\<lambda>((tenantId, initial), _). [kycMutation tenantId]),
      sc_view = (\<lambda>((tenantId, initial), cs) s. case cs of c # _ \<Rightarrow> tenant_kyc_view tenantId c s | [] \<Rightarrow> [])\<rparr>"

section \<open>Sending a notification again\<close>

record event_row =
  er_id :: string
  er_event_code :: string
  er_status :: string

definition resendMutation :: mutation where
  "resendMutation = plain_mutation ''resend'' (\<lambda>eventId. Op_notifications (Notifications_resendEvent (js_str eventId))) []
     ''Notification re-queued for delivery'' [setHeld ''resending'' JNull, emit Refreshed] ''The notification was not re-queued''"

definition event_json :: "event_row \<Rightarrow> jv" where
  "event_json r = JObj [(''id'', JStr (er_id r)), (''event_code'', JStr (er_event_code r)), (''status'', JStr (er_status r))]"

definition confirm_resend :: "ui \<Rightarrow> ui" where
  "confirm_resend s = (if js_truthy (ui_held s ''resending'') then mutate resendMutation (js_prop (ui_held s ''resending'') ''id'') s else s)"

definition events_view :: "event_row list \<Rightarrow> ui \<Rightarrow> control list" where
  "events_view rows s =
     concat (map (\<lambda>r. shown (er_status r \<noteq> ''queued'') [Press (setHeld ''resending'' (event_json r))]) rows) @
     ConfirmDialog (ui_held s ''resending'' \<noteq> JNull) (\<lambda>b. if b then (\<lambda>s. s) else setHeld ''resending'' JNull) (isPending resendMutation s) confirm_resend"

definition EventsTable :: "(unit \<times> event_row list list) screen" where
  "EventsTable =
     \<lparr>sc_start = (\<lambda>_. mounted []), sc_mutations = (\<lambda>_. [resendMutation]),
      sc_view = (\<lambda>(_, ds) s. case ds of rows # _ \<Rightarrow> events_view rows s | [] \<Rightarrow> [])\<rparr>"

section \<open>A user and a one-time token\<close>

definition createUserMutation :: "string \<Rightarrow> mutation" where
  "createUserMutation tenantId =
     \<lparr>mu_name = ''create'', mu_call = (\<lambda>vars. Some (Op_tenants (Tenants_createUser tenantId vars))),
      mu_invalidates = [tenantsKeys (K_tenants_users tenantId)],
      mu_onSuccess = (\<lambda>data _. setHeld ''created''
        (JObj [(''token'', js_prop data ''password_reset_token''), (''ttlSeconds'', js_prop data ''password_reset_expires_in'')])),
      mu_onError = error_toast ''The user was not created''\<rparr>"

definition OneTimeModal :: "bool \<Rightarrow> (ui \<Rightarrow> ui) \<Rightarrow> control list" where
  "OneTimeModal opened onAcknowledge = shown opened [Press onAcknowledge]"

definition acknowledge :: "string \<Rightarrow> ui \<Rightarrow> ui" where
  "acknowledge tenantId = seq [setHeld ''created'' JNull, emit (Toast_success ''Tenant user created''),
     emit (Pushed (''/platform/tenants/'' @ tenantId @ ''/users''))]"

definition create_user_view :: "string \<Rightarrow> ui \<Rightarrow> control list" where
  "create_user_view tenantId s =
     FormDialog (ui_held s ''created'' = JNull) (emit Went_back) ''form'' tenantUserCreateSchema [''email'', ''full_name'', ''is_admin'']
       (isPending (createUserMutation tenantId) s) (mutate (createUserMutation tenantId)) @
     OneTimeModal (ui_held s ''created'' \<noteq> JNull) (acknowledge tenantId)"

definition CreateTenantUserForm :: "(string \<times> unit list) screen" where
  "CreateTenantUserForm =
     \<lparr>sc_start = (\<lambda>_. mounted [(''form'', JObj [(''email'', JStr []), (''full_name'', JStr []), (''is_admin'', JBool False)])]),
      sc_mutations = (\<lambda>(tenantId, _). [createUserMutation tenantId]),
      sc_view = (\<lambda>(tenantId, _) s. create_user_view tenantId s)\<rparr>"


section \<open>Invariants\<close>

definition kyc_request :: "string \<Rightarrow> operation \<Rightarrow> bool" where
  "kyc_request t x \<longleftrightarrow> x = Op_kyc (Kyc_verifyTenant t) \<or> x = Op_kyc (Kyc_unverifyTenant t)"

definition kyc_inv :: "(string \<times> jv) \<times> bool list \<Rightarrow> ui \<Rightarrow> bool" where
  "kyc_inv p s \<longleftrightarrow> (case p of ((t, initial), cs) \<Rightarrow>
     (ui_held s ''confirming'' = JNull \<or> ui_held s ''confirming'' = JStr ''verify'' \<and> True \<in> set cs \<and> kyc_complete s \<and> \<not> kyc_verified s \<or>
      ui_held s ''confirming'' = JStr ''unverify'' \<and> True \<in> set cs \<and> kyc_verified s) \<and>
     list_all (kyc_request t) (requests s) \<and> (requests s = [] \<or> True \<in> set cs) \<and> single_flight s)"

lemmas kyc_view_defs = TenantKycSection_def tenant_kyc_view_def kyc_dialog_def dialog_defs

lemma kyc_state [simp]:
  "kyc_verified (setHeld ''confirming'' v s) = kyc_verified s" "kyc_complete (setHeld ''confirming'' v s) = kyc_complete s"
  "kyc_verified (mutate m w s) = kyc_verified s" "kyc_complete (mutate m w s) = kyc_complete s"
  "kyc_verified (emit e s) = kyc_verified s" "kyc_complete (emit e s) = kyc_complete s"
  by (simp_all add: kyc_verified_def kyc_complete_def)

lemma kyc_press:
  assumes "kyc_inv p s" "Press h \<in> set (sc_view TenantKycSection p s)"
  shows "kyc_inv p (h s)"
proof -
  obtain t i c cs where p: "p = ((t, i), c # cs)"
    using assms(2) by (cases p; cases "fst p"; cases "snd p") (auto simp: TenantKycSection_def)
  consider (ask) "c" "kyc_verified s" "h = setHeld ''confirming'' (JStr ''unverify'')"
    | (offer) "c" "\<not> kyc_verified s" "kyc_complete s" "h = setHeld ''confirming'' (JStr ''verify'')"
    | (close) "h = setHeld ''confirming'' JNull"
    | (confirm) a where "ui_held s ''confirming'' = JStr a" "\<not> isPending (kycMutation t) s" "h = mutate (kycMutation t) (JStr a)"
    using assms(2) unfolding p by (auto simp: kyc_view_defs split: if_splits)
  then show ?thesis
  proof cases
    case confirm
    moreover have "list_all (kyc_request t) (requests (mutate (kycMutation t) (JStr a) s))" "True \<in> set (c # cs)"
      using assms(1) confirm(1) by (auto simp: p kyc_inv_def kycMutation_def kyc_request_def)
    ultimately show ?thesis using assms(1) by (auto simp: p kyc_inv_def simp del: requests_mutate)
  qed (use assms(1) in \<open>auto simp: p kyc_inv_def\<close>)
qed

lemma kyc_no_form: "\<not> (Fill f ks \<in> set (sc_view TenantKycSection p s))" "\<not> (Submit f z g \<in> set (sc_view TenantKycSection p s))"
  by (auto simp: kyc_view_defs split: prod.splits list.splits if_splits)

interpretation kyc: screen_invariant parse TenantKycSection rendered_again kyc_inv for parse
proof unfold_locales
  fix p q s f ks k v z g w m vars data e h
  show "kyc_inv p (sc_start TenantKycSection p)" by (simp add: kyc_inv_def TenantKycSection_def split: prod.split)
  show "kyc_inv p (succeed m vars data s)" "kyc_inv p (fail m vars e s)" if "kyc_inv p s" "m \<in> set (sc_mutations TenantKycSection p)"
    using that by (auto simp: TenantKycSection_def kyc_inv_def settle_defs kycMutation_def split: prod.splits)
  show "kyc_inv q s" if "kyc_inv p s" "rendered_again p q"
    using that by (cases p) (auto simp: rendered_again_def kyc_inv_def)
qed (use kyc_press kyc_no_form in blast)+

definition resendable :: "event_row list list \<Rightarrow> string \<Rightarrow> bool" where
  "resendable ds i \<longleftrightarrow> (\<exists>rows\<in>set ds. \<exists>r\<in>set rows. er_id r = i \<and> er_status r \<noteq> ''queued'')"

definition resend_ok :: "event_row list list \<Rightarrow> operation \<Rightarrow> bool" where
  "resend_ok ds x \<longleftrightarrow> (\<exists>i. x = Op_notifications (Notifications_resendEvent i) \<and> resendable ds i)"

definition events_inv :: "unit \<times> event_row list list \<Rightarrow> ui \<Rightarrow> bool" where
  "events_inv p s \<longleftrightarrow> (ui_held s ''resending'' = JNull \<or> (\<exists>r. ui_held s ''resending'' = event_json r \<and> resendable (snd p) (er_id r))) \<and>
     list_all (resend_ok (snd p)) (requests s) \<and> single_flight s"

lemma resend_name [simp]: "mu_name resendMutation = ''resend''"
  by (simp add: resendMutation_def)

lemma events_press:
  assumes "events_inv p s" "Press h \<in> set (sc_view EventsTable p s)"
  shows "events_inv p (h s)"
proof -
  obtain u rows ds where p: "p = (u, rows # ds)" using assms(2) by (cases p; cases "snd p") (auto simp: EventsTable_def)
  consider (pick) r where "h = setHeld ''resending'' (event_json r)" "r \<in> set rows" "er_status r \<noteq> ''queued''"
    | (close) "h = setHeld ''resending'' JNull"
    | (confirm) "h = confirm_resend" "\<not> isPending resendMutation s"
    using assms(2) unfolding p by (auto simp: EventsTable_def events_view_def dialog_defs split: if_splits)
  then show ?thesis
  proof cases
    case confirm
    then show ?thesis using assms(1)
      by (auto simp: p events_inv_def confirm_resend_def) (auto simp: resendMutation_def resend_ok_def event_json_def)
  qed (use assms(1) in \<open>auto simp: p events_inv_def resendable_def\<close>)
qed

lemma events_no_form: "\<not> (Fill f ks \<in> set (sc_view EventsTable p s))" "\<not> (Submit f z g \<in> set (sc_view EventsTable p s))"
  by (auto simp: EventsTable_def events_view_def dialog_defs split: prod.splits list.splits if_splits)

interpretation events: screen_invariant parse EventsTable rendered_again events_inv for parse
proof unfold_locales
  fix p q s f ks k v z g w m vars data e h
  show "events_inv p (sc_start EventsTable p)" by (simp add: events_inv_def EventsTable_def)
  show "events_inv p (succeed m vars data s)" "events_inv p (fail m vars e s)" if "events_inv p s" "m \<in> set (sc_mutations EventsTable p)"
    using that by (auto simp: EventsTable_def events_inv_def settle_defs resendMutation_def)
  show "events_inv q s" if "events_inv p s" "rendered_again p q"
  proof -
    have "resendable ds i \<Longrightarrow> resendable (d # ds) i" for ds d i by (auto simp: resendable_def)
    then show ?thesis using that by (cases p) (auto simp: rendered_again_def events_inv_def list_all_iff resend_ok_def)
  qed
qed (use events_press events_no_form in blast)+


definition create_user_ok :: "(zschema \<Rightarrow> jv \<Rightarrow> jv option) \<Rightarrow> string \<Rightarrow> operation \<Rightarrow> bool" where
  "create_user_ok parse t x \<longleftrightarrow> (\<exists>v w. parse tenantUserCreateSchema v = Some w \<and> x = Op_tenants (Tenants_createUser t w))"

definition create_user_inv :: "(zschema \<Rightarrow> jv \<Rightarrow> jv option) \<Rightarrow> string \<times> unit list \<Rightarrow> ui \<Rightarrow> bool" where
  "create_user_inv parse p s \<longleftrightarrow> (ui_held s ''created'' \<noteq> JNull \<longrightarrow> ui_running s = []) \<and>
     list_all (\<lambda>r. fst r = ''create'') (ui_running s) \<and> list_all (create_user_ok parse (fst p)) (requests s) \<and> single_flight s"

lemma create_name [simp]: "mu_name (createUserMutation t) = ''create''"
  by (simp add: createUserMutation_def)

lemma one_running:
  assumes "list_all (\<lambda>r. fst r = n) rs" "distinct (map fst rs)" "r \<in> set rs"
  shows "rs = [r]"
proof (cases rs)
  case (Cons a as)
  then show ?thesis using assms by (cases as) auto
qed (use assms(3) in simp)

lemma create_press:
  assumes "create_user_inv parse p s" "Press h \<in> set (sc_view CreateTenantUserForm p s)"
  shows "create_user_inv parse p (h s)"
proof -
  obtain t us where p: "p = (t, us)" by (cases p)
  consider "h = emit Went_back" | "h = acknowledge t"
    using assms(2) unfolding p by (auto simp: CreateTenantUserForm_def create_user_view_def OneTimeModal_def dialog_defs split: if_splits)
  then show ?thesis using assms(1) by cases (auto simp: p create_user_inv_def acknowledge_def)
qed

lemma create_submit:
  assumes "create_user_inv parse p s" "Submit f z g \<in> set (sc_view CreateTenantUserForm p s)" "parse z (ui_form s f) = Some w"
  shows "create_user_inv parse p (g w s)"
proof -
  obtain t us where p: "p = (t, us)" by (cases p)
  have g: "g = mutate (createUserMutation t)" "z = tenantUserCreateSchema" "ui_held s ''created'' = JNull" "\<not> isPending (createUserMutation t) s"
    using assms(2) unfolding p by (auto simp: CreateTenantUserForm_def create_user_view_def OneTimeModal_def dialog_defs split: if_splits)
  then show ?thesis using assms(1,3)
    by (auto simp: p create_user_inv_def create_user_ok_def simp del: requests_mutate) (auto simp: createUserMutation_def create_user_ok_def)
qed

lemma create_settled:
  assumes "create_user_inv parse p s" "m \<in> set (sc_mutations CreateTenantUserForm p)" "(mu_name m, vars) \<in> set (ui_running s)"
  shows "create_user_inv parse p (succeed m vars data s)" "create_user_inv parse p (fail m vars e s)"
proof -
  obtain t us where p: "p = (t, us)" by (cases p)
  have m: "m = createUserMutation t" using assms(2) by (simp add: p CreateTenantUserForm_def)
  have "ui_running s = [(''create'', vars)]"
    using one_running [of "''create''" "ui_running s" "(''create'', vars)"] assms(1,3) by (simp add: m create_user_inv_def single_flight_def)
  then show "create_user_inv parse p (succeed m vars data s)" "create_user_inv parse p (fail m vars e s)"
    using assms(1) by (auto simp: m create_user_inv_def settle_defs createUserMutation_def single_flight_def)
qed

interpretation create_user: screen_invariant parse CreateTenantUserForm rendered_again "create_user_inv parse" for parse
proof unfold_locales
  fix p q s f ks k v
  show "create_user_inv parse p (sc_start CreateTenantUserForm p)" by (simp add: create_user_inv_def CreateTenantUserForm_def)
  show "create_user_inv parse p (fill f k v s)" if "create_user_inv parse p s" using that by (simp add: create_user_inv_def)
  show "create_user_inv parse q s" if "create_user_inv parse p s" "rendered_again p q" using that by (auto simp: rendered_again_def create_user_inv_def)
qed (fact create_press, fact create_submit, (fact create_settled)+)

section \<open>What the backend said is acted upon\<close>

lemma kyc_verify_step:
  assumes "kyc_inv ((t, i), cs) s" "ui_step parse TenantKycSection rendered_again (((t, i), cs), s) (q, s')"
    and "requests s' = requests s @ [Op_kyc (Kyc_verifyTenant t)]"
  shows "True \<in> set cs \<and> kyc_complete s \<and> \<not> kyc_verified s"
  using assms(2)
proof cases
  case (press h)
  obtain c ds where cs: "cs = c # ds" using press(3) by (cases cs) (auto simp: TenantKycSection_def)
  consider "requests (h s) = requests s" | a where "ui_held s ''confirming'' = JStr a" "h = mutate (kycMutation t) (JStr a)"
    using press(3) unfolding cs by (auto simp: kyc_view_defs split: if_splits)
  then show ?thesis
  proof cases
    case 2
    then have "a = ''verify''" using assms(3) press(2) by (auto simp: kycMutation_def split: if_splits)
    then show ?thesis using assms(1) 2(1) by (auto simp: kyc_inv_def)
  qed (use assms(3) press(2) in simp)
next
  case (submit f z h w)
  then show ?thesis using kyc_no_form by blast
qed (use assms(3) in \<open>auto simp: TenantKycSection_def settle_defs kycMutation_def\<close>)

lemma token_step:
  assumes "create_user_inv parse (t, us) s" "ui_held s ''created'' \<noteq> JNull"
    and "ui_step parse CreateTenantUserForm rendered_again ((t, us), s) (q, s')"
  shows "ui_held s' ''created'' = ui_held s ''created'' \<or>
    s' = acknowledge t s \<and> Press (acknowledge t) \<in> set (sc_view CreateTenantUserForm (t, us) s)"
  using assms(3)
proof cases
  case (press h)
  then show ?thesis using assms(2) by (auto simp: CreateTenantUserForm_def create_user_view_def OneTimeModal_def dialog_defs)
next
  case (submit f z h w)
  then show ?thesis using assms(2) by (auto simp: CreateTenantUserForm_def create_user_view_def OneTimeModal_def dialog_defs)
qed (use assms(1,2) in \<open>auto simp: create_user_inv_def\<close>)

text \<open>
  C32. A SACCO's KYC is verified only by users who may, and only while the page holds it as complete and not
  yet verified; a notification is sent again only if the page has listed it as no longer queued; a user is
  created only from values the schema accepts, and the one-time token of a created user stays on the
  page until it is acknowledged, while no further request can be sent. Nothing is sent twice at a time.
\<close>

theorem service_screens_sound:
  assumes "ui_run parse TenantKycSection rendered_again ((t, i), [c]) (((t', i'), cs), s)"
    "ui_run parse EventsTable rendered_again (e, [rows]) ((e', ds), u)"
    "ui_run parse CreateTenantUserForm rendered_again (n, [()]) ((n', us), w)"
  shows "single_flight s \<and> list_all (kyc_request t') (requests s) \<and> (requests s \<noteq> [] \<longrightarrow> True \<in> set cs) \<and>
    (\<forall>q s'. ui_step parse TenantKycSection rendered_again (((t', i'), cs), s) (q, s') \<and>
       requests s' = requests s @ [Op_kyc (Kyc_verifyTenant t')] \<longrightarrow> True \<in> set cs \<and> kyc_complete s \<and> \<not> kyc_verified s) \<and>
    single_flight u \<and> list_all (resend_ok ds) (requests u) \<and>
    single_flight w \<and> list_all (create_user_ok parse n') (requests w) \<and>
    (ui_held w ''created'' \<noteq> JNull \<longrightarrow> ui_running w = [] \<and>
       (\<forall>q w'. ui_step parse CreateTenantUserForm rendered_again ((n', us), w) (q, w') \<longrightarrow>
          ui_held w' ''created'' = ui_held w ''created'' \<or> w' = acknowledge n' w))"
proof -
  note k = kyc.run_keeps [OF assms(1)] and v = events.run_keeps [OF assms(2)] and n = create_user.run_keeps [OF assms(3)]
  have "single_flight s" "list_all (kyc_request t') (requests s)" "requests s \<noteq> [] \<longrightarrow> True \<in> set cs" using k by (auto simp: kyc_inv_def)
  moreover have "single_flight u" "list_all (resend_ok ds) (requests u)" using v by (auto simp: events_inv_def)
  moreover have "single_flight w" "list_all (create_user_ok parse n') (requests w)" "ui_held w ''created'' \<noteq> JNull \<longrightarrow> ui_running w = []"
    using n by (auto simp: create_user_inv_def)
  moreover have "\<forall>q s'. ui_step parse TenantKycSection rendered_again (((t', i'), cs), s) (q, s') \<and>
       requests s' = requests s @ [Op_kyc (Kyc_verifyTenant t')] \<longrightarrow> True \<in> set cs \<and> kyc_complete s \<and> \<not> kyc_verified s"
    by (intro allI impI, elim conjE) (rule kyc_verify_step [OF k])
  moreover have "\<forall>q w'. ui_step parse CreateTenantUserForm rendered_again ((n', us), w) (q, w') \<longrightarrow>
          ui_held w' ''created'' = ui_held w ''created'' \<or> w' = acknowledge n' w" if "ui_held w ''created'' \<noteq> JNull"
    using token_step [OF n that] by (intro allI impI) auto
  ultimately show ?thesis by (intro conjI impI) (assumption | erule (1) mp)+
qed


definition demo_kyc :: jv where
  "demo_kyc = JObj [(''verified'', JBool False), (''completion'', JObj [(''is_complete'', JBool True)])]"

lemma demo_verification:
  "\<exists>s. ui_run parse TenantKycSection rendered_again ((''t1'', demo_kyc), [True]) (((''t1'', demo_kyc), [True]), s) \<and>
     requests s = [Op_kyc (Kyc_verifyTenant ''t1'')]"
proof -
  let ?p = "((''t1'', demo_kyc), [True])"
  define s0 where "s0 = sc_start TenantKycSection ?p"
  define s1 where "s1 = setHeld ''confirming'' (JStr ''verify'') s0"
  have s0: "ui_held s0 ''latest'' = demo_kyc" "ui_running s0 = []" "requests s0 = []" by (simp_all add: s0_def TenantKycSection_def)
  have "ui_run parse TenantKycSection rendered_again ?p (?p, s0)" unfolding s0_def by (rule run_start)
  moreover have "Press (setHeld ''confirming'' (JStr ''verify'')) \<in> set (sc_view TenantKycSection ?p s0)"
    by (simp add: kyc_view_defs kyc_verified_def kyc_complete_def s0 demo_kyc_def)
  ultimately have r: "ui_run parse TenantKycSection rendered_again ?p (?p, s1)" unfolding s1_def by (rule run_press)
  have "Press (mutate (kycMutation ''t1'') (JStr ''verify'')) \<in> set (sc_view TenantKycSection ?p s1)"
    by (simp add: kyc_view_defs s1_def isPending_def s0)
  from run_press [OF r this] have "ui_run parse TenantKycSection rendered_again ?p (?p, mutate (kycMutation ''t1'') (JStr ''verify'') s1)" .
  moreover have "requests (mutate (kycMutation ''t1'') (JStr ''verify'') s1) = [Op_kyc (Kyc_verifyTenant ''t1'')]"
    by (simp add: s1_def s0 kycMutation_def)
  ultimately show ?thesis by blast
qed

theorem service_screens_sound_witness:
  "\<exists>s. ui_run (\<lambda>_ v. Some v) TenantKycSection rendered_again ((''t1'', demo_kyc), [True]) (((''t1'', demo_kyc), [True]), s) \<and>
     requests s = [Op_kyc (Kyc_verifyTenant ''t1'')] \<and> single_flight s"
proof -
  obtain s where s: "ui_run (\<lambda>_ v. Some v) TenantKycSection rendered_again ((''t1'', demo_kyc), [True]) (((''t1'', demo_kyc), [True]), s)"
      "requests s = [Op_kyc (Kyc_verifyTenant ''t1'')]" using demo_verification by blast
  have "single_flight s"
    using service_screens_sound [OF s(1) run_start [of _ EventsTable rendered_again "((), [[]])"] run_start [of _ CreateTenantUserForm rendered_again "(''t1'', [()])"]]
    by blast
  with s show ?thesis by blast
qed

end
