(* ===== verification/Status_Badges.thy ===== *)
theory Status_Badges
  imports Posting_Actions Platform_Actions Provisioning Dashboard
begin

text \<open>
  The badge of a record's status (\<open>packages/ui/src/components/StatusBadge\<close>): one table per kind of record
  with the colour and the text of each status, and what is shown for a status no table knows. The
  theorem relates the tables to the statuses the pages decide on.
\<close>

section \<open>The tables\<close>

type_synonym status_map = "(string \<times> (string \<times> string)) list"

definition LOAN_STATUS :: status_map where
  "LOAN_STATUS =
    [(''draft'', (''neutral'', ''Draft'')),
     (''submitted'', (''info'', ''Submitted'')),
     (''under_review'', (''info'', ''Under Review'')),
     (''approved'', (''success'', ''Approved'')),
     (''disbursing'', (''warning'', ''Disbursing'')),
     (''disbursed'', (''success'', ''Disbursed'')),
     (''in_arrears'', (''danger-solid'', ''In Arrears'')),
     (''restructured'', (''accent'', ''Restructured'')),
     (''written_off'', (''danger'', ''Written Off'')),
     (''closed'', (''dark'', ''Closed'')),
     (''rejected'', (''danger'', ''Rejected'')),
     (''withdrawn'', (''neutral'', ''Withdrawn'')),
     (''cancelled'', (''neutral'', ''Cancelled''))]"

definition MEMBER_STATUS :: status_map where
  "MEMBER_STATUS =
    [(''prospect'', (''info'', ''Prospect'')),
     (''pending'', (''info'', ''Pending'')),
     (''active'', (''success'', ''Active'')),
     (''dormant'', (''warning'', ''Dormant'')),
     (''suspended'', (''danger-solid'', ''Suspended'')),
     (''exited'', (''neutral'', ''Exited'')),
     (''deceased'', (''dark'', ''Deceased''))]"

definition TENANT_STATUS :: status_map where
  "TENANT_STATUS =
    [(''pending'', (''info'', ''Pending'')),
     (''provisioning'', (''warning'', ''Provisioning'')),
     (''active'', (''success'', ''Active'')),
     (''suspended'', (''danger-solid'', ''Suspended'')),
     (''failed'', (''danger'', ''Failed'')),
     (''deprovisioning'', (''warning'', ''Deprovisioning'')),
     (''archived'', (''neutral'', ''Archived''))]"

definition TENANT_LIFECYCLE_STATUS :: status_map where
  "TENANT_LIFECYCLE_STATUS =
    [(''active'', (''success'', ''Active'')),
     (''cancelled'', (''warning'', ''Cancelled'')),
     (''read_only'', (''info'', ''Read-only'')),
     (''archived'', (''neutral'', ''Archived'')),
     (''hard_deleted'', (''neutral'', ''Hard-deleted''))]"

definition SAVINGS_ACCOUNT_STATUS :: status_map where
  "SAVINGS_ACCOUNT_STATUS =
    [(''active'', (''success'', ''Active'')),
     (''dormant'', (''warning'', ''Dormant'')),
     (''frozen'', (''danger-solid'', ''Frozen'')),
     (''closed'', (''neutral'', ''Closed''))]"

definition FEE_ASSESSMENT_STATUS :: status_map where
  "FEE_ASSESSMENT_STATUS =
    [(''assessed'', (''warning'', ''Assessed'')),
     (''partially_paid'', (''info'', ''Partially Paid'')),
     (''paid'', (''success'', ''Paid'')),
     (''waived'', (''accent'', ''Waived'')),
     (''cancelled'', (''neutral'', ''Cancelled''))]"

definition APPROVAL_REQUEST_STATUS :: status_map where
  "APPROVAL_REQUEST_STATUS =
    [(''pending'', (''warning'', ''Pending Approval'')),
     (''approved'', (''info'', ''Approved'')),
     (''rejected'', (''danger'', ''Rejected'')),
     (''executed'', (''success'', ''Executed'')),
     (''execution_failed'', (''danger-solid'', ''Execution Failed'')),
     (''expired'', (''neutral'', ''Expired'')),
     (''cancelled'', (''neutral'', ''Cancelled''))]"

definition SUBSCRIPTION_PLAN_STATUS :: status_map where
  "SUBSCRIPTION_PLAN_STATUS =
    [(''active'', (''success'', ''Active'')),
     (''inactive'', (''neutral'', ''Inactive''))]"

definition SUBSCRIPTION_STATUS :: status_map where
  "SUBSCRIPTION_STATUS =
    [(''pending'', (''info'', ''Pending'')),
     (''trialing'', (''info'', ''Trialing'')),
     (''active'', (''success'', ''Active'')),
     (''past_due'', (''warning'', ''Past due'')),
     (''suspended'', (''danger-solid'', ''Suspended'')),
     (''cancelled'', (''neutral'', ''Cancelled''))]"

definition INVOICE_STATUS :: status_map where
  "INVOICE_STATUS =
    [(''draft'', (''neutral'', ''Draft'')),
     (''issued'', (''info'', ''Issued'')),
     (''partial'', (''warning'', ''Partial'')),
     (''paid'', (''success'', ''Paid'')),
     (''overdue'', (''danger-solid'', ''Overdue'')),
     (''void'', (''neutral'', ''Void''))]"

definition PAYMENT_STATUS :: status_map where
  "PAYMENT_STATUS =
    [(''pending'', (''warning'', ''Pending Confirmation'')),
     (''confirmed'', (''success'', ''Confirmed'')),
     (''rejected'', (''danger'', ''Rejected''))]"

definition PLATFORM_USER_STATUS :: status_map where
  "PLATFORM_USER_STATUS =
    [(''active'', (''success'', ''Active'')),
     (''inactive'', (''neutral'', ''Inactive''))]"

definition JWT_KEY_STATUS :: status_map where
  "JWT_KEY_STATUS =
    [(''active'', (''success'', ''Active'')),
     (''retiring'', (''warning'', ''Retiring'')),
     (''retired'', (''neutral'', ''Retired''))]"

definition TENANT_USER_STATUS :: status_map where
  "TENANT_USER_STATUS =
    [(''active'', (''success'', ''Active'')),
     (''inactive'', (''neutral'', ''Inactive''))]"

definition LOAN_APPLICATION_STATUS :: status_map where
  "LOAN_APPLICATION_STATUS =
    [(''draft'', (''neutral'', ''Draft'')),
     (''submitted'', (''info'', ''Submitted'')),
     (''under_review'', (''info'', ''Under Review'')),
     (''pending'', (''info'', ''Pending'')),
     (''approved'', (''success'', ''Approved'')),
     (''rejected'', (''danger'', ''Rejected'')),
     (''withdrawn'', (''neutral'', ''Withdrawn'')),
     (''cancelled'', (''neutral'', ''Cancelled'')),
     (''disbursed'', (''success'', ''Disbursed''))]"

definition GUARANTOR_STATUS :: status_map where
  "GUARANTOR_STATUS =
    [(''pending'', (''info'', ''Pending'')),
     (''accepted'', (''success'', ''Accepted'')),
     (''declined'', (''danger'', ''Declined'')),
     (''released'', (''neutral'', ''Released''))]"

definition PAYROLL_BATCH_STATUS :: status_map where
  "PAYROLL_BATCH_STATUS =
    [(''pending_review'', (''info'', ''Pending review'')),
     (''applied'', (''success'', ''Applied'')),
     (''rejected'', (''danger'', ''Rejected''))]"

definition REPORT_RUN_STATUS :: status_map where
  "REPORT_RUN_STATUS =
    [(''running'', (''info'', ''Running'')),
     (''done'', (''success'', ''Done'')),
     (''failed'', (''danger'', ''Failed''))]"

definition KYC_SUBMISSION_STATUS :: status_map where
  "KYC_SUBMISSION_STATUS =
    [(''pending'', (''info'', ''Pending Review'')),
     (''approved'', (''success'', ''Approved'')),
     (''rejected'', (''danger'', ''Rejected''))]"

definition NOTIFICATION_EVENT_STATUS :: status_map where
  "NOTIFICATION_EVENT_STATUS =
    [(''queued'', (''info'', ''Queued'')),
     (''sent'', (''success'', ''Sent'')),
     (''partial'', (''warning'', ''Partial'')),
     (''failed'', (''danger'', ''Failed'')),
     (''cancelled'', (''neutral'', ''Cancelled''))]"

definition BACKUP_RUN_STATUS :: status_map where
  "BACKUP_RUN_STATUS =
    [(''running'', (''info'', ''Running'')),
     (''succeeded'', (''success'', ''Succeeded'')),
     (''failed'', (''danger'', ''Failed''))]"

definition BACKUP_VERIFICATION_STATUS :: status_map where
  "BACKUP_VERIFICATION_STATUS =
    [(''requested'', (''neutral'', ''Requested'')),
     (''running'', (''info'', ''Running'')),
     (''passed'', (''success'', ''Passed'')),
     (''failed'', (''danger'', ''Failed''))]"

definition ENTITY_MAPS :: "(string \<times> status_map) list" where
  "ENTITY_MAPS =
    [(''loan'', LOAN_STATUS),
     (''member'', MEMBER_STATUS),
     (''tenant'', TENANT_STATUS),
     (''tenant_lifecycle'', TENANT_LIFECYCLE_STATUS),
     (''savings_account'', SAVINGS_ACCOUNT_STATUS),
     (''fee_assessment'', FEE_ASSESSMENT_STATUS),
     (''approval_request'', APPROVAL_REQUEST_STATUS),
     (''subscription'', SUBSCRIPTION_STATUS),
     (''subscription_plan'', SUBSCRIPTION_PLAN_STATUS),
     (''invoice'', INVOICE_STATUS),
     (''payment'', PAYMENT_STATUS),
     (''platform_user'', PLATFORM_USER_STATUS),
     (''jwt_key'', JWT_KEY_STATUS),
     (''tenant_user'', TENANT_USER_STATUS),
     (''loan_application'', LOAN_APPLICATION_STATUS),
     (''guarantor'', GUARANTOR_STATUS),
     (''payroll_batch'', PAYROLL_BATCH_STATUS),
     (''report_run'', REPORT_RUN_STATUS),
     (''kyc_submission'', KYC_SUBMISSION_STATUS),
     (''notification_event'', NOTIFICATION_EVENT_STATUS),
     (''backup_run'', BACKUP_RUN_STATUS),
     (''backup_verification'', BACKUP_VERIFICATION_STATUS)]"

section \<open>Looking a status up\<close>

text \<open>A property of a table may be inherited, as \<open>constructor\<close> is: such an entry has neither colour nor text.\<close>

definition resolveStatus :: "string \<Rightarrow> string \<Rightarrow> (string \<times> string) jsprop" where
  "resolveStatus entity status = (case map_of ENTITY_MAPS entity of None \<Rightarrow> Missing | Some m \<Rightarrow> js_get m status)"

text \<open>The colour and the text of the badge, where it has them.\<close>

definition StatusBadge :: "string \<Rightarrow> string \<Rightarrow> string option \<Rightarrow> string option \<times> string option" where
  "StatusBadge entity status label = (case resolveStatus entity status of
       Missing \<Rightarrow> (Some ''neutral'', Some (nullish label status))
     | Own (variant, text) \<Rightarrow> (Some variant, Some (nullish label text))
     | Inherited \<Rightarrow> (None, label))"


section \<open>Every decided status has a badge\<close>

definition known :: "string \<Rightarrow> string \<Rightarrow> bool" where
  "known entity status \<longleftrightarrow> (\<exists>v t. resolveStatus entity status = Own (v, t))"

lemmas status_tables = LOAN_STATUS_def MEMBER_STATUS_def TENANT_STATUS_def TENANT_LIFECYCLE_STATUS_def SAVINGS_ACCOUNT_STATUS_def
  FEE_ASSESSMENT_STATUS_def APPROVAL_REQUEST_STATUS_def SUBSCRIPTION_PLAN_STATUS_def SUBSCRIPTION_STATUS_def INVOICE_STATUS_def PAYMENT_STATUS_def
  PLATFORM_USER_STATUS_def JWT_KEY_STATUS_def TENANT_USER_STATUS_def LOAN_APPLICATION_STATUS_def GUARANTOR_STATUS_def PAYROLL_BATCH_STATUS_def
  REPORT_RUN_STATUS_def KYC_SUBMISSION_STATUS_def NOTIFICATION_EVENT_STATUS_def BACKUP_RUN_STATUS_def BACKUP_VERIFICATION_STATUS_def

lemma tables_distinct: "distinct (map fst ENTITY_MAPS)" "list_all (\<lambda>e. distinct (map fst (snd e))) ENTITY_MAPS"
  by (simp_all add: ENTITY_MAPS_def) (simp_all add: status_tables)

lemma table_entry: "(entity, m) \<in> set ENTITY_MAPS \<Longrightarrow> (status, e) \<in> set m \<Longrightarrow> resolveStatus entity status = Own e"
  using tables_distinct by (auto simp: resolveStatus_def js_get_def list_all_iff split: option.split)

lemma known_keys: "(entity, m) \<in> set ENTITY_MAPS \<Longrightarrow> list_all (\<lambda>k. k \<in> set (map fst m)) ks \<Longrightarrow> list_all (known entity) ks"
  unfolding list_all_iff known_def using table_entry by fastforce

text \<open>
  The badge of a status is its row of the table, unless a label overrides the text; a status that is in no
  table is shown as it is, in the neutral colour. Every status on which a page decides -- the lifecycle
  states a tenant is restored from, the states in which provisioning is polled, the closed states of a fee, the
  loans that count as active, the invoices and subscriptions that offer an action -- has a badge.
\<close>

theorem status_badges:
  "(\<forall>entity m status v t. (entity, m) \<in> set ENTITY_MAPS \<and> (status, v, t) \<in> set m \<longrightarrow> StatusBadge entity status l = (Some v, Some (nullish l t))) \<and>
   (resolveStatus e s = Missing \<longrightarrow> StatusBadge e s None = (Some ''neutral'', Some s)) \<and>
   list_all (known ''tenant_lifecycle'') (''active'' # RESTORABLE) \<and> list_all (known ''tenant'') (''suspended'' # IN_FLIGHT_STATUSES) \<and>
   list_all (known ''fee_assessment'') (TERMINAL @ SETTLED_FEE_STATUSES) \<and> list_all (known ''loan'') (''written_off'' # ACTIVE_LOAN_STATUSES) \<and>
   list_all (known ''approval_request'') [''pending''] \<and> list_all (known ''invoice'') [''issued'', ''partial'', ''overdue'', ''void'', ''paid''] \<and>
   list_all (known ''subscription'') [''active'', ''trialing'', ''past_due'', ''suspended'']"
proof (intro conjI)
  show "\<forall>entity m status v t. (entity, m) \<in> set ENTITY_MAPS \<and> (status, v, t) \<in> set m \<longrightarrow> StatusBadge entity status l = (Some v, Some (nullish l t))"
    by (auto simp: StatusBadge_def table_entry)
  show "resolveStatus e s = Missing \<longrightarrow> StatusBadge e s None = (Some ''neutral'', Some s)" by (simp add: StatusBadge_def)
  show "list_all (known ''tenant_lifecycle'') (''active'' # RESTORABLE)"
    by (rule known_keys [of _ TENANT_LIFECYCLE_STATUS]) (simp_all add: ENTITY_MAPS_def TENANT_LIFECYCLE_STATUS_def RESTORABLE_def)
  show "list_all (known ''tenant'') (''suspended'' # IN_FLIGHT_STATUSES)"
    by (rule known_keys [of _ TENANT_STATUS]) (simp_all add: ENTITY_MAPS_def TENANT_STATUS_def IN_FLIGHT_STATUSES_def)
  show "list_all (known ''fee_assessment'') (TERMINAL @ SETTLED_FEE_STATUSES)"
    by (rule known_keys [of _ FEE_ASSESSMENT_STATUS]) (simp_all add: ENTITY_MAPS_def FEE_ASSESSMENT_STATUS_def TERMINAL_def SETTLED_FEE_STATUSES_def)
  show "list_all (known ''loan'') (''written_off'' # ACTIVE_LOAN_STATUSES)"
    by (rule known_keys [of _ LOAN_STATUS]) (simp_all add: ENTITY_MAPS_def LOAN_STATUS_def ACTIVE_LOAN_STATUSES_def)
  show "list_all (known ''approval_request'') [''pending'']"
    by (rule known_keys [of _ APPROVAL_REQUEST_STATUS]) (simp_all add: ENTITY_MAPS_def APPROVAL_REQUEST_STATUS_def)
  show "list_all (known ''invoice'') [''issued'', ''partial'', ''overdue'', ''void'', ''paid'']"
    by (rule known_keys [of _ INVOICE_STATUS]) (simp_all add: ENTITY_MAPS_def INVOICE_STATUS_def)
  show "list_all (known ''subscription'') [''active'', ''trialing'', ''past_due'', ''suspended'']"
    by (rule known_keys [of _ SUBSCRIPTION_STATUS]) (simp_all add: ENTITY_MAPS_def SUBSCRIPTION_STATUS_def)
qed

end
