(* ===== verification/Browser_Session.thy ===== *)
theory Browser_Session
  imports Api_Client
begin

text \<open>
  The session of a browser: \<open>apps/portal/src/auth/AuthProvider.tsx\<close>, the hooks \<open>use-auth.ts\<close> and
  \<open>use-current-user.ts\<close>, and the four layouts that mount the provider (\<open>app/layout.tsx\<close> and the layouts of
  the signed-in areas of the platform, of a tenant and of its members). A layout runs on the server and
  ends in a redirect or in what it hands to the provider; the provider's effect copies that into the
  stores the HTTP client of the browser reads. In the properties of the provider \<open>None\<close> is \<open>undefined\<close>; the access token is a
  text or null, as declared.

  The root layout and the layout of an area mount one provider each over the same stores. React runs the
  effects of one commit from the inner component to the outer one, which is the order of \<open>mount_providers\<close>.
\<close>

section \<open>Stores\<close>

record browser =
  br_auth :: auth_state
  br_user :: jv

definition new_browser :: browser where
  "new_browser = \<lparr>br_auth = useAuthStore, br_user = JNull\<rparr>"

definition setAccessToken :: "string option \<Rightarrow> browser \<Rightarrow> browser" where
  "setAccessToken token b = b\<lparr>br_auth := (br_auth b)\<lparr>as_token := token\<rparr>\<rparr>"

definition setTenantSlug :: "string option \<Rightarrow> browser \<Rightarrow> browser" where
  "setTenantSlug slug b = b\<lparr>br_auth := (br_auth b)\<lparr>as_tenantSlug := slug\<rparr>\<rparr>"

definition setAuthContext :: "variant \<Rightarrow> browser \<Rightarrow> browser" where
  "setAuthContext ctx b = b\<lparr>br_auth := (br_auth b)\<lparr>as_context := ctx\<rparr>\<rparr>"

definition setUser :: "jv \<Rightarrow> browser \<Rightarrow> browser" where
  "setUser u b = b\<lparr>br_user := u\<rparr>"

lemmas store_setters [simp] = setAccessToken_def setTenantSlug_def setAuthContext_def setUser_def

section \<open>The provider\<close>

record provider_props =
  pp_baseUrl :: string
  pp_accessToken :: "string option option"
  pp_tenantSlug :: "string option option"
  pp_authContext :: "variant option"
  pp_user :: "jv option"

text \<open>One conditional call of a setter.\<close>

definition given :: "'a option \<Rightarrow> ('a \<Rightarrow> browser \<Rightarrow> browser) \<Rightarrow> browser \<Rightarrow> browser" where
  "given x set_it b = (case x of None \<Rightarrow> b | Some v \<Rightarrow> set_it v b)"

definition hydrate :: "provider_props \<Rightarrow> browser \<Rightarrow> browser" where
  "hydrate p b =
     (let b = given (pp_accessToken p) setAccessToken b;
          b = given (pp_tenantSlug p) setTenantSlug b;
          b = given (pp_authContext p) setAuthContext b
      in given (pp_user p) setUser b)"

definition retry :: "nat \<Rightarrow> api_error \<Rightarrow> bool" where
  "retry failureCount error = (if error = UnauthorizedError then False else failureCount < 2)"

definition provider_api :: "backend \<Rightarrow> string \<Rightarrow> provider_props \<Rightarrow> auth_state middleware_fns list" where
  "provider_api be key p = createApiClient be CookieBackedTokenStore (pp_baseUrl p) ClientTenantContext key"

text \<open>The effects of one commit, the inner providers first.\<close>

definition mount_providers :: "provider_props list \<Rightarrow> browser \<Rightarrow> browser" where
  "mount_providers ps b = fold hydrate ps b"

section \<open>The hooks\<close>

record 'c auth_view =
  av_value :: 'c
  av_accessToken :: "string option"
  av_tenantSlug :: "string option"
  av_authContext :: variant
  av_isAuthenticated :: bool

definition useAuth :: "'c option \<Rightarrow> browser \<Rightarrow> string + 'c auth_view" where
  "useAuth ctx b = (case ctx of None \<Rightarrow> Inl ''useAuth must be used inside <AuthProvider>''
     | Some v \<Rightarrow> Inr \<lparr>av_value = v, av_accessToken = as_token (br_auth b), av_tenantSlug = as_tenantSlug (br_auth b),
         av_authContext = as_context (br_auth b), av_isAuthenticated = (as_token (br_auth b) \<noteq> None)\<rparr>)"

definition useCurrentUser :: "jv option \<Rightarrow> browser \<Rightarrow> jv" where
  "useCurrentUser ctxUser b = (case ctxUser of Some u \<Rightarrow> u | None \<Rightarrow> br_user b)"

section \<open>The layouts\<close>

fun declared_token :: "jv \<Rightarrow> string option" where
  "declared_token (JStr t) = Some t"
| "declared_token _ = None"

record banner =
  bn_impersonationId :: jv
  bn_tenantId :: jv
  bn_tenantName :: jv
  bn_expiresAt :: jv

record layout_page =
  lp_provider :: provider_props
  lp_user :: jv
  lp_variant :: variant
  lp_tenantName :: "string option"
  lp_collapsed :: bool
  lp_banner :: "banner option"

datatype layout_res = LayoutRedirect string | Layout layout_page

definition sidebar_collapsed :: "world \<Rightarrow> bool" where
  "sidebar_collapsed w \<longleftrightarrow> jar_value w ''sacco_sidebar_collapsed'' = Some ''1''"

definition RootLayout :: "env \<Rightarrow> inbound \<Rightarrow> world \<Rightarrow> provider_props" where
  "RootLayout e rq w = (let tenantSlug = getServerTenantSlug rq w in
     \<lparr>pp_baseUrl = API_BASE e, pp_accessToken = None, pp_tenantSlug = Some tenantSlug,
      pp_authContext = Some (if truthy_str tenantSlug then Tenant else Platform), pp_user = None\<rparr>)"

definition PlatformAuthedLayout :: "env \<Rightarrow> inbound \<Rightarrow> world \<Rightarrow> layout_res act" where
  "PlatformAuthedLayout e rq w =
     await (getServerAccessToken e Platform rq w) (\<lambda>(accessToken, _) w.
     if \<not> js_truthy accessToken then (Some (LayoutRedirect ''/platform/login''), w)
     else await (getServerCurrentUser e Platform accessToken rq w) (\<lambda>user w.
     if \<not> js_truthy user then (Some (LayoutRedirect ''/platform/login''), w)
     else (Some (Layout
       \<lparr>lp_provider = \<lparr>pp_baseUrl = API_BASE e, pp_accessToken = Some (declared_token accessToken), pp_tenantSlug = None,
          pp_authContext = Some Platform, pp_user = Some user\<rparr>,
        lp_user = user, lp_variant = Platform, lp_tenantName = None, lp_collapsed = sidebar_collapsed w, lp_banner = None\<rparr>), w)))"

definition impersonation_banner :: "jv option \<Rightarrow> banner option" where
  "impersonation_banner impersonation = (case impersonation of None \<Rightarrow> None
     | Some m \<Rightarrow> if \<not> js_truthy m then None
         else Some \<lparr>bn_impersonationId = js_prop m ''id'', bn_tenantId = js_prop m ''tenantId'',
           bn_tenantName = js_prop m ''tenantName'', bn_expiresAt = js_prop m ''expiresAt''\<rparr>)"

definition TenantAuthedLayout :: "env \<Rightarrow> inbound \<Rightarrow> world \<Rightarrow> layout_res act" where
  "TenantAuthedLayout e rq w =
     (let slug = getServerTenantSlug rq w in
     if \<not> truthy_str slug then (Some (LayoutRedirect ''/login''), w)
     else await (getServerAccessToken e Tenant rq w) (\<lambda>(accessToken, _) w.
     if \<not> js_truthy accessToken then (Some (LayoutRedirect ''/login''), w)
     else await (getServerCurrentUser e Tenant accessToken rq w) (\<lambda>user w.
     if \<not> js_truthy user then (Some (LayoutRedirect ''/login''), w)
     else (Some (Layout
       \<lparr>lp_provider = \<lparr>pp_baseUrl = API_BASE e, pp_accessToken = Some (declared_token accessToken), pp_tenantSlug = Some slug,
          pp_authContext = Some Tenant, pp_user = Some user\<rparr>,
        lp_user = user, lp_variant = Tenant, lp_tenantName = slug, lp_collapsed = sidebar_collapsed w,
        lp_banner = impersonation_banner (readImpersonationCookie w)\<rparr>), w))))"

definition MemberAuthedLayout :: "env \<Rightarrow> inbound \<Rightarrow> world \<Rightarrow> layout_res act" where
  "MemberAuthedLayout e rq w =
     (let slug = getServerTenantSlug rq w in
     if \<not> truthy_str slug then (Some (LayoutRedirect ''/member/login''), w)
     else await (getServerAccessToken e Member rq w) (\<lambda>(accessToken, _) w.
     if \<not> js_truthy accessToken then (Some (LayoutRedirect ''/member/login''), w)
     else await (getServerCurrentUser e Member accessToken rq w) (\<lambda>member w.
     if \<not> js_truthy member then (Some (LayoutRedirect ''/member/login''), w)
     else (Some (Layout
       \<lparr>lp_provider = \<lparr>pp_baseUrl = API_BASE e, pp_accessToken = Some (declared_token accessToken), pp_tenantSlug = Some slug,
          pp_authContext = Some Member, pp_user = Some member\<rparr>,
        lp_user = member, lp_variant = Member, lp_tenantName = slug, lp_collapsed = sidebar_collapsed w,
        lp_banner = None\<rparr>), w))))"

lemmas layout_defs = PlatformAuthedLayout_def TenantAuthedLayout_def MemberAuthedLayout_def

definition area_layout :: "variant \<Rightarrow> env \<Rightarrow> inbound \<Rightarrow> world \<Rightarrow> layout_res act" where
  "area_layout v = (case v of Platform \<Rightarrow> PlatformAuthedLayout | Tenant \<Rightarrow> TenantAuthedLayout | Member \<Rightarrow> MemberAuthedLayout)"

section \<open>What the stores hold after a page has loaded\<close>

lemma await_Some: "await m k = (Some r, w') \<longleftrightarrow> (\<exists>a w1. m = (Some a, w1) \<and> k a w1 = (Some r, w'))"
  by (auto simp: await_def split: prod.split option.split)

text \<open>
  A layout shows its area only with a token and a user of that area's own session; what it hands to
  the provider is that token, that user, the tenant of the request and the area itself.
\<close>

lemma area_layout_page:
  assumes "area_layout v e rq w = (Some (Layout p), w')"
  obtains accessToken expires w1 where "getServerAccessToken e v rq w = (Some (accessToken, expires), w1)"
    "js_truthy accessToken" "getServerCurrentUser e v accessToken rq w1 = (Some (lp_user p), w')" "js_truthy (lp_user p)"
    "lp_variant p = v" "v = Platform \<or> truthy_str (getServerTenantSlug rq w)"
    "lp_provider p = \<lparr>pp_baseUrl = API_BASE e, pp_accessToken = Some (declared_token accessToken),
       pp_tenantSlug = (if v = Platform then None else Some (getServerTenantSlug rq w)),
       pp_authContext = Some v, pp_user = Some (lp_user p)\<rparr>"
  using assms
  by (cases v) (fastforce simp: area_layout_def layout_defs Let_def await_Some split: if_splits)+

lemma area_layout_redirect:
  "area_layout v e rq w = (Some (LayoutRedirect l), w') \<Longrightarrow>
   l = (case v of Platform \<Rightarrow> ''/platform/login'' | Tenant \<Rightarrow> ''/login'' | Member \<Rightarrow> ''/member/login'')"
  by (cases v) (auto simp: area_layout_def layout_defs Let_def await_Some split: if_splits)

lemma hydrate_fields:
  "as_token (br_auth (hydrate p b)) = (case pp_accessToken p of None \<Rightarrow> as_token (br_auth b) | Some t \<Rightarrow> t)"
  "as_tenantSlug (br_auth (hydrate p b)) = (case pp_tenantSlug p of None \<Rightarrow> as_tenantSlug (br_auth b) | Some t \<Rightarrow> t)"
  "as_context (br_auth (hydrate p b)) = (case pp_authContext p of None \<Rightarrow> as_context (br_auth b) | Some c \<Rightarrow> c)"
  "br_user (hydrate p b) = (case pp_user p of None \<Rightarrow> br_user b | Some u \<Rightarrow> u)"
  by (simp_all add: hydrate_def given_def Let_def split: option.split)

text \<open>
  After the load of a page of an area the stores hold the token, the user and the tenant of the request.
  The area they hold is the one the root layout derives from the tenant, which is the last to write it:
  right in a tenant's area, right in the platform's area only when the request names no tenant,
  and never right in the members' area.
\<close>

theorem session_hydrated:
  fixes b0 :: browser
  assumes "area_layout v e rq w = (Some (Layout p), w')"
  defines "b \<equiv> mount_providers [lp_provider p, RootLayout e rq w] b0"
  shows "\<exists>accessToken expires w1. getServerAccessToken e v rq w = (Some (accessToken, expires), w1) \<and>
      as_token (br_auth b) = declared_token accessToken"
    and "useCurrentUser None b = lp_user p" and "useCurrentUser (Some (lp_user p)) b0 = useCurrentUser None b"
    and "ClientTenantContext (br_auth b) = getServerTenantSlug rq w"
    and "as_context (br_auth b) = (if truthy_str (getServerTenantSlug rq w) then Tenant else Platform)"
    and "as_context (br_auth b) = v \<longleftrightarrow> v = Tenant \<or> v = Platform \<and> \<not> truthy_str (getServerTenantSlug rq w)"
proof -
  obtain accessToken expires w1 where page: "getServerAccessToken e v rq w = (Some (accessToken, expires), w1)"
      "v = Platform \<or> truthy_str (getServerTenantSlug rq w)"
      "pp_accessToken (lp_provider p) = Some (declared_token accessToken)" "pp_user (lp_provider p) = Some (lp_user p)"
    by (rule area_layout_page [OF assms(1)]) simp
  note facts = b_def mount_providers_def hydrate_fields RootLayout_def useCurrentUser_def ClientTenantContext_def Let_def
  show "\<exists>accessToken expires w1. getServerAccessToken e v rq w = (Some (accessToken, expires), w1) \<and>
      as_token (br_auth b) = declared_token accessToken"
    using page by (simp add: facts)
  show "useCurrentUser None b = lp_user p" "useCurrentUser (Some (lp_user p)) b0 = useCurrentUser None b"
    "ClientTenantContext (br_auth b) = getServerTenantSlug rq w"
    "as_context (br_auth b) = (if truthy_str (getServerTenantSlug rq w) then Tenant else Platform)"
    using page by (simp_all add: facts)
  show "as_context (br_auth b) = v \<longleftrightarrow> v = Tenant \<or> v = Platform \<and> \<not> truthy_str (getServerTenantSlug rq w)"
    using page(2) by (auto simp: facts)
qed

text \<open>So a member's browser renews its session at the route of the tenant's staff.\<close>

lemma member_refresh_endpoint:
  assumes "area_layout Member e rq w = (Some (Layout p), w')"
  shows "get_endpoint CookieBackedTokenStore (br_auth (mount_providers [lp_provider p, RootLayout e rq w] b0)) = ''/api/auth/tenant-refresh''"
  using session_hydrated(5) [OF assms, of b0] area_layout_page [OF assms]
  by (auto simp: CookieBackedTokenStore_def browserRefreshEndpoint_def)

text \<open>Inside the provider the hooks never fail, and a signed-in area is authenticated exactly when the token is a text.\<close>

lemma useAuth_inside: "\<exists>a. useAuth (Some c) b = Inr a \<and> av_value a = c \<and> (av_isAuthenticated a \<longleftrightarrow> as_token (br_auth b) \<noteq> None)"
  by (simp add: useAuth_def)

section \<open>Retries\<close>

text \<open>
  The query library documents that after the failure of an attempt it asks \<open>retry\<close> with the number of
  failures so far and the error, and either makes the next attempt or reports that error.
\<close>

definition documented_retry :: "(nat \<Rightarrow> api_error \<Rightarrow> bool) \<Rightarrow> ((nat \<Rightarrow> api_error + 'a) \<Rightarrow> nat \<Rightarrow> api_error + 'a) \<Rightarrow> bool" where
  "documented_retry again query \<longleftrightarrow> (\<forall>attempt n. query attempt n =
     (case attempt n of Inr x \<Rightarrow> Inr x | Inl err \<Rightarrow> if again n err then query attempt (Suc n) else Inl err))"

text \<open>Such a library exists: with the portal's rule a loop of three rounds is one.\<close>

fun rounds :: "nat \<Rightarrow> (nat \<Rightarrow> api_error + 'a) \<Rightarrow> nat \<Rightarrow> api_error + 'a" where
  "rounds 0 attempt n = attempt n"
| "rounds (Suc k) attempt n =
     (case attempt n of Inr x \<Rightarrow> Inr x | Inl err \<Rightarrow> if retry n err then rounds k attempt (Suc n) else Inl err)"

lemma rounds_enough: "2 \<le> n + k \<Longrightarrow> rounds (Suc k) attempt n = rounds k attempt n"
  by (induction k arbitrary: n) (auto simp: retry_def split: sum.split)

lemma three_rounds: "documented_retry retry (rounds 2)"
  unfolding documented_retry_def
  by (intro allI, rule trans [OF rounds_enough [symmetric] rounds.simps(2)]) simp

text \<open>
  A query makes at most three attempts, reports the result of the last one, gives up early only for a
  refused session and never repeats an attempt that was refused for that.
\<close>

theorem query_attempts:
  assumes "documented_retry retry query"
  obtains n where "n \<le> 2" "query attempt 0 = attempt n"
    "\<And>m. m < n \<Longrightarrow> \<exists>err. attempt m = Inl err \<and> err \<noteq> UnauthorizedError"
    "n < 2 \<Longrightarrow> (\<exists>x. attempt n = Inr x) \<or> attempt n = Inl UnauthorizedError"
proof -
  have step: "query attempt n = (case attempt n of Inr x \<Rightarrow> Inr x
      | Inl err \<Rightarrow> if retry n err then query attempt (Suc n) else Inl err)" for n
    using assms unfolding documented_retry_def by blast
  define final where "final n \<longleftrightarrow> (\<exists>x. attempt n = Inr x) \<or> attempt n = Inl UnauthorizedError" for n
  have stop: "query attempt n = attempt n" if "final n \<or> 2 \<le> n" for n
    using that step [of n] by (auto simp: final_def retry_def split: sum.split)
  have goon: "query attempt n = query attempt (Suc n) \<and> (\<exists>err. attempt n = Inl err \<and> err \<noteq> UnauthorizedError)"
    if "\<not> final n" "n < 2" for n
    using that step [of n] by (cases "attempt n") (auto simp: final_def retry_def)
  consider "final 0" | "\<not> final 0" "final 1" | "\<not> final 0" "\<not> final 1" by blast
  then show thesis
  proof cases
    case 1
    then show thesis using stop [of 0] that [of 0] by (simp add: final_def)
  next
    case 2
    then show thesis using stop [of 1] goon [of 0] that [of 1] by (auto simp: final_def)
  next
    case 3
    then have "\<exists>err. attempt m = Inl err \<and> err \<noteq> UnauthorizedError" if "m < 2" for m
      using goon [of 0] goon [of 1] that by (auto simp: less_2_cases_iff)
    moreover have "query attempt 0 = attempt 2"
      using 3 goon [of 0] goon [of 1] stop [of 2] by (simp add: numeral_2_eq_2)
    ultimately show thesis using that [of 2] by blast
  qed
qed

end
