(* ===== verification/Spec2Isabelle.thy ===== *)
theory Spec2Isabelle
  imports Permissions Ledger_Balance Proxy_Routes Refresh Query_Keys Money_Input Data_Table Navigation
    Approval_Actions Posting_Actions Platform_Actions Billing_Actions Form_Pages Date_Input Provisioning Preferences Dashboard
    Settings Service_Screens Status_Badges Browser_Session
begin

text \<open>
  A verification library of the SACCO portal (\<open>src/admin\<close>), the web front end of a platform for savings and
  credit cooperatives. The portal is a Next.js application in TypeScript (\<open>apps/portal\<close>) over three packages:
  \<open>packages/schemas\<close> (what a form accepts), \<open>packages/api-client\<close> (how a request is made) and \<open>packages/ui\<close>
  (fields, tables, dialogs). It serves three kinds of
  users, each with a name space of its own: platform staff, the staff of a tenant (a cooperative) and its
  members. A browser reaches a page through the middleware, which finds the tenant and sends strangers to a
  login; route handlers exchange credentials and refresh cookies with the backend; a server component reads the
  session and fetches data; client components collect input, validate it with a schema and send it through the
  API client, which adds the token, the tenant and an idempotency key and renews the session after a 401.
  Operations of consequence are maker-checker: they create a request that somebody else approves.

  \<^bold>\<open>Foundations.\<close> \<open>Prelude\<close> has strings, optional values and the lookup in plain objects (with inherited
  properties). \<open>JS_Number\<close> has the doubles of JavaScript as exact rationals with rounding to nearest even,
  \<open>parseFloat\<close>, \<open>Number\<close> and \<open>toFixed\<close>; \<open>Rounding\<close> proves what rounding keeps. \<open>JS_Regex\<close> decides regular
  expressions by derivatives; \<open>JS_Value\<close> and \<open>JSON\<close> have the values, \<open>JSON.stringify\<close> and \<open>JSON.parse\<close>
  with their round trip. \<open>Zod\<close> describes schemas as data with a reference parser, and the locale \<open>zod\<close> states
  what the portal relies on of the library's parser: every theorem that has \<open>zod fmt parse\<close> as a hypothesis holds for
  each parser that does what is documented, and the reference parser is one.

  \<^bold>\<open>Schemas\<close> (\<open>packages/schemas/src\<close>). \<open>Schemas_Common\<close>, \<open>Schemas_Operations\<close> and \<open>Schemas_Admin\<close> have every
  exported schema: what amounts, percentages, counts and dates are accepted exactly, that a money-moving
  body has a positive exact amount and a key, and that accepted values are fixed points. \<open>Ledger_Balance\<close> relates
  the balance test on doubles to the exact decimals, with an unbalanced entry it lets through. \<open>Form_Logic\<close> has the
  pure helpers (KYC forms, slugs, labels, catalogue, rate limits).

  \<^bold>\<open>Sessions\<close> (\<open>apps/portal/middleware.ts\<close>, \<open>src/auth\<close>, \<open>app/api\<close>). \<open>Http\<close> is the world of a route handler:
  the cookies of the browser and a backend that answers as it likes. \<open>Cookies\<close> has the cookie helpers over the
  interface \<open>cookie_store\<close>; \<open>Middleware\<close> the tenant resolution and the gate; \<open>Permissions\<close> and
  \<open>Server_Context\<close> the guards and page contexts; \<open>Auth_Routes\<close>, \<open>Sessions\<close> and \<open>Proxy_Routes\<close> the handlers,
  with the invariant over all reachable cookie jars, the isolation of sessions, the impersonation round trip and
  the authorisation of downloads.

  \<^bold>\<open>The API client\<close> (\<open>packages/api-client/src\<close>). \<open>Resources\<close> has the 196 operations, \<open>Query_Keys\<close> the cache
  keys, \<open>Api_Client\<close> the middlewares over the interface \<open>lawful_store\<close>, \<open>Refresh\<close> the refresh under concurrent calls
  as a step relation: one refresh at a time, everything settles within \<open>5 n\<close> steps, and with a single call
  the machine is the sequential client. \<open>Browser_Session\<close> has the provider and the layouts (\<open>apps/portal/src/auth\<close>,
  \<open>apps/portal/app\<close>) that fill the browser's stores, what they hold after a page has loaded, and the retries of a query.

  \<^bold>\<open>Fields and tables\<close> (\<open>packages/ui/src\<close>). \<open>Money_Input\<close> (amounts and percentages), \<open>Date_Input\<close>,
  \<open>Data_Table\<close> (exported file, address bar, pagination), \<open>Navigation\<close> (menus and permissions), \<open>Preferences\<close>
  (theme and column choices in cookies), \<open>Status_Badges\<close> and \<open>Dashboard\<close> (totals, charts, open approvals).

  \<^bold>\<open>Screens\<close> (\<open>apps/portal/app\<close>). \<open>Screens\<close> says how a client component runs: its state, the controls it shows, the
  steps of the user (press, fill, submit) and of the world (an answer, an error, a render with new data), and the locale
  \<open>screen_invariant\<close> for what holds in every run. \<open>Flows\<close> describes the pattern nearly all components share -- button,
  form, confirmation, mutation -- and proves once, in the locale \<open>flow_component\<close>, that every request was on offer, carries
  values its schema accepted, leaves what the form does not render as it was, and is never sent twice at a time.
  \<open>Approval_Actions\<close>, \<open>Posting_Actions\<close>, \<open>Platform_Actions\<close>, \<open>Form_Pages\<close> interpret it for 42 components;
  \<open>Billing_Actions\<close> and \<open>Service_Screens\<close> are screens with dialogs of their own, \<open>Settings\<close> what is edited in place,
  \<open>Provisioning\<close> the wizard of a new tenant and the polling of its state.

  \<^bold>\<open>Bounds.\<close> Sums of doubles are exact for up to 100 rows and totals up to \<open>2^32\<close>; single amounts below
  \<open>2^38\<close>; a journal has at most 50 lines; an amount field at most 20 characters. The JSON parser has fuel
  \<open>2 n + 1\<close> for a text of \<open>n\<close> characters, which the round trip shows to be enough. Characters are those
  below 256. Polling is a partial function: that it ends is proved exactly when a settled answer ever comes.

  \<^bold>\<open>Parameters.\<close> The backend (an arbitrary function), zod's parser, the dispatch of openapi-fetch, the retries of the query library, drawn UUIDs,
  \<open>Number::toString\<close> beyond \<open>10^21\<close>, \<open>Date.parse\<close>, \<open>toISOString\<close> and the parser of date-fns are arguments, with what is
  relied on as hypotheses or locale assumptions, each with an instance.

  \<^bold>\<open>How runs of screens are to be read.\<close> Handlers run to completion. A dialog does not hide the controls behind it, fields take any value,
  and an answer may come at any time: the model has all runs of the code and some more, so what is proved for all runs
  holds for the code's. Props that identify the record stay the same while a component is mounted.

  \<^bold>\<open>Not modelled.\<close> Markup, styles and icons; server components that fetch one resource and lay it out; the columns and
  filters of the lists; the selection of rows; the notification bell, the member's and the organization's KYC pages, the buttons
  that reset a password or start a backup drill, and entering an approved impersonation from its panel (its route handlers are
  modelled); \<open>useDraftAutoSave\<close>, which no page uses; the generated types, which do nothing at run time; the
  backend in Python, the migrations, deployment and documents.
\<close>

section \<open>Properties that span components\<close>


end
